(* ===== verification/SC_Prelude.thy ===== *)
theory SC_Prelude
  imports Complex_Main "HOL-Library.Word" "HOL-Library.Char_ord" "HOL-Library.List_Lexorder"
    "HOL-Library.Multiset" "HOL-Library.Sublist" "HOL-Library.Option_ord"
    "HOL-Library.Product_Lexorder" "HOL-Library.Code_Target_Nat"
begin

text \<open>
  The vocabulary shared by the theories of this development: Rust's \<^verbatim>\<open>Result\<close> with
  its \<^verbatim>\<open>?\<close> operator, \<^verbatim>\<open>Ordering\<close>, the checked and saturating integer operations on
  words, the string functions of the standard library that the crates use (a \<^verbatim>\<open>String\<close> is
  the list of its UTF-8 bytes), and \<^verbatim>\<open>BTreeMap\<close> as a sorted association list. The two
  locales at the end are the interface through which the components use ordered maps.
\<close>

named_theorems result_simps \<open>how the Ok and Err outcomes of the combinators come about\<close>
named_theorems checked_simps \<open>when a checked machine operation succeeds, read through unat\<close>

section \<open>Results\<close>

datatype ('a, 'e) result = Ok 'a | Err 'e

primrec and_then :: "('a, 'e) result \<Rightarrow> ('a \<Rightarrow> ('b, 'e) result) \<Rightarrow> ('b, 'e) result" where
  "and_then (Ok x) f = f x"
| "and_then (Err e) f = Err e"

primrec ok_or :: "'a option \<Rightarrow> 'e \<Rightarrow> ('a, 'e) result" where
  "ok_or None e = Err e"
| "ok_or (Some x) e = Ok x"

primrec map_err :: "('e \<Rightarrow> 'f) \<Rightarrow> ('a, 'e) result \<Rightarrow> ('a, 'f) result" where
  "map_err f (Ok x) = Ok x"
| "map_err f (Err e) = Err (f e)"

primrec map_ok :: "('a \<Rightarrow> 'b) \<Rightarrow> ('a, 'e) result \<Rightarrow> ('b, 'e) result" where
  "map_ok f (Ok x) = Ok (f x)"
| "map_ok f (Err e) = Err e"

primrec is_ok :: "('a, 'e) result \<Rightarrow> bool" where
  "is_ok (Ok x) = True"
| "is_ok (Err e) = False"

definition ensure :: "bool \<Rightarrow> 'e \<Rightarrow> (unit, 'e) result" where
  "ensure c e = (if c then Ok () else Err e)"

fun for_each :: "('a \<Rightarrow> (unit, 'e) result) \<Rightarrow> 'a list \<Rightarrow> (unit, 'e) result" where
  "for_each f [] = Ok ()"
| "for_each f (x # xs) = and_then (f x) (\<lambda>_. for_each f xs)"

fun try_map :: "('a \<Rightarrow> ('b, 'e) result) \<Rightarrow> 'a list \<Rightarrow> ('b list, 'e) result" where
  "try_map f [] = Ok []"
| "try_map f (x # xs) = and_then (f x) (\<lambda>y. and_then (try_map f xs) (\<lambda>ys. Ok (y # ys)))"

fun try_fold :: "('s \<Rightarrow> 'a \<Rightarrow> ('s, 'e) result) \<Rightarrow> 's \<Rightarrow> 'a list \<Rightarrow> ('s, 'e) result" where
  "try_fold f s [] = Ok s"
| "try_fold f s (x # xs) = and_then (f s x) (\<lambda>s'. try_fold f s' xs)"

section \<open>Comparison\<close>

datatype ordering = Less | Equal | Greater

definition cmp :: "'a::linorder \<Rightarrow> 'a \<Rightarrow> ordering" where
  "cmp a b = (if a < b then Less else if a = b then Equal else Greater)"

section \<open>Machine integers\<close>

definition checked_add_word :: "'w::len word \<Rightarrow> 'w word \<Rightarrow> 'w word option" where
  "checked_add_word a b = (if unat a + unat b < 2 ^ LENGTH('w) then Some (a + b) else None)"

definition checked_sub_word :: "'w::len word \<Rightarrow> 'w word \<Rightarrow> 'w word option" where
  "checked_sub_word a b = (if b \<le> a then Some (a - b) else None)"

definition checked_mul_word :: "'w::len word \<Rightarrow> 'w word \<Rightarrow> 'w word option" where
  "checked_mul_word a b = (if unat a * unat b < 2 ^ LENGTH('w) then Some (a * b) else None)"

definition saturating_add_word :: "'w::len word \<Rightarrow> 'w word \<Rightarrow> 'w word" where
  "saturating_add_word a b = (if unat a + unat b < 2 ^ LENGTH('w) then a + b else - 1)"

definition saturating_sub_word :: "'w::len word \<Rightarrow> 'w word \<Rightarrow> 'w word" where
  "saturating_sub_word a b = (if b \<le> a then a - b else 0)"

definition saturating_mul_word :: "'w::len word \<Rightarrow> 'w word \<Rightarrow> 'w word" where
  "saturating_mul_word a b = (if unat a * unat b < 2 ^ LENGTH('w) then a * b else - 1)"

text \<open>The moduli of the machine integers as literals, so that evaluation does not compute powers.\<close>

definition word_modulus :: "nat \<Rightarrow> int" where
  "word_modulus n =
    (if n = 128 then 340282366920938463463374607431768211456
     else if n = 64 then 18446744073709551616 else if n = 8 then 256 else 2 ^ n)"

section \<open>Strings\<close>

text \<open>
  Decimal printing as \<^verbatim>\<open>ToString\<close> does it for unsigned integers: no sign, no leading zero,
  \<^verbatim>\<open>"0"\<close> for zero.
\<close>

definition digit_char :: "nat \<Rightarrow> char" where
  "digit_char d = char_of (48 + d)"

fun nat_to_string :: "nat \<Rightarrow> string" where
  "nat_to_string n =
    (if n < 10 then [digit_char n] else nat_to_string (n div 10) @ [digit_char (n mod 10)])"

declare nat_to_string.simps [simp del]

definition is_ascii_digit :: "char \<Rightarrow> bool" where
  "is_ascii_digit c \<longleftrightarrow> 48 \<le> (of_char c :: nat) \<and> (of_char c :: nat) \<le> 57"

definition digit_val :: "char \<Rightarrow> nat" where
  "digit_val c = of_char c - 48"

text \<open>The value of a string of decimal digits.\<close>

definition digits_val :: "string \<Rightarrow> nat" where
  "digits_val s = foldl (\<lambda>n c. 10 * n + digit_val c) 0 s"

text \<open>\<^verbatim>\<open>str::starts_with\<close>, \<^verbatim>\<open>chars().count()\<close> and \<^verbatim>\<open>chars().any(char::is_control)\<close> on UTF-8 bytes.\<close>

definition starts_with :: "string \<Rightarrow> string \<Rightarrow> bool" where
  "starts_with s p \<longleftrightarrow> prefix p s"

definition strip_prefix :: "string \<Rightarrow> string \<Rightarrow> string option" where
  "strip_prefix p s = (if prefix p s then Some (drop (length p) s) else None)"

definition is_continuation :: "char \<Rightarrow> bool" where
  "is_continuation c \<longleftrightarrow> 128 \<le> (of_char c :: nat) \<and> (of_char c :: nat) < 192"

definition char_count :: "string \<Rightarrow> nat" where
  "char_count s = length (filter (\<lambda>c. \<not> is_continuation c) s)"

fun has_control :: "string \<Rightarrow> bool" where
  "has_control [] \<longleftrightarrow> False"
| "has_control (c # s) \<longleftrightarrow>
    (of_char c :: nat) < 32 \<or> (of_char c :: nat) = 127 \<or>
    (of_char c :: nat) = 194 \<and>
      (case s of [] \<Rightarrow> False | d # _ \<Rightarrow> 128 \<le> (of_char d :: nat) \<and> (of_char d :: nat) < 160) \<or>
    has_control s"

text \<open>Panicking-free rendering of a backquoted name inside a message.\<close>

abbreviation quoted :: "string \<Rightarrow> string" where
  "quoted s \<equiv> CHR 0x60 # s @ [CHR 0x60]"

section \<open>Ordered maps\<close>

type_synonym ('k, 'v) btree_map = "('k \<times> 'v) list"

definition btree_ok :: "('k::linorder, 'v) btree_map \<Rightarrow> bool" where
  "btree_ok m \<longleftrightarrow> sorted_wrt (<) (map fst m)"

fun btree_get :: "('k::linorder, 'v) btree_map \<Rightarrow> 'k \<Rightarrow> 'v option" where
  "btree_get [] k = None"
| "btree_get ((k', v) # m) k = (if k = k' then Some v else btree_get m k)"

fun btree_insert :: "'k::linorder \<Rightarrow> 'v \<Rightarrow> ('k, 'v) btree_map \<Rightarrow> ('k, 'v) btree_map" where
  "btree_insert k v [] = [(k, v)]"
| "btree_insert k v ((k', v') # m) =
    (if k < k' then (k, v) # (k', v') # m
     else if k = k' then (k, v) # m
     else (k', v') # btree_insert k v m)"

fun btree_remove :: "'k::linorder \<Rightarrow> ('k, 'v) btree_map \<Rightarrow> ('k, 'v) btree_map" where
  "btree_remove k [] = []"
| "btree_remove k ((k', v') # m) = (if k = k' then m else (k', v') # btree_remove k m)"

text \<open>The idiom \<^verbatim>\<open>map.entry(k).or_default().push(x)\<close> and the grouping loop around it.\<close>

definition btree_push :: "'k::linorder \<Rightarrow> 'a \<Rightarrow> ('k, 'a list) btree_map \<Rightarrow> ('k, 'a list) btree_map" where
  "btree_push k x m = btree_insert k (case btree_get m k of None \<Rightarrow> [x] | Some xs \<Rightarrow> xs @ [x]) m"

definition group_by :: "('a \<Rightarrow> 'k::linorder) \<Rightarrow> 'a list \<Rightarrow> ('k, 'a list) btree_map" where
  "group_by key xs = fold (\<lambda>x. btree_push (key x) x) xs []"

section \<open>Slices\<close>

text \<open>\<^verbatim>\<open>slice::sort\<close> is stable: equal elements keep their order, as insertion from the right does.\<close>

fun insert_by :: "('a \<Rightarrow> 'a \<Rightarrow> ordering) \<Rightarrow> 'a \<Rightarrow> 'a list \<Rightarrow> 'a list" where
  "insert_by c x [] = [x]"
| "insert_by c x (y # ys) = (if c x y = Greater then y # insert_by c x ys else x # y # ys)"

definition sort_by :: "('a \<Rightarrow> 'a \<Rightarrow> ordering) \<Rightarrow> 'a list \<Rightarrow> 'a list" where
  "sort_by c xs = foldr (insert_by c) xs []"

fun position :: "('a \<Rightarrow> bool) \<Rightarrow> 'a list \<Rightarrow> nat option" where
  "position p [] = None"
| "position p (x # xs) = (if p x then Some 0 else map_option Suc (position p xs))"

definition swap_remove :: "nat \<Rightarrow> 'a list \<Rightarrow> 'a list" where
  "swap_remove i xs =
    (if i = length xs - 1 then butlast xs else (butlast xs)[i := last xs])"

section \<open>Lemmas on results\<close>

lemma and_then_eq_Ok [simp, result_simps]:
  "and_then r f = Ok y \<longleftrightarrow> (\<exists>x. r = Ok x \<and> f x = Ok y)"
  by (cases r) auto

lemma and_then_eq_Err [result_simps]:
  "and_then r f = Err e \<longleftrightarrow> r = Err e \<or> (\<exists>x. r = Ok x \<and> f x = Err e)"
  by (cases r) auto

lemma ok_or_eq_Ok [simp, result_simps]: "ok_or m e = Ok x \<longleftrightarrow> m = Some x"
  by (cases m) auto

lemma ok_or_eq_Err [simp, result_simps]: "ok_or m e = Err e' \<longleftrightarrow> m = None \<and> e' = e"
  by (cases m) auto

lemma map_err_eq_Ok [simp, result_simps]: "map_err f r = Ok x \<longleftrightarrow> r = Ok x"
  by (cases r) auto

lemma map_err_eq_Err [simp, result_simps]: "map_err f r = Err e' \<longleftrightarrow> (\<exists>e. r = Err e \<and> e' = f e)"
  by (cases r) auto

lemma map_ok_eq_Ok [simp, result_simps]: "map_ok f r = Ok y \<longleftrightarrow> (\<exists>x. r = Ok x \<and> y = f x)"
  by (cases r) auto

lemma map_ok_eq_Err [simp, result_simps]: "map_ok f r = Err e \<longleftrightarrow> r = Err e"
  by (cases r) auto

lemma ensure_eq_Ok [simp, result_simps]: "ensure c e = Ok u \<longleftrightarrow> c"
  by (simp add: ensure_def)

lemma ensure_eq_Err [simp, result_simps]: "ensure c e = Err e' \<longleftrightarrow> \<not> c \<and> e' = e"
  by (auto simp: ensure_def)

lemma is_ok_iff: "is_ok r \<longleftrightarrow> (\<exists>x. r = Ok x)"
  by (cases r) auto

lemma not_is_ok_iff: "\<not> is_ok r \<longleftrightarrow> (\<exists>e. r = Err e)"
  by (cases r) auto

lemma unit_result_cases: "(r :: (unit, 'e) result) = Ok () \<or> (\<exists>e. r = Err e)"
  by (cases r) auto

lemma for_each_eq_Ok [simp, result_simps]:
  "for_each f xs = Ok u \<longleftrightarrow> (\<forall>x \<in> set xs. f x = Ok ())"
  by (induction xs) auto

lemma try_map_eq_Ok [result_simps]:
  "try_map f xs = Ok ys \<longleftrightarrow> list_all2 (\<lambda>x y. f x = Ok y) xs ys"
  by (induction xs arbitrary: ys) (auto simp: list_all2_Cons1)

lemma try_map_length: "try_map f xs = Ok ys \<Longrightarrow> length ys = length xs"
  by (auto simp: try_map_eq_Ok dest: list_all2_lengthD)

lemma try_fold_append:
  "try_fold f s (xs @ ys) = and_then (try_fold f s xs) (\<lambda>s'. try_fold f s' ys)"
proof (induction xs arbitrary: s)
  case (Cons x xs)
  then show ?case by (cases "f s x") auto
qed simp

lemma try_fold_invariant:
  assumes "try_fold f s xs = Ok s'" "P s"
    and "\<And>s x t. P s \<Longrightarrow> x \<in> set xs \<Longrightarrow> f s x = Ok t \<Longrightarrow> P t"
  shows "P s'"
  using assms
proof (induction xs arbitrary: s)
  case (Cons x xs)
  from Cons.prems(1) obtain t where t: "f s x = Ok t" "try_fold f t xs = Ok s'" by auto
  have "P t" by (rule Cons.prems(3) [OF Cons.prems(2) _ t(1)]) simp
  with t(2) show ?case
  proof (rule Cons.IH)
    fix s y t
    assume "P s" "y \<in> set xs" "f s y = Ok t"
    then show "P t" by (intro Cons.prems(3) [of s y t]) simp_all
  qed
qed simp

section \<open>Lemmas on comparison\<close>

lemma cmp_simps [simp]:
  "cmp a b = Less \<longleftrightarrow> a < b"
  "cmp a b = Equal \<longleftrightarrow> a = b"
  "cmp a b = Greater \<longleftrightarrow> b < a"
  by (auto simp: cmp_def)

lemma cmp_self [simp]: "cmp a a = Equal"
  by (simp add: cmp_def)

lemma cmp_eqI:
  "(a < b \<longleftrightarrow> c < d) \<Longrightarrow> (a = b \<longleftrightarrow> c = d) \<Longrightarrow> cmp a b = cmp c d"
  by (simp add: cmp_def)

section \<open>Lemmas on machine integers\<close>

text \<open>Words are read through \<^const>\<open>unat\<close> throughout, also where the result is a rational.\<close>

declare of_nat_unat [simp del]

lemma unat_add_no_wrap:
  "unat a + unat b < 2 ^ LENGTH('w) \<Longrightarrow> unat (a + b :: 'w::len word) = unat a + unat b"
  by (rule unat_add_lem [THEN iffD1])

lemma unat_mult_no_wrap:
  "unat a * unat b < 2 ^ LENGTH('w) \<Longrightarrow> unat (a * b :: 'w::len word) = unat a * unat b"
  by (rule unat_mult_lem [THEN iffD1])

lemma unat_sub_le: "b \<le> a \<Longrightarrow> unat (a - b :: 'w::len word) = unat a - unat b"
  by (rule unat_sub)

lemma find_append: "find P (xs @ ys) = (case find P xs of None \<Rightarrow> find P ys | Some x \<Rightarrow> Some x)"
  by (induction xs) auto

lemma unat_lt_length: "unat (a :: 'w::len word) < 2 ^ LENGTH('w)"
  by transfer (simp add: nat_less_iff)

lemma unat_of_nat_less: "n < 2 ^ LENGTH('w) \<Longrightarrow> unat (word_of_nat n :: 'w::len word) = n"
  by (simp add: unsigned_of_nat take_bit_nat_eq_self)

lemma unat_ucast_up: "LENGTH('a::len) \<le> LENGTH('b::len) \<Longrightarrow> unat (ucast (w :: 'a word) :: 'b word) = unat w"
  by (simp add: unsigned_ucast_eq)
    (metis unat_lt_length order_less_le_trans one_le_numeral power_increasing take_bit_nat_eq_self)

lemma unat_max: "unat (max a b) = max (unat a) (unat (b :: 'w::len word))"
  by (simp add: max_def word_le_nat_alt)

lemma word_modulus_eq: "word_modulus n = 2 ^ n"
  by (simp add: word_modulus_def)

lemma take_bit_int_modulus [code]: "take_bit n (k :: int) = k mod word_modulus n"
  by (simp add: take_bit_eq_mod word_modulus_eq)

lemma less_modulus_iff: "m < 2 ^ n \<longleftrightarrow> int m < word_modulus n"
  using of_nat_less_iff [of m "2 ^ n", where ?'a = int]
  by (simp only: word_modulus_eq of_nat_power of_nat_numeral)

lemma word_op_code [code]:
  "checked_add_word a (b :: 'w::len word) =
    (if uint a + uint b < word_modulus LENGTH('w) then Some (a + b) else None)"
  "checked_mul_word a (b :: 'w::len word) =
    (if uint a * uint b < word_modulus LENGTH('w) then Some (a * b) else None)"
  "saturating_add_word a (b :: 'w::len word) =
    (if uint a + uint b < word_modulus LENGTH('w) then a + b else - 1)"
  "saturating_mul_word a (b :: 'w::len word) =
    (if uint a * uint b < word_modulus LENGTH('w) then a * b else - 1)"
  by (simp_all add: checked_add_word_def checked_mul_word_def saturating_add_word_def
      saturating_mul_word_def less_modulus_iff of_nat_unat)

lemma checked_add_Some [checked_simps]:
  "checked_add_word a b = Some (c :: 'w::len word) \<longleftrightarrow> unat c = unat a + unat b"
proof
  assume "checked_add_word a b = Some c"
  then show "unat c = unat a + unat b"
    by (auto simp: checked_add_word_def unat_add_no_wrap split: if_splits)
next
  assume c: "unat c = unat a + unat b"
  then have lt: "unat a + unat b < 2 ^ LENGTH('w)" by (metis unat_lt_length)
  then have "unat (a + b) = unat c" using c by (simp add: unat_add_no_wrap)
  then have "a + b = c" by (simp add: word_unat_eq_iff)
  then show "checked_add_word a b = Some c" using lt by (simp add: checked_add_word_def)
qed

lemma checked_add_None [checked_simps]:
  "checked_add_word a (b :: 'w::len word) = None \<longleftrightarrow> 2 ^ LENGTH('w) \<le> unat a + unat b"
  by (auto simp: checked_add_word_def)

lemma checked_sub_Some [checked_simps]:
  "checked_sub_word a b = Some (c :: 'w::len word) \<longleftrightarrow> unat a = unat c + unat b"
proof
  assume "checked_sub_word a b = Some c"
  then show "unat a = unat c + unat b"
    by (auto simp: checked_sub_word_def unat_sub_le word_le_nat_alt split: if_splits)
next
  assume c: "unat a = unat c + unat b"
  then have le: "b \<le> a" by (simp add: word_le_nat_alt)
  then have "unat (a - b) = unat c" using c by (simp add: unat_sub_le)
  then have "a - b = c" by (simp add: word_unat_eq_iff)
  then show "checked_sub_word a b = Some c" using le by (simp add: checked_sub_word_def)
qed

lemma checked_sub_None [checked_simps]:
  "checked_sub_word a (b :: 'w::len word) = None \<longleftrightarrow> unat a < unat b"
  by (auto simp: checked_sub_word_def word_le_nat_alt)

lemma checked_mul_Some [checked_simps]:
  "checked_mul_word a b = Some (c :: 'w::len word) \<longleftrightarrow> unat c = unat a * unat b"
proof
  assume "checked_mul_word a b = Some c"
  then show "unat c = unat a * unat b"
    by (auto simp: checked_mul_word_def unat_mult_no_wrap split: if_splits)
next
  assume c: "unat c = unat a * unat b"
  then have lt: "unat a * unat b < 2 ^ LENGTH('w)" by (metis unat_lt_length)
  then have "unat (a * b) = unat c" using c by (simp add: unat_mult_no_wrap)
  then have "a * b = c" by (simp add: word_unat_eq_iff)
  then show "checked_mul_word a b = Some c" using lt by (simp add: checked_mul_word_def)
qed

lemma checked_mul_None [checked_simps]:
  "checked_mul_word a (b :: 'w::len word) = None \<longleftrightarrow> 2 ^ LENGTH('w) \<le> unat a * unat b"
  by (auto simp: checked_mul_word_def)

lemma unat_max_word: "unat (- 1 :: 'w::len word) = 2 ^ LENGTH('w) - 1"
  by transfer (simp add: nat_diff_distrib nat_power_eq mask_eq_exp_minus_1)

lemma unat_saturating_add [checked_simps]:
  "unat (saturating_add_word a (b :: 'w::len word)) = min (unat a + unat b) (2 ^ LENGTH('w) - 1)"
  by (cases "unat a + unat b < 2 ^ LENGTH('w)")
    (simp_all add: saturating_add_word_def unat_add_no_wrap unat_max_word)

lemma unat_saturating_sub [checked_simps]:
  "unat (saturating_sub_word a (b :: 'w::len word)) = unat a - unat b"
  by (auto simp: saturating_sub_word_def unat_sub_le word_le_nat_alt)

lemma unat_saturating_mul [checked_simps]:
  "unat (saturating_mul_word a (b :: 'w::len word)) = min (unat a * unat b) (2 ^ LENGTH('w) - 1)"
  by (cases "unat a * unat b < 2 ^ LENGTH('w)")
    (simp_all add: saturating_mul_word_def unat_mult_no_wrap unat_max_word)

section \<open>Lemmas on decimal strings\<close>

abbreviation all_digits :: "string \<Rightarrow> bool" where
  "all_digits s \<equiv> (\<forall>c \<in> set s. is_ascii_digit c)"

lemma of_char_digit_char [simp]: "d < 10 \<Longrightarrow> (of_char (digit_char d) :: nat) = 48 + d"
  by (simp add: digit_char_def)

lemma digit_val_digit_char [simp]: "d < 10 \<Longrightarrow> digit_val (digit_char d) = d"
  by (simp add: digit_val_def)

lemma is_ascii_digit_digit_char [simp]: "d < 10 \<Longrightarrow> is_ascii_digit (digit_char d)"
  by (simp add: is_ascii_digit_def)

lemma digit_char_digit_val [simp]: "is_ascii_digit c \<Longrightarrow> digit_char (digit_val c) = c"
  by (simp add: is_ascii_digit_def digit_char_def digit_val_def)

lemma digit_val_less [simp]: "is_ascii_digit c \<Longrightarrow> digit_val c < 10"
  unfolding is_ascii_digit_def digit_val_def by linarith

lemma digit_val_inj:
  "is_ascii_digit c \<Longrightarrow> is_ascii_digit d \<Longrightarrow> digit_val c = digit_val d \<longleftrightarrow> c = d"
  by (metis digit_char_digit_val)

lemma digit_val_less_iff:
  "is_ascii_digit c \<Longrightarrow> is_ascii_digit d \<Longrightarrow> digit_val c < digit_val d \<longleftrightarrow> c < d"
  unfolding less_char_def is_ascii_digit_def digit_val_def by linarith

lemma digit_val_cmp:
  "is_ascii_digit c \<Longrightarrow> is_ascii_digit d \<Longrightarrow> cmp c d = cmp (digit_val c) (digit_val d)"
  by (simp add: cmp_def digit_val_inj digit_val_less_iff)

lemma digits_val_Nil [simp]: "digits_val [] = 0"
  by (simp add: digits_val_def)

lemma digits_val_snoc [simp]: "digits_val (s @ [c]) = 10 * digits_val s + digit_val c"
  by (simp add: digits_val_def)

lemma digits_val_append: "digits_val (s @ t) = digits_val s * 10 ^ length t + digits_val t"
proof (induction t rule: rev_induct)
  case (snoc c t)
  then show ?case
    by (simp add: algebra_simps flip: append_assoc)
qed simp

lemma digits_val_single [simp]: "digits_val [c] = digit_val c"
  using digits_val_snoc [of "[]" c] by simp

lemma digits_val_Cons: "digits_val (c # t) = digit_val c * 10 ^ length t + digits_val t"
  using digits_val_append [of "[c]" t] by simp

lemma digits_val_less: "all_digits s \<Longrightarrow> digits_val s < 10 ^ length s"
proof (induction s rule: rev_induct)
  case (snoc c s)
  then have "digits_val s < 10 ^ length s" "digit_val c < 10" by simp_all
  then show ?case by simp
qed simp

lemma digits_val_replicate_zero [simp]: "digits_val (replicate n (CHR ''0'')) = 0"
  by (induction n) (simp_all add: digits_val_Cons digit_val_def)

lemma digits_val_nat_to_string [simp]: "digits_val (nat_to_string n) = n"
proof (induction n rule: nat_to_string.induct)
  case (1 n)
  then show ?case
    by (subst nat_to_string.simps) simp
qed

lemma all_digits_nat_to_string [simp]: "all_digits (nat_to_string n)"
proof (induction n rule: nat_to_string.induct)
  case (1 n)
  then show ?case
    by (subst nat_to_string.simps) auto
qed

lemma nat_to_string_not_Nil [simp]: "nat_to_string n \<noteq> []"
  by (subst nat_to_string.simps) simp

lemma length_nat_to_string_le: "0 < k \<Longrightarrow> n < 10 ^ k \<Longrightarrow> length (nat_to_string n) \<le> k"
proof (induction n arbitrary: k rule: nat_to_string.induct)
  case (1 n)
  show ?case
  proof (cases "n < 10")
    case True
    then show ?thesis using "1.prems" by (subst nat_to_string.simps) simp
  next
    case False
    obtain k' where k: "k = Suc k'" using "1.prems" by (cases k) auto
    have "0 < k'" using False "1.prems" k by (cases k') auto
    moreover have "n div 10 < 10 ^ k'"
      using "1.prems" k by (simp add: less_mult_imp_div_less mult.commute)
    ultimately have "length (nat_to_string (n div 10)) \<le> k'" using "1.IH" False by blast
    then show ?thesis using False k by (subst nat_to_string.simps) simp
  qed
qed

lemma nat_to_string_inj [simp]: "nat_to_string m = nat_to_string n \<longleftrightarrow> m = n"
  by (metis digits_val_nat_to_string)

section \<open>The map interface\<close>

text \<open>
  What a component relies on when it keeps its state in an ordered map. \<open>canonical_store\<close> adds
  that two maps with the same lookups are the same value, as two \<^verbatim>\<open>BTreeMap\<close>s with the same
  entries are: this is what makes a batch of writes to different keys independent of its order.
\<close>

locale keyed_store =
  fixes get :: "'m \<Rightarrow> 'k \<Rightarrow> 'v option"
    and put :: "'k \<Rightarrow> 'v \<Rightarrow> 'm \<Rightarrow> 'm"
    and del :: "'k \<Rightarrow> 'm \<Rightarrow> 'm"
    and ok :: "'m \<Rightarrow> bool"
  assumes get_put: "ok m \<Longrightarrow> get (put k v m) k' = (if k' = k then Some v else get m k')"
    and get_del: "ok m \<Longrightarrow> get (del k m) k' = (if k' = k then None else get m k')"
    and ok_put: "ok m \<Longrightarrow> ok (put k v m)"
    and ok_del: "ok m \<Longrightarrow> ok (del k m)"
begin

definition put_all :: "('k \<times> 'v) list \<Rightarrow> 'm \<Rightarrow> 'm" where
  "put_all kvs m = fold (\<lambda>(k, v). put k v) kvs m"

lemma put_all_simps [simp]:
  "put_all [] m = m"
  "put_all ((k, v) # kvs) m = put_all kvs (put k v m)"
  by (simp_all add: put_all_def)

lemma ok_put_all: "ok m \<Longrightarrow> ok (put_all kvs m)"
  by (induction kvs arbitrary: m) (auto simp: ok_put)

lemma get_put_all_notin: "ok m \<Longrightarrow> k \<notin> fst ` set kvs \<Longrightarrow> get (put_all kvs m) k = get m k"
  by (induction kvs arbitrary: m) (auto simp: ok_put get_put)

lemma get_put_all_in:
  "ok m \<Longrightarrow> distinct (map fst kvs) \<Longrightarrow> (k, v) \<in> set kvs \<Longrightarrow> get (put_all kvs m) k = Some v"
proof (induction kvs arbitrary: m)
  case (Cons kv kvs)
  obtain k' v' where kv: "kv = (k', v')" by (cases kv)
  show ?case
  proof (cases "(k, v) \<in> set kvs")
    case True
    with Cons kv show ?thesis by (auto simp: ok_put)
  next
    case False
    with Cons.prems kv have "k' = k" "v' = v" by auto
    with Cons.prems kv show ?thesis by (auto simp: ok_put get_put_all_notin get_put)
  qed
qed simp

lemma get_put_all_mset:
  assumes "ok m" "distinct (map fst kvs)" "mset kvs = mset kvs'"
  shows "get (put_all kvs m) k = get (put_all kvs' m) k"
proof -
  have set_eq: "set kvs = set kvs'" using assms(3) by (metis set_mset_mset)
  have d: "distinct (map fst kvs')"
    using assms(2,3) by (metis mset_eq_imp_distinct_iff mset_map)
  show ?thesis
  proof (cases "k \<in> fst ` set kvs")
    case True
    then obtain v where v: "(k, v) \<in> set kvs" by auto
    with set_eq assms(1,2) d show ?thesis by (simp add: get_put_all_in)
  next
    case False
    with set_eq assms(1) show ?thesis by (simp add: get_put_all_notin)
  qed
qed

end

locale canonical_store = keyed_store +
  assumes get_ext: "ok m \<Longrightarrow> ok m' \<Longrightarrow> (\<And>k. get m k = get m' k) \<Longrightarrow> m = m'"
begin

lemma put_commute: "ok m \<Longrightarrow> k \<noteq> k' \<Longrightarrow> put k v (put k' v' m) = put k' v' (put k v m)"
  by (rule get_ext) (simp_all add: ok_put get_put)

lemma put_twice: "ok m \<Longrightarrow> put k v (put k v' m) = put k v m"
  by (rule get_ext) (simp_all add: ok_put get_put)

lemma put_same: "ok m \<Longrightarrow> get m k = Some v \<Longrightarrow> put k v m = m"
  by (rule get_ext) (simp_all add: ok_put get_put)

lemma del_put: "ok m \<Longrightarrow> get m k = None \<Longrightarrow> del k (put k v m) = m"
  by (rule get_ext) (simp_all add: ok_put ok_del get_put get_del)

lemma put_all_mset:
  "ok m \<Longrightarrow> distinct (map fst kvs) \<Longrightarrow> mset kvs = mset kvs' \<Longrightarrow> put_all kvs m = put_all kvs' m"
  by (rule get_ext) (simp_all add: ok_put_all get_put_all_mset)

end

subsection \<open>Sorted association lists provide it\<close>

lemma btree_ok_Nil [simp]: "btree_ok []"
  by (simp add: btree_ok_def)

lemma btree_ok_Cons [simp]:
  "btree_ok ((k, v) # m) \<longleftrightarrow> (\<forall>k' \<in> fst ` set m. k < k') \<and> btree_ok m"
  by (auto simp: btree_ok_def)

lemma fst_set_btree_insert [simp]: "fst ` set (btree_insert k v m) = insert k (fst ` set m)"
  by (induction k v m rule: btree_insert.induct) auto

lemma btree_ok_insert [simp]: "btree_ok m \<Longrightarrow> btree_ok (btree_insert k v m)"
  by (induction k v m rule: btree_insert.induct) auto

lemma btree_get_map_of: "btree_get m k = map_of m k"
  by (induction m k rule: btree_get.induct) auto

lemma btree_ok_distinct: "btree_ok m \<Longrightarrow> distinct (map fst m)"
  by (simp add: btree_ok_def strict_sorted_iff)

lemma btree_get_None: "btree_get m k = None \<longleftrightarrow> k \<notin> fst ` set m"
  by (simp add: btree_get_map_of map_of_eq_None_iff)

lemma btree_get_Some: "btree_ok m \<Longrightarrow> btree_get m k = Some v \<longleftrightarrow> (k, v) \<in> set m"
  by (simp add: btree_get_map_of btree_ok_distinct)

lemma btree_get_Some_in: "btree_get m k = Some v \<Longrightarrow> (k, v) \<in> set m"
  by (simp add: btree_get_map_of map_of_SomeD)

lemma btree_get_insert: "btree_get (btree_insert k v m) k' = (if k' = k then Some v else btree_get m k')"
  by (induction k v m rule: btree_insert.induct) auto

lemma btree_remove_absent: "k \<notin> fst ` set m \<Longrightarrow> btree_remove k m = m"
  by (induction k m rule: btree_remove.induct) auto

lemma btree_remove_filter: "btree_ok m \<Longrightarrow> btree_remove k m = filter (\<lambda>kv. fst kv \<noteq> k) m"
proof (induction k m rule: btree_remove.induct)
  case (2 k k' v' m)
  then show ?case by (auto intro!: filter_True [symmetric])
qed simp

lemma btree_ok_remove [simp]: "btree_ok m \<Longrightarrow> btree_ok (btree_remove k m)"
  by (simp add: btree_remove_filter) (simp add: btree_ok_def sorted_wrt_map sorted_wrt_filter)

lemma btree_get_filter:
  "btree_get (filter (\<lambda>kv. fst kv \<noteq> k) m) k' = (if k' = k then None else btree_get m k')"
  by (induction m) auto

lemma btree_get_remove:
  "btree_ok m \<Longrightarrow> btree_get (btree_remove k m) k' = (if k' = k then None else btree_get m k')"
  by (simp add: btree_remove_filter btree_get_filter)

lemma btree_ext:
  assumes m: "btree_ok m" and m': "btree_ok m'" and eq: "\<And>k. btree_get m k = btree_get m' k"
  shows "m = m'"
proof -
  have "set m = set m'"
    using eq btree_get_Some [OF m] btree_get_Some [OF m'] by (auto simp: set_eq_iff)
  moreover have "inj_on fst (set m \<union> set m')"
    using calculation btree_ok_distinct [OF m] by (simp add: distinct_map)
  ultimately show ?thesis
    using m m' by (intro map_sorted_distinct_set_unique [of fst])
      (auto simp: btree_ok_def strict_sorted_iff)
qed

interpretation btree: canonical_store
  "btree_get :: ('k::linorder, 'v) btree_map \<Rightarrow> 'k \<Rightarrow> 'v option" btree_insert btree_remove btree_ok
proof unfold_locales
  fix m m' :: "('k::linorder, 'v) btree_map"
  assume "btree_ok m" "btree_ok m'" "\<And>k. btree_get m k = btree_get m' k"
  then show "m = m'" by (rule btree_ext)
qed (simp_all add: btree_get_insert btree_get_remove)

lemma length_btree_insert_le: "length (btree_insert k v m) \<le> Suc (length m)"
  by (induction k v m rule: btree_insert.induct) auto

lemma length_btree_insert_absent:
  "btree_get m k = None \<Longrightarrow> length (btree_insert k v m) = Suc (length m)"
  by (induction k v m rule: btree_insert.induct) (auto split: if_splits)

lemma length_btree_insert_present:
  "btree_ok m \<Longrightarrow> k \<in> fst ` set m \<Longrightarrow> length (btree_insert k v m) = length m"
proof (induction k v m rule: btree_insert.induct)
  case (2 k v k' v' m)
  then have "\<not> k < k'" by (auto dest: less_asym)
  with 2 show ?case by auto
qed simp

subsection \<open>Grouping\<close>

lemma btree_ok_fold_push: "btree_ok m \<Longrightarrow> btree_ok (fold (\<lambda>x. btree_push (key x) x) xs m)"
  by (induction xs arbitrary: m) (auto simp: btree_push_def)

lemma btree_ok_group_by [simp]: "btree_ok (group_by key xs)"
  by (simp add: group_by_def btree_ok_fold_push)

lemma btree_get_fold_push:
  "btree_get (fold (\<lambda>x. btree_push (key x) x) xs m) k =
    (case btree_get m k of
       Some g \<Rightarrow> Some (g @ filter (\<lambda>x. key x = k) xs)
     | None \<Rightarrow> if filter (\<lambda>x. key x = k) xs = [] then None else Some (filter (\<lambda>x. key x = k) xs))"
proof (induction xs arbitrary: m)
  case Nil
  show ?case by (simp split: option.splits)
next
  case (Cons x xs)
  show ?case
    unfolding fold_Cons o_apply Cons.IH
    by (auto simp: btree_push_def btree_get_insert split: option.splits)
qed

lemma btree_get_group_by:
  "btree_get (group_by key xs) k =
    (if filter (\<lambda>x. key x = k) xs = [] then None else Some (filter (\<lambda>x. key x = k) xs))"
  by (simp add: group_by_def btree_get_fold_push)

lemma in_group_by:
  "(k, g) \<in> set (group_by key xs) \<longleftrightarrow> g = filter (\<lambda>x. key x = k) xs \<and> g \<noteq> []"
  using btree_get_Some [of "group_by key xs" k g] by (auto simp: btree_get_group_by split: if_splits)

subsection \<open>Sorting by a comparison\<close>

lemma insert_by_key: "(\<And>x y. c x y = cmp (key x) (key y)) \<Longrightarrow> insert_by c x ys = insort_key key x ys"
  by (induction ys) (auto simp: not_le)

lemma sort_by_key:
  assumes "\<And>x y. c x y = cmp (key x) (key y)"
  shows "sort_by c xs = sort_key key xs"
proof -
  have "insert_by c = insort_key key" by (intro ext insert_by_key) (rule assms)
  then show ?thesis by (simp add: sort_by_def sort_key_def)
qed

subsection \<open>Lists with the same multiset of images\<close>

lemma mset_map_reorder: "mset (map f xs) = mset ys \<Longrightarrow> \<exists>zs. mset zs = mset xs \<and> map f zs = ys"
proof (induction ys arbitrary: xs)
  case (Cons y ys)
  then have "y \<in># mset (map f xs)" by simp
  then obtain x where x: "x \<in> set xs" "f x = y" by auto
  then obtain us vs where xs: "xs = us @ x # vs" by (meson split_list)
  have "mset (map f (us @ vs)) = mset ys" using Cons.prems xs x by simp
  then obtain zs where "mset zs = mset (us @ vs)" "map f zs = ys" using Cons.IH by blast
  then have "mset (x # zs) = mset xs \<and> map f (x # zs) = y # ys" using x xs by simp
  then show ?case by (rule exI [of _ "x # zs"])
qed simp

end
