(* ===== verification/Amount.thy ===== *)
theory Amount
  imports SC_Prelude
begin

text \<open>
  Fixed-point amounts (\<^verbatim>\<open>statechronicle-core/src/amount.rs\<close>): a 128-bit mantissa read as
  \<open>mantissa * 10 ^ - scale\<close>. Arithmetic is checked, comparison goes through decimal digit
  strings, and the wire form is the canonical decimal string. The lemmas relate each operation
  to the rational number an amount stands for.
\<close>

section \<open>Definitions\<close>

definition MAX_SCALE :: "8 word" where
  "MAX_SCALE = 18"

definition MAX_MANTISSA_DIGITS :: nat where
  "MAX_MANTISSA_DIGITS = 39"

datatype amount_error = InvalidAmount string | AmountOverflow

record amount =
  mantissa :: "128 word"
  scale :: "8 word"

definition ZERO :: amount where
  "ZERO = \<lparr>mantissa = 0, scale = 0\<rparr>"

definition from_mantissa :: "128 word \<Rightarrow> 8 word \<Rightarrow> amount option" where
  "from_mantissa m s = (if s > MAX_SCALE then None else Some \<lparr>mantissa = m, scale = s\<rparr>)"

definition from_u64 :: "64 word \<Rightarrow> amount" where
  "from_u64 v = \<lparr>mantissa = ucast v, scale = 0\<rparr>"

definition from_u128 :: "128 word \<Rightarrow> amount" where
  "from_u128 v = \<lparr>mantissa = v, scale = 0\<rparr>"

definition is_zero :: "amount \<Rightarrow> bool" where
  "is_zero a \<longleftrightarrow> mantissa a = 0"

text \<open>The loop of \<^verbatim>\<open>checked_rescale\<close>: one checked multiplication by ten per step of the counter.\<close>

function rescale_loop :: "8 word \<Rightarrow> 128 word \<Rightarrow> 8 word \<Rightarrow> 128 word option" where
  "rescale_loop s m i =
    (if s < i then Option.bind (checked_mul_word m 10) (\<lambda>m'. rescale_loop s m' (i - 1))
     else Some m)"
  by auto
termination
  by (relation "measure (\<lambda>(s, m, i). unat i)")
    (auto simp: unat_sub_le word_less_nat_alt word_le_nat_alt)

definition checked_rescale :: "amount \<Rightarrow> 8 word \<Rightarrow> amount option" where
  "checked_rescale a new_scale =
    (if new_scale = scale a then Some a
     else if new_scale < scale a then None
     else map_option (\<lambda>m. \<lparr>mantissa = m, scale = new_scale\<rparr>)
       (rescale_loop (scale a) (mantissa a) new_scale))"

definition amount_checked_add :: "amount \<Rightarrow> amount \<Rightarrow> amount option" where
  "amount_checked_add a b =
    (let s = max (scale a) (scale b) in
     Option.bind (checked_rescale a s) (\<lambda>left.
     Option.bind (checked_rescale b s) (\<lambda>right.
     map_option (\<lambda>m. \<lparr>mantissa = m, scale = s\<rparr>)
       (checked_add_word (mantissa left) (mantissa right)))))"

definition amount_checked_sub :: "amount \<Rightarrow> amount \<Rightarrow> amount option" where
  "amount_checked_sub a b =
    (let s = max (scale a) (scale b) in
     Option.bind (checked_rescale a s) (\<lambda>left.
     Option.bind (checked_rescale b s) (\<lambda>right.
     map_option (\<lambda>m. \<lparr>mantissa = m, scale = s\<rparr>)
       (checked_sub_word (mantissa left) (mantissa right)))))"

text \<open>The digit loop of \<^verbatim>\<open>try_from_str\<close>; the byte arithmetic wraps at 8 bits as in the source.\<close>

fun parse_digits :: "128 word \<Rightarrow> string \<Rightarrow> (128 word, amount_error) result" where
  "parse_digits m [] = Ok m"
| "parse_digits m (c # cs) =
    (let digit = ucast ((of_char c :: 8 word) - 48) :: 128 word in
     and_then (ok_or (Option.bind (checked_mul_word m 10) (\<lambda>v. checked_add_word v digit))
                AmountOverflow)
       (\<lambda>m'. parse_digits m' cs))"

definition try_from_str :: "string \<Rightarrow> (amount, amount_error) result" where
  "try_from_str text =
    (if length text > MAX_MANTISSA_DIGITS then Err AmountOverflow
     else if text = [] then Err (InvalidAmount ''empty string'')
     else and_then
       (for_each (\<lambda>byte. ensure (is_ascii_digit byte)
          (InvalidAmount ''input must contain only ASCII decimal digits'')) text)
       (\<lambda>_. and_then (parse_digits 0 text) (\<lambda>m. Ok \<lparr>mantissa = m, scale = 0\<rparr>)))"

definition trim_end_zeros :: "string \<Rightarrow> string" where
  "trim_end_zeros s = rev (dropWhile (\<lambda>c. c = CHR ''0'') (rev s))"

definition trim_start_zeros :: "string \<Rightarrow> string" where
  "trim_start_zeros s = dropWhile (\<lambda>c. c = CHR ''0'') s"

text \<open>\<^verbatim>\<open>format!("{digits:0>width$}")\<close>.\<close>

definition pad_left_zeros :: "nat \<Rightarrow> string \<Rightarrow> string" where
  "pad_left_zeros width s = replicate (width - length s) (CHR ''0'') @ s"

definition format_fixed :: "string \<Rightarrow> string \<Rightarrow> string" where
  "format_fixed int_part fraction =
    (let fraction = trim_end_zeros fraction in
     if fraction = [] then int_part else int_part @ ''.'' @ fraction)"

definition to_canonical_string :: "amount \<Rightarrow> string" where
  "to_canonical_string a =
    (let digits = nat_to_string (unat (mantissa a)) in
     if scale a = 0 then digits
     else let s = unat (scale a); digit_len = length digits in
       if digit_len > s
       then let int_len = digit_len - s in format_fixed (take int_len digits) (drop int_len digits)
       else format_fixed ''0'' (pad_left_zeros s digits))"

definition decimal_digits :: "amount \<Rightarrow> string \<times> string" where
  "decimal_digits a =
    (let digits = nat_to_string (unat (mantissa a)); s = unat (scale a); digit_len = length digits in
     if s = 0 then (digits, [])
     else if digit_len > s
     then let int_len = digit_len - s in (take int_len digits, drop int_len digits)
     else (''0'', pad_left_zeros s digits))"

text \<open>
  The loop of \<^verbatim>\<open>cmp_unsigned\<close> over the two fractions, each extended by an endless run of zeros
  and cut to \<open>n\<close> characters.
\<close>

definition next_digit :: "string \<Rightarrow> char" where
  "next_digit s = (case s of [] \<Rightarrow> CHR ''0'' | c # _ \<Rightarrow> c)"

fun cmp_fractions :: "nat \<Rightarrow> string \<Rightarrow> string \<Rightarrow> ordering" where
  "cmp_fractions 0 fa fb = Equal"
| "cmp_fractions (Suc n) fa fb =
    (let digit_cmp = cmp (next_digit fa) (next_digit fb) in
     if digit_cmp \<noteq> Equal then digit_cmp else cmp_fractions n (tl fa) (tl fb))"

definition cmp_unsigned :: "string \<Rightarrow> string \<Rightarrow> string \<Rightarrow> string \<Rightarrow> ordering" where
  "cmp_unsigned int_a frac_a int_b frac_b =
    (let a = trim_start_zeros int_a; b = trim_start_zeros int_b in
     if length a \<noteq> length b then cmp (length a) (length b)
     else if cmp a b \<noteq> Equal then cmp a b
     else cmp_fractions (max (length frac_a) (length frac_b)) frac_a frac_b)"

definition amount_cmp :: "amount \<Rightarrow> amount \<Rightarrow> ordering" where
  "amount_cmp a b =
    (let (int_a, frac_a) = decimal_digits a; (int_b, frac_b) = decimal_digits b in
     cmp_unsigned int_a frac_a int_b frac_b)"

definition amount_eq :: "amount \<Rightarrow> amount \<Rightarrow> bool" where
  "amount_eq a b \<longleftrightarrow> amount_cmp a b = Equal"

definition amount_less :: "amount \<Rightarrow> amount \<Rightarrow> bool" where
  "amount_less a b \<longleftrightarrow> amount_cmp a b = Less"

definition amount_min :: "amount \<Rightarrow> amount \<Rightarrow> amount" where
  "amount_min a b = (if amount_less a b then a else b)"

definition serialize_amount :: "amount \<Rightarrow> string" where
  "serialize_amount a = to_canonical_string a"

definition deserialize_amount :: "string \<Rightarrow> (amount, amount_error) result" where
  "deserialize_amount text = try_from_str text"

text \<open>The number an amount stands for, and the invariant its constructors establish.\<close>

definition amount_value :: "amount \<Rightarrow> rat" where
  "amount_value a = of_nat (unat (mantissa a)) / 10 ^ unat (scale a)"

definition amount_ok :: "amount \<Rightarrow> bool" where
  "amount_ok a \<longleftrightarrow> scale a \<le> MAX_SCALE"

section \<open>Checked arithmetic is exact\<close>

declare rescale_loop.simps [simp del]

abbreviation mant :: "amount \<Rightarrow> nat" where
  "mant a \<equiv> unat (mantissa a)"

abbreviation places :: "amount \<Rightarrow> nat" where
  "places a \<equiv> unat (scale a)"

lemma rescale_loop_Some:
  "rescale_loop s m i = Some m' \<longleftrightarrow> unat m' = unat m * 10 ^ (unat i - unat s)"
proof (induction s m i rule: rescale_loop.induct)
  case (1 s m i)
  show ?case
  proof (cases "s < i")
    case False
    then show ?thesis
      by (subst rescale_loop.simps) (auto simp: word_less_nat_alt word_unat_eq_iff)
  next
    case True
    then have i: "unat i - unat s = Suc (unat (i - 1) - unat s)"
      by (auto simp: word_less_nat_alt word_le_nat_alt unat_sub_le)
    show ?thesis
    proof (cases "checked_mul_word m 10")
      case None
      have "2 ^ 128 \<le> unat m * 10" using None by (simp add: checked_mul_None)
      also have "\<dots> \<le> unat m * 10 ^ (unat i - unat s)" unfolding i by simp
      finally have "unat m' \<noteq> unat m * 10 ^ (unat i - unat s)"
        using unat_lt_length [of m'] by auto
      then show ?thesis using True None by (subst rescale_loop.simps) simp
    next
      case (Some n)
      then have n: "unat n = unat m * 10" by (simp add: checked_mul_Some)
      show ?thesis
        using True Some "1.IH" [of n] i n by (subst rescale_loop.simps) (simp add: mult.assoc)
    qed
  qed
qed

lemma checked_rescale_Some:
  assumes "scale a \<le> s"
  shows "checked_rescale a s = Some b \<longleftrightarrow>
    scale b = s \<and> mant b = mant a * 10 ^ (unat s - places a)"
  using assms
  by (cases a; cases b)
    (auto simp: checked_rescale_def rescale_loop_Some word_unat_eq_iff)

lemma checked_rescale_None:
  assumes "scale a \<le> s"
  shows "checked_rescale a s = None \<longleftrightarrow> 2 ^ 128 \<le> mant a * 10 ^ (unat s - places a)"
proof
  assume none: "checked_rescale a s = None"
  show "2 ^ 128 \<le> mant a * 10 ^ (unat s - places a)"
  proof (rule ccontr)
    assume "\<not> ?thesis"
    then have "unat (word_of_nat (mant a * 10 ^ (unat s - places a)) :: 128 word) =
        mant a * 10 ^ (unat s - places a)"
      by (intro unat_of_nat_less) simp
    then have "checked_rescale a s = Some \<lparr>mantissa = word_of_nat (mant a * 10 ^ (unat s - places a)), scale = s\<rparr>"
      by (simp add: checked_rescale_Some [OF assms])
    with none show False by simp
  qed
next
  assume big: "2 ^ 128 \<le> mant a * 10 ^ (unat s - places a)"
  show "checked_rescale a s = None"
  proof (cases "checked_rescale a s")
    case (Some b)
    then show ?thesis
      using big unat_lt_length [of "mantissa b"] by (simp add: checked_rescale_Some [OF assms])
  qed
qed

text \<open>The two operands brought to the larger scale, as natural numbers.\<close>

definition aligned :: "amount \<Rightarrow> amount \<Rightarrow> nat" where
  "aligned a b = mant a * 10 ^ (max (places a) (places b) - places a)"

lemma rescale_to_max:
  shows "checked_rescale a (max (scale a) (scale b)) = Some l \<longleftrightarrow>
      scale l = max (scale a) (scale b) \<and> mant l = aligned a b"
    and "checked_rescale b (max (scale a) (scale b)) = Some r \<longleftrightarrow>
      scale r = max (scale a) (scale b) \<and> mant r = aligned b a"
    and "checked_rescale a (max (scale a) (scale b)) = None \<longleftrightarrow> 2 ^ 128 \<le> aligned a b"
    and "checked_rescale b (max (scale a) (scale b)) = None \<longleftrightarrow> 2 ^ 128 \<le> aligned b a"
  by (simp_all add: checked_rescale_Some checked_rescale_None aligned_def unat_max max.commute)

lemma rescale_both_cases:
  obtains (overflow) "2 ^ 128 \<le> aligned a b \<or> 2 ^ 128 \<le> aligned b a"
      "checked_rescale a (max (scale a) (scale b)) = None \<or>
       checked_rescale b (max (scale a) (scale b)) = None"
  | (fits) l r where "checked_rescale a (max (scale a) (scale b)) = Some l"
      "checked_rescale b (max (scale a) (scale b)) = Some r"
      "mant l = aligned a b" "mant r = aligned b a"
proof (cases "checked_rescale a (max (scale a) (scale b))")
  case None
  then show ?thesis by (intro overflow) (simp_all add: rescale_to_max)
next
  case l: (Some l)
  show ?thesis
  proof (cases "checked_rescale b (max (scale a) (scale b))")
    case None
    then show ?thesis by (intro overflow) (simp_all add: rescale_to_max)
  next
    case (Some r)
    with l show ?thesis
      using rescale_to_max(1) [of a b l] rescale_to_max(2) [of b a r] by (intro fits) blast+
  qed
qed

lemma amount_checked_add_Some:
  "amount_checked_add a b = Some c \<longleftrightarrow>
    scale c = max (scale a) (scale b) \<and> mant c = aligned a b + aligned b a"
proof (cases rule: rescale_both_cases [of a b])
  case overflow
  then have "amount_checked_add a b = None"
    by (auto simp: amount_checked_add_def Let_def bind_eq_None_conv)
  then show ?thesis using overflow(1) unat_lt_length [of "mantissa c"] by auto
next
  case (fits l r)
  then show ?thesis
    by (cases c) (auto simp: amount_checked_add_def Let_def checked_add_Some)
qed

lemma amount_checked_add_None:
  "amount_checked_add a b = None \<longleftrightarrow> 2 ^ 128 \<le> aligned a b + aligned b a"
proof (cases rule: rescale_both_cases [of a b])
  case overflow
  then show ?thesis by (auto simp: amount_checked_add_def Let_def bind_eq_None_conv)
next
  case (fits l r)
  then show ?thesis by (simp add: amount_checked_add_def Let_def checked_add_None)
qed

lemma amount_checked_sub_Some:
  "amount_checked_sub a b = Some c \<longleftrightarrow>
    scale c = max (scale a) (scale b) \<and> mant c + aligned b a = aligned a b \<and> aligned a b < 2 ^ 128"
proof (cases rule: rescale_both_cases [of a b])
  case overflow
  then have "amount_checked_sub a b = None"
    by (auto simp: amount_checked_sub_def Let_def bind_eq_None_conv)
  then show ?thesis using overflow(1) by auto
next
  case (fits l r)
  then have "aligned a b < 2 ^ 128" using unat_lt_length [of "mantissa l"] by simp
  with fits show ?thesis
    by (cases c) (auto simp: amount_checked_sub_def Let_def checked_sub_Some)
qed

lemma amount_checked_sub_None:
  "amount_checked_sub a b = None \<longleftrightarrow>
    2 ^ 128 \<le> aligned a b \<or> 2 ^ 128 \<le> aligned b a \<or> aligned a b < aligned b a"
proof (cases rule: rescale_both_cases [of a b])
  case overflow
  then show ?thesis by (auto simp: amount_checked_sub_def Let_def bind_eq_None_conv)
next
  case (fits l r)
  then show ?thesis
    using unat_lt_length [of "mantissa l"] unat_lt_length [of "mantissa r"]
    by (simp add: amount_checked_sub_def Let_def checked_sub_None)
qed

lemma aligned_value:
  "of_nat (aligned a b) = amount_value a * 10 ^ max (places a) (places b)"
  by (simp add: aligned_def amount_value_def field_simps flip: power_add)

lemma aligned_value':
  "of_nat (aligned b a) = amount_value b * 10 ^ max (places a) (places b)"
  by (simp add: aligned_value max.commute)

lemma amount_value_nonneg [simp]: "0 \<le> amount_value a"
  by (simp add: amount_value_def)

lemma amount_value_eq_iff: "amount_value a = amount_value b \<longleftrightarrow> aligned a b = aligned b a"
  unfolding of_nat_eq_iff [where 'a = rat, symmetric] aligned_value [of a b] aligned_value' [of b a]
  by simp

lemma amount_value_less_iff: "amount_value a < amount_value b \<longleftrightarrow> aligned a b < aligned b a"
  unfolding of_nat_less_iff [where 'a = rat, symmetric] aligned_value [of a b] aligned_value' [of b a]
  by simp

lemma value_of_aligned:
  assumes "scale c = max (scale a) (scale b)"
  shows "amount_value c = of_nat (mant c) / 10 ^ max (places a) (places b)"
  using assms by (simp add: amount_value_def unat_max)

lemma checked_add_value:
  "amount_checked_add a b = Some c \<Longrightarrow> amount_value c = amount_value a + amount_value b"
  by (simp add: amount_checked_add_Some value_of_aligned aligned_value [of a b] aligned_value' [of b a]
      field_simps)

lemma checked_sub_value:
  assumes "amount_checked_sub a b = Some c"
  shows "amount_value a = amount_value c + amount_value b"
proof -
  have "(of_nat (aligned a b) :: rat) = of_nat (mant c) + of_nat (aligned b a)"
    using assms unfolding amount_checked_sub_Some of_nat_add [symmetric] by simp
  then show ?thesis
    using assms
    by (simp add: amount_checked_sub_Some value_of_aligned aligned_value [of a b] aligned_value' [of b a]
        field_simps)
qed

section \<open>Decimal digit strings\<close>

text \<open>The \<open>k\<close> low decimal digits of \<open>n\<close>, most significant first.\<close>

primrec fixed_digits :: "nat \<Rightarrow> nat \<Rightarrow> string" where
  "fixed_digits 0 n = []"
| "fixed_digits (Suc k) n = fixed_digits k (n div 10) @ [digit_char (n mod 10)]"

lemma length_fixed_digits [simp]: "length (fixed_digits k n) = k"
  by (induction k arbitrary: n) simp_all

lemma all_digits_fixed_digits [simp]: "all_digits (fixed_digits k n)"
  by (induction k arbitrary: n) auto

lemma digits_val_fixed_digits: "digits_val (fixed_digits k n) = n mod 10 ^ k"
proof (induction k arbitrary: n)
  case (Suc k)
  have "10 * (n div 10 mod 10 ^ k) + n mod 10 = n mod 10 ^ Suc k"
    by (simp add: mod_mult2_eq)
  with Suc show ?case by simp
qed simp

lemma nat_to_string_snoc:
  "10 \<le> n \<Longrightarrow> nat_to_string n = nat_to_string (n div 10) @ [digit_char (n mod 10)]"
  by (subst nat_to_string.simps) simp

lemma nat_to_string_split:
  "10 ^ k \<le> n \<Longrightarrow> nat_to_string n = nat_to_string (n div 10 ^ k) @ fixed_digits k n"
proof (induction k arbitrary: n)
  case (Suc k)
  have "10 ^ k \<le> n div 10" using div_le_mono [OF Suc.prems, of 10] by simp
  then have "nat_to_string (n div 10) = nat_to_string (n div 10 ^ Suc k) @ fixed_digits k (n div 10)"
    using Suc.IH by (simp add: div_mult2_eq)
  moreover have "10 \<le> n" using Suc.prems by (rule order_trans [rotated]) simp
  ultimately show ?case by (subst nat_to_string_snoc) simp_all
qed simp

lemma digit_char_0: "digit_char 0 = CHR ''0''"
  by code_simp

lemma digit_val_0: "digit_val (CHR ''0'') = 0"
  by code_simp

lemma fixed_digits_0: "fixed_digits k 0 = replicate k (CHR ''0'')"
  by (induction k) (simp_all add: digit_char_0 replicate_append_same)

lemma length_nat_to_string_gt: "10 ^ k \<le> n \<Longrightarrow> k < length (nat_to_string n)"
  by (simp add: nat_to_string_split [of k n])

lemma length_nat_to_string_gt_iff: "0 < k \<Longrightarrow> k < length (nat_to_string n) \<longleftrightarrow> 10 ^ k \<le> n"
  using length_nat_to_string_gt length_nat_to_string_le [of k n] by (meson not_le)

lemma pad_left_zeros_nat_to_string:
  "0 < k \<Longrightarrow> n < 10 ^ k \<Longrightarrow> pad_left_zeros k (nat_to_string n) = fixed_digits k n"
proof (induction k arbitrary: n)
  case (Suc k)
  show ?case
  proof (cases "n < 10")
    case True
    then show ?thesis
      by (subst nat_to_string.simps) (simp add: pad_left_zeros_def fixed_digits_0)
  next
    case False
    then have k: "0 < k" using Suc.prems by (cases k) auto
    have "n div 10 < 10 ^ k" using Suc.prems by (simp add: less_mult_imp_div_less mult.commute)
    then have "pad_left_zeros k (nat_to_string (n div 10)) = fixed_digits k (n div 10)"
      using k by (intro Suc.IH)
    then show ?thesis using False by (simp add: nat_to_string_snoc pad_left_zeros_def)
  qed
qed simp

lemma fixed_digits_mod: "fixed_digits k (n mod 10 ^ k) = fixed_digits k n"
proof (induction k arbitrary: n)
  case (Suc k)
  have "n mod 10 ^ Suc k div 10 = n div 10 mod 10 ^ k" "n mod 10 ^ Suc k mod 10 = n mod 10"
    by (simp_all add: mod_mult2_eq)
  with Suc [of "n div 10"] show ?case by simp
qed simp

lemma nat_to_string_0: "nat_to_string 0 = ''0''"
  by (subst nat_to_string.simps) (simp add: digit_char_0)

lemma decimal_digits_eq:
  "decimal_digits a = (nat_to_string (mant a div 10 ^ places a), fixed_digits (places a) (mant a))"
proof (cases "places a = 0")
  case False
  show ?thesis
  proof (cases "10 ^ places a \<le> mant a")
    case True
    then have "nat_to_string (mant a) =
        nat_to_string (mant a div 10 ^ places a) @ fixed_digits (places a) (mant a)"
      by (rule nat_to_string_split)
    then show ?thesis
      using False True length_nat_to_string_gt [OF True] by (simp add: decimal_digits_def Let_def)
  next
    case small: False
    then show ?thesis using False
      by (simp add: decimal_digits_def Let_def length_nat_to_string_gt_iff
          pad_left_zeros_nat_to_string nat_to_string_0)
  qed
qed (simp add: decimal_digits_def)

lemma to_canonical_string_eq:
  "to_canonical_string a =
    format_fixed (nat_to_string (mant a div 10 ^ places a)) (fixed_digits (places a) (mant a))"
proof (cases "scale a = 0")
  case True
  then show ?thesis
    by (simp add: to_canonical_string_def format_fixed_def trim_end_zeros_def)
next
  case False
  then have "to_canonical_string a = (case decimal_digits a of (i, f) \<Rightarrow> format_fixed i f)"
    by (simp add: to_canonical_string_def decimal_digits_def Let_def unat_eq_0)
  then show ?thesis by (simp add: decimal_digits_eq)
qed

section \<open>Comparison is by value\<close>

text \<open>Lexicographic order on digit strings of the same length is numeric order.\<close>

lemma cmp_Cons: "cmp (x # xs) (y # ys) = (if cmp x y \<noteq> Equal then cmp x y else cmp xs ys)"
  by (auto simp: cmp_def)

lemma cmp_lex_nat:
  fixes i j f g B :: nat
  assumes "f < B" "g < B"
  shows "cmp (i * B + f) (j * B + g) = (if cmp i j \<noteq> Equal then cmp i j else cmp f g)"
proof -
  have "i * B + f < j * B + g" if "i < j" "f < B" for i j f g :: nat
  proof -
    have "i * B + f < Suc i * B" using that by simp
    also have "\<dots> \<le> j * B" using that by (intro mult_right_mono) simp_all
    finally show ?thesis by simp
  qed
  from this [of i j f g] this [of j i g f] assms show ?thesis
    by (cases i j rule: linorder_cases) (auto simp: cmp_def)
qed

lemma cmp_digits:
  "all_digits s \<Longrightarrow> all_digits t \<Longrightarrow> length s = length t \<Longrightarrow> cmp s t = cmp (digits_val s) (digits_val t)"
proof (induction s arbitrary: t)
  case (Cons c s)
  then obtain d t' where t: "t = d # t'" by (cases t) auto
  have "digits_val s < 10 ^ length t'" "digits_val t' < 10 ^ length t'"
    using Cons.prems t digits_val_less [of s] digits_val_less [of t'] by auto
  then show ?case
    using Cons.prems Cons.IH [of t'] t
    by (simp add: cmp_Cons digits_val_Cons cmp_lex_nat digit_val_cmp)
qed simp

lemma trim_start_nat_to_string:
  "trim_start_zeros (nat_to_string n) = (if n = 0 then [] else nat_to_string n)"
proof (induction n rule: nat_to_string.induct)
  case (1 n)
  show ?case
  proof (cases "n < 10")
    case True
    have "digit_char n \<noteq> CHR ''0''" if "0 < n"
      using True that by (metis digit_val_0 digit_val_digit_char less_numeral_extra(3))
    then show ?thesis using True
      by (auto simp: trim_start_zeros_def nat_to_string.simps [of n] digit_char_0)
  next
    case False
    then have "0 < n div 10" by simp
    moreover have "trim_start_zeros (nat_to_string (n div 10)) = nat_to_string (n div 10)"
      using 1 False calculation by simp
    then have "hd (nat_to_string (n div 10)) \<noteq> CHR ''0''"
      by (metis (full_types) dropWhile_eq_self_iff nat_to_string_not_Nil trim_start_zeros_def)
    then show ?thesis using False
      by (auto simp: trim_start_zeros_def nat_to_string_snoc [of n] dropWhile_eq_self_iff)
  qed
qed

lemma nat_to_string_lower: "0 < n \<Longrightarrow> 10 ^ (length (nat_to_string n) - 1) \<le> n"
  using length_nat_to_string_gt_iff [of "length (nat_to_string n) - 1" n]
  by (cases "length (nat_to_string n) - 1 = 0") auto

lemma length_less_imp_less:
  assumes "length (nat_to_string m) < length (nat_to_string n)"
  shows "m < n"
proof -
  have "m < 10 ^ length (nat_to_string m)"
    using digits_val_less [of "nat_to_string m"] by simp
  also have "\<dots> \<le> 10 ^ (length (nat_to_string n) - 1)"
    using assms by (intro power_increasing) simp_all
  also have "\<dots> \<le> n"
  proof (rule nat_to_string_lower)
    show "0 < n" using assms by (cases n) (simp_all add: nat_to_string_0 Suc_le_eq)
  qed
  finally show ?thesis .
qed

text \<open>The integer parts compare by length and then lexicographically.\<close>

lemma cmp_integer_parts:
  "(let a = trim_start_zeros (nat_to_string m); b = trim_start_zeros (nat_to_string n) in
     if length a \<noteq> length b then cmp (length a) (length b) else cmp a b) = cmp m n"
proof (cases "m = 0 \<or> n = 0")
  case True
  then show ?thesis by (auto simp: trim_start_nat_to_string Let_def cmp_def)
next
  case False
  consider "length (nat_to_string m) < length (nat_to_string n)"
    | "length (nat_to_string n) < length (nat_to_string m)"
    | "length (nat_to_string m) = length (nat_to_string n)"
    by linarith
  then show ?thesis
  proof cases
    case 3
    then show ?thesis
      using False cmp_digits [of "nat_to_string m" "nat_to_string n"]
      by (simp add: trim_start_nat_to_string)
  qed (use False in \<open>auto simp: trim_start_nat_to_string Let_def cmp_def dest: length_less_imp_less\<close>)
qed

lemma cmp_unsigned_nat_to_string:
  "cmp_unsigned (nat_to_string m) fa (nat_to_string n) fb =
    (if cmp m n \<noteq> Equal then cmp m n else cmp_fractions (max (length fa) (length fb)) fa fb)"
proof -
  have c: "cmp m n = (if length a \<noteq> length b then cmp (length a) (length b) else cmp a b)"
    if "a = trim_start_zeros (nat_to_string m)" "b = trim_start_zeros (nat_to_string n)" for a b
    using cmp_integer_parts [of m n] that by (simp only: Let_def)
  show ?thesis unfolding cmp_unsigned_def Let_def c [OF refl refl] by simp
qed

definition pad_right :: "nat \<Rightarrow> string \<Rightarrow> string" where
  "pad_right n s = s @ replicate (n - length s) (CHR ''0'')"

lemma cmp_fractions_pad:
  "length fa \<le> n \<Longrightarrow> length fb \<le> n \<Longrightarrow> cmp_fractions n fa fb = cmp (pad_right n fa) (pad_right n fb)"
proof (induction n fa fb rule: cmp_fractions.induct)
  case (2 n fa fb)
  have pad: "pad_right (Suc n) s = next_digit s # pad_right n (tl s)" if "length s \<le> Suc n" for s
    using that by (cases s) (auto simp: pad_right_def next_digit_def)
  show ?case using 2 by (simp add: pad cmp_Cons Let_def)
qed (simp add: pad_right_def)

lemma digits_val_pad_right:
  "length s \<le> n \<Longrightarrow> digits_val (pad_right n s) = digits_val s * 10 ^ (n - length s)"
  by (simp add: pad_right_def digits_val_append)

lemma all_digits_pad_right: "all_digits s \<Longrightarrow> all_digits (pad_right n s)"
  by (auto simp: pad_right_def is_ascii_digit_def)

lemma length_pad_right: "length s \<le> n \<Longrightarrow> length (pad_right n s) = n"
  by (simp add: pad_right_def)

lemma cmp_fractions_value:
  assumes "k \<le> n" "l \<le> n"
  shows "cmp_fractions n (fixed_digits k a) (fixed_digits l b) =
    cmp (a mod 10 ^ k * 10 ^ (n - k)) (b mod 10 ^ l * 10 ^ (n - l))"
proof -
  have "cmp_fractions n (fixed_digits k a) (fixed_digits l b) =
      cmp (pad_right n (fixed_digits k a)) (pad_right n (fixed_digits l b))"
    using assms by (simp add: cmp_fractions_pad)
  also have "\<dots> = cmp (digits_val (pad_right n (fixed_digits k a))) (digits_val (pad_right n (fixed_digits l b)))"
    using assms by (intro cmp_digits all_digits_pad_right all_digits_fixed_digits) (simp add: length_pad_right)
  finally show ?thesis
    using assms by (simp add: digits_val_pad_right digits_val_fixed_digits)
qed

lemma split_aligned:
  assumes "places a \<le> n"
  shows "mant a * 10 ^ (n - places a) =
      mant a div 10 ^ places a * 10 ^ n + mant a mod 10 ^ places a * 10 ^ (n - places a)"
    and "mant a mod 10 ^ places a * 10 ^ (n - places a) < 10 ^ n"
proof -
  have n: "(10::nat) ^ n = 10 ^ places a * 10 ^ (n - places a)"
    using assms by (simp flip: power_add)
  have "(m div p * p + m mod p) * q = m div p * (p * q) + m mod p * q" for m p q :: nat
    by (simp only: distrib_right mult.assoc)
  then show "mant a * 10 ^ (n - places a) =
      mant a div 10 ^ places a * 10 ^ n + mant a mod 10 ^ places a * 10 ^ (n - places a)"
    unfolding n by (simp only: div_mult_mod_eq)
  show "mant a mod 10 ^ places a * 10 ^ (n - places a) < 10 ^ n"
    unfolding n by simp
qed

lemma amount_cmp_aligned: "amount_cmp a b = cmp (aligned a b) (aligned b a)"
proof -
  let ?n = "max (places a) (places b)"
  have split: "aligned a b = mant a div 10 ^ places a * 10 ^ ?n + mant a mod 10 ^ places a * 10 ^ (?n - places a)"
    "aligned b a = mant b div 10 ^ places b * 10 ^ ?n + mant b mod 10 ^ places b * 10 ^ (?n - places b)"
    unfolding aligned_def max.commute [of "places b" "places a"] by (rule split_aligned, simp)+
  have "cmp (aligned a b) (aligned b a) =
      (let i = cmp (mant a div 10 ^ places a) (mant b div 10 ^ places b) in
       if i \<noteq> Equal then i
       else cmp_fractions ?n (fixed_digits (places a) (mant a)) (fixed_digits (places b) (mant b)))"
    unfolding split
    by (subst cmp_lex_nat) (simp_all add: split_aligned(2) cmp_fractions_value Let_def)
  also have "\<dots> = amount_cmp a b"
    by (simp only: amount_cmp_def decimal_digits_eq Let_def case_prod_conv
        cmp_unsigned_nat_to_string length_fixed_digits)
  finally show ?thesis by simp
qed

lemma amount_cmp_value_eq: "amount_cmp a b = cmp (amount_value a) (amount_value b)"
  unfolding amount_cmp_aligned
  by (rule cmp_eqI) (simp_all add: amount_value_less_iff amount_value_eq_iff)

lemma amount_eq_iff [simp]: "amount_eq a b \<longleftrightarrow> amount_value a = amount_value b"
  by (simp add: amount_eq_def amount_cmp_value_eq)

lemma amount_less_iff [simp]: "amount_less a b \<longleftrightarrow> amount_value a < amount_value b"
  by (simp add: amount_less_def amount_cmp_value_eq)

lemma amount_min_value: "amount_value (amount_min a b) = min (amount_value a) (amount_value b)"
  by (simp add: amount_min_def)

lemma is_zero_iff [simp]: "is_zero a \<longleftrightarrow> amount_value a = 0"
  by (simp add: is_zero_def amount_value_def unat_eq_0)

section \<open>The canonical string is canonical\<close>

lemma trim_end_append_zeros: "trim_end_zeros (s @ replicate n (CHR ''0'')) = trim_end_zeros s"
proof -
  have "dropWhile (\<lambda>c. c = CHR ''0'') (replicate n (CHR ''0'') @ t) = dropWhile (\<lambda>c. c = CHR ''0'') t" for t
    by (induction n) simp_all
  then show ?thesis by (simp add: trim_end_zeros_def)
qed

lemma trim_end_decomp: "\<exists>n. s = trim_end_zeros s @ replicate n (CHR ''0'')"
proof (induction s rule: rev_induct)
  case (snoc c s)
  then obtain n where n: "s = trim_end_zeros s @ replicate n (CHR ''0'')" by blast
  show ?case
  proof (cases "c = CHR ''0''")
    case True
    then have "trim_end_zeros (s @ [c]) = trim_end_zeros s" by (simp add: trim_end_zeros_def)
    then have "s @ [c] = trim_end_zeros (s @ [c]) @ replicate (Suc n) (CHR ''0'')"
      using n True by (metis append_assoc replicate_Suc replicate_append_same)
    then show ?thesis by blast
  next
    case False
    then have "s @ [c] = trim_end_zeros (s @ [c]) @ replicate 0 (CHR ''0'')"
      by (simp add: trim_end_zeros_def)
    then show ?thesis by blast
  qed
qed (simp add: trim_end_zeros_def)

lemma pad_right_trim:
  assumes "length s \<le> n"
  shows "pad_right n s = pad_right n (trim_end_zeros s)"
proof -
  obtain k where k: "s = trim_end_zeros s @ replicate k (CHR ''0'')"
    using trim_end_decomp by blast
  then have "length s = length (trim_end_zeros s) + k"
    by (metis length_append length_replicate)
  then have "replicate (n - length (trim_end_zeros s)) (CHR ''0'') =
      replicate k (CHR ''0'') @ replicate (n - length s) (CHR ''0'')"
    using assms by (simp flip: replicate_add)
  then show ?thesis unfolding pad_right_def by (metis append_assoc k)
qed

lemma trim_eq_iff_pad_eq:
  assumes "length s \<le> n" "length t \<le> n"
  shows "trim_end_zeros s = trim_end_zeros t \<longleftrightarrow> pad_right n s = pad_right n t"
  by (metis assms pad_right_trim pad_right_def trim_end_append_zeros)

lemma trim_fixed_digits_eq_iff:
  assumes "k \<le> n" "l \<le> n"
  shows "trim_end_zeros (fixed_digits k a) = trim_end_zeros (fixed_digits l b) \<longleftrightarrow>
    a mod 10 ^ k * 10 ^ (n - k) = b mod 10 ^ l * 10 ^ (n - l)"
proof -
  have "trim_end_zeros (fixed_digits k a) = trim_end_zeros (fixed_digits l b) \<longleftrightarrow>
      pad_right n (fixed_digits k a) = pad_right n (fixed_digits l b)"
    using assms by (intro trim_eq_iff_pad_eq) simp_all
  also have "\<dots> \<longleftrightarrow> cmp_fractions n (fixed_digits k a) (fixed_digits l b) = Equal"
    using assms by (simp add: cmp_fractions_pad)
  finally show ?thesis using assms by (simp add: cmp_fractions_value)
qed

lemma all_digits_trim: "all_digits s \<Longrightarrow> all_digits (trim_end_zeros s)"
  by (auto simp: trim_end_zeros_def dest: set_dropWhileD)

lemma point_not_digit [simp]: "\<not> is_ascii_digit (CHR ''.'')"
  by (simp add: is_ascii_digit_def)

lemma takeWhile_format_fixed: "all_digits i \<Longrightarrow> takeWhile is_ascii_digit (format_fixed i f) = i"
  by (auto simp: format_fixed_def Let_def)

lemma dropWhile_format_fixed:
  "all_digits i \<Longrightarrow> tl (dropWhile is_ascii_digit (format_fixed i f)) = trim_end_zeros f"
  by (auto simp: format_fixed_def Let_def dropWhile_eq_Nil_conv [THEN iffD2])

lemma format_fixed_eq_iff:
  assumes "all_digits i" "all_digits j"
  shows "format_fixed i f = format_fixed j g \<longleftrightarrow> i = j \<and> trim_end_zeros f = trim_end_zeros g"
  using takeWhile_format_fixed [OF assms(1), of f] takeWhile_format_fixed [OF assms(2), of g]
    dropWhile_format_fixed [OF assms(1), of f] dropWhile_format_fixed [OF assms(2), of g]
  by (metis format_fixed_def)

lemma canonical_string_eq_iff:
  "to_canonical_string a = to_canonical_string b \<longleftrightarrow> amount_value a = amount_value b"
proof -
  let ?n = "max (places a) (places b)"
  have "to_canonical_string a = to_canonical_string b \<longleftrightarrow>
      mant a div 10 ^ places a = mant b div 10 ^ places b \<and>
      mant a mod 10 ^ places a * 10 ^ (?n - places a) = mant b mod 10 ^ places b * 10 ^ (?n - places b)"
    unfolding to_canonical_string_eq
    by (subst format_fixed_eq_iff) (simp_all add: trim_fixed_digits_eq_iff [where n = ?n])
  also have "\<dots> \<longleftrightarrow> aligned a b = aligned b a"
  proof -
    have split: "aligned a b = mant a div 10 ^ places a * 10 ^ ?n + mant a mod 10 ^ places a * 10 ^ (?n - places a)"
      "aligned b a = mant b div 10 ^ places b * 10 ^ ?n + mant b mod 10 ^ places b * 10 ^ (?n - places b)"
      unfolding aligned_def max.commute [of "places b" "places a"] by (rule split_aligned, simp)+
    have "cmp (aligned a b) (aligned b a) = Equal \<longleftrightarrow>
        cmp (mant a div 10 ^ places a) (mant b div 10 ^ places b) = Equal \<and>
        cmp (mant a mod 10 ^ places a * 10 ^ (?n - places a)) (mant b mod 10 ^ places b * 10 ^ (?n - places b)) = Equal"
      unfolding split by (subst cmp_lex_nat) (auto simp: split_aligned(2))
    then show ?thesis by simp
  qed
  finally show ?thesis by (simp add: amount_value_eq_iff)
qed

section \<open>Parsing\<close>

lemma of_char_less_256: "(of_char c :: nat) < 256"
  by (simp add: of_char_def horner_sum_of_bool_2_less)

lemma unat_of_char_byte: "unat (of_char c :: 8 word) = of_char c"
proof -
  have "(of_char c :: 8 word) = word_of_nat (of_char c)" by (rule of_nat_of_char [symmetric])
  also have "unat \<dots> = of_char c" using of_char_less_256 [of c] by (intro unat_of_nat_less) simp
  finally show ?thesis .
qed

lemma unat_digit_byte:
  "is_ascii_digit c \<Longrightarrow> unat (ucast ((of_char c :: 8 word) - 48) :: 128 word) = digit_val c"
  by (simp add: unat_ucast_up unat_sub_le word_le_nat_alt unat_of_char_byte is_ascii_digit_def digit_val_def)

lemma parse_digits_Ok:
  "all_digits s \<Longrightarrow> parse_digits m s = Ok n \<longleftrightarrow> unat n = unat m * 10 ^ length s + digits_val s"
proof (induction s arbitrary: m)
  case Nil
  show ?case by (auto simp: word_unat_eq_iff)
next
  case (Cons c s)
  let ?d = "ucast ((of_char c :: 8 word) - 48) :: 128 word"
  let ?step = "Option.bind (checked_mul_word m 10) (\<lambda>v. checked_add_word v ?d)"
  have d: "unat ?d = digit_val c" using Cons.prems by (simp add: unat_digit_byte)
  have step: "?step = Some v \<longleftrightarrow> unat v = unat m * 10 + digit_val c" for v
  proof (cases "checked_mul_word m 10")
    case None
    then have "2 ^ 128 \<le> unat m * 10" by (simp add: checked_mul_None)
    then show ?thesis using None unat_lt_length [of v] by auto
  next
    case (Some w)
    then have "unat w = unat m * 10" by (simp add: checked_mul_Some)
    then show ?thesis using Some d by (simp add: checked_add_Some)
  qed
  have rhs: "unat m * 10 ^ length (c # s) + digits_val (c # s) =
      (unat m * 10 + digit_val c) * 10 ^ length s + digits_val s"
    by (simp add: digits_val_Cons distrib_right)
  show ?case
  proof (cases ?step)
    case None
    have "2 ^ 128 \<le> unat m * 10 + digit_val c"
    proof (rule ccontr)
      assume "\<not> ?thesis"
      then have "unat (word_of_nat (unat m * 10 + digit_val c) :: 128 word) = unat m * 10 + digit_val c"
        by (intro unat_of_nat_less) simp
      then show False using None step by simp
    qed
    also have "\<dots> \<le> (unat m * 10 + digit_val c) * 10 ^ length s" by simp
    finally have "unat n \<noteq> (unat m * 10 + digit_val c) * 10 ^ length s + digits_val s"
      using unat_lt_length [of n] by simp
    then show ?thesis using None unfolding rhs by simp
  next
    case (Some v)
    then have "unat v = unat m * 10 + digit_val c" using step by blast
    then show ?thesis
      using Cons.prems Cons.IH [of v] Some unfolding rhs by simp
  qed
qed

lemma parse_digits_Err: "parse_digits m s = Err e \<Longrightarrow> e = AmountOverflow"
  by (induction m s rule: parse_digits.induct) (auto simp: and_then_eq_Err Let_def)

lemma try_from_str_Ok:
  "try_from_str s = Ok a \<longleftrightarrow>
    s \<noteq> [] \<and> length s \<le> MAX_MANTISSA_DIGITS \<and> list_all is_ascii_digit s \<and>
    digits_val s < 2 ^ 128 \<and> a = from_u128 (word_of_nat (digits_val s))"
proof (cases "s \<noteq> [] \<and> length s \<le> MAX_MANTISSA_DIGITS \<and> list_all is_ascii_digit s")
  case True
  then have digits: "all_digits s" by (simp add: list_all_iff)
  have "try_from_str s = Ok a \<longleftrightarrow>
      (\<exists>m. unat m = digits_val s \<and> a = \<lparr>mantissa = m, scale = 0\<rparr>)"
    using True digits by (auto simp: try_from_str_def parse_digits_Ok)
  also have "\<dots> \<longleftrightarrow> digits_val s < 2 ^ 128 \<and> a = from_u128 (word_of_nat (digits_val s))"
  proof
    assume "\<exists>m. unat m = digits_val s \<and> a = \<lparr>mantissa = m, scale = 0\<rparr>"
    then obtain m where "unat m = digits_val s" "a = \<lparr>mantissa = m, scale = 0\<rparr>" by blast
    then show "digits_val s < 2 ^ 128 \<and> a = from_u128 (word_of_nat (digits_val s))"
      using unat_lt_length [of m] by (simp add: from_u128_def) (metis of_nat_unat ucast_id)
  next
    assume "digits_val s < 2 ^ 128 \<and> a = from_u128 (word_of_nat (digits_val s))"
    then show "\<exists>m. unat m = digits_val s \<and> a = \<lparr>mantissa = m, scale = 0\<rparr>"
      by (intro exI [of _ "word_of_nat (digits_val s)"]) (simp add: from_u128_def unat_of_nat_less)
  qed
  finally show ?thesis using True by simp
next
  case False
  then show ?thesis by (auto simp: try_from_str_def list_all_iff)
qed

lemma value_from_u128: "amount_value (from_u128 v) = of_nat (unat v)"
  by (simp add: amount_value_def from_u128_def)

lemma amount_ok_from_u128 [simp]: "amount_ok (from_u128 v)"
  by (simp add: amount_ok_def from_u128_def MAX_SCALE_def)

lemma length_mantissa_digits: "length (nat_to_string (unat (v :: 128 word))) \<le> MAX_MANTISSA_DIGITS"
proof -
  have "unat v < 10 ^ 39" using unat_lt_length [of v] by simp
  then show ?thesis unfolding MAX_MANTISSA_DIGITS_def by (intro length_nat_to_string_le) simp
qed

lemma try_from_str_nat_to_string:
  "n < 2 ^ 128 \<Longrightarrow> try_from_str (nat_to_string n) = Ok (from_u128 (word_of_nat n))"
  using length_mantissa_digits [of "word_of_nat n"]
  by (simp add: try_from_str_Ok list_all_iff unat_of_nat_less)

text \<open>An amount with a fractional part prints a point, which the parser refuses.\<close>

lemma fraction_empty_iff: "trim_end_zeros (fixed_digits k n) = [] \<longleftrightarrow> 10 ^ k dvd n"
proof -
  have "trim_end_zeros (fixed_digits 0 0) = []" by (simp add: trim_end_zeros_def)
  then show ?thesis
    using trim_fixed_digits_eq_iff [of k k 0 n 0] by (simp add: dvd_eq_mod_eq_0)
qed

lemma canonical_string_integral:
  "10 ^ places a dvd mant a \<Longrightarrow> to_canonical_string a = nat_to_string (mant a div 10 ^ places a)"
  by (simp add: to_canonical_string_eq format_fixed_def fraction_empty_iff)

lemma canonical_string_fractional:
  "\<not> 10 ^ places a dvd mant a \<Longrightarrow> CHR ''.'' \<in> set (to_canonical_string a)"
  by (simp add: to_canonical_string_eq format_fixed_def fraction_empty_iff Let_def)

section \<open>Properties\<close>

text \<open>
  C38. Amounts are ordered by the number they stand for, at every pair of scales and without any
  intermediate overflow: the digit-string comparison of \<^verbatim>\<open>Ord for Amount\<close> is the comparison of
  the rational values.
\<close>

theorem amount_cmp_by_value: "amount_cmp a b = cmp (amount_value a) (amount_value b)"
  by (rule amount_cmp_value_eq)

text \<open>
  Addition is exact: a result has the larger of the two scales and stands for the sum, and
  the only way to get none is a sum whose mantissa at that scale does not fit 128 bits.
\<close>

theorem amount_add_exact:
  "case amount_checked_add a b of
     Some c \<Rightarrow> scale c = max (scale a) (scale b) \<and> amount_value c = amount_value a + amount_value b
   | None \<Rightarrow> 2 ^ 128 \<le> (amount_value a + amount_value b) * 10 ^ unat (max (scale a) (scale b))"
proof (cases "amount_checked_add a b")
  case None
  then have "(2 ^ 128 :: rat) \<le> of_nat (aligned a b + aligned b a)"
    unfolding amount_checked_add_None of_nat_le_iff [where 'a = rat, symmetric] by simp
  then show ?thesis
    using None by (simp add: aligned_value [of a b] aligned_value' [of b a] unat_max distrib_right)
next
  case (Some c)
  then show ?thesis by (simp add: checked_add_value) (simp add: amount_checked_add_Some)
qed

text \<open>
  Subtraction is exact and never wraps: a result stands for the difference, and there is none
  only if the subtrahend is larger or an operand does not fit 128 bits at the larger scale.
\<close>

theorem amount_sub_exact:
  "case amount_checked_sub a b of
     Some c \<Rightarrow> scale c = max (scale a) (scale b) \<and> amount_value a = amount_value c + amount_value b
   | None \<Rightarrow> amount_value a < amount_value b \<or>
       2 ^ 128 \<le> max (amount_value a) (amount_value b) * 10 ^ unat (max (scale a) (scale b))"
proof (cases "amount_checked_sub a b")
  case None
  let ?p = "10 ^ max (places a) (places b) :: rat"
  from None consider "(2 ^ 128 :: rat) \<le> of_nat (aligned a b)" | "(2 ^ 128 :: rat) \<le> of_nat (aligned b a)"
    | "amount_value a < amount_value b"
    unfolding amount_checked_sub_None amount_value_less_iff of_nat_le_iff [where 'a = rat, symmetric] by auto
  then show ?thesis
    unfolding aligned_value [of a b] aligned_value' [of b a]
    by cases (use None in \<open>auto simp: unat_max max_mult_distrib_right le_max_iff_disj\<close>)
next
  case (Some c)
  then have "scale c = max (scale a) (scale b)" by (simp add: amount_checked_sub_Some)
  then show ?thesis using Some checked_sub_value [OF Some] by simp
qed

text \<open>
  The parser accepts exactly the strings of 1 to 39 ASCII digits whose value fits 128 bits,
  and returns that value at scale 0.
\<close>

theorem amount_parse_grammar:
  "try_from_str s = Ok a \<longleftrightarrow>
    s \<noteq> [] \<and> length s \<le> 39 \<and> list_all is_ascii_digit s \<and> digits_val s < 2 ^ 128 \<and>
    a = from_u128 (word_of_nat (digits_val s))"
  by (simp add: try_from_str_Ok MAX_MANTISSA_DIGITS_def)

text \<open>
  The canonical string identifies the value: two amounts print the same if and only if they
  compare equal, whatever their scales.
\<close>

theorem amount_canonical_string:
  "to_canonical_string a = to_canonical_string b \<longleftrightarrow> amount_eq a b"
  by (simp add: canonical_string_eq_iff)

text \<open>
  The wire form round-trips exactly for the amounts that are whole numbers: reading back what
  was written gives an equal amount, and an amount with a fractional part is written in a form
  that the reader refuses.
\<close>

theorem amount_wire_roundtrip:
  "case deserialize_amount (serialize_amount a) of
     Ok b \<Rightarrow> 10 ^ unat (scale a) dvd unat (mantissa a) \<and> amount_eq b a
   | Err e \<Rightarrow> \<not> 10 ^ unat (scale a) dvd unat (mantissa a)"
proof (cases "10 ^ places a dvd mant a")
  case True
  let ?n = "mant a div 10 ^ places a"
  have "?n < 2 ^ 128"
    using unat_lt_length [of "mantissa a"] by (intro le_less_trans [OF div_le_dividend]) simp
  moreover have "amount_value a = of_nat ?n"
    using True by (auto simp: amount_value_def)
  ultimately show ?thesis
    using True
    by (simp add: serialize_amount_def deserialize_amount_def canonical_string_integral
        try_from_str_nat_to_string value_from_u128 unat_of_nat_less)
next
  case False
  have "\<not> list_all is_ascii_digit (to_canonical_string a)"
    using canonical_string_fractional [OF False] point_not_digit by (metis list_all_iff)
  then have "\<not> is_ok (try_from_str (to_canonical_string a))" by (auto simp: is_ok_iff try_from_str_Ok)
  then show ?thesis using False
    by (cases "try_from_str (to_canonical_string a)") (simp_all add: serialize_amount_def deserialize_amount_def)
qed

end
