(* ===== verification/Domain.thy ===== *)
theory Domain
  imports Amount
begin

text \<open>
  The domain types (\<^verbatim>\<open>statechronicle-domain/src\<close>): validated identifiers, statuses and operation
  names, the JSON values of an intent's inputs, the typed resource states with their accessors,
  intents, events and projections. Newtypes over \<^verbatim>\<open>String\<close> are strings; a digest is its list of
  bytes and a time stamp an integer number of nanoseconds.
\<close>

section \<open>Identifiers and limits\<close>

type_synonym byte = "8 word"
type_synonym subject_id = string
type_synonym resource_id = string
type_synonym tenant_id = string
type_synonym status = string
type_synonym operation = string
type_synonym content_digest = "byte list"
type_synonym timestamp = int

definition MAX_ID_LENGTH :: nat where
  "MAX_ID_LENGTH = 128"

definition MAX_QUOTA_KEY_BYTES :: nat where
  "MAX_QUOTA_KEY_BYTES = 512"

datatype core_error =
    Canonicalization string string
  | InvalidDigest string
  | SignatureVerification string
  | SizeLimitExceeded string nat nat

definition check_size :: "string \<Rightarrow> nat \<Rightarrow> nat \<Rightarrow> (unit, core_error) result" where
  "check_size name limit actual =
    (if actual > limit then Err (SizeLimitExceeded name limit actual) else Ok ())"

datatype domain_error =
    InvalidId string string string
  | InvalidOperation string
  | InvalidStatus string
  | InvalidKeyId string
  | InvalidProfile string
  | InvalidNonce string
  | BuilderFieldMissing string
  | CoreFailure core_error

text \<open>The \<^verbatim>\<open>Display\<close> forms that \<^verbatim>\<open>thiserror\<close> derives from the error attributes.\<close>

fun core_error_to_string :: "core_error \<Rightarrow> string" where
  "core_error_to_string (Canonicalization message source) = ''canonicalization failed: '' @ message"
| "core_error_to_string (InvalidDigest m) = ''invalid content digest: '' @ m"
| "core_error_to_string (SignatureVerification m) = ''signature verification failed: '' @ m"
| "core_error_to_string (SizeLimitExceeded name limit actual) =
    ''size limit exceeded for '' @ quoted name @ '': length '' @ nat_to_string actual @
    '' exceeds limit '' @ nat_to_string limit"

fun domain_error_to_string :: "domain_error \<Rightarrow> string" where
  "domain_error_to_string (InvalidId kind v pre) =
    ''invalid '' @ kind @ '' id: '' @ quoted v @ '' must start with '' @ quoted pre @ '' and be '' @
    [CHR 0xE2, CHR 0x89, CHR 0xA4] @ '' '' @ nat_to_string MAX_ID_LENGTH @ '' chars''"
| "domain_error_to_string (InvalidOperation m) = ''invalid operation: '' @ m"
| "domain_error_to_string (InvalidStatus m) = ''invalid status: '' @ m"
| "domain_error_to_string (InvalidKeyId m) = ''invalid key id: '' @ m"
| "domain_error_to_string (InvalidProfile m) = ''invalid profile id: '' @ m"
| "domain_error_to_string (InvalidNonce m) = ''invalid nonce: '' @ m"
| "domain_error_to_string (BuilderFieldMissing f) = ''missing required intent builder field '' @ quoted f"
| "domain_error_to_string (CoreFailure e) = core_error_to_string e"

definition validate_id :: "string \<Rightarrow> string \<Rightarrow> string \<Rightarrow> (unit, domain_error) result" where
  "validate_id kind pre v =
    (let bad = InvalidId kind v pre in
     and_then (ok_or (strip_prefix pre v) bad) (\<lambda>remainder.
       if remainder = [] then Err bad
       else if has_control v then Err bad
       else if char_count v > MAX_ID_LENGTH then Err bad
       else Ok ()))"

definition state_id_new :: "string \<Rightarrow> (string, domain_error) result" where
  "state_id_new v = and_then (validate_id ''state'' ''stc_'' v) (\<lambda>_. Ok v)"

definition intent_id_new :: "string \<Rightarrow> (string, domain_error) result" where
  "intent_id_new v = and_then (validate_id ''intent'' ''int_'' v) (\<lambda>_. Ok v)"

definition event_id_new :: "string \<Rightarrow> (string, domain_error) result" where
  "event_id_new v = and_then (validate_id ''event'' ''evt_'' v) (\<lambda>_. Ok v)"

definition commit_id_new :: "string \<Rightarrow> (string, domain_error) result" where
  "commit_id_new v = and_then (validate_id ''commit'' ''cmt_'' v) (\<lambda>_. Ok v)"

definition snapshot_id_new :: "string \<Rightarrow> (string, domain_error) result" where
  "snapshot_id_new v = and_then (validate_id ''snapshot'' ''snp_'' v) (\<lambda>_. Ok v)"

definition validate_status :: "string \<Rightarrow> (unit, domain_error) result" where
  "validate_status v =
    (if v = [] then Err (InvalidStatus ''status must not be empty'')
     else if has_control v then Err (InvalidStatus ''status must not contain control characters'')
     else if char_count v > MAX_ID_LENGTH
     then Err (InvalidStatus (''status must be at most '' @ nat_to_string MAX_ID_LENGTH @
       '' chars, got '' @ nat_to_string (char_count v)))
     else Ok ())"

definition status_new :: "string \<Rightarrow> (status, domain_error) result" where
  "status_new v = and_then (validate_status v) (\<lambda>_. Ok v)"

definition validate_operation :: "string \<Rightarrow> (unit, domain_error) result" where
  "validate_operation v =
    (if v = [] then Err (InvalidOperation ''operation must not be empty'')
     else if has_control v
     then Err (InvalidOperation ''operation must not contain control characters'')
     else if char_count v > MAX_ID_LENGTH
     then Err (InvalidOperation (''operation must be at most '' @ nat_to_string MAX_ID_LENGTH @
       '' chars, got '' @ nat_to_string (char_count v)))
     else Ok ())"

definition operation_new :: "string \<Rightarrow> (operation, domain_error) result" where
  "operation_new v = and_then (validate_operation v) (\<lambda>_. Ok v)"

definition validate_key_id :: "string \<Rightarrow> (unit, domain_error) result" where
  "validate_key_id v =
    (if v = [] then Err (InvalidKeyId ''key id must not be empty'')
     else if has_control v
     then Err (InvalidKeyId ''key id must not contain control characters'')
     else if char_count v > MAX_ID_LENGTH
     then Err (InvalidKeyId (''key id must be at most '' @ nat_to_string MAX_ID_LENGTH @
       '' chars, got '' @ nat_to_string (char_count v)))
     else Ok ())"

definition key_id_new :: "string \<Rightarrow> (string, domain_error) result" where
  "key_id_new v = and_then (validate_key_id v) (\<lambda>_. Ok v)"

definition validate_profile_id :: "string \<Rightarrow> (unit, domain_error) result" where
  "validate_profile_id v =
    (if v = [] then Err (InvalidProfile ''profile id must not be empty'')
     else if has_control v
     then Err (InvalidProfile ''profile id must not contain control characters'')
     else if char_count v > MAX_ID_LENGTH
     then Err (InvalidProfile (''profile id must be at most '' @ nat_to_string MAX_ID_LENGTH @
       '' chars, got '' @ nat_to_string (char_count v)))
     else Ok ())"

definition profile_id_new :: "string \<Rightarrow> (string, domain_error) result" where
  "profile_id_new v = and_then (validate_profile_id v) (\<lambda>_. Ok v)"

section \<open>Nonces\<close>

text \<open>
  The base64url codec is a third-party crate: \<open>decode\<close> and \<open>encode\<close> are parameters, and a decoding
  error is its message.
\<close>

definition MAX_NONCE_BYTES :: nat where
  "MAX_NONCE_BYTES = 64"

definition nonce_from_bytes :: "byte list \<Rightarrow> (byte list, domain_error) result" where
  "nonce_from_bytes bytes =
    (if length bytes > MAX_NONCE_BYTES
     then Err (InvalidNonce (''nonce must be at most '' @ nat_to_string MAX_NONCE_BYTES @
       '' bytes, got '' @ nat_to_string (length bytes)))
     else Ok bytes)"

definition nonce_from_b64u_str ::
  "(string \<Rightarrow> (byte list, string) result) \<Rightarrow> string \<Rightarrow> (byte list, domain_error) result" where
  "nonce_from_b64u_str decode v =
    and_then (ok_or (strip_prefix ''b64u:'' v)
      (InvalidNonce (''nonce must start with '' @ quoted ''b64u:''))) (\<lambda>encoded.
    and_then (map_err (\<lambda>source. InvalidNonce (''nonce is not valid base64url: '' @ source))
      (decode encoded)) (\<lambda>decoded.
    nonce_from_bytes decoded))"

definition nonce_to_b64u_string :: "(byte list \<Rightarrow> string) \<Rightarrow> byte list \<Rightarrow> string" where
  "nonce_to_b64u_string encode bytes = ''b64u:'' @ encode bytes"

section \<open>JSON values\<close>

text \<open>\<^verbatim>\<open>serde_json::Value\<close>; a float is kept as its 64 bits, an object as its sorted entries.\<close>

datatype json =
    JNull
  | JBool bool
  | JPosInt "64 word"
  | JNegInt "64 word"
  | JFloat "64 word"
  | JString string
  | JArray "json list"
  | JObject "(string \<times> json) list"

type_synonym inputs = "(string, json) btree_map"

fun as_str :: "json \<Rightarrow> string option" where
  "as_str (JString s) = Some s"
| "as_str _ = None"

fun as_bool :: "json \<Rightarrow> bool option" where
  "as_bool (JBool b) = Some b"
| "as_bool _ = None"

fun as_u64 :: "json \<Rightarrow> 64 word option" where
  "as_u64 (JPosInt n) = Some n"
| "as_u64 _ = None"

section \<open>State types and states\<close>

datatype state_type =
    UniqueAssetT | ConsumableStackT | FungibleBalanceT | EntitlementT
  | MeteredResourceT | ListingT | EscrowT | CustomT

fun state_type_as_str :: "state_type \<Rightarrow> string" where
  "state_type_as_str UniqueAssetT = ''unique_asset''"
| "state_type_as_str ConsumableStackT = ''consumable_stack''"
| "state_type_as_str FungibleBalanceT = ''fungible_balance''"
| "state_type_as_str EntitlementT = ''entitlement''"
| "state_type_as_str MeteredResourceT = ''metered_resource''"
| "state_type_as_str ListingT = ''listing''"
| "state_type_as_str EscrowT = ''escrow''"
| "state_type_as_str CustomT = ''custom''"

definition state_type_hint :: "operation \<Rightarrow> state_type option" where
  "state_type_hint name =
    (if starts_with name ''asset.'' then Some UniqueAssetT
     else if starts_with name ''stack.'' then Some ConsumableStackT
     else if starts_with name ''balance.'' then Some FungibleBalanceT
     else if starts_with name ''entitlement.'' then Some EntitlementT
     else if starts_with name ''meter.'' then Some MeteredResourceT
     else if starts_with name ''listing.'' then Some ListingT
     else if starts_with name ''escrow.'' then Some EscrowT
     else None)"

record unique_asset_state =
  ua_owner :: subject_id
  ua_status :: status
  ua_trade_id :: "string option"

record consumable_stack_state =
  cs_subject :: subject_id
  cs_quantity :: amount
  cs_unit :: string

record fungible_balance_state =
  fb_subject :: subject_id
  fb_balance :: amount
  fb_unit :: string

record entitlement_state =
  en_subject :: subject_id
  en_status :: status
  en_transferable :: bool

record meter_state =
  mt_subject :: subject_id
  mt_remaining :: amount
  mt_maximum :: amount

record listing_state =
  ls_seller :: subject_id
  ls_status :: status

record escrow_state =
  es_buyer :: subject_id
  es_seller :: subject_id
  es_status :: status

record custom_state =
  cu_domain :: string
  cu_schema_version :: "32 word"
  cu_payload :: "byte list"

datatype resource_state =
    UniqueAsset unique_asset_state
  | ConsumableStack consumable_stack_state
  | FungibleBalance fungible_balance_state
  | Entitlement entitlement_state
  | MeteredResource meter_state
  | Listing listing_state
  | Escrow escrow_state
  | Custom custom_state

fun rs_state_type :: "resource_state \<Rightarrow> state_type" where
  "rs_state_type (UniqueAsset _) = UniqueAssetT"
| "rs_state_type (ConsumableStack _) = ConsumableStackT"
| "rs_state_type (FungibleBalance _) = FungibleBalanceT"
| "rs_state_type (Entitlement _) = EntitlementT"
| "rs_state_type (MeteredResource _) = MeteredResourceT"
| "rs_state_type (Listing _) = ListingT"
| "rs_state_type (Escrow _) = EscrowT"
| "rs_state_type (Custom _) = CustomT"

fun rs_subject :: "resource_state \<Rightarrow> subject_id option" where
  "rs_subject (ConsumableStack v) = Some (cs_subject v)"
| "rs_subject (FungibleBalance v) = Some (fb_subject v)"
| "rs_subject (Entitlement v) = Some (en_subject v)"
| "rs_subject (MeteredResource v) = Some (mt_subject v)"
| "rs_subject _ = None"

fun rs_owner :: "resource_state \<Rightarrow> subject_id option" where
  "rs_owner (UniqueAsset v) = Some (ua_owner v)"
| "rs_owner _ = None"

fun rs_status :: "resource_state \<Rightarrow> status option" where
  "rs_status (UniqueAsset v) = Some (ua_status v)"
| "rs_status (Entitlement v) = Some (en_status v)"
| "rs_status (Listing v) = Some (ls_status v)"
| "rs_status (Escrow v) = Some (es_status v)"
| "rs_status _ = None"

fun rs_amount :: "resource_state \<Rightarrow> string \<Rightarrow> amount option" where
  "rs_amount (ConsumableStack v) key = (if key = ''quantity'' then Some (cs_quantity v) else None)"
| "rs_amount (FungibleBalance v) key = (if key = ''balance'' then Some (fb_balance v) else None)"
| "rs_amount (MeteredResource v) key =
    (if key = ''remaining'' then Some (mt_remaining v)
     else if key = ''maximum'' then Some (mt_maximum v) else None)"
| "rs_amount _ key = None"

text \<open>The derived \<^verbatim>\<open>PartialEq\<close>: field by field, amounts by value.\<close>

definition rs_eq :: "resource_state \<Rightarrow> resource_state \<Rightarrow> bool" where
  "rs_eq s t \<longleftrightarrow>
    (case s of
       ConsumableStack v \<Rightarrow> (case t of ConsumableStack w \<Rightarrow>
           cs_subject v = cs_subject w \<and> amount_eq (cs_quantity v) (cs_quantity w) \<and>
           cs_unit v = cs_unit w | _ \<Rightarrow> False)
     | FungibleBalance v \<Rightarrow> (case t of FungibleBalance w \<Rightarrow>
           fb_subject v = fb_subject w \<and> amount_eq (fb_balance v) (fb_balance w) \<and>
           fb_unit v = fb_unit w | _ \<Rightarrow> False)
     | MeteredResource v \<Rightarrow> (case t of MeteredResource w \<Rightarrow>
           mt_subject v = mt_subject w \<and> amount_eq (mt_remaining v) (mt_remaining w) \<and>
           amount_eq (mt_maximum v) (mt_maximum w) | _ \<Rightarrow> False)
     | _ \<Rightarrow> s = t)"

section \<open>Projections, intents and events\<close>

record state_projection =
  sp_tenant_id :: tenant_id
  sp_resource_id :: resource_id
  sp_state_type :: state_type
  sp_version :: "64 word"
  sp_last_event_id :: string
  sp_last_commit_id :: string
  sp_state_hash :: content_digest
  sp_state :: resource_state

datatype evaluation_result = Allow | Deny

record authority_proof =
  ap_kind :: string
  ap_evaluation_digest :: content_digest
  ap_result :: evaluation_result
  ap_evaluated_at :: timestamp

record intent =
  in_schema :: string
  in_tenant_id :: tenant_id
  in_intent_id :: string
  in_operation :: operation
  in_actor :: subject_id
  in_resource_id :: resource_id
  in_state_type :: "state_type option"
  in_expected_version :: "64 word"
  in_inputs :: inputs
  in_authority :: "authority_proof option"
  in_created_at :: timestamp
  in_expires_at :: "timestamp option"
  in_nonce :: "byte list"

record state_commitment =
  sc_version :: "64 word"
  sc_state_hash :: content_digest
  sc_state :: resource_state

record event =
  ev_schema :: string
  ev_tenant_id :: tenant_id
  ev_event_id :: string
  ev_intent_id :: string
  ev_operation :: operation
  ev_resource_id :: resource_id
  ev_actor :: subject_id
  ev_before :: state_commitment
  ev_after :: state_commitment
  ev_authority :: "authority_proof option"
  ev_executor :: subject_id
  ev_created_at :: timestamp

definition event_new ::
  "tenant_id \<Rightarrow> string \<Rightarrow> string \<Rightarrow> operation \<Rightarrow> resource_id \<Rightarrow> subject_id \<Rightarrow> state_commitment \<Rightarrow>
    state_commitment \<Rightarrow> authority_proof option \<Rightarrow> subject_id \<Rightarrow> timestamp \<Rightarrow> event" where
  "event_new tenant_id event_id intent_id operation resource_id actor before after authority
      executor created_at =
    \<lparr>ev_schema = ''statechronicle.event.v0'', ev_tenant_id = tenant_id, ev_event_id = event_id,
     ev_intent_id = intent_id, ev_operation = operation, ev_resource_id = resource_id,
     ev_actor = actor, ev_before = before, ev_after = after, ev_authority = authority,
     ev_executor = executor, ev_created_at = created_at\<rparr>"

section \<open>Building intents\<close>

definition intent_new ::
  "tenant_id \<Rightarrow> string \<Rightarrow> operation \<Rightarrow> subject_id \<Rightarrow> resource_id \<Rightarrow> state_type option \<Rightarrow> 64 word \<Rightarrow>
    inputs \<Rightarrow> authority_proof option \<Rightarrow> timestamp \<Rightarrow> timestamp option \<Rightarrow> byte list \<Rightarrow> intent" where
  "intent_new tenant_id intent_id operation actor resource_id st expected_version inputs authority
      created_at expires_at nonce =
    \<lparr>in_schema = ''statechronicle.intent.v0'', in_tenant_id = tenant_id, in_intent_id = intent_id,
     in_operation = operation, in_actor = actor, in_resource_id = resource_id, in_state_type = st,
     in_expected_version = expected_version, in_inputs = inputs, in_authority = authority,
     in_created_at = created_at, in_expires_at = expires_at, in_nonce = nonce\<rparr>"

record intent_builder =
  ib_tenant :: "tenant_id option"
  ib_intent_id :: "string option"
  ib_operation :: "operation option"
  ib_actor :: "subject_id option"
  ib_resource_id :: "resource_id option"
  ib_expected_version :: "64 word"
  ib_state_type :: "state_type option"
  ib_inputs :: inputs
  ib_authority :: "authority_proof option"
  ib_created_at :: "timestamp option"
  ib_expires_at :: "timestamp option"
  ib_nonce :: "byte list option"

definition builder_default :: intent_builder where
  "builder_default =
    \<lparr>ib_tenant = None, ib_intent_id = None, ib_operation = None, ib_actor = None,
     ib_resource_id = None, ib_expected_version = 0, ib_state_type = None, ib_inputs = [],
     ib_authority = None, ib_created_at = None, ib_expires_at = None, ib_nonce = None\<rparr>"

definition builder_input :: "intent_builder \<Rightarrow> string \<Rightarrow> json \<Rightarrow> intent_builder" where
  "builder_input b key v = b\<lparr>ib_inputs := btree_insert key v (ib_inputs b)\<rparr>"

definition builder_build :: "intent_builder \<Rightarrow> (intent, domain_error) result" where
  "builder_build b =
    and_then (ok_or (ib_tenant b) (BuilderFieldMissing ''tenant'')) (\<lambda>tenant.
    and_then (ok_or (ib_intent_id b) (BuilderFieldMissing ''intent_id'')) (\<lambda>intent_id.
    and_then (ok_or (ib_operation b) (BuilderFieldMissing ''operation'')) (\<lambda>operation.
    and_then (ok_or (ib_actor b) (BuilderFieldMissing ''actor'')) (\<lambda>actor.
    and_then (ok_or (ib_resource_id b) (BuilderFieldMissing ''resource_id'')) (\<lambda>resource_id.
    and_then (ok_or (ib_created_at b) (BuilderFieldMissing ''created_at'')) (\<lambda>created_at.
    and_then (ok_or (ib_nonce b) (BuilderFieldMissing ''nonce'')) (\<lambda>nonce.
    Ok (intent_new tenant intent_id operation actor resource_id (ib_state_type b)
      (ib_expected_version b) (ib_inputs b) (ib_authority b) created_at (ib_expires_at b) nonce))))))))"

end
