(* ===== verification/Profile_Base.thy ===== *)
theory Profile_Base
  imports Domain
begin

text \<open>
  What every profile shares (\<^verbatim>\<open>statechronicle-profiles/src\<close>: \<^verbatim>\<open>error.rs\<close>, \<^verbatim>\<open>keys.rs\<close> and the readers
  of \<^verbatim>\<open>registry.rs\<close>): the profile errors, typed access to the inputs of an intent and to the
  fields of the current state, and the three guards on the state an operation starts from.
\<close>

section \<open>Errors\<close>

datatype profile_error =
    ActorMismatch string string
  | ResourceLocked string
  | AtomicityViolation string
  | TransferMismatch string
  | ValueLegSettleRouting string
  | UnknownOperation string
  | InvalidTransition string string
  | InvalidInput string
  | NonPositiveAmount
  | InsufficientQuantity amount amount
  | HardDeleteForbidden
  | FloatForbidden
  | OwnershipMismatch string string
  | NotTransferable

type_synonym 'a presult = "('a, profile_error) result"

section \<open>Reading inputs\<close>

definition input_str :: "inputs \<Rightarrow> string \<Rightarrow> string presult" where
  "input_str inputs key =
    and_then (ok_or (btree_get inputs key) (InvalidInput (''missing input '' @ quoted key))) (\<lambda>v.
    and_then (ok_or (as_str v) (InvalidInput (''input '' @ quoted key @ '' must be a string''))) (\<lambda>text.
    if text = [] then Err (InvalidInput (''input '' @ quoted key @ '' must not be empty''))
    else Ok text))"

text \<open>\<^verbatim>\<open>text.contains(['.', 'e', 'E'])\<close>.\<close>

definition looks_like_float :: "string \<Rightarrow> bool" where
  "looks_like_float text \<longleftrightarrow> list_ex (\<lambda>c. c = CHR ''.'' \<or> c = CHR ''e'' \<or> c = CHR ''E'') text"

definition parse_amount_str :: "json \<Rightarrow> string \<Rightarrow> amount presult" where
  "parse_amount_str v key =
    (let bad = InvalidInput (quoted key @ '' must be an integer string'') in
     and_then (ok_or (as_str v) bad) (\<lambda>text.
     if text = [] then Err bad
     else if looks_like_float text then Err FloatForbidden
     else map_err (\<lambda>_. bad) (try_from_str text)))"

definition input_amount :: "inputs \<Rightarrow> string \<Rightarrow> amount presult" where
  "input_amount inputs key =
    and_then (ok_or (btree_get inputs key) (InvalidInput (''missing input '' @ quoted key)))
      (\<lambda>v. parse_amount_str v key)"

section \<open>Reading the current state\<close>

definition no_field :: "string \<Rightarrow> profile_error" where
  "no_field key = InvalidInput (''state payload has no '' @ quoted key)"

fun state_field :: "resource_state \<Rightarrow> string \<Rightarrow> string presult" where
  "state_field (UniqueAsset v) key =
    (if key = ''owner'' then Ok (ua_owner v)
     else if key = ''status'' then Ok (ua_status v) else Err (no_field key))"
| "state_field (ConsumableStack v) key =
    (if key = ''subject'' then Ok (cs_subject v)
     else if key = ''unit'' then Ok (cs_unit v) else Err (no_field key))"
| "state_field (FungibleBalance v) key =
    (if key = ''subject'' then Ok (fb_subject v)
     else if key = ''unit'' then Ok (fb_unit v) else Err (no_field key))"
| "state_field (Entitlement v) key =
    (if key = ''subject'' then Ok (en_subject v)
     else if key = ''status'' then Ok (en_status v) else Err (no_field key))"
| "state_field (MeteredResource v) key =
    (if key = ''subject'' then Ok (mt_subject v) else Err (no_field key))"
| "state_field (Listing v) key =
    (if key = ''seller'' then Ok (ls_seller v)
     else if key = ''status'' then Ok (ls_status v) else Err (no_field key))"
| "state_field (Custom v) key = Err (no_field key)"
| "state_field (Escrow v) key =
    (if key = ''buyer'' then Ok (es_buyer v)
     else if key = ''seller'' then Ok (es_seller v)
     else if key = ''status'' then Ok (es_status v) else Err (no_field key))"

definition state_str :: "state_projection \<Rightarrow> string \<Rightarrow> string presult" where
  "state_str projection key =
    and_then (state_field (sp_state projection) key) (\<lambda>text.
    if text = [] then Err (InvalidInput (quoted key @ '' must not be empty'')) else Ok text)"

definition state_trade_id :: "state_projection \<Rightarrow> string presult" where
  "state_trade_id projection =
    (let bad = InvalidInput (''state has no '' @ quoted ''trade_id'') in
     case sp_state projection of
       UniqueAsset v \<Rightarrow> ok_or (ua_trade_id v) bad
     | _ \<Rightarrow> Err bad)"

definition state_amount :: "state_projection \<Rightarrow> string \<Rightarrow> amount presult" where
  "state_amount projection key =
    (case sp_state projection of
       ConsumableStack v \<Rightarrow> if key = ''quantity'' then Ok (cs_quantity v) else Err (no_field key)
     | FungibleBalance v \<Rightarrow> if key = ''balance'' then Ok (fb_balance v) else Err (no_field key)
     | MeteredResource v \<Rightarrow>
         if key = ''remaining'' then Ok (mt_remaining v)
         else if key = ''maximum'' then Ok (mt_maximum v) else Err (no_field key)
     | _ \<Rightarrow> Err (no_field key))"

definition state_bool :: "state_projection \<Rightarrow> string \<Rightarrow> bool presult" where
  "state_bool projection key =
    (case sp_state projection of
       Entitlement v \<Rightarrow> if key = ''transferable'' then Ok (en_transferable v) else Err (no_field key)
     | _ \<Rightarrow> Err (no_field key))"

section \<open>Guards on the source state\<close>

definition require_current :: "state_projection option \<Rightarrow> operation \<Rightarrow> state_projection presult" where
  "require_current current operation = ok_or current (InvalidTransition ''unborn'' operation)"

definition require_unborn :: "state_projection option \<Rightarrow> operation \<Rightarrow> unit presult" where
  "require_unborn current operation =
    (if current \<noteq> None then Err (InvalidTransition ''existing'' operation) else Ok ())"

definition require_from ::
  "state_projection option \<Rightarrow> operation \<Rightarrow> status list \<Rightarrow> state_projection presult" where
  "require_from current operation allowed_from =
    and_then (require_current current operation) (\<lambda>projection.
    and_then (state_str projection ''status'') (\<lambda>from.
    and_then (map_err (\<lambda>_. InvalidInput from) (status_new from)) (\<lambda>from_status.
    if from_status \<notin> set allowed_from then Err (InvalidTransition from operation)
    else Ok projection)))"

text \<open>The guard of the transitions without inputs, repeated in each profile module.\<close>

definition single_from :: "state_projection option \<Rightarrow> operation \<Rightarrow> status list \<Rightarrow> unit presult" where
  "single_from current operation allowed_from =
    and_then (require_from current operation allowed_from) (\<lambda>_. Ok ())"

text \<open>The two amount guards of the quantity profiles.\<close>

definition require_positive :: "amount \<Rightarrow> unit presult" where
  "require_positive amount = (if is_zero amount then Err NonPositiveAmount else Ok ())"

definition require_positive_available :: "amount \<Rightarrow> amount \<Rightarrow> unit presult" where
  "require_positive_available requested available =
    (if is_zero requested then Err NonPositiveAmount
     else if amount_less available requested then Err (InsufficientQuantity available requested)
     else Ok ())"

section \<open>When the readers and guards succeed\<close>

named_theorems reader_simps \<open>success of the readers and guards, in terms of the data read\<close>

lemma as_str_Some [simp]: "as_str v = Some t \<longleftrightarrow> v = JString t"
  by (cases v) auto

lemma input_str_Ok [reader_simps]:
  "input_str inputs key = Ok t \<longleftrightarrow> btree_get inputs key = Some (JString t) \<and> t \<noteq> []"
  by (auto simp: input_str_def)

lemma digits_not_float: "list_all is_ascii_digit t \<Longrightarrow> \<not> looks_like_float t"
  by (auto simp: looks_like_float_def list_all_iff list_ex_iff is_ascii_digit_def dest!: bspec)

lemma input_amount_Ok [reader_simps]:
  "input_amount inputs key = Ok a \<longleftrightarrow> (\<exists>t. btree_get inputs key = Some (JString t) \<and> try_from_str t = Ok a)"
proof -
  have "\<not> looks_like_float t \<and> t \<noteq> []" if "try_from_str t = Ok a" for t
    using that digits_not_float by (simp add: try_from_str_Ok)
  then show ?thesis by (auto simp: input_amount_def parse_amount_str_def Let_def)
qed

lemma require_current_Ok [reader_simps]: "require_current current op = Ok p \<longleftrightarrow> current = Some p"
  by (simp add: require_current_def)

lemma require_unborn_Ok [reader_simps]: "require_unborn current op = Ok u \<longleftrightarrow> current = None"
  by (simp add: require_unborn_def)

lemma state_str_Ok [reader_simps]:
  "state_str p key = Ok t \<longleftrightarrow> state_field (sp_state p) key = Ok t \<and> t \<noteq> []"
  by (auto simp: state_str_def)

lemma state_field_status [reader_simps]:
  "state_field s ''status'' = Ok t \<longleftrightarrow> rs_status s = Some t"
  by (cases s) auto

lemma status_new_Ok [reader_simps]: "status_new s = Ok t \<longleftrightarrow> t = s \<and> validate_status s = Ok ()"
  by (auto simp: status_new_def)

lemma require_from_Ok [reader_simps]:
  "require_from current op allowed = Ok p \<longleftrightarrow>
    current = Some p \<and>
    (\<exists>s. rs_status (sp_state p) = Some s \<and> s \<in> set allowed \<and> validate_status s = Ok ())"
  by (auto simp: require_from_def reader_simps validate_status_def)

lemma single_from_Ok [reader_simps]:
  "single_from current op allowed = Ok u \<longleftrightarrow>
    (\<exists>p s. current = Some p \<and> rs_status (sp_state p) = Some s \<and> s \<in> set allowed \<and>
      validate_status s = Ok ())"
  by (auto simp: single_from_def reader_simps)

lemma require_positive_Ok [reader_simps]:
  "require_positive a = Ok u \<longleftrightarrow> 0 < amount_value a"
  by (simp add: require_positive_def order_less_le)

lemma require_positive_available_Ok [reader_simps]:
  "require_positive_available requested available = Ok u \<longleftrightarrow>
    0 < amount_value requested \<and> amount_value requested \<le> amount_value available"
  by (auto simp: require_positive_available_def order_less_le)

lemma state_trade_id_Ok [reader_simps]:
  "state_trade_id p = Ok t \<longleftrightarrow> (\<exists>v. sp_state p = UniqueAsset v \<and> ua_trade_id v = Some t)"
  by (cases "sp_state p") (auto simp: state_trade_id_def)

lemma state_bool_Ok [reader_simps]:
  "state_bool p key = Ok b \<longleftrightarrow>
    key = ''transferable'' \<and> (\<exists>v. sp_state p = Entitlement v \<and> b = en_transferable v)"
  by (cases "sp_state p") (auto simp: state_bool_def)

lemma state_amount_Ok [reader_simps]:
  "state_amount p key = Ok a \<longleftrightarrow> rs_amount (sp_state p) key = Some a"
  by (cases "sp_state p") (auto simp: state_amount_def)

end
