(* ===== verification/Unique_Asset.thy ===== *)
theory Unique_Asset
  imports Profile_Base
begin

text \<open>
  The rule sets of unique assets (\<^verbatim>\<open>unique_asset.rs\<close>) and of paid unique assets
  (\<^verbatim>\<open>paid_unique_asset.rs\<close>): which operation may start from which status, who must own the asset
  and which inputs an operation needs. The paid rules are an overlay on the plain ones.
\<close>

section \<open>Unique assets\<close>

definition ua_ops :: "operation list" where
  "ua_ops =
    [''asset.mint'', ''asset.transfer'', ''asset.burn'', ''asset.lock'', ''asset.unlock'',
     ''asset.redeem'', ''asset.list'', ''asset.delist'', ''asset.escrow'', ''asset.release'',
     ''asset.attach_content'', ''asset.detach_content'', ''asset.update_metadata'',
     ''asset.restrict'', ''asset.restore'', ''trade.lock'', ''trade.unlock'', ''trade.settle'']"

definition ua_authority_required :: "operation list" where
  "ua_authority_required = [''asset.transfer'', ''asset.burn'', ''trade.settle'']"

definition ua_requires_authority :: "operation \<Rightarrow> bool" where
  "ua_requires_authority op \<longleftrightarrow> op \<in> set ua_authority_required"

definition ua_check_mint :: "state_projection option \<Rightarrow> inputs \<Rightarrow> unit presult" where
  "ua_check_mint current inputs =
    (case current of
       Some c \<Rightarrow> and_then (state_str c ''status'') (\<lambda>from. Err (InvalidTransition from ''asset.mint''))
     | None \<Rightarrow> and_then (input_str inputs ''to_owner'') (\<lambda>_. Ok ()))"

definition ua_check_transfer :: "state_projection option \<Rightarrow> inputs \<Rightarrow> unit presult" where
  "ua_check_transfer current inputs =
    and_then (require_from current ''asset.transfer'' [''active'']) (\<lambda>c.
    and_then (input_str inputs ''from_owner'') (\<lambda>from_owner.
    and_then (input_str inputs ''to_owner'') (\<lambda>_.
    and_then (state_str c ''owner'') (\<lambda>owner.
    if from_owner \<noteq> owner then Err (OwnershipMismatch owner from_owner) else Ok ()))))"

definition ua_check_burn :: "state_projection option \<Rightarrow> inputs \<Rightarrow> unit presult" where
  "ua_check_burn current inputs =
    and_then (require_from current ''asset.burn'' [''active'']) (\<lambda>c.
    and_then (input_str inputs ''from_owner'') (\<lambda>from_owner.
    and_then (state_str c ''owner'') (\<lambda>owner.
    if from_owner \<noteq> owner then Err (OwnershipMismatch owner from_owner) else Ok ())))"

definition check_trade_lock :: "state_projection option \<Rightarrow> inputs \<Rightarrow> unit presult" where
  "check_trade_lock current inputs =
    and_then (require_from current ''trade.lock'' [''active'']) (\<lambda>c.
    and_then (input_str inputs ''from_owner'') (\<lambda>from_owner.
    and_then (input_str inputs ''trade_id'') (\<lambda>_.
    and_then (state_str c ''owner'') (\<lambda>owner.
    if from_owner \<noteq> owner then Err (OwnershipMismatch owner from_owner) else Ok ()))))"

definition trade_id_mismatch :: "string \<Rightarrow> profile_error" where
  "trade_id_mismatch trade_id =
    InvalidInput (''trade_id '' @ quoted trade_id @ '' does not match stored trade_id'')"

definition check_trade_unlock :: "state_projection option \<Rightarrow> inputs \<Rightarrow> unit presult" where
  "check_trade_unlock current inputs =
    and_then (require_from current ''trade.unlock'' [''trade_held'']) (\<lambda>c.
    and_then (input_str inputs ''trade_id'') (\<lambda>trade_id.
    and_then (state_trade_id c) (\<lambda>stored.
    if trade_id \<noteq> stored then Err (trade_id_mismatch trade_id) else Ok ())))"

definition check_value_leg :: "inputs \<Rightarrow> unit presult" where
  "check_value_leg inputs =
    (if btree_get inputs ''value_resource'' = None \<and> btree_get inputs ''value_amount'' = None \<and>
        btree_get inputs ''value_to_subject'' = None
     then Ok ()
     else
       and_then (input_str inputs ''value_resource'') (\<lambda>_.
       and_then (input_amount inputs ''value_amount'') (\<lambda>_.
       and_then (input_str inputs ''value_to_subject'') (\<lambda>_. Ok ()))))"

definition check_trade_settle :: "state_projection option \<Rightarrow> inputs \<Rightarrow> unit presult" where
  "check_trade_settle current inputs =
    and_then (require_from current ''trade.settle'' [''trade_held'']) (\<lambda>c.
    and_then (input_str inputs ''from_owner'') (\<lambda>from_owner.
    and_then (input_str inputs ''to_owner'') (\<lambda>_.
    and_then (input_str inputs ''trade_id'') (\<lambda>trade_id.
    and_then (check_value_leg inputs) (\<lambda>_.
    and_then (state_str c ''owner'') (\<lambda>owner.
    and_then (state_trade_id c) (\<lambda>stored.
    if from_owner \<noteq> owner then Err (OwnershipMismatch owner from_owner)
    else if trade_id \<noteq> stored then Err (trade_id_mismatch trade_id)
    else Ok ())))))))"

definition ua_check :: "operation \<Rightarrow> state_projection option \<Rightarrow> inputs \<Rightarrow> unit presult" where
  "ua_check op current inputs =
    (if op \<notin> set ua_ops then Err (UnknownOperation op)
     else if op = ''asset.mint'' then ua_check_mint current inputs
     else if op = ''asset.transfer'' then ua_check_transfer current inputs
     else if op = ''asset.burn'' then ua_check_burn current inputs
     else if op = ''asset.lock'' then single_from current ''asset.lock'' [''active'']
     else if op = ''asset.unlock'' then single_from current ''asset.unlock'' [''locked'']
     else if op = ''asset.list'' then single_from current ''asset.list'' [''active'']
     else if op = ''asset.delist'' then single_from current ''asset.delist'' [''listed'']
     else if op = ''asset.escrow'' then single_from current ''asset.escrow'' [''active'']
     else if op = ''asset.release'' then single_from current ''asset.release'' [''escrowed'']
     else if op = ''asset.redeem'' then single_from current ''asset.redeem'' [''listed'']
     else if op = ''asset.attach_content'' then single_from current ''asset.attach_content'' [''active'']
     else if op = ''asset.detach_content'' then single_from current ''asset.detach_content'' [''active'']
     else if op = ''asset.update_metadata'' then single_from current ''asset.update_metadata'' [''active'']
     else if op = ''asset.restrict''
     then single_from current ''asset.restrict''
       [''active'', ''locked'', ''listed'', ''escrowed'', ''trade_held'']
     else if op = ''asset.restore''
     then single_from current ''asset.restore'' [''restricted'', ''quarantined'', ''unsupported'']
     else if op = ''trade.lock'' then check_trade_lock current inputs
     else if op = ''trade.unlock'' then check_trade_unlock current inputs
     else if op = ''trade.settle'' then check_trade_settle current inputs
     else Err (UnknownOperation op))"

section \<open>Paid unique assets\<close>

definition paid_ops :: "operation list" where
  "paid_ops =
    [''asset.mint'', ''asset.transfer'', ''asset.burn'', ''asset.lock'', ''asset.unlock'',
     ''asset.redeem'', ''asset.list'', ''asset.delist'', ''asset.escrow'', ''asset.release'',
     ''asset.attach_content'', ''asset.detach_content'', ''asset.update_metadata'',
     ''asset.restrict'', ''asset.restore'', ''asset.hard_delete'', ''trade.lock'', ''trade.unlock'',
     ''trade.settle'']"

definition paid_authority_required :: "operation list" where
  "paid_authority_required =
    [''asset.transfer'', ''asset.burn'', ''asset.hard_delete'', ''asset.restrict'', ''asset.restore'',
     ''trade.settle'']"

definition paid_requires_authority :: "operation \<Rightarrow> bool" where
  "paid_requires_authority op \<longleftrightarrow> op \<in> set paid_authority_required"

definition paid_exceptional_statuses :: "status list" where
  "paid_exceptional_statuses =
    [''restricted'', ''quarantined'', ''unsupported'', ''legal_hold'', ''fraud_lock'',
     ''policy_restricted'']"

definition authorized_by_owner :: "inputs \<Rightarrow> bool" where
  "authorized_by_owner inputs \<longleftrightarrow>
    Option.bind (btree_get inputs ''authorized_by_owner'') as_bool = Some True"

definition check_hard_delete :: "state_projection option \<Rightarrow> inputs \<Rightarrow> unit presult" where
  "check_hard_delete current inputs =
    and_then (require_current current ''asset.hard_delete'') (\<lambda>c.
    and_then (state_str c ''owner'') (\<lambda>owner.
    and_then (input_str inputs ''actor'') (\<lambda>actor.
    if actor \<noteq> owner then Err (OwnershipMismatch owner actor)
    else if \<not> authorized_by_owner inputs then Err HardDeleteForbidden
    else Ok ())))"

definition check_owner_consent_overlay ::
  "state_projection option \<Rightarrow> inputs \<Rightarrow> operation \<Rightarrow> status list \<Rightarrow> unit presult" where
  "check_owner_consent_overlay current inputs operation allowed_from =
    and_then (require_from current operation allowed_from) (\<lambda>c.
    and_then (state_str c ''owner'') (\<lambda>owner.
    case Option.bind (btree_get inputs ''actor'') as_str of
      None \<Rightarrow> Ok ()
    | Some actor \<Rightarrow>
        if actor = owner then Ok ()
        else if \<not> authorized_by_owner inputs then Err (OwnershipMismatch owner actor)
        else Ok ()))"

definition check_transfer_overlay :: "state_projection option \<Rightarrow> inputs \<Rightarrow> unit presult" where
  "check_transfer_overlay current inputs =
    and_then (require_from current ''asset.transfer'' [''active'']) (\<lambda>c.
    and_then (state_str c ''owner'') (\<lambda>owner.
    case Option.bind (btree_get inputs ''actor'') as_str of
      None \<Rightarrow> Ok ()
    | Some actor \<Rightarrow>
        if actor = owner then Ok ()
        else if \<not> authorized_by_owner inputs then Err (OwnershipMismatch owner actor)
        else Ok ()))"

definition check_trade_lock_overlay :: "state_projection option \<Rightarrow> inputs \<Rightarrow> unit presult" where
  "check_trade_lock_overlay current inputs =
    check_owner_consent_overlay current inputs ''trade.lock'' [''active'']"

definition check_trade_settle_overlay :: "state_projection option \<Rightarrow> inputs \<Rightarrow> unit presult" where
  "check_trade_settle_overlay current inputs =
    check_owner_consent_overlay current inputs ''trade.settle'' [''trade_held'']"

definition check_restrict_overlay :: "state_projection option \<Rightarrow> inputs \<Rightarrow> unit presult" where
  "check_restrict_overlay current inputs =
    and_then (require_from current ''asset.restrict''
      [''active'', ''locked'', ''listed'', ''escrowed'', ''trade_held'']) (\<lambda>c.
    and_then (state_str c ''owner'') (\<lambda>owner.
    and_then (case Option.bind (btree_get inputs ''owner'') as_str of
        Some provided \<Rightarrow>
          if provided \<noteq> owner then Err (OwnershipMismatch owner provided) else Ok ()
      | None \<Rightarrow> Ok ()) (\<lambda>_.
    case Option.bind (btree_get inputs ''status'') as_str of
      None \<Rightarrow> Ok ()
    | Some target \<Rightarrow>
        let bad = InvalidInput (quoted ''status'' @ '' '' @ quoted target @
          '' is not an exceptional status'') in
        and_then (map_err (\<lambda>_. bad) (status_new target)) (\<lambda>target_status.
        if target_status \<notin> set paid_exceptional_statuses then Err bad else Ok ()))))"

definition check_paid_restore :: "state_projection option \<Rightarrow> unit presult" where
  "check_paid_restore current =
    and_then (require_from current ''asset.restore''
      [''restricted'', ''quarantined'', ''unsupported'', ''legal_hold'', ''fraud_lock'',
       ''policy_restricted'']) (\<lambda>_. Ok ())"

definition paid_check :: "operation \<Rightarrow> state_projection option \<Rightarrow> inputs \<Rightarrow> unit presult" where
  "paid_check op current inputs =
    (if op = ''asset.hard_delete'' then check_hard_delete current inputs
     else if op = ''asset.restore'' then check_paid_restore current
     else if op \<notin> set ua_ops then Err (UnknownOperation op)
     else and_then (ua_check op current inputs) (\<lambda>_.
       if op = ''asset.transfer'' then check_transfer_overlay current inputs
       else if op = ''asset.restrict'' then check_restrict_overlay current inputs
       else if op = ''trade.lock'' then check_trade_lock_overlay current inputs
       else if op = ''trade.settle'' then check_trade_settle_overlay current inputs
       else Ok ()))"

end
