(* ===== verification/Consumable_Stack.thy ===== *)
theory Consumable_Stack
  imports Profile_Base
begin

text \<open>
  The rule set of consumable stacks (\<^verbatim>\<open>consumable_stack.rs\<close>): a stack has no status; every
  operation but the creation needs an existing stack, and amounts taken out must be positive and
  available.
\<close>

definition stack_ops :: "operation list" where
  "stack_ops =
    [''stack.create'', ''stack.credit'', ''stack.debit'', ''stack.consume'', ''stack.transfer'',
     ''stack.reserve'', ''stack.release'', ''stack.expire'', ''stack.adjust'']"

definition current_quantity :: "state_projection \<Rightarrow> amount presult" where
  "current_quantity current = state_amount current ''quantity''"

definition stack_check_create :: "state_projection option \<Rightarrow> inputs \<Rightarrow> unit presult" where
  "stack_check_create current inputs =
    and_then (require_unborn current ''stack.create'') (\<lambda>_.
    and_then (input_str inputs ''subject'') (\<lambda>_.
    and_then (input_str inputs ''unit'') (\<lambda>_.
    and_then (input_amount inputs ''quantity'') (\<lambda>_. Ok ()))))"

definition stack_check_credit :: "state_projection option \<Rightarrow> inputs \<Rightarrow> unit presult" where
  "stack_check_credit current inputs =
    and_then (require_current current ''stack.credit'') (\<lambda>_.
    and_then (input_amount inputs ''quantity'') (\<lambda>_. Ok ()))"

definition stack_check_debit :: "state_projection option \<Rightarrow> inputs \<Rightarrow> unit presult" where
  "stack_check_debit current inputs =
    and_then (require_current current ''stack.debit'') (\<lambda>c.
    and_then (current_quantity c) (\<lambda>available.
    and_then (input_amount inputs ''quantity'') (\<lambda>requested.
    require_positive_available requested available)))"

definition stack_check_consume :: "state_projection option \<Rightarrow> inputs \<Rightarrow> unit presult" where
  "stack_check_consume current inputs =
    and_then (require_current current ''stack.consume'') (\<lambda>c.
    and_then (current_quantity c) (\<lambda>available.
    and_then (input_amount inputs ''quantity'') (\<lambda>requested.
    require_positive_available requested available)))"

definition stack_check_transfer :: "state_projection option \<Rightarrow> inputs \<Rightarrow> unit presult" where
  "stack_check_transfer current inputs =
    and_then (require_current current ''stack.transfer'') (\<lambda>c.
    and_then (input_str inputs ''to_subject'') (\<lambda>_.
    and_then (current_quantity c) (\<lambda>available.
    and_then (input_amount inputs ''quantity'') (\<lambda>requested.
    require_positive_available requested available))))"

definition stack_check_reserve :: "state_projection option \<Rightarrow> inputs \<Rightarrow> unit presult" where
  "stack_check_reserve current inputs =
    and_then (require_current current ''stack.reserve'') (\<lambda>c.
    and_then (current_quantity c) (\<lambda>available.
    and_then (input_amount inputs ''quantity'') (\<lambda>requested.
    require_positive_available requested available)))"

definition stack_check_release :: "state_projection option \<Rightarrow> inputs \<Rightarrow> unit presult" where
  "stack_check_release current inputs =
    and_then (require_current current ''stack.release'') (\<lambda>_.
    and_then (input_amount inputs ''quantity'') (\<lambda>requested.
    if is_zero requested then Err NonPositiveAmount else Ok ()))"

definition stack_check_expire :: "state_projection option \<Rightarrow> unit presult" where
  "stack_check_expire current =
    and_then (require_current current ''stack.expire'') (\<lambda>_. Ok ())"

definition stack_check_adjust :: "state_projection option \<Rightarrow> inputs \<Rightarrow> unit presult" where
  "stack_check_adjust current inputs =
    and_then (require_current current ''stack.adjust'') (\<lambda>_.
    and_then (input_amount inputs ''quantity'') (\<lambda>_. Ok ()))"

definition stack_check :: "operation \<Rightarrow> state_projection option \<Rightarrow> inputs \<Rightarrow> unit presult" where
  "stack_check op current inputs =
    (if op \<notin> set stack_ops then Err (UnknownOperation op)
     else if op = ''stack.create'' then stack_check_create current inputs
     else if op = ''stack.credit'' then stack_check_credit current inputs
     else if op = ''stack.debit'' then stack_check_debit current inputs
     else if op = ''stack.consume'' then stack_check_consume current inputs
     else if op = ''stack.transfer'' then stack_check_transfer current inputs
     else if op = ''stack.reserve'' then stack_check_reserve current inputs
     else if op = ''stack.release'' then stack_check_release current inputs
     else if op = ''stack.expire'' then stack_check_expire current
     else if op = ''stack.adjust'' then stack_check_adjust current inputs
     else Err (UnknownOperation op))"

lemmas stack_check_defs =
  stack_check_def stack_check_create_def stack_check_credit_def stack_check_debit_def
  stack_check_consume_def stack_check_transfer_def stack_check_reserve_def stack_check_release_def
  stack_check_expire_def stack_check_adjust_def current_quantity_def stack_ops_def

end
