(* ===== verification/Fungible_Balance.thy ===== *)
theory Fungible_Balance
  imports Profile_Base
begin

text \<open>
  The rule set of fungible balances (\<^verbatim>\<open>fungible_balance.rs\<close>): every amount is strictly positive,
  amounts taken out are available, and minting and burning name an authorizing party.
\<close>

definition balance_ops :: "operation list" where
  "balance_ops =
    [''balance.create'', ''balance.mint'', ''balance.credit'', ''balance.debit'',
     ''balance.transfer'', ''balance.reserve'', ''balance.release'', ''balance.spend'',
     ''balance.burn'', ''balance.convert'']"

definition current_balance :: "state_projection \<Rightarrow> amount presult" where
  "current_balance current = state_amount current ''balance''"

definition balance_check_create :: "state_projection option \<Rightarrow> inputs \<Rightarrow> unit presult" where
  "balance_check_create current inputs =
    and_then (require_unborn current ''balance.create'') (\<lambda>_.
    and_then (input_str inputs ''subject'') (\<lambda>_.
    and_then (input_str inputs ''unit'') (\<lambda>_.
    and_then (input_amount inputs ''balance'') (\<lambda>_. Ok ()))))"

definition balance_check_mint :: "state_projection option \<Rightarrow> inputs \<Rightarrow> unit presult" where
  "balance_check_mint current inputs =
    and_then (require_current current ''balance.mint'') (\<lambda>c.
    and_then (input_str inputs ''authorized_by'') (\<lambda>_.
    and_then (input_amount inputs ''amount'') (\<lambda>amount.
    and_then (current_balance c) (\<lambda>_. require_positive amount))))"

definition balance_check_credit :: "state_projection option \<Rightarrow> inputs \<Rightarrow> unit presult" where
  "balance_check_credit current inputs =
    and_then (require_current current ''balance.credit'') (\<lambda>c.
    and_then (input_amount inputs ''amount'') (\<lambda>amount.
    and_then (current_balance c) (\<lambda>_. require_positive amount)))"

definition balance_check_debit :: "state_projection option \<Rightarrow> inputs \<Rightarrow> unit presult" where
  "balance_check_debit current inputs =
    and_then (require_current current ''balance.debit'') (\<lambda>c.
    and_then (current_balance c) (\<lambda>balance.
    and_then (input_amount inputs ''amount'') (\<lambda>amount.
    require_positive_available amount balance)))"

definition balance_check_transfer :: "state_projection option \<Rightarrow> inputs \<Rightarrow> unit presult" where
  "balance_check_transfer current inputs =
    and_then (require_current current ''balance.transfer'') (\<lambda>c.
    and_then (input_str inputs ''to_subject'') (\<lambda>_.
    and_then (current_balance c) (\<lambda>balance.
    and_then (input_amount inputs ''amount'') (\<lambda>amount.
    require_positive_available amount balance))))"

definition balance_check_reserve :: "state_projection option \<Rightarrow> inputs \<Rightarrow> unit presult" where
  "balance_check_reserve current inputs =
    and_then (require_current current ''balance.reserve'') (\<lambda>c.
    and_then (current_balance c) (\<lambda>balance.
    and_then (input_amount inputs ''amount'') (\<lambda>amount.
    require_positive_available amount balance)))"

definition balance_check_release :: "state_projection option \<Rightarrow> inputs \<Rightarrow> unit presult" where
  "balance_check_release current inputs =
    and_then (require_current current ''balance.release'') (\<lambda>c.
    and_then (input_amount inputs ''amount'') (\<lambda>amount.
    and_then (current_balance c) (\<lambda>_. require_positive amount)))"

definition balance_check_spend :: "state_projection option \<Rightarrow> inputs \<Rightarrow> unit presult" where
  "balance_check_spend current inputs =
    and_then (require_current current ''balance.spend'') (\<lambda>c.
    and_then (current_balance c) (\<lambda>balance.
    and_then (input_amount inputs ''amount'') (\<lambda>amount.
    require_positive_available amount balance)))"

definition balance_check_burn :: "state_projection option \<Rightarrow> inputs \<Rightarrow> unit presult" where
  "balance_check_burn current inputs =
    and_then (require_current current ''balance.burn'') (\<lambda>c.
    and_then (input_str inputs ''authorized_by'') (\<lambda>_.
    and_then (current_balance c) (\<lambda>balance.
    and_then (input_amount inputs ''amount'') (\<lambda>amount.
    require_positive_available amount balance))))"

definition balance_check_convert :: "state_projection option \<Rightarrow> inputs \<Rightarrow> unit presult" where
  "balance_check_convert current inputs =
    and_then (require_current current ''balance.convert'') (\<lambda>c.
    and_then (input_str inputs ''to_unit'') (\<lambda>_.
    and_then (current_balance c) (\<lambda>balance.
    and_then (input_amount inputs ''amount'') (\<lambda>amount.
    require_positive_available amount balance))))"

definition balance_check :: "operation \<Rightarrow> state_projection option \<Rightarrow> inputs \<Rightarrow> unit presult" where
  "balance_check op current inputs =
    (if op \<notin> set balance_ops then Err (UnknownOperation op)
     else if op = ''balance.create'' then balance_check_create current inputs
     else if op = ''balance.mint'' then balance_check_mint current inputs
     else if op = ''balance.credit'' then balance_check_credit current inputs
     else if op = ''balance.debit'' then balance_check_debit current inputs
     else if op = ''balance.transfer'' then balance_check_transfer current inputs
     else if op = ''balance.reserve'' then balance_check_reserve current inputs
     else if op = ''balance.release'' then balance_check_release current inputs
     else if op = ''balance.spend'' then balance_check_spend current inputs
     else if op = ''balance.burn'' then balance_check_burn current inputs
     else if op = ''balance.convert'' then balance_check_convert current inputs
     else Err (UnknownOperation op))"

lemmas balance_check_defs =
  balance_check_def balance_check_create_def balance_check_mint_def balance_check_credit_def
  balance_check_debit_def balance_check_transfer_def balance_check_reserve_def
  balance_check_release_def balance_check_spend_def balance_check_burn_def
  balance_check_convert_def current_balance_def balance_ops_def

end
