(* ===== verification/Entitlement_Rules.thy ===== *)
theory Entitlement_Rules
  imports Profile_Base
begin

text \<open>
  The rule set of entitlements (\<^verbatim>\<open>entitlement.rs\<close>): the life cycle from granted to expired or
  revoked, and transfers of the entitlements that are marked transferable.
\<close>

definition entitlement_ops :: "operation list" where
  "entitlement_ops =
    [''entitlement.grant'', ''entitlement.activate'', ''entitlement.suspend'',
     ''entitlement.restore'', ''entitlement.expire'', ''entitlement.revoke'',
     ''entitlement.transfer'']"

fun is_boolean :: "json \<Rightarrow> bool" where
  "is_boolean (JBool b) = True"
| "is_boolean _ = False"

definition check_grant :: "state_projection option \<Rightarrow> inputs \<Rightarrow> unit presult" where
  "check_grant current inputs =
    and_then (require_unborn current ''entitlement.grant'') (\<lambda>_.
    and_then (input_str inputs ''subject'') (\<lambda>_.
    case btree_get inputs ''transferable'' of
      Some v \<Rightarrow> if \<not> is_boolean v
        then Err (InvalidInput (quoted ''transferable'' @ '' must be a boolean'')) else Ok ()
    | None \<Rightarrow> Ok ()))"

definition is_transferable :: "state_projection \<Rightarrow> bool presult" where
  "is_transferable current = state_bool current ''transferable''"

definition entitlement_check_transfer :: "state_projection option \<Rightarrow> inputs \<Rightarrow> unit presult" where
  "entitlement_check_transfer current inputs =
    and_then (require_from current ''entitlement.transfer'' [''granted'', ''active'']) (\<lambda>c.
    and_then (is_transferable c) (\<lambda>b.
    if \<not> b then Err NotTransferable
    else and_then (input_str inputs ''to_subject'') (\<lambda>_. Ok ())))"

definition entitlement_check :: "operation \<Rightarrow> state_projection option \<Rightarrow> inputs \<Rightarrow> unit presult" where
  "entitlement_check op current inputs =
    (if op \<notin> set entitlement_ops then Err (UnknownOperation op)
     else if op = ''entitlement.grant'' then check_grant current inputs
     else if op = ''entitlement.activate''
     then single_from current ''entitlement.activate'' [''granted'']
     else if op = ''entitlement.suspend'' then single_from current ''entitlement.suspend'' [''active'']
     else if op = ''entitlement.restore''
     then single_from current ''entitlement.restore'' [''suspended'']
     else if op = ''entitlement.expire''
     then single_from current ''entitlement.expire'' [''granted'', ''active'', ''suspended'']
     else if op = ''entitlement.revoke''
     then single_from current ''entitlement.revoke'' [''granted'', ''active'']
     else if op = ''entitlement.transfer'' then entitlement_check_transfer current inputs
     else Err (UnknownOperation op))"

lemmas entitlement_check_defs =
  entitlement_check_def check_grant_def is_transferable_def entitlement_check_transfer_def
  entitlement_ops_def

end
