(* ===== verification/Meter_Rules.thy ===== *)
theory Meter_Rules
  imports Profile_Base
begin

text \<open>
  The rule set of metered resources (\<^verbatim>\<open>meter.rs\<close>): a remaining allowance that is never above the
  maximum when the meter is created, and consumption of a positive, available amount.
\<close>

definition meter_ops :: "operation list" where
  "meter_ops =
    [''meter.create'', ''meter.consume'', ''meter.refill'', ''meter.set_maximum'', ''meter.reset'',
     ''meter.expire'']"

definition current_remaining :: "state_projection \<Rightarrow> amount presult" where
  "current_remaining current = state_amount current ''remaining''"

definition current_maximum :: "state_projection \<Rightarrow> amount presult" where
  "current_maximum current = state_amount current ''maximum''"

definition meter_check_create :: "state_projection option \<Rightarrow> inputs \<Rightarrow> unit presult" where
  "meter_check_create current inputs =
    and_then (require_unborn current ''meter.create'') (\<lambda>_.
    and_then (input_str inputs ''subject'') (\<lambda>_.
    and_then (input_amount inputs ''remaining'') (\<lambda>remaining.
    and_then (input_amount inputs ''maximum'') (\<lambda>maximum.
    if amount_less maximum remaining
    then Err (InvalidInput (quoted ''remaining'' @ '' must not exceed '' @ quoted ''maximum''))
    else Ok ()))))"

definition meter_check_consume :: "state_projection option \<Rightarrow> inputs \<Rightarrow> unit presult" where
  "meter_check_consume current inputs =
    and_then (require_current current ''meter.consume'') (\<lambda>c.
    and_then (current_remaining c) (\<lambda>remaining.
    and_then (input_amount inputs ''amount'') (\<lambda>amount.
    if is_zero amount then Err NonPositiveAmount
    else if amount_less remaining amount then Err (InsufficientQuantity remaining amount)
    else Ok ())))"

definition check_refill :: "state_projection option \<Rightarrow> unit presult" where
  "check_refill current =
    and_then (require_current current ''meter.refill'') (\<lambda>c.
    and_then (current_remaining c) (\<lambda>_.
    and_then (current_maximum c) (\<lambda>_. Ok ())))"

definition check_set_maximum :: "state_projection option \<Rightarrow> inputs \<Rightarrow> unit presult" where
  "check_set_maximum current inputs =
    and_then (require_current current ''meter.set_maximum'') (\<lambda>_.
    and_then (input_amount inputs ''maximum'') (\<lambda>_. Ok ()))"

definition check_reset :: "state_projection option \<Rightarrow> unit presult" where
  "check_reset current = and_then (require_current current ''meter.reset'') (\<lambda>_. Ok ())"

definition meter_check_expire :: "state_projection option \<Rightarrow> unit presult" where
  "meter_check_expire current = and_then (require_current current ''meter.expire'') (\<lambda>_. Ok ())"

definition meter_check :: "operation \<Rightarrow> state_projection option \<Rightarrow> inputs \<Rightarrow> unit presult" where
  "meter_check op current inputs =
    (if op \<notin> set meter_ops then Err (UnknownOperation op)
     else if op = ''meter.create'' then meter_check_create current inputs
     else if op = ''meter.consume'' then meter_check_consume current inputs
     else if op = ''meter.refill'' then check_refill current
     else if op = ''meter.set_maximum'' then check_set_maximum current inputs
     else if op = ''meter.reset'' then check_reset current
     else if op = ''meter.expire'' then meter_check_expire current
     else Err (UnknownOperation op))"

lemmas meter_check_defs =
  meter_check_def meter_check_create_def meter_check_consume_def check_refill_def
  check_set_maximum_def check_reset_def meter_check_expire_def current_remaining_def
  current_maximum_def meter_ops_def

end
