(* ===== verification/Marketplace.thy ===== *)
theory Marketplace
  imports Profile_Base
begin

text \<open>
  The rule sets of listings and escrows (\<^verbatim>\<open>marketplace.rs\<close>): each is created once and leaves its
  only open status for a terminal one.
\<close>

definition listing_operations :: "operation list" where
  "listing_operations = [''listing.create'', ''listing.cancel'', ''listing.buy'', ''listing.expire'']"

definition escrow_operations :: "operation list" where
  "escrow_operations = [''escrow.lock'', ''escrow.release'', ''escrow.refund'']"

definition check_listing_create :: "state_projection option \<Rightarrow> inputs \<Rightarrow> unit presult" where
  "check_listing_create current inputs =
    and_then (require_unborn current ''listing.create'') (\<lambda>_.
    and_then (input_str inputs ''seller'') (\<lambda>_. Ok ()))"

definition check_listing_buy :: "state_projection option \<Rightarrow> inputs \<Rightarrow> unit presult" where
  "check_listing_buy current inputs =
    and_then (require_from current ''listing.buy'' [''listed'']) (\<lambda>_.
    and_then (input_str inputs ''buyer'') (\<lambda>_. Ok ()))"

definition check_escrow_lock :: "state_projection option \<Rightarrow> inputs \<Rightarrow> unit presult" where
  "check_escrow_lock current inputs =
    and_then (require_unborn current ''escrow.lock'') (\<lambda>_.
    and_then (input_str inputs ''buyer'') (\<lambda>_.
    and_then (input_str inputs ''seller'') (\<lambda>_. Ok ())))"

definition listing_check :: "operation \<Rightarrow> state_projection option \<Rightarrow> inputs \<Rightarrow> unit presult" where
  "listing_check op current inputs =
    (if op \<notin> set listing_operations then Err (UnknownOperation op)
     else if op = ''listing.create'' then check_listing_create current inputs
     else if op = ''listing.cancel'' then single_from current ''listing.cancel'' [''listed'']
     else if op = ''listing.buy'' then check_listing_buy current inputs
     else if op = ''listing.expire'' then single_from current ''listing.expire'' [''listed'']
     else Err (UnknownOperation op))"

definition escrow_check :: "operation \<Rightarrow> state_projection option \<Rightarrow> inputs \<Rightarrow> unit presult" where
  "escrow_check op current inputs =
    (if op \<notin> set escrow_operations then Err (UnknownOperation op)
     else if op = ''escrow.lock'' then check_escrow_lock current inputs
     else if op = ''escrow.release'' then single_from current ''escrow.release'' [''locked'']
     else if op = ''escrow.refund'' then single_from current ''escrow.refund'' [''locked'']
     else Err (UnknownOperation op))"

lemmas marketplace_check_defs =
  listing_check_def escrow_check_def check_listing_create_def check_listing_buy_def
  check_escrow_lock_def listing_operations_def escrow_operations_def

end
