(* ===== verification/Transition.thy ===== *)
theory Transition
  imports Unique_Asset Consumable_Stack Fungible_Balance Entitlement_Rules Meter_Rules Marketplace
begin

text \<open>
  The after-state of a checked operation (\<^verbatim>\<open>transition.rs\<close>), one function per state type, and the
  credit side of a transfer. The module has its own copies of the input and state readers; where
  a copy differs from the one of \<^verbatim>\<open>registry.rs\<close> it is modelled separately (\<open>tr_\<close>).
\<close>

section \<open>Readers\<close>

definition tr_require_current :: "state_projection option \<Rightarrow> operation \<Rightarrow> state_projection presult" where
  "tr_require_current before op =
    ok_or before (InvalidInput (''operation '' @ quoted op @ '' requires an existing resource''))"

definition tr_parse_amount_str :: "json \<Rightarrow> string \<Rightarrow> amount presult" where
  "tr_parse_amount_str v key =
    (let bad = InvalidInput (quoted key @ '' must be an integer string'') in
     and_then (ok_or (as_str v) bad) (\<lambda>text.
     if text = [] then Err bad
     else if looks_like_float text
     then Err (InvalidInput (quoted key @ '' must be an integer string (floats are forbidden)''))
     else map_err (\<lambda>_. bad) (try_from_str text)))"

definition tr_input_amount :: "inputs \<Rightarrow> string \<Rightarrow> amount presult" where
  "tr_input_amount inputs key =
    and_then (ok_or (btree_get inputs key) (InvalidInput (''missing input '' @ quoted key)))
      (\<lambda>v. tr_parse_amount_str v key)"

fun tr_state_field :: "resource_state \<Rightarrow> string \<Rightarrow> string presult" where
  "tr_state_field (UniqueAsset v) key =
    (if key = ''owner'' then Ok (ua_owner v)
     else if key = ''status'' then Ok (ua_status v) else Err (no_field key))"
| "tr_state_field (ConsumableStack v) key =
    (if key = ''subject'' then Ok (cs_subject v)
     else if key = ''unit'' then Ok (cs_unit v) else Err (no_field key))"
| "tr_state_field (FungibleBalance v) key =
    (if key = ''subject'' then Ok (fb_subject v)
     else if key = ''unit'' then Ok (fb_unit v) else Err (no_field key))"
| "tr_state_field (Entitlement v) key =
    (if key = ''subject'' then Ok (en_subject v)
     else if key = ''status'' then Ok (en_status v) else Err (no_field key))"
| "tr_state_field (MeteredResource v) key =
    (if key = ''subject'' then Ok (mt_subject v) else Err (no_field key))"
| "tr_state_field (Listing v) key =
    (if key = ''seller'' then Ok (ls_seller v) else Err (no_field key))"
| "tr_state_field (Custom v) key = Err (no_field key)"
| "tr_state_field (Escrow v) key =
    (if key = ''buyer'' then Ok (es_buyer v)
     else if key = ''seller'' then Ok (es_seller v) else Err (no_field key))"

definition tr_state_str :: "state_projection \<Rightarrow> string \<Rightarrow> string presult" where
  "tr_state_str projection key =
    and_then (tr_state_field (sp_state projection) key) (\<lambda>text.
    if text = [] then Err (InvalidInput (quoted key @ '' must not be empty'')) else Ok text)"

definition overflow :: "string \<Rightarrow> profile_error" where
  "overflow field = InvalidInput (quoted field @ '' overflow'')"

definition underflow :: "string \<Rightarrow> profile_error" where
  "underflow field = InvalidInput (quoted field @ '' underflow'')"

definition checked_status :: "string \<Rightarrow> status presult" where
  "checked_status s = map_err (\<lambda>e. InvalidInput (domain_error_to_string e)) (status_new s)"

definition state_type_of :: "state_projection option \<Rightarrow> operation \<Rightarrow> state_type presult" where
  "state_type_of before op =
    (case before of
       Some c \<Rightarrow> Ok (sp_state_type c)
     | None \<Rightarrow> ok_or (state_type_hint op)
         (InvalidInput (''cannot determine state type for operation '' @ quoted op)))"

section \<open>Unique assets\<close>

definition unique_asset :: "string \<Rightarrow> string \<Rightarrow> string option \<Rightarrow> resource_state presult" where
  "unique_asset owner st trade_id =
    and_then (checked_status st) (\<lambda>s.
    Ok (UniqueAsset \<lparr>ua_owner = owner, ua_status = s, ua_trade_id = trade_id\<rparr>))"

definition apply_unique_asset ::
  "state_projection option \<Rightarrow> operation \<Rightarrow> inputs \<Rightarrow> resource_state presult" where
  "apply_unique_asset before op inputs =
    and_then (case before of Some c \<Rightarrow> tr_state_str c ''owner'' | None \<Rightarrow> Ok []) (\<lambda>owner.
    if op = ''asset.mint'' \<or> op = ''asset.transfer''
    then and_then (input_str inputs ''to_owner'') (\<lambda>to_owner. unique_asset to_owner ''active'' None)
    else if op = ''asset.burn'' then unique_asset owner ''burned'' None
    else if op = ''asset.lock'' then unique_asset owner ''locked'' None
    else if op = ''asset.unlock'' then unique_asset owner ''active'' None
    else if op = ''asset.list'' then unique_asset owner ''listed'' None
    else if op = ''asset.delist'' then unique_asset owner ''active'' None
    else if op = ''asset.escrow'' then unique_asset owner ''escrowed'' None
    else if op = ''asset.release'' then unique_asset owner ''active'' None
    else if op = ''asset.redeem'' then unique_asset owner ''redeemed'' None
    else if op = ''asset.restrict''
    then unique_asset owner
      (case Option.bind (btree_get inputs ''status'') as_str of Some t \<Rightarrow> t | None \<Rightarrow> ''restricted'') None
    else if op = ''asset.restore'' then unique_asset owner ''active'' None
    else if op = ''asset.hard_delete'' then unique_asset owner ''tombstoned'' None
    else if op = ''trade.lock''
    then and_then (tr_require_current before op) (\<lambda>c.
      and_then (input_str inputs ''from_owner'') (\<lambda>_.
      and_then (input_str inputs ''trade_id'') (\<lambda>trade_id.
      and_then (tr_state_str c ''owner'') (\<lambda>current_owner.
      unique_asset current_owner ''trade_held'' (Some trade_id)))))
    else if op = ''trade.unlock''
    then and_then (tr_require_current before op) (\<lambda>c.
      and_then (input_str inputs ''trade_id'') (\<lambda>_.
      and_then (tr_state_str c ''owner'') (\<lambda>current_owner.
      unique_asset current_owner ''active'' None)))
    else if op = ''trade.settle''
    then and_then (tr_require_current before op) (\<lambda>_.
      and_then (input_str inputs ''from_owner'') (\<lambda>_.
      and_then (input_str inputs ''to_owner'') (\<lambda>to_owner.
      and_then (input_str inputs ''trade_id'') (\<lambda>_.
      unique_asset to_owner ''active'' None))))
    else if op = ''asset.attach_content'' \<or> op = ''asset.detach_content'' \<or> op = ''asset.update_metadata''
    then ok_or (map_option sp_state before) (InvalidInput ''operation requires an existing resource'')
    else Err (InvalidInput (''unknown unique asset operation '' @ quoted op)))"

section \<open>Stacks and balances\<close>

definition apply_stack ::
  "state_projection option \<Rightarrow> operation \<Rightarrow> inputs \<Rightarrow> resource_state presult" where
  "apply_stack before op inputs =
    (if op = ''stack.create''
     then and_then (input_str inputs ''subject'') (\<lambda>subject.
       and_then (input_str inputs ''unit'') (\<lambda>unit.
       and_then (tr_input_amount inputs ''quantity'') (\<lambda>quantity.
       Ok (ConsumableStack \<lparr>cs_subject = subject, cs_quantity = quantity, cs_unit = unit\<rparr>))))
     else if op = ''stack.credit'' \<or> op = ''stack.release''
     then and_then (tr_require_current before op) (\<lambda>c.
       and_then (tr_state_str c ''subject'') (\<lambda>subject.
       and_then (tr_state_str c ''unit'') (\<lambda>unit.
       and_then (state_amount c ''quantity'') (\<lambda>quantity.
       and_then (tr_input_amount inputs ''quantity'') (\<lambda>amount.
       and_then (ok_or (amount_checked_add quantity amount) (overflow ''stack quantity'')) (\<lambda>next.
       Ok (ConsumableStack \<lparr>cs_subject = subject, cs_quantity = next, cs_unit = unit\<rparr>)))))))
     else if op = ''stack.debit'' \<or> op = ''stack.consume'' \<or> op = ''stack.reserve''
     then and_then (tr_require_current before op) (\<lambda>c.
       and_then (tr_state_str c ''subject'') (\<lambda>subject.
       and_then (tr_state_str c ''unit'') (\<lambda>unit.
       and_then (state_amount c ''quantity'') (\<lambda>quantity.
       and_then (tr_input_amount inputs ''quantity'') (\<lambda>amount.
       and_then (ok_or (amount_checked_sub quantity amount) (underflow ''stack quantity'')) (\<lambda>next.
       Ok (ConsumableStack \<lparr>cs_subject = subject, cs_quantity = next, cs_unit = unit\<rparr>)))))))
     else if op = ''stack.transfer''
     then and_then (tr_require_current before op) (\<lambda>c.
       and_then (input_str inputs ''to_subject'') (\<lambda>_.
       and_then (tr_state_str c ''subject'') (\<lambda>subject.
       and_then (tr_state_str c ''unit'') (\<lambda>unit.
       and_then (state_amount c ''quantity'') (\<lambda>quantity.
       and_then (tr_input_amount inputs ''quantity'') (\<lambda>amount.
       and_then (ok_or (amount_checked_sub quantity amount) (underflow ''stack quantity'')) (\<lambda>next.
       Ok (ConsumableStack \<lparr>cs_subject = subject, cs_quantity = next, cs_unit = unit\<rparr>))))))))
     else if op = ''stack.adjust''
     then and_then (tr_require_current before op) (\<lambda>c.
       and_then (tr_state_str c ''subject'') (\<lambda>subject.
       and_then (tr_state_str c ''unit'') (\<lambda>unit.
       and_then (tr_input_amount inputs ''quantity'') (\<lambda>quantity.
       Ok (ConsumableStack \<lparr>cs_subject = subject, cs_quantity = quantity, cs_unit = unit\<rparr>)))))
     else if op = ''stack.expire''
     then and_then (tr_require_current before op) (\<lambda>c.
       and_then (tr_state_str c ''subject'') (\<lambda>subject.
       and_then (tr_state_str c ''unit'') (\<lambda>unit.
       Ok (ConsumableStack \<lparr>cs_subject = subject, cs_quantity = ZERO, cs_unit = unit\<rparr>))))
     else Err (InvalidInput (''unknown consumable stack operation '' @ quoted op)))"

definition apply_balance ::
  "state_projection option \<Rightarrow> operation \<Rightarrow> inputs \<Rightarrow> resource_state presult" where
  "apply_balance before op inputs =
    (if op = ''balance.create''
     then and_then (input_str inputs ''subject'') (\<lambda>subject.
       and_then (input_str inputs ''unit'') (\<lambda>unit.
       and_then (tr_input_amount inputs ''balance'') (\<lambda>balance.
       Ok (FungibleBalance \<lparr>fb_subject = subject, fb_balance = balance, fb_unit = unit\<rparr>))))
     else if op = ''balance.mint'' \<or> op = ''balance.credit'' \<or> op = ''balance.release''
     then and_then (tr_require_current before op) (\<lambda>c.
       and_then (tr_state_str c ''subject'') (\<lambda>subject.
       and_then (tr_state_str c ''unit'') (\<lambda>unit.
       and_then (state_amount c ''balance'') (\<lambda>balance.
       and_then (tr_input_amount inputs ''amount'') (\<lambda>amount.
       and_then (ok_or (amount_checked_add balance amount) (overflow ''balance'')) (\<lambda>next.
       Ok (FungibleBalance \<lparr>fb_subject = subject, fb_balance = next, fb_unit = unit\<rparr>)))))))
     else if op = ''balance.debit'' \<or> op = ''balance.spend'' \<or> op = ''balance.reserve'' \<or> op = ''balance.burn''
     then and_then (tr_require_current before op) (\<lambda>c.
       and_then (tr_state_str c ''subject'') (\<lambda>subject.
       and_then (tr_state_str c ''unit'') (\<lambda>unit.
       and_then (state_amount c ''balance'') (\<lambda>balance.
       and_then (tr_input_amount inputs ''amount'') (\<lambda>amount.
       and_then (ok_or (amount_checked_sub balance amount) (underflow ''balance'')) (\<lambda>next.
       Ok (FungibleBalance \<lparr>fb_subject = subject, fb_balance = next, fb_unit = unit\<rparr>)))))))
     else if op = ''balance.transfer''
     then and_then (tr_require_current before op) (\<lambda>c.
       and_then (input_str inputs ''to_subject'') (\<lambda>_.
       and_then (tr_state_str c ''subject'') (\<lambda>subject.
       and_then (tr_state_str c ''unit'') (\<lambda>unit.
       and_then (state_amount c ''balance'') (\<lambda>balance.
       and_then (tr_input_amount inputs ''amount'') (\<lambda>amount.
       and_then (ok_or (amount_checked_sub balance amount) (underflow ''balance'')) (\<lambda>next.
       Ok (FungibleBalance \<lparr>fb_subject = subject, fb_balance = next, fb_unit = unit\<rparr>))))))))
     else if op = ''balance.convert''
     then and_then (tr_require_current before op) (\<lambda>c.
       and_then (tr_state_str c ''subject'') (\<lambda>subject.
       and_then (input_str inputs ''to_unit'') (\<lambda>to_unit.
       and_then (state_amount c ''balance'') (\<lambda>balance.
       and_then (tr_input_amount inputs ''amount'') (\<lambda>amount.
       and_then (ok_or (amount_checked_sub balance amount) (underflow ''balance'')) (\<lambda>next.
       Ok (FungibleBalance \<lparr>fb_subject = subject, fb_balance = next, fb_unit = to_unit\<rparr>)))))))
     else Err (InvalidInput (''unknown fungible balance operation '' @ quoted op)))"

section \<open>Entitlements and meters\<close>

definition entitlement_with_status ::
  "state_projection option \<Rightarrow> operation \<Rightarrow> string \<Rightarrow> resource_state presult" where
  "entitlement_with_status before op st =
    and_then (tr_require_current before op) (\<lambda>c.
    and_then (tr_state_str c ''subject'') (\<lambda>subject.
    and_then (state_bool c ''transferable'') (\<lambda>transferable.
    and_then (checked_status st) (\<lambda>s.
    Ok (Entitlement \<lparr>en_subject = subject, en_status = s, en_transferable = transferable\<rparr>)))))"

definition apply_entitlement ::
  "state_projection option \<Rightarrow> operation \<Rightarrow> inputs \<Rightarrow> resource_state presult" where
  "apply_entitlement before op inputs =
    (if op = ''entitlement.grant''
     then and_then (input_str inputs ''subject'') (\<lambda>subject.
       let transferable =
         (case Option.bind (btree_get inputs ''transferable'') as_bool of Some b \<Rightarrow> b | None \<Rightarrow> False) in
       Ok (Entitlement \<lparr>en_subject = subject, en_status = ''granted'', en_transferable = transferable\<rparr>))
     else if op = ''entitlement.activate'' then entitlement_with_status before op ''active''
     else if op = ''entitlement.suspend'' then entitlement_with_status before op ''suspended''
     else if op = ''entitlement.restore'' then entitlement_with_status before op ''active''
     else if op = ''entitlement.expire'' then entitlement_with_status before op ''expired''
     else if op = ''entitlement.revoke'' then entitlement_with_status before op ''revoked''
     else if op = ''entitlement.transfer''
     then and_then (tr_require_current before op) (\<lambda>c.
       and_then (input_str inputs ''to_subject'') (\<lambda>to_subject.
       and_then (tr_state_str c ''status'') (\<lambda>st.
       and_then (state_bool c ''transferable'') (\<lambda>transferable.
       and_then (checked_status st) (\<lambda>s.
       Ok (Entitlement \<lparr>en_subject = to_subject, en_status = s, en_transferable = transferable\<rparr>))))))
     else Err (InvalidInput (''unknown entitlement operation '' @ quoted op)))"

definition apply_meter ::
  "state_projection option \<Rightarrow> operation \<Rightarrow> inputs \<Rightarrow> resource_state presult" where
  "apply_meter before op inputs =
    (if op = ''meter.create''
     then and_then (input_str inputs ''subject'') (\<lambda>subject.
       and_then (tr_input_amount inputs ''remaining'') (\<lambda>remaining.
       and_then (tr_input_amount inputs ''maximum'') (\<lambda>maximum.
       Ok (MeteredResource \<lparr>mt_subject = subject, mt_remaining = remaining, mt_maximum = maximum\<rparr>))))
     else if op = ''meter.consume''
     then and_then (tr_require_current before op) (\<lambda>c.
       and_then (tr_state_str c ''subject'') (\<lambda>subject.
       and_then (state_amount c ''maximum'') (\<lambda>maximum.
       and_then (state_amount c ''remaining'') (\<lambda>remaining.
       and_then (tr_input_amount inputs ''amount'') (\<lambda>amount.
       and_then (ok_or (amount_checked_sub remaining amount) (underflow ''meter remaining'')) (\<lambda>next.
       Ok (MeteredResource \<lparr>mt_subject = subject, mt_remaining = next, mt_maximum = maximum\<rparr>)))))))
     else if op = ''meter.refill''
     then and_then (tr_require_current before op) (\<lambda>c.
       and_then (tr_state_str c ''subject'') (\<lambda>subject.
       and_then (state_amount c ''maximum'') (\<lambda>maximum.
       Ok (MeteredResource \<lparr>mt_subject = subject, mt_remaining = maximum, mt_maximum = maximum\<rparr>))))
     else if op = ''meter.set_maximum''
     then and_then (tr_require_current before op) (\<lambda>c.
       and_then (tr_state_str c ''subject'') (\<lambda>subject.
       and_then (state_amount c ''remaining'') (\<lambda>remaining.
       and_then (tr_input_amount inputs ''maximum'') (\<lambda>maximum.
       let clamped = amount_min remaining maximum in
       Ok (MeteredResource \<lparr>mt_subject = subject, mt_remaining = clamped, mt_maximum = maximum\<rparr>)))))
     else if op = ''meter.reset'' \<or> op = ''meter.expire''
     then and_then (tr_require_current before op) (\<lambda>c.
       and_then (tr_state_str c ''subject'') (\<lambda>subject.
       and_then (state_amount c ''maximum'') (\<lambda>maximum.
       Ok (MeteredResource \<lparr>mt_subject = subject, mt_remaining = ZERO, mt_maximum = maximum\<rparr>))))
     else Err (InvalidInput (''unknown meter operation '' @ quoted op)))"

section \<open>Listings and escrows\<close>

definition listing :: "string \<Rightarrow> string \<Rightarrow> resource_state presult" where
  "listing seller st =
    and_then (checked_status st) (\<lambda>s. Ok (Listing \<lparr>ls_seller = seller, ls_status = s\<rparr>))"

definition listing_with_status ::
  "state_projection option \<Rightarrow> operation \<Rightarrow> string \<Rightarrow> resource_state presult" where
  "listing_with_status before op st =
    and_then (tr_require_current before op) (\<lambda>c.
    and_then (tr_state_str c ''seller'') (\<lambda>seller. listing seller st))"

definition apply_listing ::
  "state_projection option \<Rightarrow> operation \<Rightarrow> inputs \<Rightarrow> resource_state presult" where
  "apply_listing before op inputs =
    (if op = ''listing.create''
     then and_then (input_str inputs ''seller'') (\<lambda>seller. listing seller ''listed'')
     else if op = ''listing.cancel'' then listing_with_status before op ''cancelled''
     else if op = ''listing.buy'' then listing_with_status before op ''sold''
     else if op = ''listing.expire'' then listing_with_status before op ''expired''
     else Err (InvalidInput (''unknown listing operation '' @ quoted op)))"

definition escrow :: "string \<Rightarrow> string \<Rightarrow> string \<Rightarrow> resource_state presult" where
  "escrow buyer seller st =
    and_then (checked_status st) (\<lambda>s.
    Ok (Escrow \<lparr>es_buyer = buyer, es_seller = seller, es_status = s\<rparr>))"

definition escrow_with_status ::
  "state_projection option \<Rightarrow> operation \<Rightarrow> string \<Rightarrow> resource_state presult" where
  "escrow_with_status before op st =
    and_then (tr_require_current before op) (\<lambda>c.
    and_then (tr_state_str c ''buyer'') (\<lambda>buyer.
    and_then (tr_state_str c ''seller'') (\<lambda>seller. escrow buyer seller st)))"

definition apply_escrow ::
  "state_projection option \<Rightarrow> operation \<Rightarrow> inputs \<Rightarrow> resource_state presult" where
  "apply_escrow before op inputs =
    (if op = ''escrow.lock''
     then and_then (input_str inputs ''buyer'') (\<lambda>buyer.
       and_then (input_str inputs ''seller'') (\<lambda>seller. escrow buyer seller ''locked''))
     else if op = ''escrow.release'' then escrow_with_status before op ''released''
     else if op = ''escrow.refund'' then escrow_with_status before op ''refunded''
     else Err (InvalidInput (''unknown escrow operation '' @ quoted op)))"

section \<open>Dispatch and the credit side of a transfer\<close>

definition apply_transition ::
  "state_projection option \<Rightarrow> operation \<Rightarrow> inputs \<Rightarrow> resource_state presult" where
  "apply_transition before op inputs =
    and_then (state_type_of before op) (\<lambda>t.
    case t of
      UniqueAssetT \<Rightarrow> apply_unique_asset before op inputs
    | ConsumableStackT \<Rightarrow> apply_stack before op inputs
    | FungibleBalanceT \<Rightarrow> apply_balance before op inputs
    | EntitlementT \<Rightarrow> apply_entitlement before op inputs
    | MeteredResourceT \<Rightarrow> apply_meter before op inputs
    | ListingT \<Rightarrow> apply_listing before op inputs
    | EscrowT \<Rightarrow> apply_escrow before op inputs
    | CustomT \<Rightarrow> Err (InvalidInput ''custom reducer required''))"

definition transfer_after_state ::
  "state_projection \<Rightarrow> state_projection option \<Rightarrow> operation \<Rightarrow> inputs \<Rightarrow> resource_state presult" where
  "transfer_after_state source destination op inputs =
    (if op = ''stack.transfer''
     then and_then (input_str inputs ''to_subject'') (\<lambda>to_subject.
       and_then (tr_state_str source ''unit'') (\<lambda>unit.
       and_then (tr_input_amount inputs ''quantity'') (\<lambda>amount.
       and_then (case destination of None \<Rightarrow> Ok ZERO | Some d \<Rightarrow> state_amount d ''quantity'') (\<lambda>existing.
       and_then (ok_or (amount_checked_add existing amount) (overflow ''stack quantity'')) (\<lambda>next.
       Ok (ConsumableStack \<lparr>cs_subject = to_subject, cs_quantity = next, cs_unit = unit\<rparr>))))))
     else if op = ''balance.transfer''
     then and_then (input_str inputs ''to_subject'') (\<lambda>to_subject.
       and_then (tr_state_str source ''unit'') (\<lambda>unit.
       and_then (tr_input_amount inputs ''amount'') (\<lambda>amount.
       and_then (case destination of None \<Rightarrow> Ok ZERO | Some d \<Rightarrow> state_amount d ''balance'') (\<lambda>existing.
       and_then (ok_or (amount_checked_add existing amount) (overflow ''balance'')) (\<lambda>next.
       Ok (FungibleBalance \<lparr>fb_subject = to_subject, fb_balance = next, fb_unit = unit\<rparr>))))))
     else Err (InvalidInput (''destination credit not defined for operation '' @ quoted op)))"

section \<open>When the readers succeed\<close>

lemma tr_input_amount_Ok [reader_simps]: "tr_input_amount inputs key = Ok a \<longleftrightarrow> input_amount inputs key = Ok a"
proof -
  have "\<not> looks_like_float t \<and> t \<noteq> []" if "try_from_str t = Ok a" for t
    using that digits_not_float by (simp add: try_from_str_Ok)
  then show ?thesis
    by (auto simp: tr_input_amount_def tr_parse_amount_str_def input_amount_Ok Let_def)
qed

lemma tr_require_current_Ok [reader_simps]: "tr_require_current before op = Ok p \<longleftrightarrow> before = Some p"
  by (simp add: tr_require_current_def)

lemma tr_state_str_Ok [reader_simps]:
  "tr_state_str p key = Ok t \<longleftrightarrow> tr_state_field (sp_state p) key = Ok t \<and> t \<noteq> []"
  by (auto simp: tr_state_str_def)

lemma checked_status_Ok [reader_simps]:
  "checked_status s = Ok t \<longleftrightarrow> t = s \<and> validate_status s = Ok ()"
  by (auto simp: checked_status_def reader_simps)

lemma unique_asset_Ok [reader_simps]:
  "unique_asset owner st trade = Ok s \<longleftrightarrow>
    validate_status st = Ok () \<and>
    s = UniqueAsset \<lparr>ua_owner = owner, ua_status = st, ua_trade_id = trade\<rparr>"
  by (auto simp: unique_asset_def reader_simps)

lemma listing_Ok [reader_simps]:
  "listing seller st = Ok s \<longleftrightarrow>
    validate_status st = Ok () \<and> s = Listing \<lparr>ls_seller = seller, ls_status = st\<rparr>"
  by (auto simp: listing_def reader_simps)

lemma escrow_Ok [reader_simps]:
  "escrow buyer seller st = Ok s \<longleftrightarrow>
    validate_status st = Ok () \<and> s = Escrow \<lparr>es_buyer = buyer, es_seller = seller, es_status = st\<rparr>"
  by (auto simp: escrow_def reader_simps)

text \<open>The status literals of the profiles are valid status names.\<close>

lemma validate_status_literals [simp]:
  "validate_status ''active'' = Ok ()" "validate_status ''locked'' = Ok ()"
  "validate_status ''listed'' = Ok ()" "validate_status ''escrowed'' = Ok ()"
  "validate_status ''redeemed'' = Ok ()" "validate_status ''burned'' = Ok ()"
  "validate_status ''trade_held'' = Ok ()" "validate_status ''restricted'' = Ok ()"
  "validate_status ''tombstoned'' = Ok ()" "validate_status ''granted'' = Ok ()"
  "validate_status ''suspended'' = Ok ()" "validate_status ''expired'' = Ok ()"
  "validate_status ''revoked'' = Ok ()" "validate_status ''cancelled'' = Ok ()"
  "validate_status ''sold'' = Ok ()" "validate_status ''released'' = Ok ()"
  "validate_status ''refunded'' = Ok ()" "validate_status ''quarantined'' = Ok ()"
  "validate_status ''unsupported'' = Ok ()" "validate_status ''legal_hold'' = Ok ()"
  "validate_status ''fraud_lock'' = Ok ()" "validate_status ''policy_restricted'' = Ok ()"
  by code_simp+

end
