(* ===== verification/Example_Data.thy ===== *)
theory Example_Data
  imports Profile_Base
begin

text \<open>
  Small concrete states, intents and events, on which the properties with hypotheses are
  instantiated.
\<close>

definition ex_amount :: "nat \<Rightarrow> amount" where
  "ex_amount n = from_u128 (word_of_nat n)"

definition ex_balance :: "string \<Rightarrow> nat \<Rightarrow> resource_state" where
  "ex_balance subject n =
    FungibleBalance \<lparr>fb_subject = subject, fb_balance = ex_amount n, fb_unit = ''gold''\<rparr>"

definition ex_stack :: "string \<Rightarrow> nat \<Rightarrow> resource_state" where
  "ex_stack subject n =
    ConsumableStack \<lparr>cs_subject = subject, cs_quantity = ex_amount n, cs_unit = ''arrow''\<rparr>"

definition ex_asset :: "string \<Rightarrow> string \<Rightarrow> string option \<Rightarrow> resource_state" where
  "ex_asset owner st trade_id =
    UniqueAsset \<lparr>ua_owner = owner, ua_status = st, ua_trade_id = trade_id\<rparr>"

definition ex_meter :: "string \<Rightarrow> nat \<Rightarrow> nat \<Rightarrow> resource_state" where
  "ex_meter subject remaining maximum =
    MeteredResource \<lparr>mt_subject = subject, mt_remaining = ex_amount remaining,
      mt_maximum = ex_amount maximum\<rparr>"

definition ex_entitlement :: "string \<Rightarrow> string \<Rightarrow> bool \<Rightarrow> resource_state" where
  "ex_entitlement subject st transferable =
    Entitlement \<lparr>en_subject = subject, en_status = st, en_transferable = transferable\<rparr>"

definition ex_projection :: "string \<Rightarrow> resource_state \<Rightarrow> state_projection" where
  "ex_projection resource s =
    \<lparr>sp_tenant_id = ''t'', sp_resource_id = resource, sp_state_type = rs_state_type s,
     sp_version = 1, sp_last_event_id = ''evt_0'', sp_last_commit_id = ''cmt_0'',
     sp_state_hash = [], sp_state = s\<rparr>"

definition ex_commitment :: "64 word \<Rightarrow> resource_state \<Rightarrow> state_commitment" where
  "ex_commitment v s = \<lparr>sc_version = v, sc_state_hash = [], sc_state = s\<rparr>"

definition ex_event ::
  "string \<Rightarrow> string \<Rightarrow> operation \<Rightarrow> string \<Rightarrow> resource_state \<Rightarrow> resource_state \<Rightarrow> event" where
  "ex_event event_id intent_id op resource before after =
    \<lparr>ev_schema = ''statechronicle.event.v0'', ev_tenant_id = ''t'', ev_event_id = event_id,
     ev_intent_id = intent_id, ev_operation = op, ev_resource_id = resource, ev_actor = ''alice'',
     ev_before = ex_commitment 1 before, ev_after = ex_commitment 2 after, ev_authority = None,
     ev_executor = ''svc'', ev_created_at = 0\<rparr>"

definition ex_intent :: "string \<Rightarrow> operation \<Rightarrow> string \<Rightarrow> (string \<times> json) list \<Rightarrow> intent" where
  "ex_intent intent_id op resource inputs =
    \<lparr>in_schema = ''statechronicle.intent.v0'', in_tenant_id = ''t'', in_intent_id = intent_id,
     in_operation = op, in_actor = ''alice'', in_resource_id = resource, in_state_type = None,
     in_expected_version = 1, in_inputs = fold (\<lambda>(k, v). btree_insert k v) inputs [], in_authority = None, in_created_at = 0,
     in_expires_at = None, in_nonce = []\<rparr>"

text \<open>A settlement: an asset goes from alice to bob, who pays 30 gold in the same batch.\<close>

definition ex_settle_events :: "event list" where
  "ex_settle_events =
    [ex_event ''evt_1'' ''int_1'' ''trade.settle'' ''sword''
       (ex_asset ''alice'' ''trade_held'' (Some ''tr1'')) (ex_asset ''bob'' ''active'' None),
     ex_event ''evt_2'' ''int_2'' ''balance.transfer'' ''purse''
       (ex_balance ''bob'' 100) (ex_balance ''bob'' 70),
     ex_event ''evt_3'' ''int_2'' ''balance.transfer'' ''purse''
       (ex_balance ''alice'' 5) (ex_balance ''alice'' 35)]"

definition ex_settle_intents :: "intent list" where
  "ex_settle_intents =
    [ex_intent ''int_1'' ''trade.settle'' ''sword''
      [(''from_owner'', JString ''alice''), (''to_owner'', JString ''bob''),
       (''trade_id'', JString ''tr1''), (''value_resource'', JString ''purse''),
       (''value_amount'', JString ''30''), (''value_to_subject'', JString ''alice'')]]"

end
