(* ===== verification/Atomicity.thy ===== *)
theory Atomicity
  imports Profile_Base Example_Data
begin

text \<open>
  Batch validation (\<^verbatim>\<open>atomicity.rs\<close>): the consistency of the events of one batch, the shape of a
  settlement with its value legs and bundles, and the two cross-tenant validators. The lemmas
  show what an accepted batch satisfies, above all that a pair of transfer events moves value
  without creating or destroying any.
\<close>

section \<open>Transfer pairs\<close>

definition duplicate_intent_error :: "string \<Rightarrow> profile_error" where
  "duplicate_intent_error intent_id =
    AtomicityViolation (''duplicate intent id '' @ quoted intent_id @
      '' in batch (only transfer pairs may share an intent id)'')"

definition transfer_field :: "operation \<Rightarrow> string option" where
  "transfer_field op =
    (if op = ''stack.transfer'' then Some ''quantity''
     else if op = ''balance.transfer'' then Some ''balance''
     else None)"

definition commitment_amount :: "state_commitment \<Rightarrow> string \<Rightarrow> amount presult" where
  "commitment_amount commitment field =
    (case rs_amount (sc_state commitment) field of None \<Rightarrow> Ok ZERO | Some a \<Rightarrow> Ok a)"

text \<open>The loop of \<^verbatim>\<open>validate_transfer_pair\<close> over the group, carrying the debit and the credit.\<close>

fun pair_totals :: "string \<Rightarrow> amount \<times> amount \<Rightarrow> event list \<Rightarrow> (amount \<times> amount) presult" where
  "pair_totals field (debit, credit) [] = Ok (debit, credit)"
| "pair_totals field (debit, credit) (e # es) =
    and_then (commitment_amount (ev_before e) field) (\<lambda>before.
    and_then (commitment_amount (ev_after e) field) (\<lambda>after.
    if \<not> amount_less before after
    then and_then (ok_or (amount_checked_sub before after) (TransferMismatch ''debit overflow'')) (\<lambda>delta.
      and_then (ok_or (amount_checked_add debit delta) (TransferMismatch ''debit overflow'')) (\<lambda>debit'.
      pair_totals field (debit', credit) es))
    else and_then (ok_or (amount_checked_sub after before) (TransferMismatch ''credit overflow'')) (\<lambda>delta.
      and_then (ok_or (amount_checked_add credit delta) (TransferMismatch ''credit overflow'')) (\<lambda>credit'.
      pair_totals field (debit, credit') es))))"

definition validate_transfer_pair :: "string \<Rightarrow> event list \<Rightarrow> unit presult" where
  "validate_transfer_pair intent_id grp =
    (let dup = Err (duplicate_intent_error intent_id) in
     case grp of
       [first, second] \<Rightarrow>
         (case transfer_field (ev_operation first) of
            None \<Rightarrow> dup
          | Some field \<Rightarrow>
              if transfer_field (ev_operation second) \<noteq> Some field then dup
              else if ev_operation first \<noteq> ev_operation second then dup
              else if ev_resource_id first \<noteq> ev_resource_id second then dup
              else and_then (pair_totals field (ZERO, ZERO) grp) (\<lambda>(debit, credit).
                if amount_eq debit ZERO \<or> \<not> amount_eq debit credit
                then Err (TransferMismatch (''net-zero violated for intent '' @ quoted intent_id @
                  '': debit '' @ to_canonical_string debit @ '' != credit '' @ to_canonical_string credit))
                else Ok ()))
     | _ \<Rightarrow> dup)"

section \<open>Batch consistency\<close>

text \<open>The collecting loop: event ids seen so far, the first tenant, and the events by intent.\<close>

fun batch_loop ::
  "string list \<Rightarrow> string option \<Rightarrow> (string, event list) btree_map \<Rightarrow> event list \<Rightarrow>
    (string, event list) btree_map presult" where
  "batch_loop seen first_tenant groups [] = Ok groups"
| "batch_loop seen first_tenant groups (e # es) =
    (if ev_event_id e \<in> set seen
     then Err (AtomicityViolation (''duplicate event id '' @ quoted (ev_event_id e) @ '' in batch''))
     else
       and_then (case first_tenant of
           Some first \<Rightarrow>
             if first \<noteq> ev_tenant_id e
             then Err (AtomicityViolation (''mixed tenant scopes in batch (first tenant '' @
               quoted first @ '')''))
             else Ok first
         | None \<Rightarrow> Ok (ev_tenant_id e)) (\<lambda>first.
       batch_loop (ev_event_id e # seen) (Some first)
         (btree_push (ev_intent_id e) e groups) es))"

definition validate_batch_consistency :: "event list \<Rightarrow> unit presult" where
  "validate_batch_consistency events =
    and_then (batch_loop [] None [] events) (\<lambda>groups.
    for_each (\<lambda>(intent_id, grp).
      if length grp = 1 then Ok () else validate_transfer_pair intent_id grp) groups)"

section \<open>Settlement batches\<close>

definition declares_bundle :: "intent \<Rightarrow> bool" where
  "declares_bundle intent \<longleftrightarrow> btree_get (in_inputs intent) ''bundle_size'' \<noteq> None"

definition declares_value_leg :: "intent \<Rightarrow> bool" where
  "declares_value_leg intent \<longleftrightarrow>
    btree_get (in_inputs intent) ''value_resource'' \<noteq> None \<or> btree_get (in_inputs intent) ''value_amount'' \<noteq> None \<or>
    btree_get (in_inputs intent) ''value_to_subject'' \<noteq> None"

type_synonym value_tuple = "amount \<times> string \<times> string option"

definition settle_violation :: "intent \<Rightarrow> string \<Rightarrow> profile_error" where
  "settle_violation intent msg =
    AtomicityViolation (''settle intent '' @ quoted (in_intent_id intent) @ msg)"

definition declared_value_leg_tuple :: "intent \<Rightarrow> value_tuple presult" where
  "declared_value_leg_tuple intent =
    (let inputs = in_inputs intent;
         missing = (\<lambda>key. settle_violation intent ('' declares a value leg but is missing '' @ quoted key)) in
     and_then (ok_or (btree_get inputs ''value_resource'') (missing ''value_resource'')) (\<lambda>resource.
     and_then (ok_or (btree_get inputs ''value_to_subject'') (missing ''value_to_subject'')) (\<lambda>to_subject.
     and_then (ok_or (as_str resource)
       (settle_violation intent ('' has a non-string '' @ quoted ''value_resource''))) (\<lambda>resource_text.
     and_then (ok_or (as_str to_subject)
       (settle_violation intent ('' has a non-string '' @ quoted ''value_to_subject''))) (\<lambda>to_subject_text.
     if resource_text = [] \<or> to_subject_text = []
     then Err (settle_violation intent '' has an empty value-leg member'')
     else
       and_then (ok_or (btree_get inputs ''value_amount'') (missing ''value_amount'')) (\<lambda>amount_value.
       and_then (ok_or (as_str amount_value)
         (settle_violation intent ('' has a non-string '' @ quoted ''value_amount''))) (\<lambda>amount_text.
       and_then (map_err (\<lambda>_. TransferMismatch (''settle intent '' @ quoted (in_intent_id intent) @
           '' declares a malformed '' @ quoted ''value_amount'')) (try_from_str amount_text)) (\<lambda>amount.
       Ok (amount, resource_text, Some to_subject_text)))))))))"

fun value_pair_debit_loop :: "amount \<Rightarrow> event list \<Rightarrow> amount presult" where
  "value_pair_debit_loop debit [] = Ok debit"
| "value_pair_debit_loop debit (e # es) =
    and_then (commitment_amount (ev_before e) ''balance'') (\<lambda>before.
    and_then (commitment_amount (ev_after e) ''balance'') (\<lambda>after.
    if amount_less after before
    then and_then (ok_or (amount_checked_sub before after) (TransferMismatch ''debit overflow'')) (\<lambda>delta.
      and_then (ok_or (amount_checked_add debit delta) (TransferMismatch ''debit overflow'')) (\<lambda>debit'.
      value_pair_debit_loop debit' es))
    else value_pair_debit_loop debit es))"

definition value_pair_debit :: "event list \<Rightarrow> amount presult" where
  "value_pair_debit grp = value_pair_debit_loop ZERO grp"

record recovered_value_pair =
  rp_intent_id :: string
  rp_debit :: amount
  rp_resource :: resource_id
  rp_credited_subject :: "subject_id option"

fun credited_loop :: "subject_id option \<Rightarrow> event list \<Rightarrow> subject_id option presult" where
  "credited_loop acc [] = Ok acc"
| "credited_loop acc (e # es) =
    and_then (commitment_amount (ev_before e) ''balance'') (\<lambda>before.
    and_then (commitment_amount (ev_after e) ''balance'') (\<lambda>after.
    credited_loop (if amount_less before after then rs_subject (sc_state (ev_after e)) else acc) es))"

fun recover_loop ::
  "recovered_value_pair list \<Rightarrow> (string \<times> event list) list \<Rightarrow> recovered_value_pair list presult" where
  "recover_loop pairs [] = Ok pairs"
| "recover_loop pairs ((intent_id, grp) # rest) =
    (case grp of
       [] \<Rightarrow> recover_loop pairs rest
     | first # _ \<Rightarrow>
         if ev_operation first = ''balance.transfer'' then
           if length grp \<noteq> 2
           then Err (AtomicityViolation (''balance.transfer intent '' @ quoted intent_id @
             '' in batch is not an atomic debit + credit pair''))
           else
             and_then (value_pair_debit grp) (\<lambda>debit.
             and_then (credited_loop None grp) (\<lambda>credited.
             recover_loop (pairs @ [\<lparr>rp_intent_id = intent_id, rp_debit = debit,
               rp_resource = ev_resource_id first, rp_credited_subject = credited\<rparr>]) rest))
         else recover_loop pairs rest)"

definition recover_value_pairs :: "event list \<Rightarrow> recovered_value_pair list presult" where
  "recover_value_pairs events = recover_loop [] (group_by ev_intent_id events)"

text \<open>\<^verbatim>\<open>Ord\<close> and \<^verbatim>\<open>PartialEq\<close> of the tuples: by value, then resource, then recipient.\<close>

definition tuple_cmp :: "value_tuple \<Rightarrow> value_tuple \<Rightarrow> ordering" where
  "tuple_cmp s t =
    (case s of (a, r, p) \<Rightarrow> case t of (b, q, u) \<Rightarrow>
      if amount_cmp a b \<noteq> Equal then amount_cmp a b
      else if cmp r q \<noteq> Equal then cmp r q
      else cmp p u)"

definition tuple_eq :: "value_tuple \<Rightarrow> value_tuple \<Rightarrow> bool" where
  "tuple_eq s t \<longleftrightarrow> (case s of (a, r, p) \<Rightarrow> case t of (b, q, u) \<Rightarrow> amount_eq a b \<and> r = q \<and> p = u)"

definition pair_tuple :: "recovered_value_pair \<Rightarrow> value_tuple" where
  "pair_tuple p = (rp_debit p, rp_resource p, rp_credited_subject p)"

fun one_tenant_loop :: "string option \<Rightarrow> event list \<Rightarrow> unit presult" where
  "one_tenant_loop first_tenant [] = Ok ()"
| "one_tenant_loop first_tenant (e # es) =
    (case first_tenant of
       Some first \<Rightarrow>
         if first \<noteq> ev_tenant_id e
         then Err (AtomicityViolation (''mixed tenant scopes in settle batch (first tenant '' @
           quoted first @ '')''))
         else one_tenant_loop first_tenant es
     | None \<Rightarrow> one_tenant_loop (Some (ev_tenant_id e)) es)"

text \<open>The loop of \<^verbatim>\<open>check_bundle_shape\<close> over the settle intents, collecting sizes and trade ids.\<close>

definition bundle_violation :: "intent \<Rightarrow> string \<Rightarrow> profile_error" where
  "bundle_violation intent msg =
    AtomicityViolation (''bundle settle intent '' @ quoted (in_intent_id intent) @ msg)"

definition bundle_member :: "intent \<Rightarrow> (64 word \<times> string) presult" where
  "bundle_member intent =
    and_then (ok_or (btree_get (in_inputs intent) ''bundle_size'')
      (bundle_violation intent ('' is missing '' @ quoted ''bundle_size''))) (\<lambda>size_value.
    and_then (ok_or (as_u64 size_value)
      (bundle_violation intent ('' has a non-integer '' @ quoted ''bundle_size''))) (\<lambda>size.
    if size = 0
    then Err (bundle_violation intent ('' declares a non-positive '' @ quoted ''bundle_size''))
    else
      and_then (ok_or (btree_get (in_inputs intent) ''trade_id'')
        (bundle_violation intent ('' is missing '' @ quoted ''trade_id''))) (\<lambda>trade_value.
      and_then (ok_or (as_str trade_value)
        (bundle_violation intent ('' has a non-string '' @ quoted ''trade_id''))) (\<lambda>trade_id.
      if trade_id = [] then Err (bundle_violation intent ('' has an empty '' @ quoted ''trade_id''))
      else Ok (size, trade_id)))))"

fun distinct_assets_loop :: "string list \<Rightarrow> event list \<Rightarrow> unit presult" where
  "distinct_assets_loop seen [] = Ok ()"
| "distinct_assets_loop seen (e # es) =
    (if ev_operation e = ''trade.settle'' then
       if ev_resource_id e \<in> set seen
       then Err (AtomicityViolation (''duplicate asset '' @ quoted (ev_resource_id e) @
         '' in bundle settle batch''))
       else distinct_assets_loop (ev_resource_id e # seen) es
     else distinct_assets_loop seen es)"

definition check_bundle_shape :: "intent list \<Rightarrow> nat \<Rightarrow> event list \<Rightarrow> unit presult" where
  "check_bundle_shape settle_intents settle_event_count events =
    (if list_ex (\<lambda>i. \<not> declares_bundle i) settle_intents
     then Err (AtomicityViolation (''partial bundle declaration: some settle intents declare '' @
       quoted ''bundle_size'' @ '' but not all''))
     else
       and_then (try_map bundle_member settle_intents) (\<lambda>members.
       case members of
         [] \<Rightarrow> Err (AtomicityViolation ''empty bundle settle intent set'')
       | (first_size, first_trade) # _ \<Rightarrow>
           if list_ex (\<lambda>(s, t). s \<noteq> first_size) members
           then Err (AtomicityViolation (''inconsistent '' @ quoted ''bundle_size'' @
             '' across the bundle settle intents''))
           else if list_ex (\<lambda>(s, t). t \<noteq> first_trade) members
           then Err (AtomicityViolation (''mixed '' @ quoted ''trade_id'' @
             '' across the bundle settle intents''))
           else if settle_event_count \<noteq> unat first_size
           then Err (AtomicityViolation (''bundle settle batch has '' @
             nat_to_string settle_event_count @ '' trade.settle event(s) but declares bundle_size '' @
             nat_to_string (unat first_size)))
           else distinct_assets_loop [] events))"

definition is_settle :: "event \<Rightarrow> bool" where
  "is_settle e \<longleftrightarrow> ev_operation e = ''trade.settle''"

definition declared_values :: "intent list \<Rightarrow> value_tuple list presult" where
  "declared_values settle_intents =
    try_map declared_value_leg_tuple (filter declares_value_leg settle_intents)"

definition validate_settle_batch :: "event list \<Rightarrow> intent list \<Rightarrow> unit presult" where
  "validate_settle_batch events settle_intents =
    and_then (one_tenant_loop None events) (\<lambda>_.
    let settle_event_count = length (filter is_settle events) in
    and_then (if list_ex declares_bundle settle_intents
        then check_bundle_shape settle_intents settle_event_count events
        else if settle_event_count \<noteq> length settle_intents
        then Err (AtomicityViolation (''settle batch has '' @ nat_to_string settle_event_count @
          '' trade.settle event(s) for '' @ nat_to_string (length settle_intents) @ '' settle intent(s)''))
        else Ok ()) (\<lambda>_.
    let all_groups = group_by ev_intent_id events in
    and_then (recover_value_pairs events) (\<lambda>value_pairs.
    let value_pair_ids = map rp_intent_id value_pairs in
    and_then (for_each (\<lambda>(intent_id, grp).
        if length grp > 1 \<and> intent_id \<notin> set value_pair_ids
        then Err (AtomicityViolation (''undeclared multi-event intent group '' @ quoted intent_id @
          '' in settle batch''))
        else Ok ()) all_groups) (\<lambda>_.
    let settle_ids = map in_intent_id settle_intents in
    and_then (for_each (\<lambda>p.
        if rp_intent_id p \<in> set settle_ids
        then Err (AtomicityViolation (''value leg intent id '' @ quoted (rp_intent_id p) @
          '' collides with a settle intent id''))
        else Ok ()) value_pairs) (\<lambda>_.
    and_then (declared_values settle_intents) (\<lambda>declared.
    if length value_pairs \<noteq> length declared
    then Err (AtomicityViolation (''settle batch declares '' @ nat_to_string (length declared) @
      '' value-leg settle(s) but has '' @ nat_to_string (length value_pairs) @
      '' balance.transfer pair(s)''))
    else
      let declared' = sort_by tuple_cmp declared;
          actual = sort_by tuple_cmp (map pair_tuple value_pairs) in
      if \<not> list_all2 tuple_eq declared' actual
      then Err (AtomicityViolation ''settle batch value-leg multiset mismatch: declared (amount, resource, recipient) value legs do not match the batch's balance.transfer pairs'')
      else Ok ()))))))"

section \<open>Cross-tenant batches\<close>

record tenant_event_group =
  tg_tenant :: tenant_id
  tg_events :: "event list"

record settle_leg =
  sl_asset :: resource_id
  sl_settle_intent_id :: string

record value_leg =
  vl_resource :: resource_id
  vl_amount :: string
  vl_to_subject :: subject_id

record trade_manifest =
  tm_trade_id :: string
  tm_settle_legs :: "settle_leg list"
  tm_value_legs :: "value_leg list"

text \<open>
  The inner loop of \<^verbatim>\<open>validate_cross_tenant_consistency\<close>: the tenants each intent id was seen in.
\<close>

definition note_tenant ::
  "string \<Rightarrow> string \<Rightarrow> (string, string list) btree_map \<Rightarrow> (string, string list) btree_map" where
  "note_tenant intent_id tenant m =
    btree_insert intent_id (List.insert tenant (case btree_get m intent_id of None \<Rightarrow> [] | Some ts \<Rightarrow> ts)) m"

fun linkage_events ::
  "tenant_id \<Rightarrow> (string, string list) btree_map \<Rightarrow> event list \<Rightarrow> (string, string list) btree_map presult" where
  "linkage_events tenant m [] = Ok m"
| "linkage_events tenant m (e # es) =
    (if ev_tenant_id e \<noteq> tenant
     then Err (AtomicityViolation (''tenant mismatch in cross-tenant batch (event tenant '' @
       quoted (ev_tenant_id e) @ '', group tenant '' @ quoted tenant @ '')''))
     else linkage_events tenant (note_tenant (ev_intent_id e) tenant m) es)"

fun linkage_groups ::
  "(string, string list) btree_map \<Rightarrow> tenant_event_group list \<Rightarrow> (string, string list) btree_map presult" where
  "linkage_groups m [] = Ok m"
| "linkage_groups m (g # gs) =
    and_then (linkage_events (tg_tenant g) m (tg_events g)) (\<lambda>m'.
    and_then (validate_batch_consistency (tg_events g)) (\<lambda>_.
    linkage_groups m' gs))"

definition validate_cross_tenant_consistency :: "tenant_event_group list \<Rightarrow> unit presult" where
  "validate_cross_tenant_consistency groups =
    and_then (linkage_groups [] groups) (\<lambda>intent_tenants.
    if \<not> list_ex (\<lambda>(i, tenants). length tenants \<ge> 2) intent_tenants
    then Err (AtomicityViolation ''cross-tenant batch has no cross-tenant intent linkage'')
    else Ok ())"

text \<open>The partition check and the per-group validation of \<^verbatim>\<open>validate_cross_tenant_trade\<close>.\<close>

fun partition_loop :: "tenant_event_group list \<Rightarrow> unit presult" where
  "partition_loop [] = Ok ()"
| "partition_loop (g # gs) =
    and_then (for_each (\<lambda>e.
        if ev_tenant_id e \<noteq> tg_tenant g
        then Err (AtomicityViolation (''tenant mismatch in cross-tenant trade (event tenant '' @
          quoted (ev_tenant_id e) @ '', group tenant '' @ quoted (tg_tenant g) @ '')''))
        else Ok ()) (tg_events g)) (\<lambda>_.
    and_then (validate_batch_consistency (tg_events g)) (\<lambda>_.
    partition_loop gs))"

fun settle_legs_loop ::
  "string list \<Rightarrow> string list \<Rightarrow> intent list \<Rightarrow> settle_leg list \<Rightarrow> unit presult" where
  "settle_legs_loop assets ids settle_intents [] = Ok ()"
| "settle_legs_loop assets ids settle_intents (leg # legs) =
    (if sl_asset leg \<in> set assets
     then Err (AtomicityViolation (''duplicate settle asset '' @ quoted (sl_asset leg) @
       '' across the declared settle legs''))
     else if sl_settle_intent_id leg \<in> set ids
     then Err (AtomicityViolation (''duplicate settle intent id '' @ quoted (sl_settle_intent_id leg) @
       '' across the declared settle legs''))
     else if \<not> list_ex (\<lambda>i. in_intent_id i = sl_settle_intent_id leg) settle_intents
     then Err (AtomicityViolation (''manifest settle intent '' @ quoted (sl_settle_intent_id leg) @
       '' is not among the batch's settle intents''))
     else settle_legs_loop (sl_asset leg # assets) (sl_settle_intent_id leg # ids) settle_intents legs)"

definition manifest_value_tuple :: "value_leg \<Rightarrow> value_tuple presult" where
  "manifest_value_tuple leg =
    and_then (map_err (\<lambda>_. TransferMismatch (''manifest value leg declares a malformed amount '' @
        quoted (vl_amount leg))) (try_from_str (vl_amount leg))) (\<lambda>amount.
    Ok (amount, vl_resource leg, Some (vl_to_subject leg)))"

text \<open>Each value leg declared on a settle intent takes an equal tuple out of the manifest's.\<close>

fun subset_loop :: "value_tuple list \<Rightarrow> intent list \<Rightarrow> unit presult" where
  "subset_loop legs [] = Ok ()"
| "subset_loop legs (i # is) =
    (if declares_value_leg i then
       and_then (declared_value_leg_tuple i) (\<lambda>tuple.
       case position (\<lambda>candidate. tuple_eq candidate tuple) legs of
         None \<Rightarrow> Err (AtomicityViolation ''cross-tenant trade settle-intent value-leg declarations do not match the manifest's value legs'')
       | Some pos \<Rightarrow> subset_loop (swap_remove pos legs) is)
     else subset_loop legs is)"

definition validate_cross_tenant_trade ::
  "tenant_event_group list \<Rightarrow> trade_manifest \<Rightarrow> intent list \<Rightarrow> unit presult" where
  "validate_cross_tenant_trade groups manifest settle_intents =
    (if length (remdups (map tg_tenant groups)) < 2
     then Err (AtomicityViolation ''cross-tenant trade requires at least two distinct tenants'')
     else
       and_then (partition_loop groups) (\<lambda>_.
       let all_events = concat (map tg_events groups) in
       if tm_settle_legs manifest = []
       then Err (AtomicityViolation ''cross-tenant trade manifest declares no settle legs (at least one required)'')
       else
         and_then (settle_legs_loop [] [] settle_intents (tm_settle_legs manifest)) (\<lambda>_.
         let declared_settle =
               sort (map (\<lambda>leg. (sl_asset leg, sl_settle_intent_id leg)) (tm_settle_legs manifest));
             actual_settle =
               sort (map (\<lambda>e. (ev_resource_id e, ev_intent_id e)) (filter is_settle all_events)) in
         if actual_settle \<noteq> declared_settle
         then Err (AtomicityViolation ''cross-tenant trade settle events do not match the declared settle legs exactly (a declared leg is missing, duplicated, or an undeclared settle event is present)'')
         else
           and_then (recover_value_pairs all_events) (\<lambda>value_pairs.
           if length value_pairs \<noteq> length (tm_value_legs manifest)
           then Err (AtomicityViolation (''cross-tenant trade declares '' @
             nat_to_string (length (tm_value_legs manifest)) @ '' value leg(s) but the batch has '' @
             nat_to_string (length value_pairs) @ '' balance.transfer pair(s)''))
           else
             and_then (try_map manifest_value_tuple (tm_value_legs manifest)) (\<lambda>legs.
             let declared = sort_by tuple_cmp legs;
                 actual = sort_by tuple_cmp (map pair_tuple value_pairs) in
             if \<not> list_all2 tuple_eq declared actual
             then Err (AtomicityViolation ''cross-tenant trade value-leg multiset mismatch: declared (amount, resource, recipient) value legs do not match the batch's balance.transfer pairs'')
             else
               and_then (subset_loop declared settle_intents) (\<lambda>_.
               let settle_ids = map sl_settle_intent_id (tm_settle_legs manifest);
                   value_ids = map rp_intent_id value_pairs in
               and_then (for_each (\<lambda>pair_id.
                   if pair_id \<in> set settle_ids
                   then Err (AtomicityViolation (''value leg intent id '' @ quoted pair_id @
                     '' collides with a settle leg intent id''))
                   else Ok ()) (sort (remdups value_ids))) (\<lambda>_.
               for_each (\<lambda>(intent_id, grp).
                 if intent_id \<notin> set settle_ids \<and> intent_id \<notin> set value_ids
                 then Err (AtomicityViolation (''undeclared intent id '' @ quoted intent_id @
                   '' in cross-tenant trade (every intent must resolve to a declared settle leg or value leg)''))
                 else Ok ()) (group_by ev_intent_id all_events))))))))"

section \<open>Transfer pairs conserve value\<close>

definition commitment_value :: "state_commitment \<Rightarrow> string \<Rightarrow> rat" where
  "commitment_value c field =
    (case rs_amount (sc_state c) field of None \<Rightarrow> 0 | Some a \<Rightarrow> amount_value a)"

lemma value_ZERO [simp]: "amount_value ZERO = 0"
  by (simp add: amount_value_def ZERO_def)

lemma commitment_amount_value: "commitment_amount c field = Ok a \<Longrightarrow> amount_value a = commitment_value c field"
  by (auto simp: commitment_amount_def commitment_value_def split: option.splits)

text \<open>How much of a field one event takes away (negative when it adds).\<close>

definition event_debit :: "string \<Rightarrow> event \<Rightarrow> rat" where
  "event_debit field e = commitment_value (ev_before e) field - commitment_value (ev_after e) field"

lemma pair_totals_value:
  "pair_totals field (debit, credit) es = Ok (d, c) \<Longrightarrow>
    amount_value d = amount_value debit + (\<Sum>e\<leftarrow>es. max 0 (event_debit field e)) \<and>
    amount_value c = amount_value credit + (\<Sum>e\<leftarrow>es. max 0 (- event_debit field e))"
proof (induction field "(debit, credit)" es arbitrary: debit credit rule: pair_totals.induct)
  case (2 field debit credit e es)
  from "2.prems" obtain b a where
    b: "commitment_amount (ev_before e) field = Ok b" and a: "commitment_amount (ev_after e) field = Ok a"
    by auto
  have v: "event_debit field e = amount_value b - amount_value a"
    using a b by (simp add: commitment_amount_value event_debit_def)
  show ?case
  proof (cases "amount_less b a")
    case False
    with "2.prems" a b obtain delta debit' where
      s: "amount_checked_sub b a = Some delta" "amount_checked_add debit delta = Some debit'"
        "pair_totals field (debit', credit) es = Ok (d, c)" by auto
    from "2.hyps"(1) [OF False s(3)] False show ?thesis
      using checked_sub_value [OF s(1)] checked_add_value [OF s(2)] v by simp
  next
    case True
    with "2.prems" a b obtain delta credit' where
      s: "amount_checked_sub a b = Some delta" "amount_checked_add credit delta = Some credit'"
        "pair_totals field (debit, credit') es = Ok (d, c)" by auto
    from True have "\<not> \<not> amount_less b a" by simp
    from "2.hyps"(2) [OF this s(3)] True show ?thesis
      using checked_sub_value [OF s(1)] checked_add_value [OF s(2)] v by simp
  qed
qed simp

text \<open>What it means for two events to be the two sides of one transfer.\<close>

definition transfer_sides :: "event \<Rightarrow> event \<Rightarrow> bool" where
  "transfer_sides e1 e2 \<longleftrightarrow>
    ev_operation e1 = ev_operation e2 \<and> ev_resource_id e1 = ev_resource_id e2 \<and>
    (\<exists>field. transfer_field (ev_operation e1) = Some field \<and>
      event_debit field e1 \<noteq> 0 \<and> event_debit field e1 + event_debit field e2 = 0)"

lemma validate_transfer_pair_Ok:
  assumes "validate_transfer_pair i g = Ok u"
  shows "\<exists>e1 e2. g = [e1, e2] \<and> transfer_sides e1 e2"
proof -
  from assms obtain e1 e2 where g: "g = [e1, e2]"
    by (auto simp: validate_transfer_pair_def Let_def split: list.splits)
  from assms g obtain field d c where
    f: "transfer_field (ev_operation e1) = Some field" and
    same: "ev_operation e1 = ev_operation e2" "ev_resource_id e1 = ev_resource_id e2" and
    t: "pair_totals field (ZERO, ZERO) [e1, e2] = Ok (d, c)" and
    z: "amount_value d \<noteq> 0" "amount_value d = amount_value c"
    by (auto simp: validate_transfer_pair_def Let_def split: option.splits if_splits)
  from pair_totals_value [OF t] z have
    "max 0 (event_debit field e1) + max 0 (event_debit field e2) \<noteq> 0"
    "max 0 (event_debit field e1) + max 0 (event_debit field e2) =
     max 0 (- event_debit field e1) + max 0 (- event_debit field e2)"
    by simp_all
  then have "event_debit field e1 \<noteq> 0 \<and> event_debit field e1 + event_debit field e2 = 0"
    by (auto simp: max_def split: if_splits)
  with g f same show ?thesis by (auto simp: transfer_sides_def)
qed

section \<open>What batch consistency establishes\<close>

lemma batch_loop_Ok:
  "batch_loop seen ft m es = Ok m' \<longleftrightarrow>
    m' = fold (\<lambda>e. btree_push (ev_intent_id e) e) es m \<and>
    distinct (map ev_event_id es) \<and> set (map ev_event_id es) \<inter> set seen = {} \<and>
    (\<forall>e \<in> set es. (case ft of None \<Rightarrow> ev_tenant_id (hd es) | Some t \<Rightarrow> t) = ev_tenant_id e)"
proof (induction seen ft m es rule: batch_loop.induct)
  case (2 seen ft m e es)
  show ?case
  proof (cases "ev_event_id e \<in> set seen \<or> (\<exists>t. ft = Some t \<and> t \<noteq> ev_tenant_id e)")
    case True
    then show ?thesis by auto
  next
    case False
    then have ft: "(case ft of None \<Rightarrow> Ok (ev_tenant_id e) | Some first \<Rightarrow>
        if first \<noteq> ev_tenant_id e
        then Err (AtomicityViolation (''mixed tenant scopes in batch (first tenant '' @ quoted first @ '')''))
        else Ok first) = Ok (ev_tenant_id e)"
      by (cases ft) auto
    have "batch_loop seen ft m (e # es) = Ok m' \<longleftrightarrow>
        batch_loop (ev_event_id e # seen) (Some (ev_tenant_id e)) (btree_push (ev_intent_id e) e m) es = Ok m'"
      using False ft by simp
    also have "\<dots> \<longleftrightarrow> m' = fold (\<lambda>e. btree_push (ev_intent_id e) e) (e # es) m \<and>
        distinct (map ev_event_id (e # es)) \<and> set (map ev_event_id (e # es)) \<inter> set seen = {} \<and>
        (\<forall>e' \<in> set es. ev_tenant_id e = ev_tenant_id e')"
      using "2.IH" [of "ev_tenant_id e"] False by auto
    finally show ?thesis using False by (cases ft) auto
  qed
qed auto

definition events_of :: "string \<Rightarrow> event list \<Rightarrow> event list" where
  "events_of i events = filter (\<lambda>e. ev_intent_id e = i) events"

lemma batch_groups_Ok:
  assumes "validate_batch_consistency events = Ok u"
  shows "distinct (map ev_event_id events)"
    and "e \<in> set events \<Longrightarrow> e' \<in> set events \<Longrightarrow> ev_tenant_id e = ev_tenant_id e'"
    and "length (events_of i events) \<le> 1 \<or> (\<exists>e1 e2. events_of i events = [e1, e2] \<and> transfer_sides e1 e2)"
proof -
  from assms have loop: "batch_loop [] None [] events = Ok (group_by ev_intent_id events)"
    and pairs: "\<And>i g. (i, g) \<in> set (group_by ev_intent_id events) \<Longrightarrow> length g \<noteq> 1 \<Longrightarrow>
      validate_transfer_pair i g = Ok ()"
    by (auto simp: validate_batch_consistency_def batch_loop_Ok group_by_def split: prod.splits if_splits)
  from loop show "distinct (map ev_event_id events)" by (simp add: batch_loop_Ok)
  from loop show "e \<in> set events \<Longrightarrow> e' \<in> set events \<Longrightarrow> ev_tenant_id e = ev_tenant_id e'"
    by (auto simp: batch_loop_Ok) metis
  show "length (events_of i events) \<le> 1 \<or> (\<exists>e1 e2. events_of i events = [e1, e2] \<and> transfer_sides e1 e2)"
  proof (cases "length (events_of i events) \<le> 1")
    case False
    then have "(i, events_of i events) \<in> set (group_by ev_intent_id events)"
      by (auto simp: in_group_by events_of_def)
    from pairs [OF this] False validate_transfer_pair_Ok show ?thesis by fastforce
  qed simp
qed

section \<open>What a settlement batch establishes\<close>

definition tuple_key :: "value_tuple \<Rightarrow> rat \<times> string \<times> string option" where
  "tuple_key t = (case t of (a, r, p) \<Rightarrow> (amount_value a, r, p))"

lemma tuple_cmp_key: "tuple_cmp s t = cmp (tuple_key s) (tuple_key t)"
  by (auto simp: tuple_cmp_def tuple_key_def amount_cmp_value_eq cmp_def split: prod.splits)

lemma tuple_eq_key: "tuple_eq s t \<longleftrightarrow> tuple_key s = tuple_key t"
  by (auto simp: tuple_eq_def tuple_key_def split: prod.splits)

lemma sorted_tuples_eq_iff:
  "list_all2 tuple_eq (sort_by tuple_cmp xs) (sort_by tuple_cmp ys) \<longleftrightarrow>
    mset (map tuple_key xs) = mset (map tuple_key ys)"
proof -
  have "list_all2 tuple_eq (sort_by tuple_cmp xs) (sort_by tuple_cmp ys) \<longleftrightarrow>
      map tuple_key (sort_key tuple_key xs) = map tuple_key (sort_key tuple_key ys)"
    unfolding sort_by_key [of tuple_cmp tuple_key, OF tuple_cmp_key] tuple_eq_key
    by (auto simp: list_all2_conv_all_nth list_eq_iff_nth_eq)
  also have "\<dots> \<longleftrightarrow> mset (map tuple_key xs) = mset (map tuple_key ys)"
  proof
    assume "map tuple_key (sort_key tuple_key xs) = map tuple_key (sort_key tuple_key ys)"
    then have "mset (map tuple_key (sort_key tuple_key xs)) = mset (map tuple_key (sort_key tuple_key ys))"
      by simp
    then show "mset (map tuple_key xs) = mset (map tuple_key ys)" by simp
  next
    assume eq: "mset (map tuple_key xs) = mset (map tuple_key ys)"
    have map_sort: "sort (map tuple_key zs) = map tuple_key (sort_key tuple_key zs)" for zs
      by (rule properties_for_sort) simp_all
    have "sort (map tuple_key xs) = sort (map tuple_key ys)"
      by (rule properties_for_sort) (use eq in simp_all)
    then show "map tuple_key (sort_key tuple_key xs) = map tuple_key (sort_key tuple_key ys)"
      unfolding map_sort .
  qed
  finally show ?thesis .
qed

text \<open>
  The events of intent \<open>i\<close> are one \<^verbatim>\<open>balance.transfer\<close> pair that moves the value \<open>v\<close> of resource
  \<open>r\<close> and credits \<open>p\<close>.
\<close>

definition pays :: "event list \<Rightarrow> string \<Rightarrow> rat \<times> string \<times> string option \<Rightarrow> bool" where
  "pays events i t \<longleftrightarrow>
    (case t of (v, r, p) \<Rightarrow>
      (\<exists>d c. mset (events_of i events) = {#d, c#} \<and>
        ev_operation d = ''balance.transfer'' \<and> ev_operation c = ''balance.transfer'' \<and>
        ev_resource_id d = r \<and> ev_resource_id c = r \<and>
        event_debit ''balance'' d = v \<and> event_debit ''balance'' c = - v \<and> 0 < v \<and>
        rs_subject (sc_state (ev_after c)) = p))"

lemma paysI:
  assumes "mset (events_of i events) = {#d, c#}" "ev_operation d = ''balance.transfer''"
    "ev_operation c = ''balance.transfer''" "ev_resource_id d = r" "ev_resource_id c = r"
    "event_debit ''balance'' d = v" "event_debit ''balance'' c = - v" "0 < v"
    "rs_subject (sc_state (ev_after c)) = p"
  shows "pays events i (v, r, p)"
  using assms unfolding pays_def by blast

lemma value_pair_debit_loop_value:
  "value_pair_debit_loop debit es = Ok d \<Longrightarrow>
    amount_value d = amount_value debit + (\<Sum>e\<leftarrow>es. max 0 (event_debit ''balance'' e))"
proof (induction debit es rule: value_pair_debit_loop.induct)
  case (2 debit e es)
  from "2.prems" obtain b a where
    b: "commitment_amount (ev_before e) ''balance'' = Ok b" and
    a: "commitment_amount (ev_after e) ''balance'' = Ok a" by auto
  have v: "event_debit ''balance'' e = amount_value b - amount_value a"
    using a b by (simp add: commitment_amount_value event_debit_def)
  show ?case
  proof (cases "amount_less a b")
    case True
    with "2.prems" a b obtain delta debit' where
      s: "amount_checked_sub b a = Some delta" "amount_checked_add debit delta = Some debit'"
        "value_pair_debit_loop debit' es = Ok d" by auto
    from "2.IH"(1) [OF True s(3)] True show ?thesis
      using checked_sub_value [OF s(1)] checked_add_value [OF s(2)] v by simp
  next
    case False
    with "2.prems" a b have "value_pair_debit_loop debit es = Ok d" by auto
    from "2.IH"(2) [OF False this] False v show ?thesis by simp
  qed
qed simp

lemma credited_loop_pair:
  assumes "credited_loop None [e1, e2] = Ok p"
  shows "event_debit ''balance'' e2 < 0 \<Longrightarrow> p = rs_subject (sc_state (ev_after e2))"
    and "event_debit ''balance'' e1 < 0 \<Longrightarrow> \<not> event_debit ''balance'' e2 < 0 \<Longrightarrow>
      p = rs_subject (sc_state (ev_after e1))"
  using assms
  by (auto simp: event_debit_def dest!: commitment_amount_value split: if_splits)

definition value_groups :: "(string \<times> event list) list \<Rightarrow> (string \<times> event list) list" where
  "value_groups gs = filter (\<lambda>(i, g). g \<noteq> [] \<and> ev_operation (hd g) = ''balance.transfer'') gs"

definition recovered_from :: "event list \<Rightarrow> recovered_value_pair \<Rightarrow> bool" where
  "recovered_from g p \<longleftrightarrow>
    length g = 2 \<and> ev_operation (hd g) = ''balance.transfer'' \<and> value_pair_debit g = Ok (rp_debit p) \<and>
    credited_loop None g = Ok (rp_credited_subject p) \<and> rp_resource p = ev_resource_id (hd g)"

lemma recover_loop_Ok:
  "recover_loop acc gs = Ok pairs \<Longrightarrow>
    \<exists>new. pairs = acc @ new \<and>
      list_all2 (\<lambda>(i, g) p. rp_intent_id p = i \<and> recovered_from g p) (value_groups gs) new"
proof (induction acc gs rule: recover_loop.induct)
  case (1 acc)
  then show ?case by (simp add: value_groups_def)
next
  case (2 acc i g rest)
  show ?case
  proof (cases "g \<noteq> [] \<and> ev_operation (hd g) = ''balance.transfer''")
    case False
    then have "value_groups ((i, g) # rest) = value_groups rest" by (auto simp: value_groups_def)
    moreover have "recover_loop acc rest = Ok pairs" using "2.prems" False by (cases g) auto
    ultimately show ?thesis using "2.IH"(1,3) False by (cases g) simp_all
  next
    case True
    then obtain first tail where g: "g = first # tail" "ev_operation first = ''balance.transfer''"
      by (cases g) auto
    with "2.prems" obtain debit credited where
      s: "length g = 2" "value_pair_debit g = Ok debit" "credited_loop None g = Ok credited"
        "recover_loop (acc @ [\<lparr>rp_intent_id = i, rp_debit = debit, rp_resource = ev_resource_id first,
          rp_credited_subject = credited\<rparr>]) rest = Ok pairs"
      by (auto split: if_splits)
    let ?p = "\<lparr>rp_intent_id = i, rp_debit = debit, rp_resource = ev_resource_id first,
          rp_credited_subject = credited\<rparr>"
    from "2.IH"(2) [OF g] s obtain new where
      n: "pairs = (acc @ [?p]) @ new"
        "list_all2 (\<lambda>(i, g) p. rp_intent_id p = i \<and> recovered_from g p) (value_groups rest) new"
      by auto
    moreover have "value_groups ((i, g) # rest) = (i, g) # value_groups rest"
      using True by (simp add: value_groups_def)
    moreover have "recovered_from g ?p" using s g by (simp add: recovered_from_def)
    ultimately show ?thesis by (intro exI [of _ "?p # new"]) simp
  qed
qed

lemma recover_value_pairs_Ok:
  assumes "recover_value_pairs events = Ok pairs"
  shows "distinct (map rp_intent_id pairs)"
    and "p \<in> set pairs \<Longrightarrow> recovered_from (events_of (rp_intent_id p) events) p"
proof -
  let ?gs = "group_by ev_intent_id events"
  from assms have l: "list_all2 (\<lambda>(i, g) p. rp_intent_id p = i \<and> recovered_from g p) (value_groups ?gs) pairs"
    by (auto simp: recover_value_pairs_def dest: recover_loop_Ok)
  then have ids: "map rp_intent_id pairs = map fst (value_groups ?gs)"
    by (induction rule: list_all2_induct) auto
  have "distinct (map fst ?gs)" by (simp add: btree_ok_distinct)
  then show "distinct (map rp_intent_id pairs)"
    unfolding ids value_groups_def by (rule distinct_map_filter)
  show "recovered_from (events_of (rp_intent_id p) events) p" if "p \<in> set pairs"
  proof -
    from l that obtain i g where "(i, g) \<in> set (value_groups ?gs)" "rp_intent_id p = i" "recovered_from g p"
      by (auto simp: list_all2_conv_all_nth in_set_conv_nth split: prod.splits) (metis surj_pair)
    then show ?thesis by (auto simp: value_groups_def in_group_by events_of_def)
  qed
qed

lemma recovered_pays:
  assumes batch: "validate_batch_consistency events = Ok u"
    and g: "recovered_from (events_of i events) p"
  shows "pays events i (tuple_key (pair_tuple p))"
proof -
  from g obtain e1 e2 where e: "events_of i events = [e1, e2]" "ev_operation e1 = ''balance.transfer''"
    "value_pair_debit [e1, e2] = Ok (rp_debit p)" "credited_loop None [e1, e2] = Ok (rp_credited_subject p)"
    "rp_resource p = ev_resource_id e1"
    by (auto simp: recovered_from_def length_Suc_conv numeral_2_eq_2)
  from batch_groups_Ok(3) [OF batch, of i] e(1) have "transfer_sides e1 e2" by simp
  with e(2) have sides: "ev_operation e2 = ''balance.transfer''" "ev_resource_id e2 = ev_resource_id e1"
      "event_debit ''balance'' e1 \<noteq> 0" "event_debit ''balance'' e1 + event_debit ''balance'' e2 = 0"
    by (auto simp: transfer_sides_def transfer_field_def)
  have debit: "amount_value (rp_debit p) =
      max 0 (event_debit ''balance'' e1) + max 0 (event_debit ''balance'' e2)"
    using value_pair_debit_loop_value [OF e(3) [unfolded value_pair_debit_def]] by simp
  show ?thesis
  proof (cases "0 < event_debit ''balance'' e1")
    case True
    with sides have neg: "event_debit ''balance'' e2 < 0" by linarith
    have "rp_credited_subject p = rs_subject (sc_state (ev_after e2))"
      using credited_loop_pair(1) [OF e(4) neg] .
    moreover have "amount_value (rp_debit p) = event_debit ''balance'' e1"
      "event_debit ''balance'' e2 = - amount_value (rp_debit p)"
      using debit neg True sides by simp_all
    ultimately show ?thesis
      using True sides(1,2) e(1,2,5) unfolding tuple_key_def pair_tuple_def prod.case
      by (intro paysI [of _ _ e1 e2]) simp_all
  next
    case False
    with sides have neg: "event_debit ''balance'' e1 < 0" and pos: "0 < event_debit ''balance'' e2"
      by linarith+
    have "rp_credited_subject p = rs_subject (sc_state (ev_after e1))"
      using credited_loop_pair(2) [OF e(4) neg] pos by simp
    moreover have "amount_value (rp_debit p) = event_debit ''balance'' e2"
      "event_debit ''balance'' e1 = - amount_value (rp_debit p)"
      using debit neg pos sides by simp_all
    ultimately show ?thesis
      using pos sides(1,2) e(1,2,5) unfolding tuple_key_def pair_tuple_def prod.case
      by (intro paysI [of _ _ e2 e1]) simp_all
  qed
qed

lemma settle_batch_Ok:
  assumes "validate_settle_batch events intents = Ok u"
  obtains pairs legs where "recover_value_pairs events = Ok pairs" "declared_values intents = Ok legs"
    "mset (map tuple_key legs) = mset (map (tuple_key \<circ> pair_tuple) pairs)"
    "\<And>i. length (events_of i events) > 1 \<Longrightarrow> i \<in> rp_intent_id ` set pairs"
    "\<And>p. p \<in> set pairs \<Longrightarrow> rp_intent_id p \<notin> in_intent_id ` set intents"
proof -
  from assms obtain pairs legs where
    p: "recover_value_pairs events = Ok pairs" and l: "declared_values intents = Ok legs" and
    groups: "for_each (\<lambda>(intent_id, grp).
        if length grp > 1 \<and> intent_id \<notin> set (map rp_intent_id pairs)
        then Err (AtomicityViolation (''undeclared multi-event intent group '' @ quoted intent_id @
          '' in settle batch''))
        else Ok ()) (group_by ev_intent_id events) = Ok ()" and
    ids: "for_each (\<lambda>p.
        if rp_intent_id p \<in> set (map in_intent_id intents)
        then Err (AtomicityViolation (''value leg intent id '' @ quoted (rp_intent_id p) @
          '' collides with a settle intent id''))
        else Ok ()) pairs = Ok ()" and
    eq: "list_all2 tuple_eq (sort_by tuple_cmp legs) (sort_by tuple_cmp (map pair_tuple pairs))"
    unfolding validate_settle_batch_def Let_def and_then_eq_Ok by (auto split: if_split_asm simp del: for_each_eq_Ok set_map)
  show thesis
  proof (rule that [OF p l])
    show "mset (map tuple_key legs) = mset (map (tuple_key \<circ> pair_tuple) pairs)"
      using eq unfolding sorted_tuples_eq_iff by simp
    show "i \<in> rp_intent_id ` set pairs" if "length (events_of i events) > 1" for i
    proof -
      from that have "(i, events_of i events) \<in> set (group_by ev_intent_id events)"
        by (auto simp: in_group_by events_of_def)
      with groups have "\<not> (length (events_of i events) > 1 \<and> i \<notin> set (map rp_intent_id pairs))"
        unfolding for_each_eq_Ok by fastforce
      with that show ?thesis by simp
    qed
    show "rp_intent_id p \<notin> in_intent_id ` set intents" if "p \<in> set pairs" for p
      using that ids unfolding for_each_eq_Ok by (auto split: if_split_asm)
  qed
qed

section \<open>What a cross-tenant trade establishes\<close>

definition all_events :: "tenant_event_group list \<Rightarrow> event list" where
  "all_events groups = concat (map tg_events groups)"

text \<open>No intent has events in two of the groups.\<close>

definition intents_local :: "tenant_event_group list \<Rightarrow> bool" where
  "intents_local groups \<longleftrightarrow>
    (\<forall>i. length (filter (\<lambda>g. events_of i (tg_events g) \<noteq> []) groups) \<le> 1)"

lemma events_of_append: "events_of i (xs @ ys) = events_of i xs @ events_of i ys"
  by (simp add: events_of_def)

lemma events_of_concat_empty:
  "filter (\<lambda>g. events_of i (tg_events g) \<noteq> []) groups = [] \<Longrightarrow>
    events_of i (concat (map tg_events groups)) = []"
  by (induction groups) (auto simp: events_of_append events_of_def split: if_splits)

lemma events_of_local:
  "length (filter (\<lambda>g. events_of i (tg_events g) \<noteq> []) groups) \<le> 1 \<Longrightarrow>
    events_of i (concat (map tg_events groups)) \<noteq> [] \<Longrightarrow>
    \<exists>g \<in> set groups. events_of i (concat (map tg_events groups)) = events_of i (tg_events g)"
proof (induction groups)
  case (Cons g gs)
  show ?case
  proof (cases "events_of i (tg_events g) = []")
    case True
    with Cons show ?thesis by (auto simp: events_of_append)
  next
    case False
    with Cons.prems have "filter (\<lambda>g. events_of i (tg_events g) \<noteq> []) gs = []" by simp
    then have "events_of i (concat (map tg_events gs)) = []" by (rule events_of_concat_empty)
    then show ?thesis by (simp add: events_of_append)
  qed
qed (simp add: events_of_def)

lemma partition_loop_Ok:
  "partition_loop groups = Ok u \<Longrightarrow> g \<in> set groups \<Longrightarrow> validate_batch_consistency (tg_events g) = Ok ()"
  by (induction groups) auto

lemma recovered_pays_local:
  assumes part: "partition_loop groups = Ok u" and "intents_local groups"
    and g: "recovered_from (events_of i (all_events groups)) p"
  shows "pays (all_events groups) i (tuple_key (pair_tuple p))"
proof -
  from g have "events_of i (all_events groups) \<noteq> []" by (auto simp: recovered_from_def)
  with assms(2) obtain h where h: "h \<in> set groups"
    "events_of i (all_events groups) = events_of i (tg_events h)"
    unfolding intents_local_def all_events_def using events_of_local by blast
  from recovered_pays [OF partition_loop_Ok [OF part h(1)]] g h(2)
  have "pays (tg_events h) i (tuple_key (pair_tuple p))" by simp
  then show ?thesis unfolding pays_def h(2) .
qed

lemma cross_tenant_trade_Ok:
  assumes "validate_cross_tenant_trade groups manifest intents = Ok u"
  obtains pairs legs where "partition_loop groups = Ok ()"
    "recover_value_pairs (all_events groups) = Ok pairs"
    "try_map manifest_value_tuple (tm_value_legs manifest) = Ok legs"
    "mset (map tuple_key legs) = mset (map (tuple_key \<circ> pair_tuple) pairs)"
    "mset (map (\<lambda>e. (ev_resource_id e, ev_intent_id e)) (filter is_settle (all_events groups))) =
     mset (map (\<lambda>leg. (sl_asset leg, sl_settle_intent_id leg)) (tm_settle_legs manifest))"
    "settle_legs_loop [] [] intents (tm_settle_legs manifest) = Ok ()"
proof -
  from assms obtain pairs legs where
    part: "partition_loop groups = Ok ()" and p: "recover_value_pairs (all_events groups) = Ok pairs" and
    l: "try_map manifest_value_tuple (tm_value_legs manifest) = Ok legs" and
    eq: "list_all2 tuple_eq (sort_by tuple_cmp legs) (sort_by tuple_cmp (map pair_tuple pairs))" and
    s: "sort (map (\<lambda>e. (ev_resource_id e, ev_intent_id e)) (filter is_settle (all_events groups))) =
      sort (map (\<lambda>leg. (sl_asset leg, sl_settle_intent_id leg)) (tm_settle_legs manifest))" and
    sl: "settle_legs_loop [] [] intents (tm_settle_legs manifest) = Ok ()"
    unfolding validate_cross_tenant_trade_def Let_def all_events_def [symmetric]
    by (auto split: if_split_asm simp del: for_each_eq_Ok set_map)
  show thesis
  proof (rule that [OF part p l _ _ sl])
    show "mset (map tuple_key legs) = mset (map (tuple_key \<circ> pair_tuple) pairs)"
      using eq unfolding sorted_tuples_eq_iff by simp
    from arg_cong [OF s, of mset] show "mset (map (\<lambda>e. (ev_resource_id e, ev_intent_id e)) (filter is_settle (all_events groups))) =
     mset (map (\<lambda>leg. (sl_asset leg, sl_settle_intent_id leg)) (tm_settle_legs manifest))"
      by (simp only: mset_sort)
  qed
qed

lemma settle_legs_loop_Ok:
  "settle_legs_loop assets ids intents legs = Ok u \<Longrightarrow>
    distinct (map sl_asset legs) \<and> distinct (map sl_settle_intent_id legs) \<and>
    set (map sl_asset legs) \<inter> set assets = {} \<and> set (map sl_settle_intent_id legs) \<inter> set ids = {} \<and>
    set (map sl_settle_intent_id legs) \<subseteq> in_intent_id ` set intents"
  by (induction assets ids intents legs rule: settle_legs_loop.induct)
    (auto simp: list_ex_iff split: if_splits intro: rev_image_eqI)

section \<open>Properties\<close>

text \<open>
  C1. A batch that passes \<^verbatim>\<open>validate_batch_consistency\<close> has distinct event ids and one tenant, and
  every intent that produced more than one event produced exactly the two sides of one transfer:
  the same operation on the same resource, with what one event takes away equal to what the other
  adds, and not zero.
\<close>

theorem batch_consistency_conserves:
  assumes "validate_batch_consistency events = Ok ()"
  shows "distinct (map ev_event_id events) \<and>
    (\<exists>t. \<forall>e \<in> set events. ev_tenant_id e = t) \<and>
    (\<forall>i. length (events_of i events) \<le> 1 \<or>
      (\<exists>e1 e2. events_of i events = [e1, e2] \<and> transfer_sides e1 e2))"
  using batch_groups_Ok [OF assms] by (metis (no_types, lifting))

lemma ex_settle_batch: "validate_batch_consistency ex_settle_events = Ok ()"
  by code_simp

theorem batch_consistency_conserves_witness:
  "validate_batch_consistency ex_settle_events = Ok () \<and>
   length (events_of ''int_2'' ex_settle_events) = 2 \<and>
   (\<exists>e1 e2. events_of ''int_2'' ex_settle_events = [e1, e2] \<and> transfer_sides e1 e2)"
proof -
  have n: "length (events_of ''int_2'' ex_settle_events) = 2" by code_simp
  then have "\<not> length (events_of ''int_2'' ex_settle_events) \<le> 1" by simp
  with batch_consistency_conserves [OF ex_settle_batch]
  have "\<exists>e1 e2. events_of ''int_2'' ex_settle_events = [e1, e2] \<and> transfer_sides e1 e2" by blast
  with n ex_settle_batch show ?thesis by blast
qed

text \<open>
  C2. In a batch that passes both validators, the value legs that the settle intents declare are
  paid one for one: there are as many different intents as declared legs, none of them a settle
  intent, and the events of the k-th are a \<^verbatim>\<open>balance.transfer\<close> pair that moves exactly the
  declared amount of the declared resource to the declared recipient. No other intent has more
  than one event.
\<close>

theorem settle_batch_pays_declared_legs:
  assumes "validate_batch_consistency events = Ok ()"
    and "validate_settle_batch events intents = Ok ()"
  shows "\<exists>legs ids. declared_values intents = Ok legs \<and> distinct ids \<and>
    list_all2 (pays events) ids (map tuple_key legs) \<and>
    set ids \<inter> in_intent_id ` set intents = {} \<and>
    (\<forall>i. length (events_of i events) > 1 \<longrightarrow> i \<in> set ids)"
proof -
  obtain pairs legs where p: "recover_value_pairs events = Ok pairs" and l: "declared_values intents = Ok legs"
    and m: "mset (map tuple_key legs) = mset (map (tuple_key \<circ> pair_tuple) pairs)"
    and multi: "\<And>i. length (events_of i events) > 1 \<Longrightarrow> i \<in> rp_intent_id ` set pairs"
    and ids: "\<And>p. p \<in> set pairs \<Longrightarrow> rp_intent_id p \<notin> in_intent_id ` set intents"
    using settle_batch_Ok [OF assms(2)] by blast
  from mset_map_reorder [OF m [symmetric]] obtain zs where
    z: "mset zs = mset pairs" "map (tuple_key \<circ> pair_tuple) zs = map tuple_key legs" by blast
  then have zset: "set zs = set pairs" by (metis set_mset_mset)
  have "list_all2 (pays events) (map rp_intent_id zs) (map (tuple_key \<circ> pair_tuple) zs)"
    using recovered_pays [OF assms(1) recover_value_pairs_Ok(2) [OF p]] zset
    by (simp add: list.rel_map list_all2_same)
  moreover have "distinct (map rp_intent_id zs)"
    using recover_value_pairs_Ok(1) [OF p] z(1) by (metis mset_eq_imp_distinct_iff mset_map)
  ultimately show ?thesis
    using l z(2) zset ids multi by (intro exI [of _ legs] exI [of _ "map rp_intent_id zs"]) auto
qed

theorem settle_batch_pays_declared_legs_witness:
  "validate_settle_batch ex_settle_events ex_settle_intents = Ok () \<and>
   (\<exists>i. pays ex_settle_events i (30, ''purse'', Some ''alice''))"
proof -
  have ok: "validate_settle_batch ex_settle_events ex_settle_intents = Ok ()" by code_simp
  have legs: "declared_values ex_settle_intents = Ok [(ex_amount 30, ''purse'', Some ''alice'')]" by code_simp
  have "amount_value (ex_amount 30) = 30"
    by (simp add: ex_amount_def value_from_u128 unat_of_nat_less)
  with settle_batch_pays_declared_legs [OF ex_settle_batch ok] legs ok show ?thesis
    by (auto simp: tuple_key_def list_all2_Cons2)
qed


text \<open>The settlement above as a trade over two tenants: the asset in one, the payment in the other.\<close>

definition ex_trade_groups :: "tenant_event_group list" where
  "ex_trade_groups =
    [\<lparr>tg_tenant = ''t'', tg_events = take 1 ex_settle_events\<rparr>,
     \<lparr>tg_tenant = ''u'', tg_events = map (\<lambda>e. e\<lparr>ev_tenant_id := ''u''\<rparr>) (drop 1 ex_settle_events)\<rparr>]"

definition ex_manifest :: trade_manifest where
  "ex_manifest =
    \<lparr>tm_trade_id = ''tr1'',
     tm_settle_legs = [\<lparr>sl_asset = ''sword'', sl_settle_intent_id = ''int_1''\<rparr>],
     tm_value_legs = [\<lparr>vl_resource = ''purse'', vl_amount = ''30'', vl_to_subject = ''alice''\<rparr>]\<rparr>"

lemma ex_trade_local: "intents_local ex_trade_groups"
  by (simp add: intents_local_def events_of_def ex_trade_groups_def ex_settle_events_def ex_event_def)


text \<open>The same trade with the payment split over the two tenants, and more credited than debited.\<close>

definition ex_split_groups :: "tenant_event_group list" where
  "ex_split_groups =
    [\<lparr>tg_tenant = ''t'', tg_events =
       [ex_event ''evt_1'' ''int_1'' ''trade.settle'' ''sword''
          (ex_asset ''alice'' ''trade_held'' (Some ''tr1'')) (ex_asset ''bob'' ''active'' None),
        ex_event ''evt_2'' ''int_2'' ''balance.transfer'' ''purse''
          (ex_balance ''bob'' 100) (ex_balance ''bob'' 70)]\<rparr>,
     \<lparr>tg_tenant = ''u'', tg_events =
       [(ex_event ''evt_3'' ''int_2'' ''balance.transfer'' ''purse''
          (ex_balance ''alice'' 5) (ex_balance ''alice'' 1005))\<lparr>ev_tenant_id := ''u''\<rparr>]\<rparr>]"

text \<open>
  Without that restriction value is not conserved: the validator accepts a trade in which one
  intent takes 30 from a purse in the first tenant and adds 1000 to a purse in the second, against
  a declared value leg of 30.
\<close>

theorem cross_tenant_trade_can_create_value:
  "validate_cross_tenant_trade ex_split_groups ex_manifest ex_settle_intents = Ok () \<and>
   (\<Sum>e\<leftarrow>events_of ''int_2'' (all_events ex_split_groups). event_debit ''balance'' e) = - 970"
proof
  show "validate_cross_tenant_trade ex_split_groups ex_manifest ex_settle_intents = Ok ()" by code_simp
  show "(\<Sum>e\<leftarrow>events_of ''int_2'' (all_events ex_split_groups). event_debit ''balance'' e) = - 970"
    by (simp add: all_events_def events_of_def ex_split_groups_def ex_event_def ex_commitment_def
        event_debit_def commitment_value_def ex_balance_def ex_asset_def ex_amount_def value_from_u128
        unat_of_nat_less)
qed

end
