(* ===== verification/Resource_Policy.thy ===== *)
theory Resource_Policy
  imports Transition Atomicity
begin

text \<open>
  The execution policies of the profiles (\<^verbatim>\<open>execution.rs\<close>, \<^verbatim>\<open>resource.rs\<close>) and the profile registry
  (\<^verbatim>\<open>registry.rs\<close>). A policy decides under which subject a state is stored, whether a resource is
  available to an operation, what the state before creation is and which second state a transfer
  touches. A profile is a record of the functions of the trait \<^verbatim>\<open>ProfileRules\<close>; the registry maps
  state types, and for custom domains an identity and a schema, to profiles.
\<close>

section \<open>Availability\<close>

definition free_statuses :: "status list" where
  "free_statuses = [''active'', ''granted'']"

definition terminal_statuses :: "status list" where
  "terminal_statuses =
    [''burned'', ''expired'', ''tombstoned'', ''revoked'', ''redeemed'', ''sold'', ''cancelled'',
     ''released'', ''refunded'']"

definition exceptional_statuses :: "status list" where
  "exceptional_statuses =
    [''restricted'', ''quarantined'', ''unsupported'', ''legal_hold'', ''fraud_lock'',
     ''policy_restricted'']"

definition check_owner :: "intent \<Rightarrow> state_projection option \<Rightarrow> inputs \<Rightarrow> unit presult" where
  "check_owner intent current inputs =
    (case current of
       None \<Rightarrow> Ok ()
     | Some projection \<Rightarrow>
         (case Option.bind (btree_get inputs ''from_owner'') as_str of
            None \<Rightarrow> Ok ()
          | Some actual \<Rightarrow>
              (case (case rs_owner (sp_state projection) of
                       Some owner \<Rightarrow> Some owner
                     | None \<Rightarrow> rs_subject (sp_state projection)) of
                 None \<Rightarrow> Ok ()
               | Some expected \<Rightarrow>
                   if actual \<noteq> expected then Err (ActorMismatch expected actual) else Ok ())))"

definition status_escapes :: "status \<Rightarrow> operation list" where
  "status_escapes st =
    (if st = ''locked''
     then [''asset.unlock'', ''asset.restrict'', ''escrow.release'', ''escrow.refund'']
     else if st = ''escrowed'' then [''asset.release'', ''asset.restrict'']
     else if st = ''trade_held'' then [''trade.unlock'', ''trade.settle'', ''asset.restrict'']
     else if st = ''listed''
     then [''asset.delist'', ''asset.redeem'', ''asset.restrict'', ''listing.buy'', ''listing.cancel'',
       ''listing.expire'']
     else if st = ''suspended'' then [''entitlement.restore'', ''entitlement.expire'']
     else if st = ''granted''
     then [''entitlement.activate'', ''entitlement.expire'', ''entitlement.revoke'',
       ''entitlement.transfer'']
     else [])"

definition blocked :: "state_projection \<Rightarrow> profile_error" where
  "blocked current = ResourceLocked (sp_resource_id current)"

definition check_resource_availability :: "state_projection \<Rightarrow> operation \<Rightarrow> unit presult" where
  "check_resource_availability current op =
    (case rs_status (sp_state current) of
       None \<Rightarrow> Ok ()
     | Some status_str \<Rightarrow>
         (case status_new status_str of
            Err _ \<Rightarrow> Err (blocked current)
          | Ok st \<Rightarrow>
              if st \<in> set free_statuses then Ok ()
              else if st \<in> set terminal_statuses then Err (blocked current)
              else if st \<in> set exceptional_statuses \<and> op = ''asset.restore'' then Ok ()
              else if op \<in> set (status_escapes st) then Ok ()
              else Err (blocked current)))"

section \<open>Addressing\<close>

definition subject_for :: "intent \<Rightarrow> state_type \<Rightarrow> subject_id option" where
  "subject_for intent st =
    (case st of
       ConsumableStackT \<Rightarrow> Some (in_actor intent)
     | FungibleBalanceT \<Rightarrow> Some (in_actor intent)
     | EntitlementT \<Rightarrow> Some (in_actor intent)
     | MeteredResourceT \<Rightarrow> Some (in_actor intent)
     | _ \<Rightarrow> None)"

definition empty_state_for :: "state_type \<Rightarrow> resource_state presult" where
  "empty_state_for st =
    (case st of
       UniqueAssetT \<Rightarrow> Ok (UniqueAsset \<lparr>ua_owner = [], ua_status = ''active'', ua_trade_id = None\<rparr>)
     | ConsumableStackT \<Rightarrow> Ok (ConsumableStack \<lparr>cs_subject = [], cs_quantity = ZERO, cs_unit = []\<rparr>)
     | FungibleBalanceT \<Rightarrow> Ok (FungibleBalance \<lparr>fb_subject = [], fb_balance = ZERO, fb_unit = []\<rparr>)
     | EntitlementT \<Rightarrow>
         Ok (Entitlement \<lparr>en_subject = [], en_status = ''active'', en_transferable = False\<rparr>)
     | MeteredResourceT \<Rightarrow>
         Ok (MeteredResource \<lparr>mt_subject = [], mt_remaining = ZERO, mt_maximum = ZERO\<rparr>)
     | ListingT \<Rightarrow> Ok (Listing \<lparr>ls_seller = [], ls_status = ''active''\<rparr>)
     | CustomT \<Rightarrow> Err (InvalidInput ''custom unborn state requires domain/schema'')
     | EscrowT \<Rightarrow> Ok (Escrow \<lparr>es_buyer = [], es_seller = [], es_status = ''active''\<rparr>))"

definition holder_for :: "state_projection option \<Rightarrow> intent \<Rightarrow> state_type \<Rightarrow> subject_id option" where
  "holder_for current intent st =
    (if st \<in> {ConsumableStackT, FungibleBalanceT, EntitlementT, MeteredResourceT}
     then (case Option.bind current (\<lambda>projection. rs_subject (sp_state projection)) of
             Some subject \<Rightarrow> if subject \<noteq> [] then Some subject else Some (in_actor intent)
           | None \<Rightarrow> Some (in_actor intent))
     else None)"

definition is_transfer_operation :: "operation \<Rightarrow> bool" where
  "is_transfer_operation op \<longleftrightarrow> op = ''stack.transfer'' \<or> op = ''balance.transfer''"

definition destination_holder :: "inputs \<Rightarrow> subject_id presult" where
  "destination_holder inputs =
    (case Option.bind (btree_get inputs ''to_subject'') as_str of
       Some subject \<Rightarrow>
         if subject \<noteq> [] then Ok subject
         else Err (InvalidInput (''missing input '' @ quoted ''to_subject''))
     | None \<Rightarrow> Err (InvalidInput (''missing input '' @ quoted ''to_subject'')))"

section \<open>Execution policies\<close>

text \<open>
  The two implementations of the trait \<^verbatim>\<open>ExecutionPolicy\<close>: the defaults, used by custom domains, and
  the baseline resource semantics, which carries the state type.
\<close>

datatype execution_policy = NativeExecution | ResourceExecution state_type

record state_address =
  sa_resource :: resource_id
  sa_subject :: "subject_id option"

fun validate_events :: "execution_policy \<Rightarrow> event list \<Rightarrow> unit presult" where
  "validate_events NativeExecution events =
    (if length events \<noteq> 1
     then Err (AtomicityViolation ''profile requires one event per intent'') else Ok ())"
| "validate_events (ResourceExecution st) events =
    (if length events = 1 then Ok () else validate_batch_consistency events)"

fun primary_subject :: "execution_policy \<Rightarrow> intent \<Rightarrow> subject_id option" where
  "primary_subject NativeExecution intent = None"
| "primary_subject (ResourceExecution st) intent = subject_for intent st"

fun current_subject ::
  "execution_policy \<Rightarrow> intent \<Rightarrow> state_projection option \<Rightarrow> subject_id option" where
  "current_subject NativeExecution intent current = None"
| "current_subject (ResourceExecution st) intent current = holder_for current intent st"

fun check_access :: "execution_policy \<Rightarrow> intent \<Rightarrow> state_projection option \<Rightarrow> unit presult" where
  "check_access NativeExecution intent current = Ok ()"
| "check_access (ResourceExecution st) intent current =
    and_then (check_owner intent current (in_inputs intent)) (\<lambda>_.
    case current of
      Some state \<Rightarrow> check_resource_availability state (in_operation intent)
    | None \<Rightarrow> Ok ())"

fun validate_route :: "execution_policy \<Rightarrow> intent \<Rightarrow> bool \<Rightarrow> unit presult" where
  "validate_route NativeExecution intent coordinated = Ok ()"
| "validate_route (ResourceExecution st) intent coordinated =
    (if \<not> coordinated \<and> in_operation intent = ''trade.settle'' \<and> declares_value_leg intent
     then Err (ValueLegSettleRouting (in_intent_id intent)) else Ok ())"

fun unborn_state :: "execution_policy \<Rightarrow> resource_state \<Rightarrow> resource_state presult" where
  "unborn_state NativeExecution after =
    (case after of
       Custom custom \<Rightarrow> Ok (Custom (custom\<lparr>cu_payload := []\<rparr>))
     | _ \<Rightarrow> Err (InvalidInput ''profile must define its unborn state''))"
| "unborn_state (ResourceExecution st) after = empty_state_for st"

fun companion_target :: "execution_policy \<Rightarrow> intent \<Rightarrow> state_address option presult" where
  "companion_target NativeExecution intent = Ok None"
| "companion_target (ResourceExecution st) intent =
    (if \<not> is_transfer_operation (in_operation intent) then Ok None
     else and_then (destination_holder (in_inputs intent)) (\<lambda>subject.
       Ok (Some \<lparr>sa_resource = in_resource_id intent, sa_subject = Some subject\<rparr>)))"

fun apply_companion ::
  "execution_policy \<Rightarrow> intent \<Rightarrow> state_projection \<Rightarrow> state_projection option \<Rightarrow> resource_state presult" where
  "apply_companion NativeExecution intent primary current =
    Err (InvalidInput ''profile has no additional transition'')"
| "apply_companion (ResourceExecution st) intent primary current =
    transfer_after_state primary current (in_operation intent) (in_inputs intent)"

fun policy :: "state_type \<Rightarrow> execution_policy" where
  "policy CustomT = NativeExecution"
| "policy st = ResourceExecution st"

section \<open>Profiles and the registry\<close>

datatype aggregation_policy = RequireAll | AnyOf

record profile_rules =
  pr_execution_policy :: execution_policy
  pr_state_type :: state_type
  pr_profile_id :: string
  pr_allowed_operations :: "operation list"
  pr_check :: "operation \<Rightarrow> state_projection option \<Rightarrow> inputs \<Rightarrow> unit presult"
  pr_apply :: "state_projection option \<Rightarrow> operation \<Rightarrow> inputs \<Rightarrow> resource_state presult"
  pr_schema_version :: "32 word"
  pr_validate_registration :: "unit presult"
  pr_requires_authority :: "operation \<Rightarrow> bool"
  pr_authority_policy :: "operation \<Rightarrow> aggregation_policy"

text \<open>The methods of \<^verbatim>\<open>ProfileRules\<close> with a default body, filled in for the baseline profiles.\<close>

definition baseline_rules ::
  "state_type \<Rightarrow> string \<Rightarrow> operation list \<Rightarrow>
    (operation \<Rightarrow> state_projection option \<Rightarrow> inputs \<Rightarrow> unit presult) \<Rightarrow> profile_rules" where
  "baseline_rules st pid ops check =
    \<lparr>pr_execution_policy = policy st, pr_state_type = st, pr_profile_id = pid,
     pr_allowed_operations = ops, pr_check = check, pr_apply = apply_transition,
     pr_schema_version = 0, pr_validate_registration = Ok (),
     pr_requires_authority = (\<lambda>_. False), pr_authority_policy = (\<lambda>_. RequireAll)\<rparr>"

definition unique_asset_rules :: profile_rules where
  "unique_asset_rules =
    (baseline_rules UniqueAssetT ''unique_asset'' ua_ops ua_check)
      \<lparr>pr_requires_authority := ua_requires_authority\<rparr>"

definition paid_unique_asset_rules :: profile_rules where
  "paid_unique_asset_rules =
    (baseline_rules UniqueAssetT ''paid_unique_asset'' paid_ops paid_check)
      \<lparr>pr_requires_authority := paid_requires_authority\<rparr>"

definition consumable_stack_rules :: profile_rules where
  "consumable_stack_rules = baseline_rules ConsumableStackT ''consumable_stack'' stack_ops stack_check"

definition fungible_balance_rules :: profile_rules where
  "fungible_balance_rules = baseline_rules FungibleBalanceT ''fungible_balance'' balance_ops balance_check"

definition entitlement_rules :: profile_rules where
  "entitlement_rules = baseline_rules EntitlementT ''entitlement'' entitlement_ops entitlement_check"

definition meter_rules :: profile_rules where
  "meter_rules = baseline_rules MeteredResourceT ''meter'' meter_ops meter_check"

definition listing_rules :: profile_rules where
  "listing_rules = baseline_rules ListingT ''listing'' listing_operations listing_check"

definition escrow_rules :: profile_rules where
  "escrow_rules = baseline_rules EscrowT ''escrow'' escrow_operations escrow_check"

record profile_registry =
  rg_custom :: "profile_rules list"
  rg_unique_asset :: profile_rules
  rg_consumable_stack :: profile_rules
  rg_fungible_balance :: profile_rules
  rg_entitlement :: profile_rules
  rg_metered_resource :: profile_rules
  rg_listing :: profile_rules
  rg_escrow :: profile_rules
  rg_paid_unique_asset :: profile_rules

definition baseline :: profile_registry where
  "baseline =
    \<lparr>rg_custom = [], rg_unique_asset = unique_asset_rules,
     rg_consumable_stack = consumable_stack_rules, rg_fungible_balance = fungible_balance_rules,
     rg_entitlement = entitlement_rules, rg_metered_resource = meter_rules,
     rg_listing = listing_rules, rg_escrow = escrow_rules,
     rg_paid_unique_asset = paid_unique_asset_rules\<rparr>"

fun registry_get :: "profile_registry \<Rightarrow> state_type \<Rightarrow> profile_rules option" where
  "registry_get rg UniqueAssetT = Some (rg_unique_asset rg)"
| "registry_get rg ConsumableStackT = Some (rg_consumable_stack rg)"
| "registry_get rg FungibleBalanceT = Some (rg_fungible_balance rg)"
| "registry_get rg EntitlementT = Some (rg_entitlement rg)"
| "registry_get rg MeteredResourceT = Some (rg_metered_resource rg)"
| "registry_get rg ListingT = Some (rg_listing rg)"
| "registry_get rg EscrowT = Some (rg_escrow rg)"
| "registry_get rg CustomT = None"

definition checked_profile_id :: "string \<Rightarrow> string presult" where
  "checked_profile_id pid = map_err (\<lambda>e. InvalidInput (domain_error_to_string e)) (profile_id_new pid)"

text \<open>The body of the outer loop of \<^verbatim>\<open>with_custom\<close>; \<open>earlier\<close> is \<^verbatim>\<open>custom.iter().take(index)\<close>.\<close>

definition check_custom_operation :: "operation \<Rightarrow> unit presult" where
  "check_custom_operation op =
    and_then (map_err (\<lambda>e. InvalidInput (domain_error_to_string e)) (operation_new op)) (\<lambda>_.
    if state_type_hint op \<noteq> None then Err (InvalidInput ''reserved operation prefix'') else Ok ())"

definition check_custom_pair :: "string \<Rightarrow> profile_rules \<Rightarrow> profile_rules \<Rightarrow> unit presult" where
  "check_custom_pair pid rules other =
    and_then (checked_profile_id (pr_profile_id other)) (\<lambda>other_id.
    if other_id = pid \<and> pr_schema_version other = pr_schema_version rules
    then Err (InvalidInput ''duplicate domain/schema'')
    else if other_id \<noteq> pid \<and>
      list_ex (\<lambda>op. op \<in> set (pr_allowed_operations rules)) (pr_allowed_operations other)
    then Err (InvalidInput ''operation shared by different domains'')
    else Ok ())"

fun custom_loop :: "profile_rules list \<Rightarrow> profile_rules list \<Rightarrow> unit presult" where
  "custom_loop earlier [] = Ok ()"
| "custom_loop earlier (rules # rest) =
    and_then (pr_validate_registration rules) (\<lambda>_.
    and_then (checked_profile_id (pr_profile_id rules)) (\<lambda>pid.
    if pr_state_type rules \<noteq> CustomT \<or> pr_schema_version rules = 0 \<or> pr_allowed_operations rules = []
    then Err (InvalidInput ''invalid custom profile'')
    else
      and_then (for_each check_custom_operation (pr_allowed_operations rules)) (\<lambda>_.
      and_then (for_each (check_custom_pair pid rules) earlier) (\<lambda>_.
      custom_loop (earlier @ [rules]) rest))))"

definition with_custom :: "profile_rules list \<Rightarrow> profile_registry presult" where
  "with_custom custom =
    and_then (custom_loop [] custom) (\<lambda>_. Ok (baseline\<lparr>rg_custom := custom\<rparr>))"

definition u32_try_from :: "64 word \<Rightarrow> 32 word option" where
  "u32_try_from v = (if unat v < 2 ^ 32 then Some (ucast v) else None)"

fun resolve_loop :: "string \<Rightarrow> 32 word \<Rightarrow> profile_rules list \<Rightarrow> profile_rules presult" where
  "resolve_loop pid schema [] = Err (InvalidInput ''unregistered domain/schema'')"
| "resolve_loop pid schema (rules # rest) =
    and_then (checked_profile_id (pr_profile_id rules)) (\<lambda>registered_id.
    if registered_id = pid \<and> pr_schema_version rules = schema then Ok rules
    else resolve_loop pid schema rest)"

definition resolve :: "profile_registry \<Rightarrow> state_type \<Rightarrow> inputs \<Rightarrow> profile_rules presult" where
  "resolve rg st inputs =
    (if st \<noteq> CustomT then ok_or (registry_get rg st) (InvalidInput ''unknown state type'')
     else
       and_then (input_str inputs ''profile'') (\<lambda>p.
       and_then (checked_profile_id p) (\<lambda>pid.
       and_then (ok_or (Option.bind (Option.bind (btree_get inputs ''schema_version'') as_u64) u32_try_from)
         (InvalidInput ''invalid schema_version'')) (\<lambda>schema.
       resolve_loop pid schema (rg_custom rg)))))"

end
