(* ===== verification/Profile_Machine.thy ===== *)
theory Profile_Machine
  imports Resource_Policy Example_Data
begin

text \<open>
  A resource under its profile as a state machine. One step is what the executor runs on an existing
  resource (\<^verbatim>\<open>pipeline.rs\<close>): the access gate of the execution policy, the profile's check, and the
  profile's transition. The locale is the contract of a profile with an invariant: creation
  establishes it and every accepted step keeps it; its lemmas carry the invariant through runs of
  any length. The profiles of this development interpret it with their own invariants.
\<close>

section \<open>Steps and runs\<close>

definition rules_create :: "profile_rules \<Rightarrow> intent \<Rightarrow> resource_state presult" where
  "rules_create rules i =
    and_then (check_access (pr_execution_policy rules) i None) (\<lambda>_.
    and_then (pr_check rules (in_operation i) None (in_inputs i)) (\<lambda>_.
    pr_apply rules None (in_operation i) (in_inputs i)))"

definition rules_step :: "profile_rules \<Rightarrow> state_projection \<Rightarrow> intent \<Rightarrow> resource_state presult" where
  "rules_step rules p i =
    and_then (check_access (pr_execution_policy rules) i (Some p)) (\<lambda>_.
    and_then (pr_check rules (in_operation i) (Some p) (in_inputs i)) (\<lambda>_.
    pr_apply rules (Some p) (in_operation i) (in_inputs i)))"

fun rules_run :: "profile_rules \<Rightarrow> state_projection \<Rightarrow> intent list \<Rightarrow> state_projection presult" where
  "rules_run rules p [] = Ok p"
| "rules_run rules p (i # is) =
    and_then (rules_step rules p i) (\<lambda>s. rules_run rules (p\<lparr>sp_state := s\<rparr>) is)"

text \<open>The projection of a resource just created.\<close>

definition born :: "profile_rules \<Rightarrow> intent \<Rightarrow> resource_state \<Rightarrow> state_projection" where
  "born rules i s =
    \<lparr>sp_tenant_id = in_tenant_id i, sp_resource_id = in_resource_id i,
     sp_state_type = pr_state_type rules, sp_version = 1, sp_last_event_id = [],
     sp_last_commit_id = [], sp_state_hash = [], sp_state = s\<rparr>"

lemma rules_step_Ok:
  "rules_step rules p i = Ok s \<longleftrightarrow>
    check_access (pr_execution_policy rules) i (Some p) = Ok () \<and>
    pr_check rules (in_operation i) (Some p) (in_inputs i) = Ok () \<and>
    pr_apply rules (Some p) (in_operation i) (in_inputs i) = Ok s"
  by (auto simp: rules_step_def)

lemma rules_create_Ok:
  "rules_create rules i = Ok s \<longleftrightarrow>
    check_access (pr_execution_policy rules) i None = Ok () \<and>
    pr_check rules (in_operation i) None (in_inputs i) = Ok () \<and>
    pr_apply rules None (in_operation i) (in_inputs i) = Ok s"
  by (auto simp: rules_create_def)

lemma rules_run_type: "rules_run rules p is = Ok q \<Longrightarrow> sp_state_type q = sp_state_type p"
  by (induction rules p "is" rule: rules_run.induct) auto

section \<open>The contract of a profile with an invariant\<close>

locale profile_contract =
  fixes rules :: profile_rules and inv :: "resource_state \<Rightarrow> bool"
  assumes create_inv: "\<And>i s. rules_create rules i = Ok s \<Longrightarrow> inv s"
    and step_inv: "\<And>p i s. sp_state_type p = pr_state_type rules \<Longrightarrow> inv (sp_state p) \<Longrightarrow>
      rules_step rules p i = Ok s \<Longrightarrow> inv s"
begin

lemma run_inv:
  "rules_run rules p is = Ok q \<Longrightarrow> sp_state_type p = pr_state_type rules \<Longrightarrow> inv (sp_state p) \<Longrightarrow>
    inv (sp_state q)"
proof (induction "is" arbitrary: p)
  case Nil
  then show ?case by simp
next
  case (Cons i "is")
  then obtain s where s: "rules_step rules p i = Ok s"
    and run: "rules_run rules (p\<lparr>sp_state := s\<rparr>) is = Ok q" by auto
  from Cons.prems(2,3) s have "inv s" by (rule step_inv)
  with Cons.IH [OF run] Cons.prems(2) show ?case by simp
qed

lemma life_inv:
  "rules_create rules i = Ok s \<Longrightarrow> rules_run rules (born rules i s) is = Ok q \<Longrightarrow> inv (sp_state q)"
  using run_inv [of "born rules i s" "is" q] create_inv by (simp add: born_def)

lemma run_frame:
  assumes "\<And>p i s. i \<in> set is \<Longrightarrow> sp_state_type p = pr_state_type rules \<Longrightarrow> inv (sp_state p) \<Longrightarrow>
      rules_step rules p i = Ok s \<Longrightarrow> f s = f (sp_state p)"
    and "rules_run rules p is = Ok q" "sp_state_type p = pr_state_type rules" "inv (sp_state p)"
  shows "f (sp_state q) = f (sp_state p)"
  using assms
proof (induction "is" arbitrary: p)
  case Nil
  then show ?case by simp
next
  case (Cons i "is")
  from Cons.prems(2) obtain s where s: "rules_step rules p i = Ok s"
    and run: "rules_run rules (p\<lparr>sp_state := s\<rparr>) is = Ok q" by auto
  have "inv s" using Cons.prems(3,4) s by (rule step_inv)
  then have "f (sp_state q) = f s"
    using Cons.IH [OF Cons.prems(1) [OF list.set_intros(2)] run] Cons.prems(3) by simp
  also have "f s = f (sp_state p)" using Cons.prems(1) [OF _ Cons.prems(3,4) s] by simp
  finally show ?case .
qed

end

section \<open>Profiles that implement a specification of their value\<close>

text \<open>
  A profile with a view of its states and a specification that says, intent by intent, which view
  follows which, or that there is none. Accepted runs then compute the specification's result.
\<close>

fun spec_run :: "(intent \<Rightarrow> 'v \<Rightarrow> 'v option) \<Rightarrow> 'v \<Rightarrow> intent list \<Rightarrow> 'v option" where
  "spec_run spec v [] = Some v"
| "spec_run spec v (i # is) = Option.bind (spec i v) (\<lambda>v'. spec_run spec v' is)"

locale profile_refinement = profile_contract +
  fixes view :: "resource_state \<Rightarrow> 'v" and spec :: "intent \<Rightarrow> 'v \<Rightarrow> 'v option"
  assumes step_refines: "\<And>p i s. sp_state_type p = pr_state_type rules \<Longrightarrow> inv (sp_state p) \<Longrightarrow>
      rules_step rules p i = Ok s \<Longrightarrow> spec i (view (sp_state p)) = Some (view s)"
begin

lemma run_refines:
  "rules_run rules p is = Ok q \<Longrightarrow> sp_state_type p = pr_state_type rules \<Longrightarrow> inv (sp_state p) \<Longrightarrow>
    spec_run spec (view (sp_state p)) is = Some (view (sp_state q))"
proof (induction "is" arbitrary: p)
  case Nil
  then show ?case by simp
next
  case (Cons i "is")
  from Cons.prems(1) obtain s where s: "rules_step rules p i = Ok s"
    and run: "rules_run rules (p\<lparr>sp_state := s\<rparr>) is = Ok q" by auto
  have "inv s" using Cons.prems(2,3) s by (rule step_inv)
  then have "spec_run spec (view s) is = Some (view (sp_state q))"
    using Cons.IH [OF run] Cons.prems(2) by simp
  moreover have "spec i (view (sp_state p)) = Some (view s)"
    using Cons.prems(2,3) s by (rule step_refines)
  ultimately show ?case by simp
qed

end

end
