(* ===== verification/Asset_Lifecycle.thy ===== *)
theory Asset_Lifecycle
  imports Profile_Machine
begin

text \<open>
  The life cycle of unique assets. The step relation below is the transition table of
  \<^verbatim>\<open>unique_asset.rs\<close>, one rule per row, over the asset alone; the refinement theorem shows that the
  profile's check followed by its transition takes exactly these steps. Ownership, terminal states
  and the trade hold are then proved on the relation and carried to runs of the profile.
\<close>

section \<open>The transition table\<close>

definition given :: "inputs \<Rightarrow> string \<Rightarrow> string \<Rightarrow> bool" where
  "given inputs key v \<longleftrightarrow> btree_get inputs key = Some (JString v) \<and> v \<noteq> []"

definition stands :: "unique_asset_state \<Rightarrow> status list \<Rightarrow> bool" where
  "stands a from \<longleftrightarrow> ua_owner a \<noteq> [] \<and> ua_status a \<in> set from"

definition moved :: "unique_asset_state \<Rightarrow> status \<Rightarrow> unique_asset_state" where
  "moved a to = a\<lparr>ua_status := to, ua_trade_id := None\<rparr>"

definition restrict_target :: "inputs \<Rightarrow> status" where
  "restrict_target inputs =
    (case Option.bind (btree_get inputs ''status'') as_str of Some t \<Rightarrow> t | None \<Rightarrow> ''restricted'')"

inductive asset_step ::
  "inputs \<Rightarrow> operation \<Rightarrow> unique_asset_state option \<Rightarrow> unique_asset_state \<Rightarrow> bool"
  for inputs :: inputs where
  mint: "given inputs ''to_owner'' owner \<Longrightarrow>
    asset_step inputs ''asset.mint'' None
      \<lparr>ua_owner = owner, ua_status = ''active'', ua_trade_id = None\<rparr>"
| transfer: "stands a [''active''] \<Longrightarrow> given inputs ''from_owner'' (ua_owner a) \<Longrightarrow>
    given inputs ''to_owner'' owner \<Longrightarrow>
    asset_step inputs ''asset.transfer'' (Some a) ((moved a ''active'')\<lparr>ua_owner := owner\<rparr>)"
| burn: "stands a [''active''] \<Longrightarrow> given inputs ''from_owner'' (ua_owner a) \<Longrightarrow>
    asset_step inputs ''asset.burn'' (Some a) (moved a ''burned'')"
| lock: "stands a [''active''] \<Longrightarrow> asset_step inputs ''asset.lock'' (Some a) (moved a ''locked'')"
| unlock: "stands a [''locked''] \<Longrightarrow> asset_step inputs ''asset.unlock'' (Some a) (moved a ''active'')"
| list: "stands a [''active''] \<Longrightarrow> asset_step inputs ''asset.list'' (Some a) (moved a ''listed'')"
| delist: "stands a [''listed''] \<Longrightarrow> asset_step inputs ''asset.delist'' (Some a) (moved a ''active'')"
| escrow: "stands a [''active''] \<Longrightarrow> asset_step inputs ''asset.escrow'' (Some a) (moved a ''escrowed'')"
| release: "stands a [''escrowed''] \<Longrightarrow> asset_step inputs ''asset.release'' (Some a) (moved a ''active'')"
| redeem: "stands a [''listed''] \<Longrightarrow> asset_step inputs ''asset.redeem'' (Some a) (moved a ''redeemed'')"
| content: "stands a [''active''] \<Longrightarrow>
    op \<in> {''asset.attach_content'', ''asset.detach_content'', ''asset.update_metadata''} \<Longrightarrow>
    asset_step inputs op (Some a) a"
| restrict: "stands a [''active'', ''locked'', ''listed'', ''escrowed'', ''trade_held''] \<Longrightarrow>
    validate_status (restrict_target inputs) = Ok () \<Longrightarrow>
    asset_step inputs ''asset.restrict'' (Some a) (moved a (restrict_target inputs))"
| restore: "stands a [''restricted'', ''quarantined'', ''unsupported''] \<Longrightarrow>
    asset_step inputs ''asset.restore'' (Some a) (moved a ''active'')"
| trade_lock: "stands a [''active''] \<Longrightarrow> given inputs ''from_owner'' (ua_owner a) \<Longrightarrow>
    given inputs ''trade_id'' t \<Longrightarrow>
    asset_step inputs ''trade.lock'' (Some a) ((moved a ''trade_held'')\<lparr>ua_trade_id := Some t\<rparr>)"
| trade_unlock: "stands a [''trade_held''] \<Longrightarrow> ua_trade_id a = Some t \<Longrightarrow> given inputs ''trade_id'' t \<Longrightarrow>
    asset_step inputs ''trade.unlock'' (Some a) (moved a ''active'')"
| trade_settle: "stands a [''trade_held''] \<Longrightarrow> ua_trade_id a = Some t \<Longrightarrow> given inputs ''trade_id'' t \<Longrightarrow>
    given inputs ''from_owner'' (ua_owner a) \<Longrightarrow> given inputs ''to_owner'' owner \<Longrightarrow>
    check_value_leg inputs = Ok () \<Longrightarrow>
    asset_step inputs ''trade.settle'' (Some a) ((moved a ''active'')\<lparr>ua_owner := owner\<rparr>)"

text \<open>Each row of the table as an equation, for rewriting at a known operation.\<close>

inductive_simps asset_rows:
  "asset_step inputs ''asset.mint'' before b"
  "asset_step inputs ''asset.transfer'' (Some a) b"
  "asset_step inputs ''asset.burn'' (Some a) b"
  "asset_step inputs ''asset.lock'' (Some a) b"
  "asset_step inputs ''asset.unlock'' (Some a) b"
  "asset_step inputs ''asset.list'' (Some a) b"
  "asset_step inputs ''asset.delist'' (Some a) b"
  "asset_step inputs ''asset.escrow'' (Some a) b"
  "asset_step inputs ''asset.release'' (Some a) b"
  "asset_step inputs ''asset.redeem'' (Some a) b"
  "asset_step inputs ''asset.attach_content'' (Some a) b"
  "asset_step inputs ''asset.detach_content'' (Some a) b"
  "asset_step inputs ''asset.update_metadata'' (Some a) b"
  "asset_step inputs ''asset.restrict'' (Some a) b"
  "asset_step inputs ''asset.restore'' (Some a) b"
  "asset_step inputs ''trade.lock'' (Some a) b"
  "asset_step inputs ''trade.unlock'' (Some a) b"
  "asset_step inputs ''trade.settle'' (Some a) b"

inductive_cases asset_step_from: "asset_step inputs op (Some a) b"
inductive_cases asset_step_born: "asset_step inputs op None b"

section \<open>The profile takes exactly these steps\<close>

lemmas asset_check_simps =
  ua_ops_def ua_check_def ua_check_mint_def ua_check_transfer_def ua_check_burn_def check_trade_lock_def
  check_trade_unlock_def check_trade_settle_def

lemmas asset_view_simps = stands_def given_def moved_def restrict_target_def

lemma asset_step_op: "asset_step inputs op (Some a) b \<Longrightarrow> op \<in> set ua_ops"
  by (cases rule: asset_step_from) (auto simp: ua_ops_def)

lemma asset_row:
  assumes "sp_state p = UniqueAsset a" "op \<in> set ua_ops"
  shows "ua_check op (Some p) inputs = Ok () \<and> apply_unique_asset (Some p) op inputs = Ok (UniqueAsset b) \<longleftrightarrow>
    asset_step inputs op (Some a) b"
proof -
  obtain ao ast atr where a: "a = \<lparr>ua_owner = ao, ua_status = ast, ua_trade_id = atr\<rparr>" by (cases a)
  obtain bo bs bt where b: "b = \<lparr>ua_owner = bo, ua_status = bs, ua_trade_id = bt\<rparr>" by (cases b)
  from assms(2) show ?thesis unfolding ua_ops_def list.set
    by (elim insertE emptyE)
      (use assms(1) in \<open>auto simp: a b asset_check_simps apply_unique_asset_def reader_simps asset_rows
        asset_view_simps split: if_splits\<close>)
qed

lemma asset_apply_type:
  "op \<in> set ua_ops \<Longrightarrow> sp_state p = UniqueAsset a \<Longrightarrow> apply_unique_asset (Some p) op inputs = Ok s \<Longrightarrow>
    \<exists>b. s = UniqueAsset b"
  unfolding ua_ops_def list.set
  by (elim insertE emptyE)
    (auto simp: apply_unique_asset_def reader_simps dest!: sym [of "UniqueAsset a"])

lemma asset_check_op: "ua_check op current inputs = Ok u \<Longrightarrow> op \<in> set ua_ops"
  by (rule ccontr) (simp add: ua_check_def)

lemma asset_steps:
  assumes "sp_state p = UniqueAsset a"
  shows "ua_check op (Some p) inputs = Ok () \<and> apply_unique_asset (Some p) op inputs = Ok s \<longleftrightarrow>
    (\<exists>b. s = UniqueAsset b \<and> asset_step inputs op (Some a) b)"
proof (cases "op \<in> set ua_ops")
  case True
  then show ?thesis
    using asset_row [OF assms True] asset_apply_type [OF True assms] by metis
next
  case False
  then show ?thesis using asset_check_op asset_step_op by blast
qed

lemma asset_births:
  "ua_check op None inputs = Ok () \<and> apply_transition None op inputs = Ok s \<longleftrightarrow>
    (\<exists>b. s = UniqueAsset b \<and> asset_step inputs op None b)"
proof -
  have "op = ''asset.mint''" if "ua_check op None inputs = Ok ()"
    using asset_check_op [OF that] that unfolding ua_ops_def list.set
    by (elim insertE emptyE) (simp_all add: asset_check_simps reader_simps)
  moreover have "op = ''asset.mint''" if "asset_step inputs op None b" for b
    using that by (cases rule: asset_step_born) auto
  moreover have "state_type_of None ''asset.mint'' = Ok UniqueAssetT"
    by (simp add: state_type_of_def state_type_hint_def starts_with_def)
  then have "ua_check ''asset.mint'' None inputs = Ok () \<and> apply_transition None ''asset.mint'' inputs = Ok s \<longleftrightarrow>
      (\<exists>b. s = UniqueAsset b \<and> asset_step inputs ''asset.mint'' None b)"
    by (auto simp: asset_check_simps reader_simps apply_transition_def apply_unique_asset_def
        asset_rows asset_view_simps)
  ultimately show ?thesis by metis
qed

lemma unique_asset_rules_simps [simp]:
  "pr_execution_policy unique_asset_rules = ResourceExecution UniqueAssetT"
  "pr_state_type unique_asset_rules = UniqueAssetT"
  "pr_check unique_asset_rules = ua_check"
  "pr_apply unique_asset_rules = apply_transition"
  "pr_requires_authority unique_asset_rules = ua_requires_authority"
  by (simp_all add: unique_asset_rules_def baseline_rules_def)

lemma apply_transition_asset:
  "sp_state_type p = UniqueAssetT \<Longrightarrow> apply_transition (Some p) op inputs = apply_unique_asset (Some p) op inputs"
  by (simp add: apply_transition_def state_type_of_def)

lemma asset_rules_step:
  assumes "sp_state_type p = UniqueAssetT" "sp_state p = UniqueAsset a"
    "rules_step unique_asset_rules p i = Ok s"
  obtains b where "s = UniqueAsset b" "asset_step (in_inputs i) (in_operation i) (Some a) b"
  using assms asset_steps [OF assms(2)] by (auto simp: rules_step_Ok apply_transition_asset)

section \<open>Invariants of the table\<close>

definition asset_ok :: "resource_state \<Rightarrow> bool" where
  "asset_ok s \<longleftrightarrow>
    (case s of
       UniqueAsset a \<Rightarrow> ua_owner a \<noteq> [] \<and> validate_status (ua_status a) = Ok () \<and>
         (ua_trade_id a \<noteq> None \<longrightarrow> ua_status a = ''trade_held'')
     | _ \<Rightarrow> False)"

lemma asset_step_ok:
  "asset_step inputs op before b \<Longrightarrow> (case before of None \<Rightarrow> True | Some a \<Rightarrow> asset_ok (UniqueAsset a)) \<Longrightarrow>
    asset_ok (UniqueAsset b)"
  by (induction rule: asset_step.induct) (auto simp: asset_ok_def asset_view_simps)

lemma asset_step_owner:
  "asset_step inputs op (Some a) b \<Longrightarrow> ua_owner b \<noteq> ua_owner a \<Longrightarrow>
    op \<in> {''asset.transfer'', ''trade.settle''} \<and> given inputs ''from_owner'' (ua_owner a) \<and>
    given inputs ''to_owner'' (ua_owner b)"
  by (erule asset_step_from) (auto simp: asset_view_simps)

lemma asset_step_trade_held:
  "asset_step inputs op (Some a) b \<Longrightarrow> ua_status a = ''trade_held'' \<Longrightarrow>
    op = ''asset.restrict'' \<or>
    (\<exists>t. ua_trade_id a = Some t \<and> given inputs ''trade_id'' t \<and> ua_status b = ''active'' \<and>
      (op = ''trade.unlock'' \<and> ua_owner b = ua_owner a \<or>
       op = ''trade.settle'' \<and> given inputs ''from_owner'' (ua_owner a) \<and>
         given inputs ''to_owner'' (ua_owner b)))"
  by (erule asset_step_from) (auto simp: asset_view_simps)

lemma asset_step_available:
  "asset_step inputs op (Some a) b \<Longrightarrow> sp_state p = UniqueAsset a \<Longrightarrow>
    check_resource_availability p op = Ok ()"
  by (erule asset_step_from)
    (auto simp: check_resource_availability_def stands_def free_statuses_def terminal_statuses_def
      exceptional_statuses_def status_escapes_def status_new_def)

interpretation asset: profile_contract unique_asset_rules asset_ok
proof
  fix i s
  assume "rules_create unique_asset_rules i = Ok s"
  then obtain b where "s = UniqueAsset b" "asset_step (in_inputs i) (in_operation i) None b"
    using asset_births by (auto simp: rules_create_Ok)
  then show "asset_ok s" using asset_step_ok by fastforce
next
  fix p i s
  assume t: "sp_state_type p = pr_state_type unique_asset_rules" and ok: "asset_ok (sp_state p)"
    and step: "rules_step unique_asset_rules p i = Ok s"
  from ok obtain a where a: "sp_state p = UniqueAsset a"
    by (auto simp: asset_ok_def split: resource_state.splits)
  obtain b where b: "s = UniqueAsset b" "asset_step (in_inputs i) (in_operation i) (Some a) b"
    by (rule asset_rules_step [OF _ a step]) (use t in simp)
  then show "asset_ok s" using asset_step_ok [OF b(2)] ok a by simp
qed

section \<open>Paid assets\<close>

lemma paid_rules_simps [simp]:
  "pr_execution_policy paid_unique_asset_rules = ResourceExecution UniqueAssetT"
  "pr_state_type paid_unique_asset_rules = UniqueAssetT"
  "pr_check paid_unique_asset_rules = paid_check"
  "pr_apply paid_unique_asset_rules = apply_transition"
  by (simp_all add: paid_unique_asset_rules_def baseline_rules_def)

lemma availability_exceptional:
  assumes "check_resource_availability p op = Ok ()" "rs_status (sp_state p) = Some st"
    "st \<in> set exceptional_statuses"
  shows "op = ''asset.restore''"
  using assms
  by (auto simp: check_resource_availability_def exceptional_statuses_def free_statuses_def
      terminal_statuses_def status_escapes_def status_new_def split: if_splits)

lemma check_access_resource:
  "check_access (ResourceExecution t) i (Some p) = Ok () \<Longrightarrow>
    check_resource_availability p (in_operation i) = Ok ()"
  by simp

lemma paid_restrict:
  assumes "sp_state p = UniqueAsset a" "paid_check ''asset.restrict'' (Some p) inputs = Ok ()"
    "apply_unique_asset (Some p) ''asset.restrict'' inputs = Ok s"
  shows "s = UniqueAsset (moved a (restrict_target inputs)) \<and>
    restrict_target inputs \<in> set paid_exceptional_statuses"
  using assms
  by (cases a) (auto simp: paid_check_def asset_check_simps check_restrict_overlay_def reader_simps
      apply_unique_asset_def asset_view_simps paid_exceptional_statuses_def Let_def
      split: option.splits if_splits)

lemma paid_delete:
  assumes "sp_state p = UniqueAsset a" "paid_check ''asset.hard_delete'' (Some p) inputs = Ok ()"
    "apply_unique_asset (Some p) ''asset.hard_delete'' inputs = Ok s"
  shows "s = UniqueAsset (moved a ''tombstoned'') \<and> given inputs ''actor'' (ua_owner a) \<and>
    btree_get inputs ''authorized_by_owner'' = Some (JBool True)"
proof -
  have "btree_get inputs ''authorized_by_owner'' = Some (JBool True)" if "authorized_by_owner inputs"
    using that by (auto simp: authorized_by_owner_def split: Option.bind_splits elim: as_bool.elims)
  with assms show ?thesis
    by (cases a) (auto simp: paid_check_def check_hard_delete_def reader_simps
      apply_unique_asset_def asset_view_simps split: if_splits)
qed

section \<open>Chain of custody\<close>

text \<open>
  The owner that a list of accepted intents leads to, read off the intents alone: a transfer or a
  settlement must name the present owner and hands the asset to the owner it names, every other
  operation leaves the owner as it is.
\<close>

fun custody :: "subject_id \<Rightarrow> intent list \<Rightarrow> subject_id option" where
  "custody owner [] = Some owner"
| "custody owner (i # is) =
    (if in_operation i \<in> {''asset.transfer'', ''trade.settle''} then
       if given (in_inputs i) ''from_owner'' owner then
         (case btree_get (in_inputs i) ''to_owner'' of Some (JString next) \<Rightarrow> custody next is | _ \<Rightarrow> None)
       else None
     else custody owner is)"

lemma asset_step_custody:
  "asset_step inputs op (Some a) b \<Longrightarrow>
    (if op \<in> {''asset.transfer'', ''trade.settle''}
     then given inputs ''from_owner'' (ua_owner a) \<and> given inputs ''to_owner'' (ua_owner b)
     else ua_owner b = ua_owner a)"
  by (erule asset_step_from) (auto simp: asset_view_simps)

lemma asset_run_custody:
  "rules_run unique_asset_rules p is = Ok q \<Longrightarrow> sp_state_type p = UniqueAssetT \<Longrightarrow>
    sp_state p = UniqueAsset a \<Longrightarrow> \<exists>b. sp_state q = UniqueAsset b \<and> custody (ua_owner a) is = Some (ua_owner b)"
proof (induction "is" arbitrary: p a)
  case Nil
  then show ?case by auto
next
  case (Cons i "is")
  from Cons.prems(1) obtain s where step: "rules_step unique_asset_rules p i = Ok s"
    and run: "rules_run unique_asset_rules (p\<lparr>sp_state := s\<rparr>) is = Ok q" by auto
  from Cons.prems(2,3) step obtain b where b: "s = UniqueAsset b"
      "asset_step (in_inputs i) (in_operation i) (Some a) b" by (rule asset_rules_step)
  obtain c where c: "sp_state q = UniqueAsset c" "custody (ua_owner b) is = Some (ua_owner c)"
    using Cons.IH [OF run, of b] Cons.prems(2) b(1) by auto
  show ?case using asset_step_custody [OF b(2)] c
    by (cases "in_operation i \<in> {''asset.transfer'', ''trade.settle''}") (simp_all add: given_def)
qed

lemma terminal_blocks:
  "rs_status (sp_state p) = Some st \<Longrightarrow> st \<in> set terminal_statuses \<Longrightarrow>
    check_resource_availability p op \<noteq> Ok ()"
  by (auto simp: check_resource_availability_def terminal_statuses_def free_statuses_def status_new_def
      split: result.splits)

section \<open>Properties\<close>


text \<open>An asset on hold for a trade, and the intents of its two parties.\<close>

definition ex_held :: state_projection where
  "ex_held = ex_projection ''sword'' (ex_asset ''alice'' ''trade_held'' (Some ''tr1''))"

definition ex_active :: state_projection where
  "ex_active = ex_projection ''sword'' (ex_asset ''alice'' ''active'' None)"

definition ex_asset_intent :: "operation \<Rightarrow> (string \<times> string) list \<Rightarrow> intent" where
  "ex_asset_intent op inputs =
    ex_intent ''int_1'' op ''sword'' (map (\<lambda>(k, v). (k, JString v)) inputs)"

lemma ex_projections [simp]:
  "sp_state_type ex_held = UniqueAssetT" "sp_state_type ex_active = UniqueAssetT"
  "sp_state ex_held = UniqueAsset \<lparr>ua_owner = ''alice'', ua_status = ''trade_held'', ua_trade_id = Some ''tr1''\<rparr>"
  "sp_state ex_active = UniqueAsset \<lparr>ua_owner = ''alice'', ua_status = ''active'', ua_trade_id = None\<rparr>"
  by (simp_all add: ex_held_def ex_active_def ex_projection_def ex_asset_def)


text \<open>
  C27. Chain of custody: whatever list of intents the profile accepts on an asset, the final owner is
  the one obtained from the intents by letting each transfer and settlement, and nothing else, hand
  the asset from the owner it names as present to the owner it names as next.
\<close>

theorem asset_custody:
  assumes "rules_run unique_asset_rules p is = Ok q" "sp_state_type p = UniqueAssetT"
    "rs_owner (sp_state p) = Some owner"
  shows "custody owner is = rs_owner (sp_state q)"
proof -
  obtain a where "sp_state p = UniqueAsset a" "owner = ua_owner a"
    using assms(3) by (cases "sp_state p") auto
  with asset_run_custody [OF assms(1,2)] show ?thesis by auto
qed

theorem asset_custody_witness:
  "custody ''alice'' [ex_asset_intent ''asset.lock'' [], ex_asset_intent ''asset.unlock'' [],
     ex_asset_intent ''asset.transfer'' [(''from_owner'', ''alice''), (''to_owner'', ''bob'')]] = Some ''bob''"
proof -
  have "rules_run unique_asset_rules ex_active [ex_asset_intent ''asset.lock'' [],
      ex_asset_intent ''asset.unlock'' [],
      ex_asset_intent ''asset.transfer'' [(''from_owner'', ''alice''), (''to_owner'', ''bob'')]] =
    Ok (ex_projection ''sword'' (ex_asset ''bob'' ''active'' None))" by code_simp
  from asset_custody [OF this] show ?thesis by (simp add: ex_projection_def ex_asset_def)
qed

text \<open>
  C28. An asset that was minted and went through any accepted operations has an owner and a valid
  status, and it carries a trade id only while it is held for that trade.
\<close>

theorem asset_life_invariant:
  assumes "rules_create unique_asset_rules i = Ok s"
    "rules_run unique_asset_rules (born unique_asset_rules i s) is = Ok q"
  shows "\<exists>a. sp_state q = UniqueAsset a \<and> ua_owner a \<noteq> [] \<and> validate_status (ua_status a) = Ok () \<and>
    (ua_trade_id a = None \<or> ua_status a = ''trade_held'')"
  using asset.life_inv [OF assms] by (auto simp: asset_ok_def split: resource_state.splits)

theorem asset_life_invariant_witness:
  "\<exists>q a. rules_run unique_asset_rules
      (born unique_asset_rules (ex_asset_intent ''asset.mint'' [(''to_owner'', ''alice'')]) (ex_asset ''alice'' ''active'' None))
      [ex_asset_intent ''trade.lock'' [(''from_owner'', ''alice''), (''trade_id'', ''tr1'')]] = Ok q \<and>
    sp_state q = UniqueAsset a \<and> ua_status a = ''trade_held''"
proof -
  let ?i = "ex_asset_intent ''asset.mint'' [(''to_owner'', ''alice'')]"
  let ?lock = "ex_asset_intent ''trade.lock'' [(''from_owner'', ''alice''), (''trade_id'', ''tr1'')]"
  let ?q = "(born unique_asset_rules ?i (ex_asset ''alice'' ''active'' None))
      \<lparr>sp_state := ex_asset ''alice'' ''trade_held'' (Some ''tr1'')\<rparr>"
  have mint: "rules_create unique_asset_rules ?i = Ok (ex_asset ''alice'' ''active'' None)" by code_simp
  have run: "rules_run unique_asset_rules (born unique_asset_rules ?i (ex_asset ''alice'' ''active'' None)) [?lock] =
    Ok ?q" by code_simp
  from asset_life_invariant [OF mint run] run show ?thesis by (auto simp: ex_asset_def)
qed

text \<open>
  C29. While an asset is held for a trade, the profile lets only that trade go on: a release or a
  settlement that names the stored trade id, the settlement also naming the owner. The one other
  accepted operation is a restriction.
\<close>

theorem trade_hold_exclusive:
  assumes "rules_step unique_asset_rules p i = Ok s" "sp_state_type p = UniqueAssetT"
    "sp_state p = UniqueAsset a" "ua_status a = ''trade_held''"
  shows "in_operation i = ''asset.restrict'' \<or>
    (\<exists>t b. s = UniqueAsset b \<and> ua_trade_id a = Some t \<and> given (in_inputs i) ''trade_id'' t \<and>
      ua_status b = ''active'' \<and>
      (in_operation i = ''trade.unlock'' \<and> ua_owner b = ua_owner a \<or>
       in_operation i = ''trade.settle'' \<and> given (in_inputs i) ''from_owner'' (ua_owner a) \<and>
         given (in_inputs i) ''to_owner'' (ua_owner b)))"
proof -
  obtain b where b: "s = UniqueAsset b" "asset_step (in_inputs i) (in_operation i) (Some a) b"
    using assms(2,3,1) by (rule asset_rules_step)
  from asset_step_trade_held [OF b(2) assms(4)] b(1) show ?thesis by auto
qed

theorem trade_hold_exclusive_witness:
  "\<exists>b. rules_step unique_asset_rules ex_held (ex_asset_intent ''trade.settle''
      [(''from_owner'', ''alice''), (''to_owner'', ''bob''), (''trade_id'', ''tr1'')]) = Ok (UniqueAsset b) \<and>
    ua_status b = ''active''"
proof -
  let ?i = "ex_asset_intent ''trade.settle''
      [(''from_owner'', ''alice''), (''to_owner'', ''bob''), (''trade_id'', ''tr1'')]"
  have ok: "rules_step unique_asset_rules ex_held ?i = Ok (ex_asset ''bob'' ''active'' None)" by code_simp
  have "in_operation ?i = ''trade.settle''" by (simp add: ex_asset_intent_def ex_intent_def)
  with trade_hold_exclusive [OF ok ex_projections(1,3)] ok show ?thesis by auto
qed

text \<open>
  A restriction of a plain unique asset can take it out of a trade hold into any status: the
  target status is an unchecked input, no authority is required, and the owner is not asked. On a
  concrete held asset one restriction makes it active again and another burns it.
\<close>

theorem restrict_escapes_trade_hold:
  "rules_step unique_asset_rules ex_held (ex_asset_intent ''asset.restrict'' [(''status'', ''active'')]) =
     Ok (ex_asset ''alice'' ''active'' None) \<and>
   rules_step unique_asset_rules ex_held (ex_asset_intent ''asset.restrict'' [(''status'', ''burned'')]) =
     Ok (ex_asset ''alice'' ''burned'' None) \<and>
   \<not> pr_requires_authority unique_asset_rules ''asset.restrict''"
proof (intro conjI)
  show "rules_step unique_asset_rules ex_held (ex_asset_intent ''asset.restrict'' [(''status'', ''active'')]) =
     Ok (ex_asset ''alice'' ''active'' None)" by code_simp
  show "rules_step unique_asset_rules ex_held (ex_asset_intent ''asset.restrict'' [(''status'', ''burned'')]) =
     Ok (ex_asset ''alice'' ''burned'' None)" by code_simp
  show "\<not> pr_requires_authority unique_asset_rules ''asset.restrict''"
    by (simp add: ua_requires_authority_def ua_authority_required_def)
qed

text \<open>
  Terminal statuses are final under every baseline profile: the access gate rejects every
  operation on a resource whose status is terminal, so no step is accepted.
\<close>

theorem terminal_statuses_final:
  assumes "pr_execution_policy rules = ResourceExecution t" "rs_status (sp_state p) = Some st"
    "st \<in> set terminal_statuses"
  shows "\<exists>e. rules_step rules p i = Err e"
proof (cases "rules_step rules p i")
  case (Ok s)
  then have "check_access (ResourceExecution t) i (Some p) = Ok ()"
    unfolding rules_step_Ok assms(1) by (rule conjunct1)
  from check_access_resource [OF this] terminal_blocks [OF assms(2,3)] show ?thesis by contradiction
qed simp

theorem terminal_statuses_final_witness:
  "\<exists>e. rules_step paid_unique_asset_rules (ex_projection ''sword'' (ex_asset ''alice'' ''burned'' None))
    (ex_asset_intent ''asset.hard_delete'' []) = Err e"
  by (rule terminal_statuses_final [OF paid_rules_simps(1), where st = "''burned''"])
    (simp_all add: ex_projection_def ex_asset_def terminal_statuses_def)

text \<open>
  The paid overlay keeps exceptional statuses closed: a restriction moves an asset into an
  exceptional status and keeps its owner; from an exceptional status only a restore is accepted; and
  a hard delete needs the current owner as actor and the owner's authorization.
\<close>

theorem paid_overlay_confines:
  assumes "rules_step paid_unique_asset_rules p i = Ok s" "sp_state_type p = UniqueAssetT"
    "sp_state p = UniqueAsset a"
  shows "(in_operation i = ''asset.restrict'' \<longrightarrow>
      (\<exists>st \<in> set paid_exceptional_statuses. s = UniqueAsset (moved a st))) \<and>
    (ua_status a \<in> set paid_exceptional_statuses \<longrightarrow> in_operation i = ''asset.restore'') \<and>
    (in_operation i = ''asset.hard_delete'' \<longrightarrow>
      given (in_inputs i) ''actor'' (ua_owner a) \<and>
      btree_get (in_inputs i) ''authorized_by_owner'' = Some (JBool True))"
proof (intro conjI impI)
  have parts: "check_resource_availability p (in_operation i) = Ok ()"
      "paid_check (in_operation i) (Some p) (in_inputs i) = Ok ()"
      "apply_unique_asset (Some p) (in_operation i) (in_inputs i) = Ok s"
    using assms(1,2) by (simp_all add: rules_step_Ok apply_transition_asset)
  show "\<exists>st \<in> set paid_exceptional_statuses. s = UniqueAsset (moved a st)"
    if "in_operation i = ''asset.restrict''"
    using paid_restrict [OF assms(3)] parts that by auto
  show "in_operation i = ''asset.restore''" if "ua_status a \<in> set paid_exceptional_statuses"
    using availability_exceptional [OF parts(1)] that assms(3)
    by (simp add: paid_exceptional_statuses_def exceptional_statuses_def)
  show "given (in_inputs i) ''actor'' (ua_owner a)" if "in_operation i = ''asset.hard_delete''"
    using paid_delete [OF assms(3)] parts that by auto
  show "btree_get (in_inputs i) ''authorized_by_owner'' = Some (JBool True)"
    if "in_operation i = ''asset.hard_delete''"
    using paid_delete [OF assms(3)] parts that by auto
qed

theorem paid_overlay_confines_witness:
  "\<exists>st \<in> set paid_exceptional_statuses.
    ex_asset ''alice'' ''fraud_lock'' None =
      UniqueAsset (moved \<lparr>ua_owner = ''alice'', ua_status = ''trade_held'', ua_trade_id = Some ''tr1''\<rparr> st)"
proof -
  let ?i = "ex_asset_intent ''asset.restrict'' [(''status'', ''fraud_lock'')]"
  have ok: "rules_step paid_unique_asset_rules ex_held ?i = Ok (ex_asset ''alice'' ''fraud_lock'' None)"
    by code_simp
  have "in_operation ?i = ''asset.restrict''" by (simp add: ex_asset_intent_def ex_intent_def)
  with paid_overlay_confines [OF ok ex_projections(1,3)] show ?thesis by blast
qed

end
