(* ===== verification/Quantity_Lifecycle.thy ===== *)
theory Quantity_Lifecycle
  imports Profile_Machine
begin

text \<open>
  Balances, stacks and meters as machines over numbers. Each specification below is over rational
  numbers alone and says for an intent which value follows, or that the intent is refused; the
  profiles with their fixed-point amounts and their errors implement it.
\<close>

section \<open>Specifications\<close>

definition amount_in :: "inputs \<Rightarrow> string \<Rightarrow> rat option" where
  "amount_in inputs key =
    (case btree_get inputs key of
       Some (JString t) \<Rightarrow> (case try_from_str t of Ok a \<Rightarrow> Some (amount_value a) | Err _ \<Rightarrow> None)
     | _ \<Rightarrow> None)"

text \<open>Taking out needs a positive amount that is there; putting in needs a positive amount.\<close>

definition take_out :: "rat \<Rightarrow> rat \<Rightarrow> rat option" where
  "take_out v a = (if 0 < a \<and> a \<le> v then Some (v - a) else None)"

definition put_in :: "rat \<Rightarrow> rat \<Rightarrow> rat option" where
  "put_in v a = (if 0 < a then Some (v + a) else None)"

definition balance_spec :: "intent \<Rightarrow> rat \<Rightarrow> rat option" where
  "balance_spec i v =
    (let amount = amount_in (in_inputs i) ''amount'' in
     if in_operation i \<in> {''balance.mint'', ''balance.credit'', ''balance.release''}
     then Option.bind amount (put_in v)
     else if in_operation i \<in> {''balance.debit'', ''balance.spend'', ''balance.reserve'',
       ''balance.burn'', ''balance.transfer'', ''balance.convert''}
     then Option.bind amount (take_out v)
     else None)"

definition stack_spec :: "intent \<Rightarrow> rat \<Rightarrow> rat option" where
  "stack_spec i v =
    (let amount = amount_in (in_inputs i) ''quantity'' in
     if in_operation i = ''stack.credit'' then map_option (\<lambda>a. v + a) amount
     else if in_operation i = ''stack.release'' then Option.bind amount (put_in v)
     else if in_operation i \<in> {''stack.debit'', ''stack.consume'', ''stack.reserve'', ''stack.transfer''}
     then Option.bind amount (take_out v)
     else if in_operation i = ''stack.adjust'' then amount
     else if in_operation i = ''stack.expire'' then Some 0
     else None)"

text \<open>A meter is its remaining allowance and its maximum.\<close>

definition meter_spec :: "intent \<Rightarrow> rat \<times> rat \<Rightarrow> (rat \<times> rat) option" where
  "meter_spec i v =
    (case v of (remaining, maximum) \<Rightarrow>
       if in_operation i = ''meter.consume''
       then Option.bind (amount_in (in_inputs i) ''amount'') (\<lambda>a.
         map_option (\<lambda>r. (r, maximum)) (take_out remaining a))
       else if in_operation i = ''meter.refill'' then Some (maximum, maximum)
       else if in_operation i = ''meter.set_maximum''
       then map_option (\<lambda>m. (min remaining m, m)) (amount_in (in_inputs i) ''maximum'')
       else if in_operation i \<in> {''meter.reset'', ''meter.expire''} then Some (0, maximum)
       else None)"

section \<open>Views and invariants\<close>

fun holding :: "resource_state \<Rightarrow> rat" where
  "holding (FungibleBalance b) = amount_value (fb_balance b)"
| "holding (ConsumableStack c) = amount_value (cs_quantity c)"
| "holding (MeteredResource m) = amount_value (mt_remaining m)"
| "holding _ = 0"

fun meter_view :: "resource_state \<Rightarrow> rat \<times> rat" where
  "meter_view (MeteredResource m) = (amount_value (mt_remaining m), amount_value (mt_maximum m))"
| "meter_view _ = (0, 0)"

definition balance_ok :: "resource_state \<Rightarrow> bool" where
  "balance_ok s \<longleftrightarrow> (case s of FungibleBalance b \<Rightarrow> fb_subject b \<noteq> [] \<and> fb_unit b \<noteq> [] | _ \<Rightarrow> False)"

definition stack_ok :: "resource_state \<Rightarrow> bool" where
  "stack_ok s \<longleftrightarrow> (case s of ConsumableStack c \<Rightarrow> cs_subject c \<noteq> [] \<and> cs_unit c \<noteq> [] | _ \<Rightarrow> False)"

definition meter_ok :: "resource_state \<Rightarrow> bool" where
  "meter_ok s \<longleftrightarrow>
    (case s of
       MeteredResource m \<Rightarrow> mt_subject m \<noteq> [] \<and> amount_value (mt_remaining m) \<le> amount_value (mt_maximum m)
     | _ \<Rightarrow> False)"

lemma amount_in_Some: "btree_get inputs key = Some (JString t) \<Longrightarrow> try_from_str t = Ok a \<Longrightarrow>
    amount_in inputs key = Some (amount_value a)"
  by (simp add: amount_in_def)

lemma quantity_rules_simps [simp]:
  "pr_execution_policy fungible_balance_rules = ResourceExecution FungibleBalanceT"
  "pr_state_type fungible_balance_rules = FungibleBalanceT"
  "pr_check fungible_balance_rules = balance_check" "pr_apply fungible_balance_rules = apply_transition"
  "pr_execution_policy consumable_stack_rules = ResourceExecution ConsumableStackT"
  "pr_state_type consumable_stack_rules = ConsumableStackT"
  "pr_check consumable_stack_rules = stack_check" "pr_apply consumable_stack_rules = apply_transition"
  "pr_execution_policy meter_rules = ResourceExecution MeteredResourceT"
  "pr_state_type meter_rules = MeteredResourceT"
  "pr_check meter_rules = meter_check" "pr_apply meter_rules = apply_transition"
  by (simp_all add: fungible_balance_rules_def consumable_stack_rules_def meter_rules_def baseline_rules_def)

lemma amount_pos_iff: "0 < amount_value a \<longleftrightarrow> amount_value a \<noteq> 0"
  by (simp add: order_less_le)

lemma amount_summand_le: "amount_value a + amount_value b \<le> v \<Longrightarrow> amount_value a \<le> v"
  using amount_value_nonneg [of b] by linarith

section \<open>Balances\<close>

lemma balance_check_op: "balance_check op current inputs = Ok u \<Longrightarrow> op \<in> set balance_ops"
  by (rule ccontr) (simp add: balance_check_def)

lemma balance_step:
  assumes "sp_state p = FungibleBalance b"
    "balance_check (in_operation i) (Some p) (in_inputs i) = Ok ()"
    "apply_balance (Some p) (in_operation i) (in_inputs i) = Ok s"
  shows "balance_ok s \<and> balance_spec i (holding (sp_state p)) = Some (holding s)"
  using balance_check_op [OF assms(2)] assms unfolding balance_ops_def list.set
  by (elim insertE emptyE)
    (auto simp: balance_check_defs apply_balance_def reader_simps balance_spec_def amount_in_def
      balance_ok_def take_out_def put_in_def dest: checked_add_value checked_sub_value)

lemma balance_birth:
  assumes "balance_check op None inputs = Ok ()" "apply_transition None op inputs = Ok s"
  shows "balance_ok s"
  using balance_check_op [OF assms(1)] assms unfolding balance_ops_def list.set
  by (elim insertE emptyE)
    (auto simp: balance_check_defs apply_transition_def state_type_of_def state_type_hint_def
      starts_with_def apply_balance_def reader_simps balance_ok_def)

section \<open>Stacks\<close>

lemma stack_check_op: "stack_check op current inputs = Ok u \<Longrightarrow> op \<in> set stack_ops"
  by (rule ccontr) (simp add: stack_check_def)

lemma stack_step:
  assumes "sp_state p = ConsumableStack c"
    "stack_check (in_operation i) (Some p) (in_inputs i) = Ok ()"
    "apply_stack (Some p) (in_operation i) (in_inputs i) = Ok s"
  shows "stack_ok s \<and> stack_spec i (holding (sp_state p)) = Some (holding s)"
  using stack_check_op [OF assms(2)] assms unfolding stack_ops_def list.set
  by (elim insertE emptyE)
    (auto simp: stack_check_defs apply_stack_def reader_simps stack_spec_def amount_in_def
      stack_ok_def take_out_def put_in_def order_less_le dest: checked_add_value checked_sub_value
      split: if_splits)

lemma stack_birth:
  assumes "stack_check op None inputs = Ok ()" "apply_transition None op inputs = Ok s"
  shows "stack_ok s"
  using stack_check_op [OF assms(1)] assms unfolding stack_ops_def list.set
  by (elim insertE emptyE)
    (auto simp: stack_check_defs apply_transition_def state_type_of_def state_type_hint_def
      starts_with_def apply_stack_def reader_simps stack_ok_def)

section \<open>Meters\<close>

lemma meter_check_op: "meter_check op current inputs = Ok u \<Longrightarrow> op \<in> set meter_ops"
  by (rule ccontr) (simp add: meter_check_def)

lemma meter_step:
  assumes "sp_state p = MeteredResource m" "meter_ok (sp_state p)"
    "meter_check (in_operation i) (Some p) (in_inputs i) = Ok ()"
    "apply_meter (Some p) (in_operation i) (in_inputs i) = Ok s"
  shows "meter_ok s \<and> meter_spec i (meter_view (sp_state p)) = Some (meter_view s)"
  using meter_check_op [OF assms(3)] assms unfolding meter_ops_def list.set
  by (elim insertE emptyE)
    (auto simp: meter_check_defs apply_meter_def reader_simps meter_spec_def amount_in_def Let_def
      meter_ok_def take_out_def amount_pos_iff amount_min_value dest!: checked_sub_value dest: amount_summand_le
      split: if_splits)

lemma meter_birth:
  assumes "meter_check op None inputs = Ok ()" "apply_transition None op inputs = Ok s"
  shows "meter_ok s"
  using meter_check_op [OF assms(1)] assms unfolding meter_ops_def list.set
  by (elim insertE emptyE)
    (auto simp: meter_check_defs apply_transition_def state_type_of_def state_type_hint_def
      starts_with_def apply_meter_def reader_simps meter_ok_def split: if_splits)

section \<open>The profiles implement their specifications\<close>

lemma apply_transition_quantity:
  "sp_state_type p = FungibleBalanceT \<Longrightarrow> apply_transition (Some p) op inputs = apply_balance (Some p) op inputs"
  "sp_state_type p = ConsumableStackT \<Longrightarrow> apply_transition (Some p) op inputs = apply_stack (Some p) op inputs"
  "sp_state_type p = MeteredResourceT \<Longrightarrow> apply_transition (Some p) op inputs = apply_meter (Some p) op inputs"
  by (simp_all add: apply_transition_def state_type_of_def)

lemma balance_rules_step:
  assumes "sp_state_type p = FungibleBalanceT" "balance_ok (sp_state p)"
    "rules_step fungible_balance_rules p i = Ok s"
  shows "balance_ok s \<and> balance_spec i (holding (sp_state p)) = Some (holding s)"
proof -
  obtain b where "sp_state p = FungibleBalance b"
    using assms(2) by (auto simp: balance_ok_def split: resource_state.splits)
  then show ?thesis
    by (rule balance_step) (use assms(1,3) in \<open>simp_all add: rules_step_Ok apply_transition_quantity\<close>)
qed

lemma stack_rules_step:
  assumes "sp_state_type p = ConsumableStackT" "stack_ok (sp_state p)"
    "rules_step consumable_stack_rules p i = Ok s"
  shows "stack_ok s \<and> stack_spec i (holding (sp_state p)) = Some (holding s)"
proof -
  obtain c where "sp_state p = ConsumableStack c"
    using assms(2) by (auto simp: stack_ok_def split: resource_state.splits)
  then show ?thesis
    by (rule stack_step) (use assms(1,3) in \<open>simp_all add: rules_step_Ok apply_transition_quantity\<close>)
qed

lemma meter_rules_step:
  assumes "sp_state_type p = MeteredResourceT" "meter_ok (sp_state p)"
    "rules_step meter_rules p i = Ok s"
  shows "meter_ok s \<and> meter_spec i (meter_view (sp_state p)) = Some (meter_view s)"
proof -
  obtain m where "sp_state p = MeteredResource m"
    using assms(2) by (auto simp: meter_ok_def split: resource_state.splits)
  then show ?thesis using assms(2)
    by (rule meter_step) (use assms(1,3) in \<open>simp_all add: rules_step_Ok apply_transition_quantity\<close>)
qed

interpretation balance: profile_refinement fungible_balance_rules balance_ok holding balance_spec
proof
  show "balance_ok s" if "rules_create fungible_balance_rules i = Ok s" for i s
    using that balance_birth by (auto simp: rules_create_Ok)
  show "balance_ok s" if "sp_state_type p = pr_state_type fungible_balance_rules"
      "balance_ok (sp_state p)" "rules_step fungible_balance_rules p i = Ok s" for p i s
    using balance_rules_step [OF _ that(2,3)] that(1) by simp
  show "balance_spec i (holding (sp_state p)) = Some (holding s)"
    if "sp_state_type p = pr_state_type fungible_balance_rules"
      "balance_ok (sp_state p)" "rules_step fungible_balance_rules p i = Ok s" for p i s
    using balance_rules_step [OF _ that(2,3)] that(1) by simp
qed

interpretation stack: profile_refinement consumable_stack_rules stack_ok holding stack_spec
proof
  show "stack_ok s" if "rules_create consumable_stack_rules i = Ok s" for i s
    using that stack_birth by (auto simp: rules_create_Ok)
  show "stack_ok s" if "sp_state_type p = pr_state_type consumable_stack_rules"
      "stack_ok (sp_state p)" "rules_step consumable_stack_rules p i = Ok s" for p i s
    using stack_rules_step [OF _ that(2,3)] that(1) by simp
  show "stack_spec i (holding (sp_state p)) = Some (holding s)"
    if "sp_state_type p = pr_state_type consumable_stack_rules"
      "stack_ok (sp_state p)" "rules_step consumable_stack_rules p i = Ok s" for p i s
    using stack_rules_step [OF _ that(2,3)] that(1) by simp
qed

interpretation meter: profile_refinement meter_rules meter_ok meter_view meter_spec
proof
  show "meter_ok s" if "rules_create meter_rules i = Ok s" for i s
    using that meter_birth by (auto simp: rules_create_Ok)
  show "meter_ok s" if "sp_state_type p = pr_state_type meter_rules"
      "meter_ok (sp_state p)" "rules_step meter_rules p i = Ok s" for p i s
    using meter_rules_step [OF _ that(2,3)] that(1) by simp
  show "meter_spec i (meter_view (sp_state p)) = Some (meter_view s)"
    if "sp_state_type p = pr_state_type meter_rules"
      "meter_ok (sp_state p)" "rules_step meter_rules p i = Ok s" for p i s
    using meter_rules_step [OF _ that(2,3)] that(1) by simp
qed

section \<open>When a checked operation cannot fail\<close>

text \<open>
  An amount read from an input is whole, so bringing it to the scale of a holding that covers it
  cannot overflow.
\<close>

lemma whole_sub_total:
  assumes "scale b = 0" "amount_value b \<le> amount_value a"
  shows "amount_checked_sub a b \<noteq> None"
proof -
  have a: "aligned a b = mant a" using assms(1) by (simp add: aligned_def)
  have "(of_nat (aligned b a) :: rat) \<le> of_nat (aligned a b)"
    unfolding aligned_value [of a b] aligned_value' [of b a] using assms(2) by (rule mult_right_mono) simp
  then have "aligned b a \<le> aligned a b" by simp
  moreover have "aligned a b < 2 ^ 128" using a unat_lt_length [of "mantissa a"] by simp
  ultimately show ?thesis unfolding amount_checked_sub_None by linarith
qed

lemma parsed_scale: "try_from_str t = Ok a \<Longrightarrow> scale a = 0"
  by (auto simp: try_from_str_Ok from_u128_def)

lemma parsed_sub_total:
  "try_from_str t = Ok b \<Longrightarrow> amount_value b \<le> amount_value a \<Longrightarrow> \<exists>c. amount_checked_sub a b = Some c"
  using whole_sub_total [OF parsed_scale, of t b a] by auto

definition balance_incoming :: "operation \<Rightarrow> bool" where
  "balance_incoming op \<longleftrightarrow> op \<in> {''balance.mint'', ''balance.credit'', ''balance.release''}"

lemma tr_input_amount_eq: "input_amount inputs key = Ok a \<Longrightarrow> tr_input_amount inputs key = Ok a"
  by (simp add: tr_input_amount_Ok)

lemma balance_apply_total:
  assumes "sp_state p = FungibleBalance b" "balance_ok (sp_state p)"
    "balance_check op (Some p) inputs = Ok ()"
  shows "(\<exists>s. apply_balance (Some p) op inputs = Ok s) \<or>
    balance_incoming op \<and> apply_balance (Some p) op inputs = Err (overflow ''balance'') \<and>
    (\<exists>a. input_amount inputs ''amount'' = Ok a \<and> amount_checked_add (fb_balance b) a = None)"
proof -
  have reads: "tr_require_current (Some p) op = Ok p" "tr_state_str p ''subject'' = Ok (fb_subject b)"
      "tr_state_str p ''unit'' = Ok (fb_unit b)" "state_amount p ''balance'' = Ok (fb_balance b)" for op
    using assms(1,2) by (simp_all add: reader_simps balance_ok_def)
  have "balance_incoming op \<or>
      op \<in> {''balance.debit'', ''balance.spend'', ''balance.reserve'', ''balance.burn'',
        ''balance.transfer'', ''balance.convert''}"
    using balance_check_op [OF assms(3)] unfolding balance_ops_def list.set
    by (elim insertE emptyE)
      (use assms(3) in \<open>simp_all add: balance_incoming_def balance_check_defs reader_simps\<close>)
  then show ?thesis
  proof
    assume inc: "balance_incoming op"
    then obtain a where a: "input_amount inputs ''amount'' = Ok a"
      using assms(3) unfolding balance_incoming_def insert_iff empty_iff
      by (elim disjE) (auto simp: balance_check_defs)
    then show ?thesis using inc reads tr_input_amount_eq [OF a]
      by (cases "amount_checked_add (fb_balance b) a") (auto simp: balance_incoming_def apply_balance_def)
  next
    assume out: "op \<in> {''balance.debit'', ''balance.spend'', ''balance.reserve'', ''balance.burn'',
        ''balance.transfer'', ''balance.convert''}"
    then obtain t a where a: "input_amount inputs ''amount'' = Ok a" "try_from_str t = Ok a"
        "amount_value a \<le> amount_value (fb_balance b)"
      using assms(1,3) unfolding insert_iff empty_iff
      by (elim disjE) (auto simp: balance_check_defs reader_simps)
    from parsed_sub_total [OF a(2,3)] obtain c where "amount_checked_sub (fb_balance b) a = Some c" by auto
    then show ?thesis using out assms(3) reads tr_input_amount_eq [OF a(1)]
      unfolding insert_iff empty_iff
      by (elim disjE) (auto simp: apply_balance_def balance_check_defs)
  qed
qed

section \<open>Transfers\<close>

lemma holding_read:
  "rs_amount s ''balance'' = Some a \<Longrightarrow> holding s = amount_value a"
  "rs_amount s ''quantity'' = Some a \<Longrightarrow> holding s = amount_value a"
  by (cases s; simp)+

lemma transfer_conserves_balance:
  assumes "apply_balance (Some p) ''balance.transfer'' inputs = Ok s"
    "transfer_after_state p dest ''balance.transfer'' inputs = Ok d"
  shows "holding s + holding d =
      holding (sp_state p) + (case dest of None \<Rightarrow> 0 | Some q \<Rightarrow> holding (sp_state q)) \<and>
    btree_get inputs ''to_subject'' = map_option JString (rs_subject d)"
  using assms
  by (cases dest) (auto simp: apply_balance_def transfer_after_state_def reader_simps holding_read
      dest!: checked_add_value checked_sub_value)

lemma transfer_conserves_stack:
  assumes "apply_stack (Some p) ''stack.transfer'' inputs = Ok s"
    "transfer_after_state p dest ''stack.transfer'' inputs = Ok d"
  shows "holding s + holding d =
      holding (sp_state p) + (case dest of None \<Rightarrow> 0 | Some q \<Rightarrow> holding (sp_state q)) \<and>
    btree_get inputs ''to_subject'' = map_option JString (rs_subject d)"
  using assms
  by (cases dest) (auto simp: apply_stack_def transfer_after_state_def reader_simps holding_read
      dest!: checked_add_value checked_sub_value)

section \<open>Properties\<close>

definition ex_quantity_intent :: "operation \<Rightarrow> (string \<times> string) list \<Rightarrow> intent" where
  "ex_quantity_intent op inputs =
    ex_intent ''int_1'' op ''purse'' (map (\<lambda>(k, v). (k, JString v)) inputs)"

lemma ex_amount_value: "n < 2 ^ 128 \<Longrightarrow> amount_value (ex_amount n) = of_nat n"
  by (simp add: ex_amount_def value_from_u128 unat_of_nat_less)

lemma ex_holding: "n < 2 ^ 128 \<Longrightarrow> holding (sp_state (ex_projection r (ex_balance subject n))) = of_nat n"
  "n < 2 ^ 128 \<Longrightarrow> holding (sp_state (ex_projection r (ex_stack subject n))) = of_nat n"
  by (simp_all add: ex_projection_def ex_balance_def ex_stack_def ex_amount_value)

lemma ex_quantity_ok [simp]:
  "sp_state_type (ex_projection r (ex_balance subject n)) = FungibleBalanceT"
  "sp_state_type (ex_projection r (ex_stack subject n)) = ConsumableStackT"
  "sp_state_type (ex_projection r (ex_meter subject n k)) = MeteredResourceT"
  "balance_ok (sp_state (ex_projection r (ex_balance subject n))) \<longleftrightarrow> subject \<noteq> []"
  "stack_ok (sp_state (ex_projection r (ex_stack subject n))) \<longleftrightarrow> subject \<noteq> []"
  by (simp_all add: ex_projection_def ex_balance_def ex_stack_def ex_meter_def balance_ok_def stack_ok_def)

text \<open>
  C30. A balance follows its specification: after any accepted list of intents the balance is the one
  obtained over the rational numbers by adding each positive amount minted, credited or released and
  subtracting each positive amount debited, spent, reserved, burned, transferred or converted, no
  subtraction ever exceeding what is there.
\<close>

theorem balance_runs_by_spec:
  assumes "rules_run fungible_balance_rules p is = Ok q" "sp_state_type p = FungibleBalanceT"
    "balance_ok (sp_state p)"
  shows "spec_run balance_spec (holding (sp_state p)) is = Some (holding (sp_state q))"
  using balance.run_refines [OF assms(1)] assms(2,3) by simp

theorem balance_runs_by_spec_witness:
  "spec_run balance_spec 100
    [ex_quantity_intent ''balance.debit'' [(''amount'', ''40'')],
     ex_quantity_intent ''balance.credit'' [(''amount'', ''5'')]] = Some 65"
proof -
  let ?is = "[ex_quantity_intent ''balance.debit'' [(''amount'', ''40'')],
     ex_quantity_intent ''balance.credit'' [(''amount'', ''5'')]]"
  have "rules_run fungible_balance_rules (ex_projection ''purse'' (ex_balance ''bob'' 100)) ?is =
      Ok (ex_projection ''purse'' (ex_balance ''bob'' 65))" by code_simp
  from balance_runs_by_spec [OF this] show ?thesis by (simp add: ex_holding)
qed

text \<open>
  A stack follows its specification in the same way, with an adjustment setting the quantity and
  an expiry clearing it.
\<close>

theorem stack_runs_by_spec:
  assumes "rules_run consumable_stack_rules p is = Ok q" "sp_state_type p = ConsumableStackT"
    "stack_ok (sp_state p)"
  shows "spec_run stack_spec (holding (sp_state p)) is = Some (holding (sp_state q))"
  using stack.run_refines [OF assms(1)] assms(2,3) by simp

theorem stack_runs_by_spec_witness:
  "spec_run stack_spec 10 [ex_quantity_intent ''stack.consume'' [(''quantity'', ''4'')]] = Some 6"
proof -
  have "rules_run consumable_stack_rules (ex_projection ''quiver'' (ex_stack ''bob'' 10))
      [ex_quantity_intent ''stack.consume'' [(''quantity'', ''4'')]] =
      Ok (ex_projection ''quiver'' (ex_stack ''bob'' 6))" by code_simp
  from stack_runs_by_spec [OF this] show ?thesis by (simp add: ex_holding)
qed



text \<open>
  The balance check is sufficient: a checked operation on a well-formed balance always has an
  after-state, except that putting an amount in can overflow the 128-bit mantissa, and then the error
  says so.
\<close>

theorem balance_check_sufficient:
  assumes "sp_state p = FungibleBalance b" "balance_ok (sp_state p)"
    "balance_check op (Some p) inputs = Ok ()"
  shows "case apply_balance (Some p) op inputs of
      Ok s \<Rightarrow> True
    | Err e \<Rightarrow> e = overflow ''balance'' \<and> balance_incoming op \<and>
        (\<exists>a. input_amount inputs ''amount'' = Ok a \<and> amount_checked_add (fb_balance b) a = None)"
  using balance_apply_total [OF assms] by auto

theorem balance_check_sufficient_witness:
  "case apply_balance (Some (ex_projection ''purse'' (ex_balance ''bob'' 100))) ''balance.debit''
      (in_inputs (ex_quantity_intent ''balance.debit'' [(''amount'', ''40'')])) of
     Ok s \<Rightarrow> True | Err e \<Rightarrow> e = overflow ''balance''"
proof -
  let ?p = "ex_projection ''purse'' (ex_balance ''bob'' 100)"
  let ?in = "in_inputs (ex_quantity_intent ''balance.debit'' [(''amount'', ''40'')])"
  have c: "balance_check ''balance.debit'' (Some ?p) ?in = Ok ()" by code_simp
  have b: "sp_state ?p = FungibleBalance \<lparr>fb_subject = ''bob'', fb_balance = ex_amount 100, fb_unit = ''gold''\<rparr>"
    by (simp add: ex_projection_def ex_balance_def)
  from balance_check_sufficient [OF b _ c] show ?thesis by (auto split: result.splits)
qed

text \<open>
  A transfer moves value and creates none: the source's new holding and the destination's new
  holding add up to what the two held before, for balances and for stacks, and the destination state
  belongs to the recipient named in the intent.
\<close>

theorem transfer_conserves_holdings:
  assumes "op = ''balance.transfer'' \<and> apply_balance (Some p) op inputs = Ok s \<or>
      op = ''stack.transfer'' \<and> apply_stack (Some p) op inputs = Ok s"
    "transfer_after_state p dest op inputs = Ok d"
  shows "holding s + holding d =
      holding (sp_state p) + (case dest of None \<Rightarrow> 0 | Some q \<Rightarrow> holding (sp_state q)) \<and>
    btree_get inputs ''to_subject'' = map_option JString (rs_subject d)"
  using assms transfer_conserves_balance transfer_conserves_stack by blast

theorem transfer_conserves_holdings_witness:
  "holding (ex_balance ''bob'' 70) + holding (ex_balance ''alice'' 35) = 105"
proof -
  let ?in = "in_inputs (ex_quantity_intent ''balance.transfer''
    [(''amount'', ''30''), (''to_subject'', ''alice'')])"
  let ?p = "ex_projection ''purse'' (ex_balance ''bob'' 100)"
  let ?q = "ex_projection ''purse'' (ex_balance ''alice'' 5)"
  have "apply_balance (Some ?p) ''balance.transfer'' ?in = Ok (ex_balance ''bob'' 70)" by code_simp
  moreover have "transfer_after_state ?p (Some ?q) ''balance.transfer'' ?in = Ok (ex_balance ''alice'' 35)"
    by code_simp
  ultimately have "holding (ex_balance ''bob'' 70) + holding (ex_balance ''alice'' 35) =
      holding (sp_state ?p) + holding (sp_state ?q)"
    using transfer_conserves_holdings [of "''balance.transfer''" ?p ?in "ex_balance ''bob'' 70" "Some ?q"
        "ex_balance ''alice'' 35"] by simp
  then show ?thesis by (simp add: ex_holding)
qed

text \<open>
  The recipient's unit is not looked at: a transfer of 30 gold to a subject whose state of the
  same resource holds 5 silver yields 35 gold.
\<close>

theorem transfer_ignores_recipient_unit:
  "transfer_after_state (ex_projection ''purse'' (ex_balance ''bob'' 100))
     (Some (ex_projection ''purse'' (FungibleBalance
        \<lparr>fb_subject = ''alice'', fb_balance = ex_amount 5, fb_unit = ''silver''\<rparr>)))
     ''balance.transfer''
     (in_inputs (ex_quantity_intent ''balance.transfer'' [(''amount'', ''30''), (''to_subject'', ''alice'')])) =
   Ok (ex_balance ''alice'' 35)"
  by code_simp

end
