(* ===== verification/Status_Lifecycle.thy ===== *)
theory Status_Lifecycle
  imports Asset_Lifecycle
begin

text \<open>
  The life cycles of entitlements, listings and escrows: the tables of \<^verbatim>\<open>entitlement.rs\<close> and
  \<^verbatim>\<open>marketplace.rs\<close> as step relations, and the proof that the profiles take exactly these steps.
\<close>

section \<open>Entitlements\<close>

definition transferable_in :: "inputs \<Rightarrow> bool" where
  "transferable_in inputs \<longleftrightarrow> btree_get inputs ''transferable'' = Some (JBool True)"

definition en_stands :: "entitlement_state \<Rightarrow> status list \<Rightarrow> bool" where
  "en_stands e from \<longleftrightarrow> en_subject e \<noteq> [] \<and> en_status e \<in> set from"

inductive entitlement_step ::
  "inputs \<Rightarrow> operation \<Rightarrow> entitlement_state option \<Rightarrow> entitlement_state \<Rightarrow> bool"
  for inputs :: inputs where
  grant: "given inputs ''subject'' subject \<Longrightarrow>
    btree_get inputs ''transferable'' \<in> {None, Some (JBool True), Some (JBool False)} \<Longrightarrow>
    entitlement_step inputs ''entitlement.grant'' None
      \<lparr>en_subject = subject, en_status = ''granted'', en_transferable = transferable_in inputs\<rparr>"
| activate: "en_stands e [''granted''] \<Longrightarrow>
    entitlement_step inputs ''entitlement.activate'' (Some e) (e\<lparr>en_status := ''active''\<rparr>)"
| suspend: "en_stands e [''active''] \<Longrightarrow>
    entitlement_step inputs ''entitlement.suspend'' (Some e) (e\<lparr>en_status := ''suspended''\<rparr>)"
| restore: "en_stands e [''suspended''] \<Longrightarrow>
    entitlement_step inputs ''entitlement.restore'' (Some e) (e\<lparr>en_status := ''active''\<rparr>)"
| expire: "en_stands e [''granted'', ''active'', ''suspended''] \<Longrightarrow>
    entitlement_step inputs ''entitlement.expire'' (Some e) (e\<lparr>en_status := ''expired''\<rparr>)"
| revoke: "en_stands e [''granted'', ''active''] \<Longrightarrow>
    entitlement_step inputs ''entitlement.revoke'' (Some e) (e\<lparr>en_status := ''revoked''\<rparr>)"
| transfer: "en_status e \<in> {''granted'', ''active''} \<Longrightarrow> en_transferable e \<Longrightarrow>
    given inputs ''to_subject'' subject \<Longrightarrow>
    entitlement_step inputs ''entitlement.transfer'' (Some e) (e\<lparr>en_subject := subject\<rparr>)"

inductive_simps entitlement_rows:
  "entitlement_step inputs ''entitlement.grant'' before b"
  "entitlement_step inputs ''entitlement.activate'' (Some e) b"
  "entitlement_step inputs ''entitlement.suspend'' (Some e) b"
  "entitlement_step inputs ''entitlement.restore'' (Some e) b"
  "entitlement_step inputs ''entitlement.expire'' (Some e) b"
  "entitlement_step inputs ''entitlement.revoke'' (Some e) b"
  "entitlement_step inputs ''entitlement.transfer'' (Some e) b"

inductive_cases entitlement_step_from: "entitlement_step inputs op (Some e) b"
inductive_cases entitlement_step_born: "entitlement_step inputs op None b"

lemma entitlement_check_op: "entitlement_check op current inputs = Ok u \<Longrightarrow> op \<in> set entitlement_ops"
  by (rule ccontr) (simp add: entitlement_check_def)

lemma entitlement_step_op: "entitlement_step inputs op before b \<Longrightarrow> op \<in> set entitlement_ops"
  by (induction rule: entitlement_step.induct) (auto simp: entitlement_ops_def)

lemma entitlement_row:
  assumes "sp_state p = Entitlement e" "op \<in> set entitlement_ops"
  shows "entitlement_check op (Some p) inputs = Ok () \<and>
      apply_entitlement (Some p) op inputs = Ok s \<longleftrightarrow>
    (\<exists>b. s = Entitlement b \<and> entitlement_step inputs op (Some e) b)"
proof -
  obtain es et etr where e: "e = \<lparr>en_subject = es, en_status = et, en_transferable = etr\<rparr>" by (cases e)
  from assms(2) show ?thesis unfolding entitlement_ops_def list.set
    by (elim insertE emptyE)
      (use assms(1) in \<open>auto simp: e entitlement_check_defs apply_entitlement_def
        entitlement_with_status_def reader_simps entitlement_rows en_stands_def given_def
        split: if_splits\<close>)
qed

lemma entitlement_steps:
  assumes "sp_state p = Entitlement e"
  shows "entitlement_check op (Some p) inputs = Ok () \<and> apply_entitlement (Some p) op inputs = Ok s \<longleftrightarrow>
    (\<exists>b. s = Entitlement b \<and> entitlement_step inputs op (Some e) b)"
proof (cases "op \<in> set entitlement_ops")
  case True
  with assms show ?thesis by (rule entitlement_row)
next
  case False
  then show ?thesis using entitlement_check_op entitlement_step_op by blast
qed

section \<open>Listings and escrows\<close>

inductive listing_step :: "inputs \<Rightarrow> operation \<Rightarrow> listing_state option \<Rightarrow> listing_state \<Rightarrow> bool"
  for inputs :: inputs where
  create: "given inputs ''seller'' seller \<Longrightarrow>
    listing_step inputs ''listing.create'' None \<lparr>ls_seller = seller, ls_status = ''listed''\<rparr>"
| cancel: "ls_status l = ''listed'' \<Longrightarrow> ls_seller l \<noteq> [] \<Longrightarrow>
    listing_step inputs ''listing.cancel'' (Some l) (l\<lparr>ls_status := ''cancelled''\<rparr>)"
| buy: "ls_status l = ''listed'' \<Longrightarrow> ls_seller l \<noteq> [] \<Longrightarrow> given inputs ''buyer'' buyer \<Longrightarrow>
    listing_step inputs ''listing.buy'' (Some l) (l\<lparr>ls_status := ''sold''\<rparr>)"
| expire: "ls_status l = ''listed'' \<Longrightarrow> ls_seller l \<noteq> [] \<Longrightarrow>
    listing_step inputs ''listing.expire'' (Some l) (l\<lparr>ls_status := ''expired''\<rparr>)"

inductive escrow_step :: "inputs \<Rightarrow> operation \<Rightarrow> escrow_state option \<Rightarrow> escrow_state \<Rightarrow> bool"
  for inputs :: inputs where
  lock: "given inputs ''buyer'' buyer \<Longrightarrow> given inputs ''seller'' seller \<Longrightarrow>
    escrow_step inputs ''escrow.lock'' None
      \<lparr>es_buyer = buyer, es_seller = seller, es_status = ''locked''\<rparr>"
| release: "es_status e = ''locked'' \<Longrightarrow> es_buyer e \<noteq> [] \<Longrightarrow> es_seller e \<noteq> [] \<Longrightarrow>
    escrow_step inputs ''escrow.release'' (Some e) (e\<lparr>es_status := ''released''\<rparr>)"
| refund: "es_status e = ''locked'' \<Longrightarrow> es_buyer e \<noteq> [] \<Longrightarrow> es_seller e \<noteq> [] \<Longrightarrow>
    escrow_step inputs ''escrow.refund'' (Some e) (e\<lparr>es_status := ''refunded''\<rparr>)"

inductive_simps listing_rows:
  "listing_step inputs ''listing.create'' before b"
  "listing_step inputs ''listing.cancel'' (Some l) b"
  "listing_step inputs ''listing.buy'' (Some l) b"
  "listing_step inputs ''listing.expire'' (Some l) b"

inductive_simps escrow_rows:
  "escrow_step inputs ''escrow.lock'' before b"
  "escrow_step inputs ''escrow.release'' (Some e) b"
  "escrow_step inputs ''escrow.refund'' (Some e) b"

lemma listing_check_op: "listing_check op current inputs = Ok u \<Longrightarrow> op \<in> set listing_operations"
  by (rule ccontr) (simp add: listing_check_def)

lemma escrow_check_op: "escrow_check op current inputs = Ok u \<Longrightarrow> op \<in> set escrow_operations"
  by (rule ccontr) (simp add: escrow_check_def)

lemma listing_step_op: "listing_step inputs op before b \<Longrightarrow> op \<in> set listing_operations"
  by (induction rule: listing_step.induct) (auto simp: listing_operations_def)

lemma escrow_step_op: "escrow_step inputs op before b \<Longrightarrow> op \<in> set escrow_operations"
  by (induction rule: escrow_step.induct) (auto simp: escrow_operations_def)

lemma listing_row:
  assumes "sp_state p = Listing l" "op \<in> set listing_operations"
  shows "listing_check op (Some p) inputs = Ok () \<and> apply_listing (Some p) op inputs = Ok s \<longleftrightarrow>
    (\<exists>b. s = Listing b \<and> listing_step inputs op (Some l) b)"
proof -
  obtain se st where l: "l = \<lparr>ls_seller = se, ls_status = st\<rparr>" by (cases l)
  from assms(2) show ?thesis unfolding listing_operations_def list.set
    by (elim insertE emptyE)
      (use assms(1) in \<open>auto simp: l marketplace_check_defs apply_listing_def listing_with_status_def
        reader_simps listing_rows given_def\<close>)
qed

lemma escrow_row:
  assumes "sp_state p = Escrow e" "op \<in> set escrow_operations"
  shows "escrow_check op (Some p) inputs = Ok () \<and> apply_escrow (Some p) op inputs = Ok s \<longleftrightarrow>
    (\<exists>b. s = Escrow b \<and> escrow_step inputs op (Some e) b)"
proof -
  obtain bu se st where e: "e = \<lparr>es_buyer = bu, es_seller = se, es_status = st\<rparr>" by (cases e)
  from assms(2) show ?thesis unfolding escrow_operations_def list.set
    by (elim insertE emptyE)
      (use assms(1) in \<open>auto simp: e marketplace_check_defs apply_escrow_def escrow_with_status_def
        reader_simps escrow_rows given_def\<close>)
qed

lemma listing_steps:
  assumes "sp_state p = Listing l"
  shows "listing_check op (Some p) inputs = Ok () \<and> apply_listing (Some p) op inputs = Ok s \<longleftrightarrow>
    (\<exists>b. s = Listing b \<and> listing_step inputs op (Some l) b)"
proof (cases "op \<in> set listing_operations")
  case True
  with assms show ?thesis by (rule listing_row)
next
  case False
  then show ?thesis using listing_check_op listing_step_op by blast
qed

lemma escrow_steps:
  assumes "sp_state p = Escrow e"
  shows "escrow_check op (Some p) inputs = Ok () \<and> apply_escrow (Some p) op inputs = Ok s \<longleftrightarrow>
    (\<exists>b. s = Escrow b \<and> escrow_step inputs op (Some e) b)"
proof (cases "op \<in> set escrow_operations")
  case True
  with assms show ?thesis by (rule escrow_row)
next
  case False
  then show ?thesis using escrow_check_op escrow_step_op by blast
qed

section \<open>Properties\<close>

text \<open>
  C32. The entitlement profile implements its transition table: on an existing entitlement the check
  and the transition together accept an operation and produce a state exactly when the table has that
  step.
\<close>

theorem entitlement_profile_refines_table:
  assumes "sp_state p = Entitlement e"
  shows "entitlement_check op (Some p) inputs = Ok () \<and> apply_entitlement (Some p) op inputs = Ok s \<longleftrightarrow>
    (\<exists>b. s = Entitlement b \<and> entitlement_step inputs op (Some e) b)"
  using assms by (rule entitlement_steps)

theorem entitlement_profile_refines_table_witness:
  "\<exists>b. entitlement_step [] ''entitlement.suspend''
     (Some \<lparr>en_subject = ''bob'', en_status = ''active'', en_transferable = True\<rparr>) b"
proof -
  let ?p = "ex_projection ''pass'' (ex_entitlement ''bob'' ''active'' True)"
  have p: "sp_state ?p = Entitlement \<lparr>en_subject = ''bob'', en_status = ''active'', en_transferable = True\<rparr>"
    by (simp add: ex_projection_def ex_entitlement_def)
  have "entitlement_check ''entitlement.suspend'' (Some ?p) [] = Ok ()" by code_simp
  moreover have "apply_entitlement (Some ?p) ''entitlement.suspend'' [] =
      Ok (ex_entitlement ''bob'' ''suspended'' True)" by code_simp
  ultimately show ?thesis using entitlement_profile_refines_table [OF p] by blast
qed

text \<open>
  C33. The listing and escrow profiles implement their tables: each leaves its one open status for a
  terminal one, and nothing else is accepted on an existing listing or escrow.
\<close>

theorem marketplace_profiles_refine_tables:
  assumes "sp_state p = Listing l" "sp_state q = Escrow e"
  shows "(listing_check op (Some p) inputs = Ok () \<and> apply_listing (Some p) op inputs = Ok s \<longleftrightarrow>
      (\<exists>b. s = Listing b \<and> listing_step inputs op (Some l) b)) \<and>
    (escrow_check op (Some q) inputs = Ok () \<and> apply_escrow (Some q) op inputs = Ok s \<longleftrightarrow>
      (\<exists>b. s = Escrow b \<and> escrow_step inputs op (Some e) b))"
  by (rule conjI [OF listing_steps [OF assms(1)] escrow_steps [OF assms(2)]])

theorem marketplace_profiles_refine_tables_witness:
  "\<exists>b. escrow_step [] ''escrow.release''
     (Some \<lparr>es_buyer = ''bob'', es_seller = ''alice'', es_status = ''locked''\<rparr>) b"
proof -
  let ?e = "\<lparr>es_buyer = ''bob'', es_seller = ''alice'', es_status = ''locked''\<rparr>"
  let ?q = "ex_projection ''deal'' (Escrow ?e)"
  let ?p = "ex_projection ''offer'' (Listing \<lparr>ls_seller = ''alice'', ls_status = ''listed''\<rparr>)"
  have p: "sp_state ?p = Listing \<lparr>ls_seller = ''alice'', ls_status = ''listed''\<rparr>"
    and q: "sp_state ?q = Escrow ?e" by (simp_all add: ex_projection_def)
  have "escrow_check ''escrow.release'' (Some ?q) [] = Ok ()" by code_simp
  moreover have "apply_escrow (Some ?q) ''escrow.release'' [] =
      Ok (Escrow (?e\<lparr>es_status := ''released''\<rparr>))" by code_simp
  ultimately show ?thesis using marketplace_profiles_refine_tables [OF p q] by blast
qed

end
