(* ===== verification/Intent_Ingress.thy ===== *)
theory Intent_Ingress
  imports Domain
begin

text \<open>
  How an intent enters the system (crate \<^verbatim>\<open>statechronicle-intent\<close>: \<^verbatim>\<open>parse.rs\<close>, \<^verbatim>\<open>raw.rs\<close>,
  \<^verbatim>\<open>validate.rs\<close>, \<^verbatim>\<open>validated.rs\<close>, \<^verbatim>\<open>error.rs\<close>), and the canonical encoding of
  \<^verbatim>\<open>statechronicle-core/src/canonicalize.rs\<close> it relies on.  There are two ways in: the wire path,
  \<open>parse_intent\<close> followed by \<open>validate\<close>, and the typed path \<open>try_from_intent\<close>.  The decoders of other
  crates are fields of a record that the operations take as an argument.
\<close>

section \<open>Canonical bytes\<close>

text \<open>
  \<open>to_bytes\<close> is \<^verbatim>\<open>bcs::to_bytes\<close> at the type at hand, its error as text; \<open>sha256\<close> is the digest of the
  \<^verbatim>\<open>sha2\<close> crate.
\<close>

definition canonicalize ::
  "('v \<Rightarrow> (byte list, string) result) \<Rightarrow> 'v \<Rightarrow> (byte list, core_error) result" where
  "canonicalize to_bytes v =
    map_err (Canonicalization ''BCS serialization of protocol value failed'') (to_bytes v)"

definition canonicalize_and_digest ::
  "(byte list \<Rightarrow> content_digest) \<Rightarrow> ('v \<Rightarrow> (byte list, string) result) \<Rightarrow> 'v \<Rightarrow>
    (content_digest, core_error) result" where
  "canonicalize_and_digest sha256 to_bytes v = map_ok sha256 (canonicalize to_bytes v)"

section \<open>Limits\<close>

definition MAX_INTENT_BYTES :: nat where
  "MAX_INTENT_BYTES = 64 * 1024"

definition MAX_JSON_DEPTH :: nat where
  "MAX_JSON_DEPTH = 32"

text \<open>
  The nesting depth of a JSON value.  The code counts in \<^verbatim>\<open>usize\<close> with a saturating increment; a value
  held in memory is never that deep, so the natural number is the same.
\<close>

primrec json_depth :: "json \<Rightarrow> nat" where
  "json_depth JNull = 0"
| "json_depth (JBool b) = 0"
| "json_depth (JPosInt n) = 0"
| "json_depth (JNegInt n) = 0"
| "json_depth (JFloat n) = 0"
| "json_depth (JString s) = 0"
| "json_depth (JArray vs) = Suc (fold max (map json_depth vs) 0)"
| "json_depth (JObject kvs) = Suc (fold max (map snd (map (map_prod (\<lambda>k. k) json_depth) kvs)) 0)"

section \<open>Errors\<close>

datatype intent_error =
    IntentSizeLimit string nat nat
  | InvalidJson string
  | InvalidSchema string string
  | InvalidField string
  | InvalidExpiry string
  | IntentDomain domain_error

fun intent_error_to_string :: "intent_error \<Rightarrow> string" where
  "intent_error_to_string (IntentSizeLimit name limit actual) =
    ''size limit exceeded for '' @ quoted name @ '': length '' @ nat_to_string actual @
    '' exceeds limit '' @ nat_to_string limit"
| "intent_error_to_string (InvalidJson source) = ''intent payload is not valid JSON: '' @ source"
| "intent_error_to_string (InvalidSchema found expected) =
    ''unsupported intent schema '' @ quoted found @ ''; expected '' @ quoted expected"
| "intent_error_to_string (InvalidField m) = ''invalid intent field: '' @ m"
| "intent_error_to_string (InvalidExpiry m) = ''invalid intent expiry: '' @ m"
| "intent_error_to_string (IntentDomain e) = domain_error_to_string e"

fun intent_error_of_core :: "core_error \<Rightarrow> intent_error" where
  "intent_error_of_core (SizeLimitExceeded name limit actual) = IntentSizeLimit name limit actual"
| "intent_error_of_core e = IntentDomain (CoreFailure e)"

section \<open>Raw and validated intents\<close>

record raw_signature =
  rs_alg :: string
  rs_key_id :: string
  rs_sig :: string

record raw_intent =
  ri_schema :: string
  ri_tenant_id :: string
  ri_intent_id :: string
  ri_operation :: string
  ri_actor :: string
  ri_resource_id :: string
  ri_state_type :: "json option"
  ri_expected_version :: "64 word"
  ri_inputs :: inputs
  ri_authority :: "json option"
  ri_created_at :: string
  ri_expires_at :: "string option"
  ri_nonce :: string
  ri_signature :: "raw_signature option"

datatype signature_alg = Ed25519

record signature_block =
  sb_alg :: signature_alg
  sb_key_id :: string
  sb_sig :: "byte list"

record idempotency_key =
  ik_tenant_id :: tenant_id
  ik_intent_id :: string
  ik_actor :: subject_id
  ik_resource_id :: resource_id
  ik_operation :: operation

record validated_intent =
  vi_intent :: intent
  vi_idempotency_key :: idempotency_key
  vi_signature :: "signature_block option"

text \<open>
  What other crates decode: JSON text (\<^verbatim>\<open>serde_json::from_slice\<close>), the derived decoders of the raw
  intent, the state type and the authority proof (\<^verbatim>\<open>serde_json::from_value\<close>), RFC 3339 times and their
  display form (\<^verbatim>\<open>chrono\<close>), base64url, and the \<^verbatim>\<open>b64u:\<close> form of a signature.
\<close>

record decoders =
  dc_json :: "byte list \<Rightarrow> (json, string) result"
  dc_raw :: "json \<Rightarrow> (raw_intent, string) result"
  dc_state_type :: "json \<Rightarrow> (state_type, string) result"
  dc_authority :: "json \<Rightarrow> (authority_proof, string) result"
  dc_time :: "string \<Rightarrow> (timestamp, string) result"
  dc_show_time :: "timestamp \<Rightarrow> string"
  dc_base64 :: "string \<Rightarrow> (byte list, string) result"
  dc_signature :: "string \<Rightarrow> (byte list, string) result"

section \<open>Parsing\<close>

definition parse_intent :: "decoders \<Rightarrow> byte list \<Rightarrow> (raw_intent, intent_error) result" where
  "parse_intent dc payload =
    and_then (map_err intent_error_of_core
      (check_size ''intent'' MAX_INTENT_BYTES (length payload))) (\<lambda>_.
    and_then (map_err InvalidJson (dc_json dc payload)) (\<lambda>v.
    if json_depth v > MAX_JSON_DEPTH
    then Err (InvalidField (''JSON nesting depth exceeds limit '' @ nat_to_string MAX_JSON_DEPTH))
    else map_err InvalidJson (dc_raw dc v)))"

definition parse_intent_str :: "decoders \<Rightarrow> string \<Rightarrow> (raw_intent, intent_error) result" where
  "parse_intent_str dc payload = parse_intent dc (map of_char payload)"

section \<open>Validation\<close>

text \<open>\<^verbatim>\<open>Option::map(f).transpose()\<close>.\<close>

primrec transpose_map :: "('a \<Rightarrow> ('b, 'e) result) \<Rightarrow> 'a option \<Rightarrow> ('b option, 'e) result" where
  "transpose_map f None = Ok None"
| "transpose_map f (Some x) = map_ok Some (f x)"

definition parse_timestamp :: "decoders \<Rightarrow> string \<Rightarrow> string \<Rightarrow> (timestamp, intent_error) result" where
  "parse_timestamp dc field v =
    map_err (\<lambda>source. InvalidField (''invalid '' @ field @ '' '' @ quoted v @ '': '' @ source)) (dc_time dc v)"

definition parse_signature :: "decoders \<Rightarrow> raw_signature \<Rightarrow> (signature_block, intent_error) result" where
  "parse_signature dc raw =
    and_then (if rs_alg raw = ''ed25519'' then Ok Ed25519
      else Err (InvalidField (''unsupported signature alg '' @ quoted (rs_alg raw)))) (\<lambda>alg.
    and_then (map_err IntentDomain (key_id_new (rs_key_id raw))) (\<lambda>key_id.
    and_then (map_err (\<lambda>source. InvalidField (''invalid signature '' @ quoted (rs_sig raw) @ '': '' @ source))
      (dc_signature dc (rs_sig raw))) (\<lambda>sig.
    Ok \<lparr>sb_alg = alg, sb_key_id = key_id, sb_sig = sig\<rparr>)))"

definition INTENT_SCHEMA :: string where
  "INTENT_SCHEMA = ''statechronicle.intent.v0''"

definition idempotency_key_of :: "intent \<Rightarrow> idempotency_key" where
  "idempotency_key_of i =
    \<lparr>ik_tenant_id = in_tenant_id i, ik_intent_id = in_intent_id i, ik_actor = in_actor i,
     ik_resource_id = in_resource_id i, ik_operation = in_operation i\<rparr>"

definition validate :: "decoders \<Rightarrow> raw_intent \<Rightarrow> (validated_intent, intent_error) result" where
  "validate dc raw =
    and_then (if ri_schema raw \<noteq> INTENT_SCHEMA
      then Err (InvalidSchema (ri_schema raw) INTENT_SCHEMA) else Ok ()) (\<lambda>_.
    and_then (map_err IntentDomain (intent_id_new (ri_intent_id raw))) (\<lambda>intent_id.
    and_then (map_err IntentDomain (operation_new (ri_operation raw))) (\<lambda>operation.
    and_then (transpose_map (\<lambda>v. map_err (\<lambda>source. InvalidField (''invalid state_type: '' @ source))
      (dc_state_type dc v)) (ri_state_type raw)) (\<lambda>st.
    and_then (transpose_map (\<lambda>v. map_err (\<lambda>source. InvalidField (''invalid authority proof: '' @ source))
      (dc_authority dc v)) (ri_authority raw)) (\<lambda>authority.
    and_then (parse_timestamp dc ''created_at'' (ri_created_at raw)) (\<lambda>created_at.
    and_then (transpose_map (parse_timestamp dc ''expires_at'') (ri_expires_at raw)) (\<lambda>expires_at.
    and_then (case expires_at of
        Some expiry \<Rightarrow>
          if expiry \<le> created_at
          then Err (InvalidExpiry (''expires_at '' @ quoted (dc_show_time dc expiry) @
            '' must be after created_at '' @ quoted (dc_show_time dc created_at)))
          else Ok ()
      | None \<Rightarrow> Ok ()) (\<lambda>_.
    and_then (map_err IntentDomain (nonce_from_b64u_str (dc_base64 dc) (ri_nonce raw))) (\<lambda>nonce.
    and_then (transpose_map (parse_signature dc) (ri_signature raw)) (\<lambda>signature.
    let intent = intent_new (ri_tenant_id raw) intent_id operation (ri_actor raw) (ri_resource_id raw)
      st (ri_expected_version raw) (ri_inputs raw) authority created_at expires_at nonce in
    Ok \<lparr>vi_intent = intent, vi_idempotency_key = idempotency_key_of intent,
       vi_signature = signature\<rparr>))))))))))"

section \<open>The typed path\<close>

definition from_intent :: "intent \<Rightarrow> signature_block option \<Rightarrow> validated_intent" where
  "from_intent intent signature =
    \<lparr>vi_intent = intent, vi_idempotency_key = idempotency_key_of intent, vi_signature = signature\<rparr>"

definition check_identifier :: "string \<times> string \<Rightarrow> (unit, intent_error) result" where
  "check_identifier = (\<lambda>(name, v).
    if v = [] then Err (InvalidField (name @ '' identifier must not be empty''))
    else if char_count v > MAX_ID_LENGTH
    then Err (InvalidField (name @ '' identifier exceeds '' @ nat_to_string MAX_ID_LENGTH @ '' characters''))
    else if has_control v
    then Err (InvalidField (name @ '' identifier must not contain control characters''))
    else Ok ())"

definition inputs_too_deep :: "inputs \<Rightarrow> bool" where
  "inputs_too_deep inputs \<longleftrightarrow> fold max (map (\<lambda>(k, v). json_depth v) inputs) 0 > MAX_JSON_DEPTH"

definition try_from_intent ::
  "(intent \<Rightarrow> (byte list, string) result) \<Rightarrow> intent \<Rightarrow> signature_block option \<Rightarrow>
    (validated_intent, intent_error) result" where
  "try_from_intent to_bytes intent signature =
    and_then (if in_schema intent \<noteq> INTENT_SCHEMA
      then Err (InvalidSchema (in_schema intent) INTENT_SCHEMA) else Ok ()) (\<lambda>_.
    and_then (for_each check_identifier
      [(''tenant'', in_tenant_id intent), (''actor'', in_actor intent),
       (''resource'', in_resource_id intent)]) (\<lambda>_.
    if (case in_expires_at intent of Some expiry \<Rightarrow> expiry \<le> in_created_at intent | None \<Rightarrow> False)
    then Err (InvalidExpiry ''expires_at must be after created_at'')
    else if inputs_too_deep (in_inputs intent)
    then Err (InvalidField (''intent input nesting depth exceeds limit '' @ nat_to_string MAX_JSON_DEPTH))
    else
      and_then (map_err intent_error_of_core (canonicalize to_bytes intent)) (\<lambda>bytes.
      if length bytes > MAX_INTENT_BYTES
      then Err (IntentSizeLimit ''intent'' MAX_INTENT_BYTES (length bytes))
      else Ok (from_intent intent signature))))"

definition is_expired :: "validated_intent \<Rightarrow> timestamp \<Rightarrow> bool" where
  "is_expired vi now \<longleftrightarrow>
    (case in_expires_at (vi_intent vi) of Some expiry \<Rightarrow> expiry \<le> now | None \<Rightarrow> False)"

definition payload_digest ::
  "(byte list \<Rightarrow> content_digest) \<Rightarrow> (intent \<Rightarrow> (byte list, string) result) \<Rightarrow> validated_intent \<Rightarrow>
    (content_digest, core_error) result" where
  "payload_digest sha256 to_bytes vi = canonicalize_and_digest sha256 to_bytes (vi_intent vi)"

section \<open>What the two paths guarantee\<close>

lemma transpose_map_eq_Ok [result_simps]:
  "transpose_map f m = Ok r \<longleftrightarrow>
    (case m of None \<Rightarrow> r = None | Some x \<Rightarrow> \<exists>y. f x = Ok y \<and> r = Some y)"
  by (cases m) auto

lemma is_ok_and_then: "is_ok (and_then m f) \<longleftrightarrow> (\<exists>x. m = Ok x \<and> is_ok (f x))"
  by (cases m) auto

lemma validate_id_Ok:
  "validate_id kind pre v = Ok u \<longleftrightarrow>
    (\<exists>rest. v = pre @ rest \<and> rest \<noteq> []) \<and> char_count v \<le> MAX_ID_LENGTH \<and> \<not> has_control v"
  by (auto simp: validate_id_def Let_def strip_prefix_def prefix_def split: if_splits)

lemma check_identifier_Ok:
  "check_identifier (name, v) = Ok u \<longleftrightarrow> v \<noteq> [] \<and> char_count v \<le> MAX_ID_LENGTH \<and> \<not> has_control v"
  by (auto simp: check_identifier_def)

lemma nonce_bounded: "nonce_from_b64u_str decode v = Ok bytes \<Longrightarrow> length bytes \<le> MAX_NONCE_BYTES"
  by (auto simp: nonce_from_b64u_str_def nonce_from_bytes_def split: if_splits)

lemma intent_new_fields [simp]:
  "in_schema (intent_new t i op a r st ver inp au c e n) = INTENT_SCHEMA"
  "in_tenant_id (intent_new t i op a r st ver inp au c e n) = t"
  "in_intent_id (intent_new t i op a r st ver inp au c e n) = i"
  "in_operation (intent_new t i op a r st ver inp au c e n) = op"
  "in_actor (intent_new t i op a r st ver inp au c e n) = a"
  "in_resource_id (intent_new t i op a r st ver inp au c e n) = r"
  "in_state_type (intent_new t i op a r st ver inp au c e n) = st"
  "in_expected_version (intent_new t i op a r st ver inp au c e n) = ver"
  "in_inputs (intent_new t i op a r st ver inp au c e n) = inp"
  "in_created_at (intent_new t i op a r st ver inp au c e n) = c"
  "in_expires_at (intent_new t i op a r st ver inp au c e n) = e"
  "in_nonce (intent_new t i op a r st ver inp au c e n) = n"
  by (simp_all add: intent_new_def INTENT_SCHEMA_def)

lemmas validate_simps = validate_def Let_def intent_id_new_def operation_new_def validate_id_Ok validate_operation_def

text \<open>
  C34. What the wire path lets through is well formed: the intent carries the supported schema, an id
  with its prefix and within the length limit, a non-empty operation without control characters, a
  nonce of at most 64 bytes, an expiry after its creation, and the idempotency key of its own fields.
\<close>

theorem wire_intent_well_formed:
  assumes "validate dc raw = Ok v"
  shows "in_schema (vi_intent v) = INTENT_SCHEMA \<and>
    vi_idempotency_key v = idempotency_key_of (vi_intent v) \<and>
    (\<exists>rest. in_intent_id (vi_intent v) = ''int_'' @ rest \<and> rest \<noteq> []) \<and>
    char_count (in_intent_id (vi_intent v)) \<le> MAX_ID_LENGTH \<and>
    in_operation (vi_intent v) \<noteq> [] \<and> \<not> has_control (in_operation (vi_intent v)) \<and>
    length (in_nonce (vi_intent v)) \<le> MAX_NONCE_BYTES \<and>
    \<not> is_expired v (in_created_at (vi_intent v))"
proof (intro conjI)
  show "in_schema (vi_intent v) = INTENT_SCHEMA" "vi_idempotency_key v = idempotency_key_of (vi_intent v)"
    "\<exists>rest. in_intent_id (vi_intent v) = ''int_'' @ rest \<and> rest \<noteq> []"
    "char_count (in_intent_id (vi_intent v)) \<le> MAX_ID_LENGTH"
    "in_operation (vi_intent v) \<noteq> []" "\<not> has_control (in_operation (vi_intent v))"
    using assms by (auto simp: validate_simps split: if_splits)
  show "length (in_nonce (vi_intent v)) \<le> MAX_NONCE_BYTES"
    using assms by (auto simp: validate_def Let_def dest: nonce_bounded split: if_splits)
  show "\<not> is_expired v (in_created_at (vi_intent v))"
    using assms by (auto simp: validate_def Let_def is_expired_def split: if_splits option.splits)
qed

text \<open>Decoders for one concrete document, and the document.\<close>

definition ex_decoders :: decoders where
  "ex_decoders =
    \<lparr>dc_json = (\<lambda>_. Ok JNull), dc_raw = (\<lambda>_. Err ''missing field''),
     dc_state_type = (\<lambda>_. Ok UniqueAssetT), dc_authority = (\<lambda>_. Err ''missing field''),
     dc_time = (\<lambda>text. if text = ''2026-07-14T00:00:00Z'' then Ok 0 else Ok 300),
     dc_show_time = (\<lambda>t. ''2026-07-14 00:00:00 UTC''), dc_base64 = (\<lambda>text. Ok [0, 3, 4]),
     dc_signature = (\<lambda>text. Ok (replicate 64 0))\<rparr>"

definition ex_raw :: raw_intent where
  "ex_raw =
    \<lparr>ri_schema = ''statechronicle.intent.v0'', ri_tenant_id = ''acme.game.alpha'',
     ri_intent_id = ''int_01JZ8WJ1V6MJ6Y3Z6Z9CA8B2K2'', ri_operation = ''asset.transfer'',
     ri_actor = ''account:example:player_123'', ri_resource_id = ''asset:sword_001'',
     ri_state_type = Some (JString ''unique_asset''), ri_expected_version = 41, ri_inputs = [],
     ri_authority = None, ri_created_at = ''2026-07-14T00:00:00Z'',
     ri_expires_at = Some ''2026-07-14T00:05:00Z'', ri_nonce = ''b64u:AAME'', ri_signature = None\<rparr>"

theorem wire_intent_well_formed_witness:
  "\<exists>v. validate ex_decoders ex_raw = Ok v \<and> in_schema (vi_intent v) = INTENT_SCHEMA \<and>
    vi_idempotency_key v = idempotency_key_of (vi_intent v) \<and>
    length (in_nonce (vi_intent v)) \<le> MAX_NONCE_BYTES \<and> \<not> is_expired v (in_created_at (vi_intent v))"
proof -
  have "is_ok (validate ex_decoders ex_raw)" by code_simp
  then obtain v where "validate ex_decoders ex_raw = Ok v" by (auto simp: is_ok_iff)
  with wire_intent_well_formed [OF this] show ?thesis by blast
qed

text \<open>
  The typed path admits exactly the intents with the supported schema, three identifiers that are
  non-empty, at most 128 characters long and free of control characters, an expiry after the creation
  time, inputs nested at most 32 deep and a canonical form of at most 64 KiB; what it returns is the
  intent itself with its idempotency key.
\<close>

theorem typed_path_admits:
  "try_from_intent to_bytes i signature = Ok v \<longleftrightarrow>
    in_schema i = INTENT_SCHEMA \<and>
    list_all (\<lambda>text. text \<noteq> [] \<and> char_count text \<le> MAX_ID_LENGTH \<and> \<not> has_control text)
      [in_tenant_id i, in_actor i, in_resource_id i] \<and>
    \<not> is_expired (from_intent i signature) (in_created_at i) \<and> \<not> inputs_too_deep (in_inputs i) \<and>
    (\<exists>bytes. to_bytes i = Ok bytes \<and> length bytes \<le> MAX_INTENT_BYTES) \<and>
    v = from_intent i signature"
  by (cases "to_bytes i") (auto simp: try_from_intent_def check_identifier_Ok is_expired_def
      from_intent_def canonicalize_def split: if_splits option.splits)

text \<open>
  The wire path never looks at the tenant, the actor and the resource: with all three emptied an
  intent validates exactly when it did before.  The typed path rejects every intent with an empty one.
\<close>

theorem wire_path_skips_identifiers:
  "is_ok (validate dc (raw\<lparr>ri_tenant_id := [], ri_actor := [], ri_resource_id := []\<rparr>)) =
     is_ok (validate dc raw) \<and>
   \<not> is_ok (try_from_intent to_bytes (i\<lparr>in_actor := []\<rparr>) signature)"
proof
  show "is_ok (validate dc (raw\<lparr>ri_tenant_id := [], ri_actor := [], ri_resource_id := []\<rparr>)) =
     is_ok (validate dc raw)"
    by (simp add: validate_def Let_def is_ok_and_then)
  show "\<not> is_ok (try_from_intent to_bytes (i\<lparr>in_actor := []\<rparr>) signature)"
    by (auto simp: is_ok_iff try_from_intent_def check_identifier_Ok)
qed

end
