(* ===== verification/Key_Registry.thy ===== *)
theory Key_Registry
  imports Domain
begin

text \<open>
  The key registry (\<^verbatim>\<open>statechronicle-ports/src/key_registry.rs\<close>): key records, what a record permits, and
  the in-memory registry with its register, retire and revoke operations.  The lock around the records
  becomes a flag that says whether it was poisoned.
\<close>

section \<open>Records\<close>

datatype key_status = Active | Retired | Revoked

record key_record =
  kr_key_id :: string
  kr_tenant :: tenant_id
  kr_subject :: "subject_id option"
  kr_operations :: "operation list"
  kr_valid_from :: timestamp
  kr_valid_until :: "timestamp option"
  kr_status :: key_status

definition in_window :: "key_record \<Rightarrow> timestamp \<Rightarrow> bool" where
  "in_window r t \<longleftrightarrow>
    t \<ge> kr_valid_from r \<and> (case kr_valid_until r of None \<Rightarrow> True | Some until \<Rightarrow> t < until)"

definition permits :: "key_record \<Rightarrow> tenant_id \<Rightarrow> subject_id \<Rightarrow> operation \<Rightarrow> timestamp \<Rightarrow> bool" where
  "permits r tenant subject op t \<longleftrightarrow>
    kr_tenant r = tenant \<and> kr_subject r = Some subject \<and> kr_status r = Active \<and>
    in_window r t \<and> list_ex (\<lambda>allowed. allowed = op) (kr_operations r)"

datatype key_registry_error = KeyNotFound | KeyNotTrusted | KeyRegistryUnavailable string

fun key_registry_error_to_string :: "key_registry_error \<Rightarrow> string" where
  "key_registry_error_to_string KeyNotFound = ''key not found''"
| "key_registry_error_to_string KeyNotTrusted = ''key is not trusted for this context''"
| "key_registry_error_to_string (KeyRegistryUnavailable m) = ''key registry unavailable: '' @ m"

section \<open>The in-memory registry\<close>

record memory_key_registry =
  mk_records :: "(string, key_record) btree_map"
  mk_poisoned :: bool

definition registry_new :: memory_key_registry where
  "registry_new = \<lparr>mk_records = [], mk_poisoned = False\<rparr>"

definition poisoned_lock :: key_registry_error where
  "poisoned_lock = KeyRegistryUnavailable ''registry lock poisoned''"

definition register_key ::
  "key_record \<Rightarrow> memory_key_registry \<Rightarrow> (unit, key_registry_error) result \<times> memory_key_registry" where
  "register_key r m =
    (if kr_tenant r = [] \<or> (kr_subject r \<noteq> None \<and> kr_operations r = []) \<or>
        (case kr_valid_until r of None \<Rightarrow> False | Some until \<Rightarrow> until \<le> kr_valid_from r) \<or>
        kr_status r = Revoked
     then (Err KeyNotTrusted, m)
     else if mk_poisoned m then (Err poisoned_lock, m)
     else if btree_get (mk_records m) (kr_key_id r) \<noteq> None then (Err KeyNotTrusted, m)
     else (Ok (), m\<lparr>mk_records := btree_insert (kr_key_id r) r (mk_records m)\<rparr>))"

definition set_status ::
  "string \<Rightarrow> key_status \<Rightarrow> memory_key_registry \<Rightarrow>
    (unit, key_registry_error) result \<times> memory_key_registry" where
  "set_status key_id status m =
    (if mk_poisoned m then (Err poisoned_lock, m)
     else case btree_get (mk_records m) key_id of
       None \<Rightarrow> (Err KeyNotFound, m)
     | Some r \<Rightarrow>
         if kr_status r = Revoked \<and> status \<noteq> Revoked then (Err KeyNotTrusted, m)
         else (Ok (), m\<lparr>mk_records := btree_insert key_id (r\<lparr>kr_status := status\<rparr>) (mk_records m)\<rparr>))"

definition retire_key ::
  "string \<Rightarrow> memory_key_registry \<Rightarrow> (unit, key_registry_error) result \<times> memory_key_registry" where
  "retire_key key_id m = set_status key_id Retired m"

definition revoke_key ::
  "string \<Rightarrow> memory_key_registry \<Rightarrow> (unit, key_registry_error) result \<times> memory_key_registry" where
  "revoke_key key_id m = set_status key_id Revoked m"

definition get_key ::
  "string \<Rightarrow> memory_key_registry \<Rightarrow> (key_record option, key_registry_error) result" where
  "get_key key_id m =
    (if mk_poisoned m then Err poisoned_lock else Ok (btree_get (mk_records m) key_id))"

definition resolve_intent_key ::
  "memory_key_registry \<Rightarrow> tenant_id \<Rightarrow> subject_id \<Rightarrow> string \<Rightarrow> operation \<Rightarrow> timestamp \<Rightarrow>
    (key_record, key_registry_error) result" where
  "resolve_intent_key m tenant subject key_id op t =
    and_then (get_key key_id m) (\<lambda>found.
    and_then (ok_or found KeyNotFound) (\<lambda>r.
    if permits r tenant subject op t then Ok r else Err KeyNotTrusted))"

definition resolve_commit_key ::
  "memory_key_registry \<Rightarrow> tenant_id \<Rightarrow> string \<Rightarrow> timestamp \<Rightarrow> (key_record, key_registry_error) result" where
  "resolve_commit_key m tenant key_id t =
    and_then (get_key key_id m) (\<lambda>found.
    and_then (ok_or found KeyNotFound) (\<lambda>r.
    if kr_tenant r = tenant \<and> in_window r t \<and> kr_status r \<noteq> Revoked
    then Ok r else Err KeyNotTrusted))"

section \<open>Histories of a registry\<close>

text \<open>One call of a mutating operation, whatever its outcome.\<close>

inductive key_step :: "memory_key_registry \<Rightarrow> memory_key_registry \<Rightarrow> bool" where
  register: "key_step m (snd (register_key r m))"
| retire: "key_step m (snd (retire_key key_id m))"
| revoke: "key_step m (snd (revoke_key key_id m))"

inductive_cases key_stepE: "key_step m m'"

fun status_rank :: "key_status \<Rightarrow> nat" where
  "status_rank Active = 0"
| "status_rank Retired = 1"
| "status_rank Revoked = 2"

definition same_key :: "key_record \<Rightarrow> key_record \<Rightarrow> bool" where
  "same_key r s \<longleftrightarrow> r\<lparr>kr_status := Active\<rparr> = s\<lparr>kr_status := Active\<rparr> \<and>
    (kr_status r = Revoked \<longrightarrow> kr_status s = Revoked) \<and> (kr_status r \<noteq> Active \<longrightarrow> kr_status s \<noteq> Active)"

lemma same_key_refl [simp]: "same_key r r"
  by (simp add: same_key_def)

lemma same_key_trans: "same_key r s \<Longrightarrow> same_key s t \<Longrightarrow> same_key r t"
  by (simp add: same_key_def)

lemma same_key_fields:
  assumes "same_key r s"
  shows "kr_key_id s = kr_key_id r" "kr_tenant s = kr_tenant r" "kr_subject s = kr_subject r"
    "kr_operations s = kr_operations r" "kr_valid_from s = kr_valid_from r"
    "kr_valid_until s = kr_valid_until r"
  using assms by (cases r; cases s; simp add: same_key_def)+

lemma set_status_keeps:
  assumes "btree_get (mk_records m) k = Some r" "status \<noteq> Active"
  shows "\<exists>s. btree_get (mk_records (snd (set_status key_id status m))) k = Some s \<and> same_key r s"
  using assms by (auto simp: set_status_def btree_get_insert same_key_def split: option.split)

lemma key_step_keeps:
  assumes "key_step m m'" "btree_get (mk_records m) k = Some r"
  shows "\<exists>s. btree_get (mk_records m') k = Some s \<and> same_key r s"
  using assms(1)
proof (rule key_stepE)
  fix r' assume "m' = snd (register_key r' m)"
  with assms(2) show ?thesis by (auto simp: register_key_def btree_get_insert)
qed (use assms(2) in \<open>auto simp: retire_key_def revoke_key_def intro!: set_status_keeps\<close>)

lemma key_history_keeps:
  assumes "key_step\<^sup>*\<^sup>* m m'" "btree_get (mk_records m) k = Some r"
  shows "\<exists>s. btree_get (mk_records m') k = Some s \<and> same_key r s"
  using assms(1)
proof (induction rule: rtranclp_induct)
  case base
  with assms(2) show ?case by auto
next
  case (step a b)
  with key_step_keeps [of a b k] show ?case by (metis same_key_trans)
qed

text \<open>
  The life of a key only goes forward: whatever calls are made on the registry, a registered key
  stays registered under its id with the same tenant, subject, operations and validity window, a
  retired key never becomes active again, and a revoked key stays revoked.
\<close>

theorem key_life_goes_forward:
  assumes "key_step\<^sup>*\<^sup>* m m'" "btree_get (mk_records m) k = Some r"
  shows "\<exists>s. btree_get (mk_records m') k = Some s \<and>
    s = r\<lparr>kr_status := kr_status s\<rparr> \<and> status_rank (kr_status r) \<le> status_rank (kr_status s)"
proof -
  obtain s where s: "btree_get (mk_records m') k = Some s" "same_key r s"
    using key_history_keeps [OF assms] by blast
  have "s = r\<lparr>kr_status := kr_status s\<rparr>"
    using same_key_fields [OF s(2)] by (cases r; cases s) simp
  moreover have "status_rank (kr_status r) \<le> status_rank (kr_status s)"
    using s(2) by (cases "kr_status r"; cases "kr_status s") (auto simp: same_key_def)
  ultimately show ?thesis using s(1) by blast
qed

definition ex_key :: key_record where
  "ex_key =
    \<lparr>kr_key_id = ''key_1'', kr_tenant = ''game'', kr_subject = Some ''alice'',
     kr_operations = [''asset.transfer''], kr_valid_from = 0, kr_valid_until = Some 100, kr_status = Active\<rparr>"

definition ex_registry :: memory_key_registry where
  "ex_registry = snd (register_key ex_key registry_new)"

theorem key_life_goes_forward_witness:
  "\<exists>s. btree_get (mk_records (snd (retire_key ''key_1'' ex_registry))) ''key_1'' = Some s \<and>
    s = ex_key\<lparr>kr_status := kr_status s\<rparr> \<and> status_rank (kr_status ex_key) \<le> status_rank (kr_status s)"
proof -
  have "key_step\<^sup>*\<^sup>* ex_registry (snd (retire_key ''key_1'' ex_registry))"
    by (rule r_into_rtranclp) (rule retire)
  moreover have "btree_get (mk_records ex_registry) ''key_1'' = Some ex_key" by code_simp
  ultimately show ?thesis by (rule key_life_goes_forward)
qed

text \<open>
  C35. Revocation is final: once a revocation of a key has succeeded, no later state of the registry
  resolves that key, neither for an intent nor for a commit, for any scope and at any time.
\<close>

theorem revoked_key_never_resolves:
  assumes "revoke_key k m = (Ok (), m1)" "key_step\<^sup>*\<^sup>* m1 m'"
  shows "\<not> is_ok (resolve_intent_key m' tenant subject k op t) \<and> \<not> is_ok (resolve_commit_key m' tenant k t)"
proof -
  obtain r where "btree_get (mk_records m1) k = Some r" "kr_status r = Revoked"
    using assms(1)
    by (auto simp: revoke_key_def set_status_def btree_get_insert split: if_splits option.splits)
  then obtain s where "btree_get (mk_records m') k = Some s" "kr_status s = Revoked"
    using key_history_keeps [OF assms(2)] by (auto simp: same_key_def)
  then show ?thesis
    by (auto simp: is_ok_iff resolve_intent_key_def resolve_commit_key_def get_key_def permits_def
        split: if_splits)
qed

theorem revoked_key_never_resolves_witness:
  "\<not> is_ok (resolve_intent_key (snd (retire_key ''key_1'' (snd (revoke_key ''key_1'' ex_registry))))
      ''game'' ''alice'' ''key_1'' ''asset.transfer'' 50)"
proof -
  have "fst (revoke_key ''key_1'' ex_registry) = Ok ()" by code_simp
  then have "revoke_key ''key_1'' ex_registry = (Ok (), snd (revoke_key ''key_1'' ex_registry))"
    by (simp add: prod_eq_iff)
  moreover have "key_step\<^sup>*\<^sup>* (snd (revoke_key ''key_1'' ex_registry))
      (snd (retire_key ''key_1'' (snd (revoke_key ''key_1'' ex_registry))))"
    by (rule r_into_rtranclp) (rule retire)
  ultimately show ?thesis using revoked_key_never_resolves by blast
qed

end
