(* ===== verification/Rate_Limit.thy ===== *)
theory Rate_Limit
  imports Domain
begin

text \<open>
  The ingress rate limiter (\<^verbatim>\<open>statechronicle-core/src/rate_limit.rs\<close>): a token bucket over machine words
  with saturating arithmetic, and the limiter that keeps one bucket per key.  A mutex becomes a flag
  that says whether its lock is poisoned; the code then denies.
\<close>

section \<open>One bucket\<close>

record rate_limit_decision =
  rl_allowed :: bool
  rl_remaining :: "64 word"
  rl_retry_after_ms :: "64 word"

record token_bucket =
  tb_capacity :: "64 word"
  tb_refill_per_second :: "64 word"
  tb_state :: "64 word \<times> 64 word"
  tb_poisoned :: bool

abbreviation u64_max :: "64 word" where
  "u64_max \<equiv> - 1"

definition checked_div_word :: "64 word \<Rightarrow> 64 word \<Rightarrow> 64 word option" where
  "checked_div_word a b = (if b = 0 then None else Some (a div b))"

definition unwrap_or :: "'a option \<Rightarrow> 'a \<Rightarrow> 'a" where
  "unwrap_or m d = (case m of Some x \<Rightarrow> x | None \<Rightarrow> d)"

definition deny :: "64 word \<Rightarrow> 64 word \<Rightarrow> rate_limit_decision" where
  "deny remaining retry = \<lparr>rl_allowed = False, rl_remaining = remaining, rl_retry_after_ms = retry\<rparr>"

definition grant :: "64 word \<Rightarrow> rate_limit_decision" where
  "grant remaining = \<lparr>rl_allowed = True, rl_remaining = remaining, rl_retry_after_ms = 0\<rparr>"

definition bucket_new :: "64 word \<Rightarrow> 64 word \<Rightarrow> token_bucket" where
  "bucket_new capacity refill_per_second =
    \<lparr>tb_capacity = max capacity 1, tb_refill_per_second = max refill_per_second 1,
     tb_state = (max capacity 1, 0), tb_poisoned = False\<rparr>"

definition refill_for :: "64 word \<Rightarrow> 64 word \<Rightarrow> 64 word \<Rightarrow> 64 word" where
  "refill_for now since refill_per_second =
    unwrap_or (checked_div_word (saturating_mul_word (saturating_sub_word now since) refill_per_second) 1000)
      u64_max"

definition refill_state :: "64 word \<times> 64 word \<Rightarrow> 64 word \<Rightarrow> 64 word \<Rightarrow> 64 word \<Rightarrow> 64 word \<times> 64 word" where
  "refill_state state now refill_per_second capacity =
    (let refill = refill_for now (snd state) refill_per_second in
     if refill > 0 then (min (saturating_add_word (fst state) refill) capacity, now) else state)"

definition retry_for :: "64 word \<Rightarrow> 64 word \<Rightarrow> 64 word" where
  "retry_for deficit refill_per_second =
    unwrap_or (checked_div_word (saturating_add_word (saturating_mul_word deficit 1000)
      (saturating_sub_word refill_per_second 1)) refill_per_second) 1000"

definition available :: "token_bucket \<Rightarrow> 64 word \<Rightarrow> 64 word" where
  "available b now =
    (if tb_poisoned b then 0
     else min (saturating_add_word (fst (tb_state b))
       (refill_for now (snd (tb_state b)) (tb_refill_per_second b))) (tb_capacity b))"

definition try_acquire_n :: "token_bucket \<Rightarrow> 64 word \<Rightarrow> 64 word \<Rightarrow> rate_limit_decision \<times> token_bucket" where
  "try_acquire_n b now tokens =
    (if tokens = 0 then (grant (available b now), b)
     else if tokens > tb_capacity b then (deny (tb_capacity b) u64_max, b)
     else if tb_poisoned b then (deny 0 1000, b)
     else
       let state = refill_state (tb_state b) now (tb_refill_per_second b) (tb_capacity b) in
       if fst state \<ge> tokens
       then
         let left = saturating_sub_word (fst state) tokens in
         (grant left, b\<lparr>tb_state := (left, snd state)\<rparr>)
       else
         (deny (fst state) (retry_for (saturating_sub_word tokens (fst state)) (tb_refill_per_second b)),
          b\<lparr>tb_state := state\<rparr>))"

definition try_acquire :: "token_bucket \<Rightarrow> 64 word \<Rightarrow> rate_limit_decision \<times> token_bucket" where
  "try_acquire b now = try_acquire_n b now 1"

section \<open>One bucket per key\<close>

record keyed_rate_limiter =
  kl_capacity :: "64 word"
  kl_refill_per_second :: "64 word"
  kl_max_keys :: nat
  kl_buckets :: "(string, token_bucket) btree_map"
  kl_poisoned :: bool

definition limiter_new :: "64 word \<Rightarrow> 64 word \<Rightarrow> nat \<Rightarrow> keyed_rate_limiter" where
  "limiter_new capacity refill_per_second max_keys =
    \<lparr>kl_capacity = max capacity 1, kl_refill_per_second = max refill_per_second 1,
     kl_max_keys = max max_keys 1, kl_buckets = [], kl_poisoned = False\<rparr>"

definition bad_key :: "string \<Rightarrow> bool" where
  "bad_key key \<longleftrightarrow> key = [] \<or> length key > MAX_QUOTA_KEY_BYTES"

definition keyed_try_acquire_n ::
  "keyed_rate_limiter \<Rightarrow> string \<Rightarrow> 64 word \<Rightarrow> 64 word \<Rightarrow> rate_limit_decision \<times> keyed_rate_limiter" where
  "keyed_try_acquire_n l key now tokens =
    (if bad_key key then (deny 0 1000, l)
     else if tokens = 0 then (grant (kl_capacity l), l)
     else if tokens > kl_capacity l then (deny (kl_capacity l) u64_max, l)
     else if kl_poisoned l then (deny 0 1000, l)
     else case btree_get (kl_buckets l) key of
         Some bucket \<Rightarrow>
           (let (d, bucket') = try_acquire_n bucket now tokens in
            (d, l\<lparr>kl_buckets := btree_insert key bucket' (kl_buckets l)\<rparr>))
       | None \<Rightarrow>
           if length (kl_buckets l) \<ge> kl_max_keys l then (deny 0 1000, l)
           else
             (let (d, bucket') = try_acquire_n (bucket_new (kl_capacity l) (kl_refill_per_second l)) now tokens in
              (d, l\<lparr>kl_buckets := btree_insert key bucket' (kl_buckets l)\<rparr>)))"

definition keyed_try_acquire ::
  "keyed_rate_limiter \<Rightarrow> string \<Rightarrow> 64 word \<Rightarrow> rate_limit_decision \<times> keyed_rate_limiter" where
  "keyed_try_acquire l key now_ms = keyed_try_acquire_n l key now_ms 1"

text \<open>
  Acquiring from several keys at once: the keys without a bucket get one, then every bucket is
  refilled and looked at, and only when all of them suffice is the amount taken from each.
\<close>

fun insert_missing :: "token_bucket \<Rightarrow> string list \<Rightarrow> (string, token_bucket) btree_map \<Rightarrow> (string, token_bucket) btree_map" where
  "insert_missing fresh [] m = m"
| "insert_missing fresh (k # ks) m =
    insert_missing fresh ks (case btree_get m k of None \<Rightarrow> btree_insert k fresh m | Some _ \<Rightarrow> m)"

record preflight_state =
  pf_buckets :: "(string, token_bucket) btree_map"
  pf_minimum_remaining :: "64 word"
  pf_maximum_retry :: "64 word"

fun preflight ::
  "64 word \<Rightarrow> 64 word \<Rightarrow> 64 word \<Rightarrow> 64 word \<Rightarrow> string list \<Rightarrow> preflight_state \<Rightarrow>
    (preflight_state, preflight_state) result" where
  "preflight rps capacity now tokens [] s = Ok s"
| "preflight rps capacity now tokens (k # ks) s =
    (case btree_get (pf_buckets s) k of
       None \<Rightarrow> Err s
     | Some bucket \<Rightarrow>
         if tb_poisoned bucket then Err s
         else
           let state = refill_state (tb_state bucket) now rps capacity;
             retry = (if fst state < tokens then retry_for (saturating_sub_word tokens (fst state)) rps else 0) in
           preflight rps capacity now tokens ks
             \<lparr>pf_buckets = btree_insert k (bucket\<lparr>tb_state := state\<rparr>) (pf_buckets s),
              pf_minimum_remaining = min (pf_minimum_remaining s) (fst state),
              pf_maximum_retry = max (pf_maximum_retry s) retry\<rparr>)"

fun consume_all :: "64 word \<Rightarrow> string list \<Rightarrow> (string, token_bucket) btree_map \<Rightarrow> (string, token_bucket) btree_map" where
  "consume_all tokens [] m = m"
| "consume_all tokens (k # ks) m =
    consume_all tokens ks
      (case btree_get m k of
         Some bucket \<Rightarrow>
           if tb_poisoned bucket then m
           else btree_insert k
             (bucket\<lparr>tb_state := (saturating_sub_word (fst (tb_state bucket)) tokens, snd (tb_state bucket))\<rparr>) m
       | None \<Rightarrow> m)"

definition try_acquire_many ::
  "keyed_rate_limiter \<Rightarrow> string list \<Rightarrow> 64 word \<Rightarrow> 64 word \<Rightarrow> rate_limit_decision \<times> keyed_rate_limiter" where
  "try_acquire_many l keys now tokens =
    (if keys = [] \<or> list_ex bad_key keys then (deny 0 1000, l)
     else if tokens = 0 then (grant (kl_capacity l), l)
     else if tokens > kl_capacity l then (deny (kl_capacity l) u64_max, l)
     else if kl_poisoned l then (deny 0 1000, l)
     else
       let unique = sort (remdups keys);
         new_keys = length (filter (\<lambda>k. btree_get (kl_buckets l) k = None) unique) in
       if length (kl_buckets l) + new_keys > kl_max_keys l then (deny 0 1000, l)
       else
         let buckets = insert_missing (bucket_new (kl_capacity l) (kl_refill_per_second l)) unique (kl_buckets l) in
         case preflight (kl_refill_per_second l) (kl_capacity l) now tokens unique
             \<lparr>pf_buckets = buckets, pf_minimum_remaining = u64_max, pf_maximum_retry = 0\<rparr> of
           Err s \<Rightarrow> (deny 0 1000, l\<lparr>kl_buckets := pf_buckets s\<rparr>)
         | Ok s \<Rightarrow>
             if pf_maximum_retry s \<noteq> 0
             then (deny (pf_minimum_remaining s) (pf_maximum_retry s), l\<lparr>kl_buckets := pf_buckets s\<rparr>)
             else (grant (saturating_sub_word (pf_minimum_remaining s) tokens),
               l\<lparr>kl_buckets := consume_all tokens unique (pf_buckets s)\<rparr>))"

definition key_count :: "keyed_rate_limiter \<Rightarrow> nat" where
  "key_count l = (if kl_poisoned l then 0 else length (kl_buckets l))"

section \<open>The arithmetic, read as natural numbers\<close>

lemma unat_refill_for:
  "unat (refill_for now since rps) = min ((unat now - unat since) * unat rps) (2 ^ 64 - 1) div 1000"
  by (simp add: refill_for_def unwrap_or_def checked_div_word_def unat_div checked_simps)

lemma unat_retry_for:
  "rps \<noteq> 0 \<Longrightarrow> unat (retry_for deficit rps) =
    min (min (unat deficit * 1000) (2 ^ 64 - 1) + (unat rps - 1)) (2 ^ 64 - 1) div unat rps"
  by (simp add: retry_for_def unwrap_or_def checked_div_word_def unat_div checked_simps)

lemma refill_state_cases:
  assumes "refill_state (t, since) now rps capacity = (t', since')"
  obtains (idle) "t' = t" "since' = since" "(unat now - unat since) * unat rps < 1000"
  | (refilled) "since' = now" "unat since \<le> unat now"
      "unat t' = min (unat t + min ((unat now - unat since) * unat rps) (2 ^ 64 - 1) div 1000) (unat capacity)"
proof (cases "refill_for now since rps > 0")
  case True
  let ?r = "min ((unat now - unat since) * unat rps) (2 ^ 64 - 1) div 1000"
  have "0 < ?r" using True by (simp add: word_less_nat_alt unat_refill_for)
  then have "unat since \<le> unat now" by (cases "unat since \<le> unat now") auto
  moreover have "unat t' = min (min (unat t + ?r) (2 ^ 64 - 1)) (unat capacity)"
    using assms True by (auto simp: refill_state_def Let_def checked_simps unat_refill_for min_def
        word_le_nat_alt split: if_splits)
  moreover have "unat capacity \<le> 2 ^ 64 - 1" using unat_lt_length [of capacity] by simp
  ultimately show thesis using refilled assms True by (simp add: refill_state_def Let_def min_def)
next
  case False
  then have "unat (refill_for now since rps) = 0" by (simp add: word_less_nat_alt)
  then have "(unat now - unat since) * unat rps < 1000" by (simp add: unat_refill_for min_def split: if_splits)
  then show thesis using idle assms False by (simp add: refill_state_def Let_def)
qed

section \<open>What a bucket hands out\<close>

definition bucket_ok :: "token_bucket \<Rightarrow> bool" where
  "bucket_ok b \<longleftrightarrow> fst (tb_state b) \<le> tb_capacity b \<and> 0 < tb_capacity b \<and> 0 < tb_refill_per_second b"

definition granted :: "rate_limit_decision \<Rightarrow> 64 word \<Rightarrow> nat" where
  "granted d n = (if rl_allowed d then unat n else 0)"

lemma bucket_new_ok [simp]: "bucket_ok (bucket_new capacity rps)"
proof -
  have "0 < unat (max x 1)" for x :: "64 word"
    by (auto simp: max_def word_le_nat_alt)
  then show ?thesis by (simp add: bucket_ok_def bucket_new_def word_less_nat_alt)
qed

lemma acquire_cases:
  assumes "try_acquire_n b now n = (d, b')"
  obtains (kept) "b' = b" "rl_allowed d \<longrightarrow> n = 0" "n = 0 \<or> tb_capacity b < n \<or> tb_poisoned b"
  | (taken) t since where "refill_state (tb_state b) now (tb_refill_per_second b) (tb_capacity b) = (t, since)"
      "n \<noteq> 0" "n \<le> t" "rl_allowed d" "b' = b\<lparr>tb_state := (t - n, since)\<rparr>"
  | (refused) t since where "refill_state (tb_state b) now (tb_refill_per_second b) (tb_capacity b) = (t, since)"
      "n \<noteq> 0" "n \<le> tb_capacity b" "t < n" "b' = b\<lparr>tb_state := (t, since)\<rparr>"
      "d = deny t (retry_for (n - t) (tb_refill_per_second b))"
proof -
  obtain t since where st: "refill_state (tb_state b) now (tb_refill_per_second b) (tb_capacity b) = (t, since)"
    by fastforce
  consider "n = 0 \<or> n > tb_capacity b \<or> tb_poisoned b"
    | "n \<noteq> 0" "\<not> tb_capacity b < n" "\<not> tb_poisoned b" "n \<le> t"
    | "n \<noteq> 0" "\<not> tb_capacity b < n" "\<not> tb_poisoned b" "\<not> n \<le> t"
    by blast
  then show thesis
  proof cases
    case 1
    then show thesis using assms by (intro kept) (auto simp: try_acquire_n_def deny_def split: if_splits)
  next
    case 2
    then show thesis using assms st
      by (intro taken [OF st]) (auto simp: try_acquire_n_def grant_def saturating_sub_word_def Let_def)
  next
    case 3
    have "n \<le> tb_capacity b" "t < n" "t \<le> n" "(tb_capacity b < n) = False" "(n \<le> t) = False"
      using 3 by auto
    moreover from this have "d = deny t (retry_for (n - t) (tb_refill_per_second b))"
      "b' = b\<lparr>tb_state := (t, since)\<rparr>"
      using assms 3 by (simp_all only: try_acquire_n_def saturating_sub_word_def Let_def st fst_conv if_False
          if_True prod.inject)
    ultimately show thesis using refused [OF st 3(1)] by blast
  qed
qed

lemma refill_account:
  assumes "refill_state (t, since) now rps capacity = (t', since')" "t \<le> capacity"
  shows "t' \<le> capacity" "unat since \<le> unat since'" "unat since' \<le> max (unat since) (unat now)"
    "1000 * unat t' \<le> 1000 * unat t + (unat since' - unat since) * unat rps"
proof -
  show "t' \<le> capacity" "unat since \<le> unat since'" "unat since' \<le> max (unat since) (unat now)"
    using assms by (auto elim!: refill_state_cases simp: word_le_nat_alt)
  show "1000 * unat t' \<le> 1000 * unat t + (unat since' - unat since) * unat rps"
    using assms(1)
  proof (cases rule: refill_state_cases)
    case refilled
    define r where "r = min ((unat now - unat since) * unat rps) (2 ^ 64 - 1) div 1000"
    have "1000 * r \<le> (unat now - unat since) * unat rps"
      unfolding r_def by (rule order_trans [OF times_div_less_eq_dividend]) simp
    moreover have "unat t' \<le> unat t + r" using refilled(3) unfolding r_def [symmetric] by simp
    ultimately show ?thesis using refilled(1) by simp
  qed simp
qed

lemma acquire_account:
  assumes "try_acquire_n b now n = (d, b')" "bucket_ok b"
  shows "bucket_ok b' \<and> tb_capacity b' = tb_capacity b \<and> tb_refill_per_second b' = tb_refill_per_second b \<and>
    unat (snd (tb_state b)) \<le> unat (snd (tb_state b')) \<and>
    unat (snd (tb_state b')) \<le> max (unat (snd (tb_state b))) (unat now) \<and>
    1000 * granted d n + 1000 * unat (fst (tb_state b')) \<le> 1000 * unat (fst (tb_state b)) +
      (unat (snd (tb_state b')) - unat (snd (tb_state b))) * unat (tb_refill_per_second b)"
  using assms(1)
proof (cases rule: acquire_cases)
  case kept
  then show ?thesis using assms(2) by (auto simp: granted_def)
next
  case (taken t since)
  have st: "refill_state (fst (tb_state b), snd (tb_state b)) now (tb_refill_per_second b) (tb_capacity b) = (t, since)"
    using taken(1) by simp
  have le: "fst (tb_state b) \<le> tb_capacity b" using assms(2) by (simp add: bucket_ok_def)
  have "t - n \<le> tb_capacity b"
    using refill_account(1) [OF st le] taken(3) by (simp add: word_le_nat_alt unat_sub_le)
  moreover have "1000 * unat n + 1000 * unat (t - n) = 1000 * unat t"
    using taken(3) by (simp add: unat_sub_le word_le_nat_alt)
  ultimately show ?thesis
    using taken assms(2) refill_account [OF st le] by (simp add: bucket_ok_def granted_def)
next
  case (refused t since)
  have st: "refill_state (fst (tb_state b), snd (tb_state b)) now (tb_refill_per_second b) (tb_capacity b) = (t, since)"
    using refused(1) by simp
  have le: "fst (tb_state b) \<le> tb_capacity b" using assms(2) by (simp add: bucket_ok_def)
  show ?thesis
    using refused assms(2) refill_account [OF st le] by (simp add: bucket_ok_def granted_def deny_def)
qed

text \<open>A sequence of requests, each a time and an amount; the total that was granted.\<close>

fun acquire_all :: "token_bucket \<Rightarrow> (64 word \<times> 64 word) list \<Rightarrow> nat \<times> token_bucket" where
  "acquire_all b [] = (0, b)"
| "acquire_all b ((now, n) # reqs) =
    (let (d, b1) = try_acquire_n b now n; (paid, b2) = acquire_all b1 reqs in (granted d n + paid, b2))"

lemma acquire_all_account:
  assumes "acquire_all b reqs = (paid, b')" "bucket_ok b"
    "\<forall>(now, n)\<in>set reqs. unat now \<le> horizon" "unat (snd (tb_state b)) \<le> horizon"
  shows "bucket_ok b' \<and> unat (snd (tb_state b)) \<le> unat (snd (tb_state b')) \<and>
    unat (snd (tb_state b')) \<le> horizon \<and>
    1000 * paid + 1000 * unat (fst (tb_state b')) \<le> 1000 * unat (fst (tb_state b)) +
      (unat (snd (tb_state b')) - unat (snd (tb_state b))) * unat (tb_refill_per_second b)"
  using assms
proof (induction reqs arbitrary: b paid)
  case Nil
  then show ?case by simp
next
  case (Cons req reqs)
  obtain now n where req: "req = (now, n)" by fastforce
  obtain d b1 where first: "try_acquire_n b now n = (d, b1)" by fastforce
  obtain rest b2 where tail: "acquire_all b1 reqs = (rest, b2)" by fastforce
  have paid: "paid = granted d n + rest" "b2 = b'" using Cons.prems(1) first tail req by simp_all
  note acc = acquire_account [OF first Cons.prems(2)]
  have "unat (snd (tb_state b1)) \<le> horizon" using acc Cons.prems(3,4) req by auto
  then have ih: "bucket_ok b' \<and> unat (snd (tb_state b1)) \<le> unat (snd (tb_state b')) \<and>
      unat (snd (tb_state b')) \<le> horizon \<and>
      1000 * rest + 1000 * unat (fst (tb_state b')) \<le> 1000 * unat (fst (tb_state b1)) +
      (unat (snd (tb_state b')) - unat (snd (tb_state b1))) * unat (tb_refill_per_second b)"
    using Cons.IH [of b1 rest] acc Cons.prems(3) tail paid(2) by simp
  define s0 s1 s2 r where "s0 = unat (snd (tb_state b))" and "s1 = unat (snd (tb_state b1))"
    and "s2 = unat (snd (tb_state b'))" and "r = unat (tb_refill_per_second b)"
  have "s0 \<le> s1" "s1 \<le> s2" using acc ih by (simp_all add: s0_def s1_def s2_def)
  then have "(s1 - s0) * r + (s2 - s1) * r = (s2 - s0) * r" by (simp add: add_mult_distrib [symmetric])
  moreover have "1000 * granted d n + 1000 * unat (fst (tb_state b1)) \<le>
      1000 * unat (fst (tb_state b)) + (s1 - s0) * r"
    using acc by (simp add: s0_def s1_def r_def)
  moreover have "1000 * rest + 1000 * unat (fst (tb_state b')) \<le>
      1000 * unat (fst (tb_state b1)) + (s2 - s1) * r"
    using ih by (simp add: s1_def s2_def r_def)
  ultimately have "1000 * paid + 1000 * unat (fst (tb_state b')) \<le>
      1000 * unat (fst (tb_state b)) + (s2 - s0) * r"
    using paid(1) by simp
  with ih \<open>s0 \<le> s1\<close> \<open>s1 \<le> s2\<close> show ?case by (simp add: s0_def s2_def r_def)
qed

text \<open>
  C36. The rate is enforced: whatever requests a bucket receives, at whatever times up to some horizon
  and in whatever order the clock readings come, the tokens it grants are at most the tokens it held
  plus what the refill rate yields from its last refill up to the horizon.  Clock readings that go
  backwards and saturating arithmetic never grant more.
\<close>

theorem bucket_rate_bound:
  assumes "acquire_all b reqs = (paid, b')" "bucket_ok b"
    and "\<forall>(now, n)\<in>set reqs. unat now \<le> horizon" "unat (snd (tb_state b)) \<le> horizon"
  shows "1000 * paid \<le> 1000 * unat (fst (tb_state b)) +
      (horizon - unat (snd (tb_state b))) * unat (tb_refill_per_second b) \<and>
    fst (tb_state b') \<le> tb_capacity b' \<and> bucket_ok b'"
proof -
  note acc = acquire_all_account [OF assms]
  have "(unat (snd (tb_state b')) - unat (snd (tb_state b))) * unat (tb_refill_per_second b) \<le>
      (horizon - unat (snd (tb_state b))) * unat (tb_refill_per_second b)"
    using acc by (intro mult_right_mono) auto
  with acc have "1000 * paid \<le> 1000 * unat (fst (tb_state b)) +
      (horizon - unat (snd (tb_state b))) * unat (tb_refill_per_second b)"
    by linarith
  with acc show ?thesis by (simp add: bucket_ok_def)
qed

theorem bucket_rate_bound_witness:
  "1000 * fst (acquire_all (bucket_new 5 2) [(0, 5), (900, 1), (400, 1), (1000, 2)]) \<le>
    1000 * 5 + 1000 * 2"
proof -
  obtain paid b' where run: "acquire_all (bucket_new 5 2) [(0, 5), (900, 1), (400, 1), (1000, 2)] = (paid, b')"
    by fastforce
  have "fst (tb_state (bucket_new 5 2)) = 5" "snd (tb_state (bucket_new 5 2)) = 0"
    "tb_refill_per_second (bucket_new 5 2) = 2"
    by (simp_all add: bucket_new_def max_def word_le_nat_alt)
  with bucket_rate_bound [OF run bucket_new_ok, of 1000] run show ?thesis by simp
qed

lemma round_up: "0 < (r :: nat) \<Longrightarrow> a \<le> (a + (r - 1)) div r * r"
  using mod_less_divisor [of r "a + (r - 1)"] div_mult_mod_eq [of "a + (r - 1)" r] by linarith



section \<open>Several keys at once\<close>

lemma retry_positive:
  assumes "deficit \<noteq> 0" "rps \<noteq> 0"
  shows "retry_for deficit rps \<noteq> 0"
proof -
  have "0 < unat deficit" "0 < unat rps" "unat rps \<le> 2 ^ 64 - 1"
    using assms unat_lt_length [of rps] by (auto simp: unat_gt_0)
  then have "unat rps \<le> min (min (unat deficit * 1000) (2 ^ 64 - 1) + (unat rps - 1)) (2 ^ 64 - 1)"
    by simp
  then have "0 < unat (retry_for deficit rps)"
    using \<open>0 < unat rps\<close> assms(2) by (simp add: unat_retry_for div_greater_zero_iff)
  then show ?thesis by auto
qed

lemma insert_missing_keeps:
  "btree_get m k = Some b \<Longrightarrow> btree_get (insert_missing fresh ks m) k = Some b"
proof (induction ks arbitrary: m)
  case (Cons k0 ks)
  have "btree_get (case btree_get m k0 of None \<Rightarrow> btree_insert k0 fresh m | Some _ \<Rightarrow> m) k = Some b"
    using Cons.prems by (auto simp: btree_get_insert split: option.split)
  with Cons.IH show ?case by simp
qed simp

definition refilled :: "64 word \<Rightarrow> 64 word \<Rightarrow> 64 word \<Rightarrow> token_bucket \<Rightarrow> token_bucket" where
  "refilled rps capacity now b = b\<lparr>tb_state := refill_state (tb_state b) now rps capacity\<rparr>"

fun final_state :: "('a, 'a) result \<Rightarrow> 'a" where
  "final_state (Ok s) = s"
| "final_state (Err s) = s"

lemma preflight_step:
  obtains "preflight rps capacity now n (k # ks) s = Err s"
  | b s1 where "btree_get (pf_buckets s) k = Some b" "\<not> tb_poisoned b"
      "preflight rps capacity now n (k # ks) s = preflight rps capacity now n ks s1"
      "pf_buckets s1 = btree_insert k (refilled rps capacity now b) (pf_buckets s)"
      "pf_maximum_retry s1 = max (pf_maximum_retry s) (if fst (tb_state (refilled rps capacity now b)) < n
        then retry_for (saturating_sub_word n (fst (tb_state (refilled rps capacity now b)))) rps else 0)"
proof (cases "btree_get (pf_buckets s) k")
  case None
  then show thesis using that(1) by simp
next
  case (Some b)
  then show thesis using that(1) that(2) [OF Some] by (cases "tb_poisoned b") (simp_all add: Let_def refilled_def)
qed

lemma preflight_frame:
  "k \<notin> set ks \<Longrightarrow>
    btree_get (pf_buckets (final_state (preflight rps capacity now n ks s))) k = btree_get (pf_buckets s) k"
proof (induction ks arbitrary: s)
  case (Cons k0 ks)
  show ?case
  proof (cases rule: preflight_step [of rps capacity now n k0 ks s])
    case (2 b s1)
    with Cons show ?thesis by (simp add: btree_get_insert)
  qed simp
qed simp

lemma preflight_bucket:
  "distinct ks \<Longrightarrow> btree_get (pf_buckets s) k = Some b \<Longrightarrow>
    \<exists>c \<in> {b, refilled rps capacity now b}.
      btree_get (pf_buckets (final_state (preflight rps capacity now n ks s))) k = Some c"
proof (induction ks arbitrary: s)
  case (Cons k0 ks)
  show ?case
  proof (cases rule: preflight_step [of rps capacity now n k0 ks s])
    case 1
    with Cons.prems show ?thesis by simp
  next
    case (2 b0 s1)
    show ?thesis
    proof (cases "k = k0")
      case True
      with 2 Cons.prems preflight_frame [of k ks rps capacity now n s1] show ?thesis
        by (simp add: btree_get_insert)
    next
      case False
      with 2 Cons.prems Cons.IH [of s1] show ?thesis by (simp add: btree_get_insert)
    qed
  qed
qed simp

lemma preflight_retry_mono:
  "preflight rps capacity now n ks s = Ok s' \<Longrightarrow> pf_maximum_retry s \<le> pf_maximum_retry s'"
proof (induction ks arbitrary: s)
  case (Cons k0 ks)
  show ?case
  proof (cases rule: preflight_step [of rps capacity now n k0 ks s])
    case 1
    with Cons.prems show ?thesis by simp
  next
    case (2 b0 s1)
    with Cons.prems Cons.IH [of s1] show ?thesis by (metis max.bounded_iff)
  qed
qed simp

lemma preflight_suffices:
  assumes "rps \<noteq> 0" "pf_maximum_retry s' = 0"
  shows "distinct ks \<Longrightarrow> preflight rps capacity now n ks s = Ok s' \<Longrightarrow> k \<in> set ks \<Longrightarrow>
    btree_get (pf_buckets s) k = Some b \<Longrightarrow>
    btree_get (pf_buckets s') k = Some (refilled rps capacity now b) \<and> \<not> tb_poisoned b \<and>
    n \<le> fst (tb_state (refilled rps capacity now b))"
proof (induction ks arbitrary: s)
  case (Cons k0 ks)
  show ?case
  proof (cases rule: preflight_step [of rps capacity now n k0 ks s])
    case 1
    with Cons.prems show ?thesis by simp
  next
    case (2 b0 s1)
    have run: "preflight rps capacity now n ks s1 = Ok s'" using 2 Cons.prems by simp
    show ?thesis
    proof (cases "k = k0")
      case True
      then have [simp]: "b0 = b" using 2 Cons.prems by simp
      have "pf_maximum_retry s1 = 0" using preflight_retry_mono [OF run] assms(2) by simp
      then have "\<not> fst (tb_state (refilled rps capacity now b)) < n"
        using 2(5) retry_positive [OF _ assms(1)]
        by (auto simp: saturating_sub_word_def max_def split: if_splits)
      moreover have "btree_get (pf_buckets s') k = Some (refilled rps capacity now b)"
        using preflight_frame [of k ks rps capacity now n s1] run True Cons.prems(1) 2(4)
        by (simp add: btree_get_insert)
      ultimately show ?thesis using 2(2) by simp
    next
      case False
      with Cons.prems 2 Cons.IH [OF _ run] show ?thesis by (simp add: btree_get_insert)
    qed
  qed
qed simp

lemma consume_all_bucket:
  "distinct ks \<Longrightarrow> btree_get m k = Some b \<Longrightarrow> \<not> tb_poisoned b \<Longrightarrow>
    btree_get (consume_all n ks m) k = Some (if k \<in> set ks
      then b\<lparr>tb_state := (saturating_sub_word (fst (tb_state b)) n, snd (tb_state b))\<rparr> else b)"
proof (induction n ks m arbitrary: b rule: consume_all.induct)
  case (2 n k0 ks m)
  let ?b = "b\<lparr>tb_state := (saturating_sub_word (fst (tb_state b)) n, snd (tb_state b))\<rparr>"
  show ?case
  proof (cases "k = k0")
    case True
    with 2(1) [of ?b] 2(2-) show ?thesis by (simp add: btree_get_insert)
  next
    case False
    with 2(1) [of b] 2(2-) show ?thesis by (simp add: btree_get_insert split: option.split)
  qed
qed simp

lemma try_acquire_many_cases:
  fixes l :: keyed_rate_limiter and keys :: "string list" and now n :: "64 word"
  defines "ks \<equiv> sort (remdups keys)"
  defines "pre \<equiv> preflight (kl_refill_per_second l) (kl_capacity l) now n ks
      \<lparr>pf_buckets = insert_missing (bucket_new (kl_capacity l) (kl_refill_per_second l)) ks (kl_buckets l),
       pf_minimum_remaining = u64_max, pf_maximum_retry = 0\<rparr>"
  assumes "try_acquire_many l keys now n = (d, l')" "n \<noteq> 0"
  obtains (early) "l' = l" "\<not> rl_allowed d"
  | (denied) "l' = l\<lparr>kl_buckets := pf_buckets (final_state pre)\<rparr>" "\<not> rl_allowed d"
  | (taken) s where "pre = Ok s" "pf_maximum_retry s = 0" "rl_allowed d"
      "l' = l\<lparr>kl_buckets := consume_all n ks (pf_buckets s)\<rparr>"
proof -
  let ?full = "length (kl_buckets l) + length (filter (\<lambda>k. btree_get (kl_buckets l) k = None) ks) > kl_max_keys l"
  define bar where "bar \<longleftrightarrow> keys = [] \<or> list_ex bad_key keys \<or> n > kl_capacity l \<or> kl_poisoned l \<or> ?full"
  show thesis
  proof (cases bar)
    case True
    with assms(3,4) show thesis
      by (intro early) (auto simp: try_acquire_many_def bar_def deny_def Let_def ks_def split: if_splits)
  next
    case False
    with assms(3,4) have "(case pre of
           Err s \<Rightarrow> (deny 0 1000, l\<lparr>kl_buckets := pf_buckets s\<rparr>)
         | Ok s \<Rightarrow>
             if pf_maximum_retry s \<noteq> 0
             then (deny (pf_minimum_remaining s) (pf_maximum_retry s), l\<lparr>kl_buckets := pf_buckets s\<rparr>)
             else (grant (saturating_sub_word (pf_minimum_remaining s) n),
               l\<lparr>kl_buckets := consume_all n ks (pf_buckets s)\<rparr>)) = (d, l')"
      by (simp add: try_acquire_many_def bar_def Let_def pre_def [symmetric] ks_def [symmetric])
    then show thesis
      by (cases pre) (auto simp: deny_def grant_def intro: denied taken split: if_splits)
  qed
qed

text \<open>
  Acquiring from several keys is all or nothing: when the limiter grants the request, every named
  bucket was refilled, held enough, and gave up exactly the amount; when it denies, no named bucket
  gave up a token: each is as it was or merely refilled.
\<close>

theorem acquire_many_all_or_nothing:
  assumes "try_acquire_many l keys now n = (d, l')" "kl_refill_per_second l \<noteq> 0" "n \<noteq> 0"
    and "k \<in> set keys" "btree_get (kl_buckets l) k = Some b"
  shows "\<exists>b'. btree_get (kl_buckets l') k = Some b' \<and>
    (let full = refilled (kl_refill_per_second l) (kl_capacity l) now b in
     if rl_allowed d
     then n \<le> fst (tb_state full) \<and> b' = full\<lparr>tb_state := (fst (tb_state full) - n, snd (tb_state full))\<rparr>
     else b' = b \<or> b' = full)"
proof -
  let ?rps = "kl_refill_per_second l" and ?cap = "kl_capacity l" and ?ks = "sort (remdups keys)"
  let ?full = "refilled ?rps ?cap now b"
  let ?s = "\<lparr>pf_buckets = insert_missing (bucket_new ?cap ?rps) ?ks (kl_buckets l),
      pf_minimum_remaining = u64_max, pf_maximum_retry = 0\<rparr>"
  let ?pre = "preflight ?rps ?cap now n ?ks ?s"
  have ks: "distinct ?ks" "k \<in> set ?ks" using assms(4) by auto
  have get: "btree_get (pf_buckets ?s) k = Some b" using insert_missing_keeps [OF assms(5)] by simp
  show ?thesis
    using assms(1,3)
  proof (cases rule: try_acquire_many_cases)
    case early
    with assms(5) show ?thesis by (simp add: Let_def)
  next
    case denied
    with preflight_bucket [OF ks(1) get, of ?rps ?cap now n] show ?thesis by (auto simp: Let_def)
  next
    case (taken s)
    note pre = preflight_suffices [OF assms(2) taken(2) ks(1) taken(1) ks(2) get]
    have "btree_get (kl_buckets l') k =
        Some (?full\<lparr>tb_state := (fst (tb_state ?full) - n, snd (tb_state ?full))\<rparr>)"
      using consume_all_bucket [OF ks(1), of "pf_buckets s" k ?full n] pre taken(4) ks(2)
      by (simp add: saturating_sub_word_def) (simp add: refilled_def)
    with pre taken(3) show ?thesis by (simp add: Let_def)
  qed
qed

definition ex_limiter :: keyed_rate_limiter where
  "ex_limiter = snd (try_acquire_many (limiter_new 5 2 10) [''ip'', ''user''] 0 2)"

theorem acquire_many_all_or_nothing_witness:
  "\<exists>b'. btree_get (kl_buckets (snd (try_acquire_many ex_limiter [''user'', ''ip''] 100 3))) ''ip'' = Some b' \<and>
    fst (tb_state b') = 0"
proof -
  obtain d l' where run: "try_acquire_many ex_limiter [''user'', ''ip''] 100 3 = (d, l')" by fastforce
  have facts: "kl_refill_per_second ex_limiter = 2" "kl_capacity ex_limiter = 5"
    "btree_get (kl_buckets ex_limiter) ''ip'' = Some \<lparr>tb_capacity = 5, tb_refill_per_second = 2,
       tb_state = (3, 0), tb_poisoned = False\<rparr>"
    "rl_allowed (fst (try_acquire_many ex_limiter [''user'', ''ip''] 100 3))"
    "fst (refill_state (3, 0) 100 2 5) = 3"
    by code_simp+
  have "''ip'' \<in> set [''user'', ''ip'']" by simp
  from acquire_many_all_or_nothing [OF run _ _ this facts(3)] facts run show ?thesis
    by (auto simp: Let_def refilled_def)
qed

end
