(* ===== verification/Executor.thy ===== *)
theory Executor
  imports Resource_Policy Intent_Ingress Key_Registry
begin

text \<open>
  The execution pipeline (crate \<^verbatim>\<open>statechronicle-executor\<close>: \<^verbatim>\<open>conflict.rs\<close>, \<^verbatim>\<open>error.rs\<close>, \<^verbatim>\<open>pipeline.rs\<close>,
  \<^verbatim>\<open>settlement.rs\<close>) with the port interfaces of \<^verbatim>\<open>statechronicle-ports\<close> it calls.

  A port call takes the state of the outside world and returns its answer with the world after it, so
  that other writers may act between two calls.  The type of worlds is a parameter, and so are the
  stores, the clock, the id generator and the signature verifier: they are the fields of the records
  \<open>ports\<close> and \<open>executor\<close>.  A pipeline stage has the same shape, with the executor's error.
\<close>

section \<open>Port calls in sequence\<close>

type_synonym ('w, 'a, 'e) port = "'w \<Rightarrow> ('a, 'e) result \<times> 'w"

definition yield :: "'a \<Rightarrow> ('w, 'a, 'e) port" where
  "yield x w = (Ok x, w)"

definition pure :: "('a, 'e) result \<Rightarrow> ('w, 'a, 'e) port" where
  "pure r w = (r, w)"

definition then_run :: "('w, 'a, 'e) port \<Rightarrow> ('a \<Rightarrow> ('w, 'b, 'e) port) \<Rightarrow> ('w, 'b, 'e) port" where
  "then_run m f w = (case m w of (Ok x, w') \<Rightarrow> f x w' | (Err e, w') \<Rightarrow> (Err e, w'))"

definition on_err :: "('e \<Rightarrow> 'f) \<Rightarrow> ('w, 'a, 'e) port \<Rightarrow> ('w, 'a, 'f) port" where
  "on_err g m w = (case m w of (r, w') \<Rightarrow> (map_err g r, w'))"

text \<open>The outcome of a stage as a value, as in \<^verbatim>\<open>match stage.await\<close>.\<close>

definition outcome :: "('w, 'a, 'e) port \<Rightarrow> ('w, ('a, 'e) result, 'f) port" where
  "outcome m w = (case m w of (r, w') \<Rightarrow> (Ok r, w'))"

definition observe :: "('w \<Rightarrow> 'a \<times> 'w) \<Rightarrow> ('w, 'a, 'e) port" where
  "observe f w = (case f w of (x, w') \<Rightarrow> (Ok x, w'))"

section \<open>Errors\<close>

fun profile_error_to_string :: "profile_error \<Rightarrow> string" where
  "profile_error_to_string (ActorMismatch expected actual) =
    ''actor mismatch: expected '' @ quoted expected @ '', got '' @ quoted actual"
| "profile_error_to_string (ResourceLocked resource) =
    ''resource '' @ quoted resource @ '' is locked, burned, revoked, or escrowed''"
| "profile_error_to_string (AtomicityViolation m) = ''atomicity violation: '' @ m"
| "profile_error_to_string (TransferMismatch m) = ''transfer mismatch: '' @ m"
| "profile_error_to_string (ValueLegSettleRouting intent_id) =
    ''settlement '' @ quoted intent_id @ '' requires coordinated value legs''"
| "profile_error_to_string (UnknownOperation op) = ''unknown operation '' @ quoted op"
| "profile_error_to_string (InvalidTransition source op) =
    ''invalid transition from '' @ quoted source @ '' via '' @ quoted op"
| "profile_error_to_string (InvalidInput m) = ''invalid input: '' @ m"
| "profile_error_to_string NonPositiveAmount = ''amount must be positive''"
| "profile_error_to_string (InsufficientQuantity requested available) =
    ''insufficient quantity: requested '' @ to_canonical_string requested @ '', available '' @
    to_canonical_string available"
| "profile_error_to_string HardDeleteForbidden = ''hard delete is forbidden''"
| "profile_error_to_string FloatForbidden = ''floating-point values are forbidden''"
| "profile_error_to_string (OwnershipMismatch expected actual) =
    ''ownership mismatch: expected '' @ quoted expected @ '', got '' @ quoted actual"
| "profile_error_to_string NotTransferable = ''resource is not transferable''"

datatype executor_error =
    IntentFailure intent_error
  | DomainFailure domain_error
  | ProfileFailure profile_error
  | ExecutorSizeLimit string nat nat
  | Expired string
  | DuplicateIntent string
  | ExpectedVersionMismatch string "64 word" "64 word"
  | TenantScopeMissing
  | TenantNotFound string
  | ResourceNotFound string
  | AuthorityDenied
  | AuthorityStale
  | AuthorityUnavailable string
  | AuthorityMissing string
  | ExecutorActorMismatch string string
  | ExecutorResourceLocked string
  | TransitionInvalid string
  | ActorAuthenticationFailed string
  | ExecutorTransferMismatch string
  | ExecutorAtomicityViolation string
  | ExecutorValueLegRouting string
  | StoreFailure string
  | StateTypeRequired

fun executor_error_of_profile :: "profile_error \<Rightarrow> executor_error" where
  "executor_error_of_profile (ActorMismatch expected actual) = ExecutorActorMismatch expected actual"
| "executor_error_of_profile (ResourceLocked resource) = ExecutorResourceLocked resource"
| "executor_error_of_profile (AtomicityViolation m) = ExecutorAtomicityViolation m"
| "executor_error_of_profile (TransferMismatch m) = ExecutorTransferMismatch m"
| "executor_error_of_profile (ValueLegSettleRouting intent_id) = ExecutorValueLegRouting intent_id"
| "executor_error_of_profile e = ProfileFailure e"

fun executor_error_of_core :: "core_error \<Rightarrow> executor_error" where
  "executor_error_of_core (SizeLimitExceeded name limit actual) = ExecutorSizeLimit name limit actual"
| "executor_error_of_core e = DomainFailure (CoreFailure e)"

fun executor_error_to_string :: "executor_error \<Rightarrow> string" where
  "executor_error_to_string (IntentFailure e) = intent_error_to_string e"
| "executor_error_to_string (DomainFailure e) = domain_error_to_string e"
| "executor_error_to_string (ProfileFailure e) = profile_error_to_string e"
| "executor_error_to_string (ExecutorSizeLimit name limit actual) =
    ''size limit exceeded for '' @ quoted name @ '': length '' @ nat_to_string actual @
    '' exceeds limit '' @ nat_to_string limit"
| "executor_error_to_string (Expired intent_id) =
    ''intent '' @ quoted intent_id @ '' expired before acceptance''"
| "executor_error_to_string (DuplicateIntent intent_id) =
    ''duplicate intent id '' @ quoted intent_id @ '' with different payload''"
| "executor_error_to_string (ExpectedVersionMismatch resource expected actual) =
    ''expected version mismatch for '' @ quoted resource @ '': expected '' @
    nat_to_string (unat expected) @ '', actual '' @ nat_to_string (unat actual)"
| "executor_error_to_string TenantScopeMissing = ''intent has no tenant scope''"
| "executor_error_to_string (TenantNotFound tenant) = ''tenant '' @ quoted tenant @ '' not found''"
| "executor_error_to_string (ResourceNotFound resource) = ''resource '' @ quoted resource @ '' not found''"
| "executor_error_to_string AuthorityDenied = ''authority evaluation denied''"
| "executor_error_to_string AuthorityStale = ''authority proof stale or revoked''"
| "executor_error_to_string (AuthorityUnavailable m) = ''authority source unavailable: '' @ m"
| "executor_error_to_string (AuthorityMissing op) =
    ''authority binding required for operation '' @ quoted op"
| "executor_error_to_string (ExecutorActorMismatch expected actual) =
    ''actor mismatch: expected '' @ quoted expected @ '', got '' @ quoted actual"
| "executor_error_to_string (ExecutorResourceLocked resource) =
    ''resource '' @ quoted resource @ '' is locked, burned, revoked, or escrowed''"
| "executor_error_to_string (TransitionInvalid m) = ''invalid transition: '' @ m"
| "executor_error_to_string (ActorAuthenticationFailed m) = ''actor authentication failed: '' @ m"
| "executor_error_to_string (ExecutorTransferMismatch m) = ''transfer mismatch: '' @ m"
| "executor_error_to_string (ExecutorAtomicityViolation m) = ''atomicity violation: '' @ m"
| "executor_error_to_string (ExecutorValueLegRouting intent_id) =
    ''value-leg trade.settle intent '' @ quoted intent_id @
    '' must be settled via execute_settle (single-tenant) or execute_cross_tenant_trade (cross-tenant)''"
| "executor_error_to_string (StoreFailure m) = ''store error: '' @ m"
| "executor_error_to_string StateTypeRequired = ''intent requires a state_type''"

type_synonym ('w, 'a) run = "('w, 'a, executor_error) port"

section \<open>Conflict gates\<close>

definition check_expected_version :: "intent \<Rightarrow> state_projection option \<Rightarrow> (unit, executor_error) result" where
  "check_expected_version intent current =
    (case current of
       None \<Rightarrow>
         if in_expected_version intent > 0 then Err (ResourceNotFound (in_resource_id intent)) else Ok ()
     | Some projection \<Rightarrow>
         if sp_version projection \<noteq> in_expected_version intent
         then Err (ExpectedVersionMismatch (in_resource_id intent) (in_expected_version intent)
           (sp_version projection))
         else Ok ())"

definition check_tenant_scope :: "intent \<Rightarrow> (unit, executor_error) result" where
  "check_tenant_scope intent = (if in_tenant_id intent = [] then Err TenantScopeMissing else Ok ())"

definition check_expiry :: "intent \<Rightarrow> timestamp \<Rightarrow> (unit, executor_error) result" where
  "check_expiry intent now =
    (if (case in_expires_at intent of Some expiry \<Rightarrow> expiry \<le> now | None \<Rightarrow> False)
     then Err (Expired (in_intent_id intent)) else Ok ())"

definition check_idempotency_existing :: "intent \<Rightarrow> intent \<Rightarrow> (unit, executor_error) result" where
  "check_idempotency_existing existing incoming =
    (if existing = incoming then Ok () else Err (DuplicateIntent (in_intent_id incoming)))"

section \<open>Ports\<close>

datatype intent_store_error = DuplicateStored | IntentStoreUnavailable string

datatype state_index_error = IndexInconsistent string | IndexUnavailable string

fun state_index_error_to_string :: "state_index_error \<Rightarrow> string" where
  "state_index_error_to_string (IndexInconsistent m) = ''no consistent index projection available: '' @ m"
| "state_index_error_to_string (IndexUnavailable m) = ''state index unavailable: '' @ m"

datatype tenant_store_error = TenantRootNotFound | TenantStoreUnavailable string

fun tenant_store_error_to_string :: "tenant_store_error \<Rightarrow> string" where
  "tenant_store_error_to_string TenantRootNotFound = ''tenant checkpoint root not found''"
| "tenant_store_error_to_string (TenantStoreUnavailable m) = ''tenant store unavailable: '' @ m"

datatype transaction_manager_error =
    TransactionAborted
  | CommitFailed string
  | RollbackFailed string
  | CoordinatorUnavailable string

fun transaction_manager_error_to_string :: "transaction_manager_error \<Rightarrow> string" where
  "transaction_manager_error_to_string TransactionAborted = ''transaction aborted by coordinator''"
| "transaction_manager_error_to_string (CommitFailed m) = ''transaction commit failed: '' @ m"
| "transaction_manager_error_to_string (RollbackFailed m) = ''transaction rollback failed: '' @ m"
| "transaction_manager_error_to_string (CoordinatorUnavailable m) =
    ''transaction coordinator unavailable: '' @ m"

datatype trustgrant_error = TrustGrantDenied | TrustGrantUnavailable string | TrustGrantStale

record trustgrant_outcome =
  to_evaluation_digest :: content_digest
  to_result :: evaluation_result
  to_evaluated_at :: timestamp

record 'w trustgrant_port =
  tg_evaluate :: "tenant_id \<Rightarrow> subject_id \<Rightarrow> string \<Rightarrow> resource_id \<Rightarrow> ('w, trustgrant_outcome, trustgrant_error) port"
  tg_check_revocation_freshness :: "authority_proof \<Rightarrow> ('w, unit, trustgrant_error) port"

record 'w transaction_handle =
  th_commit :: "('w, unit, transaction_manager_error) port"
  th_rollback :: "('w, unit, transaction_manager_error) port"

record 'w ports =
  po_get_intent :: "tenant_id \<Rightarrow> string \<Rightarrow> ('w, intent option, intent_store_error) port"
  po_put_intent :: "tenant_id \<Rightarrow> intent \<Rightarrow> ('w, unit, intent_store_error) port"
  po_get_state :: "tenant_id \<Rightarrow> resource_id \<Rightarrow> ('w, state_projection option, state_index_error) port"
  po_get_subject_state ::
    "tenant_id \<Rightarrow> subject_id \<Rightarrow> resource_id \<Rightarrow> ('w, state_projection option, state_index_error) port"
  po_tenant_exists :: "tenant_id \<Rightarrow> ('w, bool, tenant_store_error) port"
  po_trustgrant :: "'w trustgrant_port list"
  po_begin :: "tenant_id \<Rightarrow> ('w, 'w transaction_handle, transaction_manager_error) port"
  po_begin_multi :: "tenant_id list \<Rightarrow> ('w, 'w transaction_handle, transaction_manager_error) port"

fun map_intent_store_error :: "string \<Rightarrow> intent_store_error \<Rightarrow> executor_error" where
  "map_intent_store_error intent_id DuplicateStored = DuplicateIntent intent_id"
| "map_intent_store_error intent_id (IntentStoreUnavailable m) = StoreFailure m"

fun map_trustgrant_error :: "trustgrant_error \<Rightarrow> executor_error" where
  "map_trustgrant_error TrustGrantDenied = AuthorityDenied"
| "map_trustgrant_error TrustGrantStale = AuthorityStale"
| "map_trustgrant_error (TrustGrantUnavailable m) = AuthorityUnavailable m"

definition map_transaction_manager_error :: "transaction_manager_error \<Rightarrow> executor_error" where
  "map_transaction_manager_error e = StoreFailure (transaction_manager_error_to_string e)"

definition map_index_error :: "state_index_error \<Rightarrow> executor_error" where
  "map_index_error e = StoreFailure (state_index_error_to_string e)"

section \<open>The executor\<close>

text \<open>
  The encodings of other crates: the canonical bytes of an intent, of a state and of the envelope that
  \<^verbatim>\<open>aggregate_evaluation_digest\<close> hashes, and SHA-256.
\<close>

record codec =
  cd_intent_bytes :: "intent \<Rightarrow> (byte list, string) result"
  cd_state_bytes :: "resource_state \<Rightarrow> (byte list, string) result"
  cd_aggregate_bytes :: "string \<Rightarrow> aggregation_policy \<Rightarrow> content_digest list \<Rightarrow> (byte list, string) result"
  cd_sha256 :: "byte list \<Rightarrow> content_digest"

record 'w executor =
  ex_ports :: "'w ports"
  ex_profiles :: profile_registry
  ex_executor :: subject_id
  ex_now :: "'w \<Rightarrow> timestamp \<times> 'w"
  ex_event_id_fn :: "'w \<Rightarrow> string \<times> 'w"
  ex_intent_verifier :: "signature_block \<Rightarrow> byte list \<Rightarrow> (unit, executor_error) result"

definition aggregate_evaluation_digest ::
  "codec \<Rightarrow> aggregation_policy \<Rightarrow> content_digest list \<Rightarrow> content_digest" where
  "aggregate_evaluation_digest cd pol sub_digests =
    (case sort (remdups sub_digests) of
       [single] \<Rightarrow> single
     | digests \<Rightarrow>
         cd_sha256 cd
           (case cd_aggregate_bytes cd ''statechronicle.authority.aggregate.v0'' pol digests of
              Ok bytes \<Rightarrow> bytes | Err _ \<Rightarrow> []))"

section \<open>The stages of \<^verbatim>\<open>execute_inner\<close>\<close>

text \<open>Canonical size and expiry, before anything is read or recorded.\<close>

definition admit :: "codec \<Rightarrow> 'w executor \<Rightarrow> intent \<Rightarrow> ('w, byte list) run" where
  "admit cd ex intent =
    then_run (pure (map_err executor_error_of_core (canonicalize (cd_intent_bytes cd) intent))) (\<lambda>bytes.
    then_run (pure (map_err executor_error_of_core
      (check_size ''intent'' MAX_INTENT_BYTES (length bytes)))) (\<lambda>_.
    then_run (observe (ex_now ex)) (\<lambda>now.
    then_run (pure (check_expiry intent now)) (\<lambda>_.
    yield bytes))))"

text \<open>Whether the intent is a replay of one already claimed.\<close>

definition find_replay :: "'w executor \<Rightarrow> intent \<Rightarrow> ('w, bool) run" where
  "find_replay ex intent =
    then_run (on_err (map_intent_store_error (in_intent_id intent))
      (po_get_intent (ex_ports ex) (in_tenant_id intent) (in_intent_id intent))) (\<lambda>existing.
    case existing of
      Some stored \<Rightarrow> then_run (pure (check_idempotency_existing stored intent)) (\<lambda>_. yield True)
    | None \<Rightarrow> yield False)"

definition check_primary_freshness :: "'w executor \<Rightarrow> authority_proof \<Rightarrow> ('w, unit) run" where
  "check_primary_freshness ex proof =
    (case po_trustgrant (ex_ports ex) of
       primary # _ \<Rightarrow> on_err map_trustgrant_error (tg_check_revocation_freshness primary proof)
     | [] \<Rightarrow> yield ())"

definition authenticate :: "'w executor \<Rightarrow> validated_intent \<Rightarrow> byte list \<Rightarrow> ('w, unit) run" where
  "authenticate ex vi bytes =
    then_run (case vi_signature vi of
        Some block \<Rightarrow> pure (ex_intent_verifier ex block bytes)
      | None \<Rightarrow> yield ()) (\<lambda>_.
    case in_authority (vi_intent vi) of
      Some proof \<Rightarrow> check_primary_freshness ex proof
    | None \<Rightarrow> yield ())"

definition check_tenant :: "'w executor \<Rightarrow> intent \<Rightarrow> ('w, unit) run" where
  "check_tenant ex intent =
    then_run (pure (check_tenant_scope intent)) (\<lambda>_.
    then_run (on_err (\<lambda>e. StoreFailure (tenant_store_error_to_string e))
      (po_tenant_exists (ex_ports ex) (in_tenant_id intent))) (\<lambda>exists.
    if \<not> exists then pure (Err (TenantNotFound (in_tenant_id intent))) else yield ()))"

definition route :: "'w executor \<Rightarrow> intent \<Rightarrow> bool \<Rightarrow> (state_type \<times> profile_rules, executor_error) result" where
  "route ex intent allow_coordinated =
    and_then (ok_or (in_state_type intent) StateTypeRequired) (\<lambda>st.
    and_then (map_err executor_error_of_profile (resolve (ex_profiles ex) st (in_inputs intent))) (\<lambda>rules.
    and_then (map_err executor_error_of_profile
      (validate_route (pr_execution_policy rules) intent allow_coordinated)) (\<lambda>_.
    Ok (st, rules))))"

definition load_state ::
  "'w executor \<Rightarrow> tenant_id \<Rightarrow> subject_id option \<Rightarrow> resource_id \<Rightarrow> ('w, state_projection option) run" where
  "load_state ex tenant subject resource =
    on_err map_index_error
      (case subject of
         Some s \<Rightarrow> po_get_subject_state (ex_ports ex) tenant s resource
       | None \<Rightarrow> po_get_state (ex_ports ex) tenant resource)"

text \<open>The current state, read again where the profile says that the state found names another holder.\<close>

definition load_current :: "'w executor \<Rightarrow> execution_policy \<Rightarrow> intent \<Rightarrow> ('w, state_projection option) run" where
  "load_current ex pol intent =
    then_run (load_state ex (in_tenant_id intent) (primary_subject pol intent) (in_resource_id intent)) (\<lambda>current.
    case current_subject pol intent current of
      Some holder \<Rightarrow>
        if primary_subject pol intent \<noteq> None \<and> Some holder \<noteq> primary_subject pol intent
        then load_state ex (in_tenant_id intent) (Some holder) (in_resource_id intent)
        else yield current
    | None \<Rightarrow> yield current)"

definition check_state_type :: "state_type \<Rightarrow> state_projection option \<Rightarrow> (unit, executor_error) result" where
  "check_state_type st current =
    (case current of
       Some projection \<Rightarrow>
         if sp_state_type projection \<noteq> st \<or> rs_state_type (sp_state projection) \<noteq> st
         then Err (TransitionInvalid ''state type mismatch'') else Ok ()
     | None \<Rightarrow> Ok ())"

definition profile_identity :: "profile_rules \<Rightarrow> (string, executor_error) result" where
  "profile_identity rules = map_err DomainFailure (profile_id_new (pr_profile_id rules))"

definition check_custom_current ::
  "profile_rules \<Rightarrow> operation \<Rightarrow> state_projection option \<Rightarrow> (unit, executor_error) result" where
  "check_custom_current rules op current =
    and_then (profile_identity rules) (\<lambda>identity.
    if op \<notin> set (pr_allowed_operations rules) then Err (TransitionInvalid ''unregistered operation'')
    else case current of
        None \<Rightarrow> Ok ()
      | Some projection \<Rightarrow>
          (case sp_state projection of
             Custom custom \<Rightarrow>
               if cu_domain custom \<noteq> identity \<or> cu_schema_version custom \<noteq> pr_schema_version rules
               then Err (TransitionInvalid ''domain/schema mismatch'') else Ok ()
           | _ \<Rightarrow> Err (TransitionInvalid ''custom state required'')))"

text \<open>The evaluations of all members of the authority set, and how they add up.\<close>

record tally =
  ta_outcomes :: "trustgrant_outcome list"
  ta_denied :: bool
  ta_stale :: bool
  ta_unavailable :: "string option"

definition count_evaluation :: "(trustgrant_outcome, trustgrant_error) result \<Rightarrow> tally \<Rightarrow> tally" where
  "count_evaluation r t =
    (case r of
       Ok got \<Rightarrow>
         if to_result got = Allow then t\<lparr>ta_outcomes := ta_outcomes t @ [got]\<rparr>
         else t\<lparr>ta_denied := True\<rparr>
     | Err TrustGrantDenied \<Rightarrow> t\<lparr>ta_denied := True\<rparr>
     | Err TrustGrantStale \<Rightarrow> t\<lparr>ta_stale := True\<rparr>
     | Err (TrustGrantUnavailable m) \<Rightarrow> t\<lparr>ta_unavailable := Some m\<rparr>)"

fun evaluate_members :: "'w trustgrant_port list \<Rightarrow> intent \<Rightarrow> tally \<Rightarrow> ('w, tally) run" where
  "evaluate_members [] intent t = yield t"
| "evaluate_members (member # rest) intent t =
    then_run (outcome (tg_evaluate member (in_tenant_id intent) (in_actor intent) (in_operation intent)
      (in_resource_id intent))) (\<lambda>r.
    evaluate_members rest intent (count_evaluation r t))"

fun tally_passes :: "aggregation_policy \<Rightarrow> tally \<Rightarrow> bool" where
  "tally_passes RequireAll t \<longleftrightarrow> \<not> ta_denied t \<and> \<not> ta_stale t \<and> ta_unavailable t = None"
| "tally_passes AnyOf t \<longleftrightarrow> ta_outcomes t \<noteq> []"

definition tally_error :: "tally \<Rightarrow> executor_error" where
  "tally_error t =
    (case ta_unavailable t of
       Some m \<Rightarrow> AuthorityUnavailable m
     | None \<Rightarrow> if ta_stale t then AuthorityStale else AuthorityDenied)"

definition earliest :: "'w executor \<Rightarrow> timestamp list \<Rightarrow> ('w, timestamp) run" where
  "earliest ex moments = (case moments of [] \<Rightarrow> observe (ex_now ex) | t # ts \<Rightarrow> yield (fold min ts t))"

definition authority_gate :: "codec \<Rightarrow> 'w executor \<Rightarrow> profile_rules \<Rightarrow> intent \<Rightarrow> ('w, authority_proof option) run" where
  "authority_gate cd ex rules intent =
    (let op = in_operation intent; pol = pr_authority_policy rules op in
     if in_authority intent = None \<and> pr_requires_authority rules op
     then pure (Err (AuthorityMissing op))
     else if in_authority intent = None then yield None
     else if po_trustgrant (ex_ports ex) = []
     then pure (Err (AuthorityUnavailable ''no authority configured''))
     else
       then_run (evaluate_members (po_trustgrant (ex_ports ex)) intent
         \<lparr>ta_outcomes = [], ta_denied = False, ta_stale = False, ta_unavailable = None\<rparr>) (\<lambda>t.
       if \<not> tally_passes pol t then pure (Err (tally_error t))
       else
         then_run (earliest ex (map to_evaluated_at (ta_outcomes t))) (\<lambda>evaluated_at.
         let proof = \<lparr>ap_kind = ''trustgrant.evaluation'',
           ap_evaluation_digest =
             aggregate_evaluation_digest cd pol (map to_evaluation_digest (ta_outcomes t)),
           ap_result = Allow, ap_evaluated_at = evaluated_at\<rparr> in
         then_run (check_primary_freshness ex proof) (\<lambda>_.
         yield (Some proof)))))"

text \<open>Profile check, reducer and the checks on what the reducer returned.\<close>

definition reduce ::
  "profile_rules \<Rightarrow> state_type \<Rightarrow> intent \<Rightarrow> state_projection option \<Rightarrow> (resource_state, executor_error) result" where
  "reduce rules st intent current =
    and_then (map_err executor_error_of_profile
      (pr_check rules (in_operation intent) current (in_inputs intent))) (\<lambda>_.
    and_then (map_err (\<lambda>e. TransitionInvalid (profile_error_to_string e))
      (pr_apply rules current (in_operation intent) (in_inputs intent))) (\<lambda>after.
    if rs_state_type after \<noteq> st then Err (TransitionInvalid ''reducer state type mismatch'')
    else case after of
        Custom custom \<Rightarrow>
          and_then (profile_identity rules) (\<lambda>identity.
          if cu_domain custom \<noteq> identity \<or> cu_schema_version custom \<noteq> pr_schema_version rules
          then Err (TransitionInvalid ''reducer domain/schema mismatch'') else Ok after)
      | _ \<Rightarrow> Ok after))"

text \<open>The commitments before and after a transition, with the version bumped by one.\<close>

definition digest_state :: "codec \<Rightarrow> resource_state \<Rightarrow> (content_digest, executor_error) result" where
  "digest_state cd state =
    map_err executor_error_of_core (canonicalize_and_digest (cd_sha256 cd) (cd_state_bytes cd) state)"

definition commitments ::
  "codec \<Rightarrow> execution_policy \<Rightarrow> state_projection option \<Rightarrow> resource_state \<Rightarrow>
    (state_commitment \<times> state_commitment, executor_error) result" where
  "commitments cd pol current after =
    (let ver = (case current of Some c \<Rightarrow> sp_version c | None \<Rightarrow> 0) in
     and_then (ok_or (checked_add_word ver 1) (TransitionInvalid ''version overflow'')) (\<lambda>next_version.
     and_then (case current of
         Some c \<Rightarrow> Ok (sp_state c)
       | None \<Rightarrow> map_err executor_error_of_profile (unborn_state pol after)) (\<lambda>before.
     and_then (case current of
         Some c \<Rightarrow> Ok (sp_state_hash c)
       | None \<Rightarrow> digest_state cd before) (\<lambda>before_hash.
     and_then (digest_state cd after) (\<lambda>after_hash.
     Ok (\<lparr>sc_version = ver, sc_state_hash = before_hash, sc_state = before\<rparr>,
         \<lparr>sc_version = next_version, sc_state_hash = after_hash, sc_state = after\<rparr>))))))"

definition emit_event ::
  "'w executor \<Rightarrow> intent \<Rightarrow> resource_id \<Rightarrow> state_commitment \<times> state_commitment \<Rightarrow>
    authority_proof option \<Rightarrow> ('w, event) run" where
  "emit_event ex intent resource commits authority =
    then_run (observe (ex_event_id_fn ex)) (\<lambda>event_id.
    then_run (observe (ex_now ex)) (\<lambda>now.
    yield (event_new (in_tenant_id intent) event_id (in_intent_id intent) (in_operation intent) resource
      (in_actor intent) (fst commits) (snd commits) authority (ex_executor ex) now)))"

definition claim :: "'w executor \<Rightarrow> intent \<Rightarrow> bool \<Rightarrow> ('w, unit) run" where
  "claim ex intent persist_intent =
    (if persist_intent
     then on_err (map_intent_store_error (in_intent_id intent))
       (po_put_intent (ex_ports ex) (in_tenant_id intent) intent)
     else yield ())"

text \<open>The second event of a transfer: the mutation of the recipient's state.\<close>

definition companion_event ::
  "codec \<Rightarrow> 'w executor \<Rightarrow> execution_policy \<Rightarrow> intent \<Rightarrow> state_projection option \<Rightarrow> state_address \<Rightarrow>
    authority_proof option \<Rightarrow> ('w, event) run" where
  "companion_event cd ex pol intent current target authority =
    then_run (load_state ex (in_tenant_id intent) (sa_subject target) (sa_resource target)) (\<lambda>destination.
    then_run (pure (ok_or current
      (TransitionInvalid ''companion transition requires an existing primary state''))) (\<lambda>source.
    then_run (pure (map_err (\<lambda>e. TransitionInvalid (profile_error_to_string e))
      (apply_companion pol intent source destination))) (\<lambda>after.
    then_run (pure (commitments cd pol destination after)) (\<lambda>commits.
    emit_event ex intent (sa_resource target) commits authority))))"

definition produce_events ::
  "codec \<Rightarrow> 'w executor \<Rightarrow> profile_rules \<Rightarrow> intent \<Rightarrow> state_projection option \<Rightarrow> resource_state \<Rightarrow>
    authority_proof option \<Rightarrow> ('w, event list) run" where
  "produce_events cd ex rules intent current after authority =
    (let pol = pr_execution_policy rules in
     then_run (pure (commitments cd pol current after)) (\<lambda>commits.
     then_run (emit_event ex intent (in_resource_id intent) commits authority) (\<lambda>event.
     then_run (pure (map_err executor_error_of_profile (companion_target pol intent))) (\<lambda>companion.
     case companion of
       Some target \<Rightarrow>
         then_run (companion_event cd ex pol intent current target authority) (\<lambda>second.
         yield [event, second])
     | None \<Rightarrow> yield [event]))))"

definition transition ::
  "codec \<Rightarrow> 'w executor \<Rightarrow> state_type \<Rightarrow> profile_rules \<Rightarrow> intent \<Rightarrow> ('w, event list) run" where
  "transition cd ex st rules intent =
    then_run (load_current ex (pr_execution_policy rules) intent) (\<lambda>current.
    then_run (pure (check_state_type st current)) (\<lambda>_.
    then_run (pure (check_expected_version intent current)) (\<lambda>_.
    then_run (pure (map_err executor_error_of_profile
      (check_access (pr_execution_policy rules) intent current))) (\<lambda>_.
    then_run (pure (if st = CustomT then check_custom_current rules (in_operation intent) current
      else Ok ())) (\<lambda>_.
    then_run (authority_gate cd ex rules intent) (\<lambda>authority.
    then_run (pure (reduce rules st intent current)) (\<lambda>after.
    produce_events cd ex rules intent current after authority)))))))"

definition execute_inner ::
  "codec \<Rightarrow> 'w executor \<Rightarrow> validated_intent \<Rightarrow> bool \<Rightarrow> bool \<Rightarrow> ('w, event list) run" where
  "execute_inner cd ex vi allow_coordinated persist_intent =
    (let intent = vi_intent vi in
     then_run (admit cd ex intent) (\<lambda>bytes.
     then_run (find_replay ex intent) (\<lambda>replay.
     if replay then yield []
     else
       then_run (authenticate ex vi bytes) (\<lambda>_.
       then_run (check_tenant ex intent) (\<lambda>_.
       then_run (pure (route ex intent allow_coordinated)) (\<lambda>(st, rules).
       then_run (transition cd ex st rules intent) (\<lambda>events.
       then_run (claim ex intent persist_intent) (\<lambda>_.
       yield events))))))))"

definition execute :: "codec \<Rightarrow> 'w executor \<Rightarrow> validated_intent \<Rightarrow> ('w, event list) run" where
  "execute cd ex vi = execute_inner cd ex vi False True"

end
