(* ===== verification/Executor_Builder.thy ===== *)
theory Executor_Builder
  imports Executor
begin

text \<open>
  The two builders of \<^verbatim>\<open>pipeline.rs\<close>: the port bundle and the executor itself. A port that the model
  keeps as two functions of \<^typ>\<open>'w ports\<close> is one field of the builder, as in the code.
\<close>

type_synonym 'w intent_store =
  "(tenant_id \<Rightarrow> string \<Rightarrow> ('w, intent option, intent_store_error) port) \<times>
   (tenant_id \<Rightarrow> intent \<Rightarrow> ('w, unit, intent_store_error) port)"

type_synonym 'w state_index =
  "(tenant_id \<Rightarrow> resource_id \<Rightarrow> ('w, state_projection option, state_index_error) port) \<times>
   (tenant_id \<Rightarrow> subject_id \<Rightarrow> resource_id \<Rightarrow> ('w, state_projection option, state_index_error) port)"

type_synonym 'w tenant_store = "tenant_id \<Rightarrow> ('w, bool, tenant_store_error) port"

type_synonym 'w transaction_manager =
  "(tenant_id \<Rightarrow> ('w, 'w transaction_handle, transaction_manager_error) port) \<times>
   (tenant_id list \<Rightarrow> ('w, 'w transaction_handle, transaction_manager_error) port)"

record 'w ports_builder =
  pb_intent_store :: "'w intent_store option"
  pb_state_index :: "'w state_index option"
  pb_tenant_store :: "'w tenant_store option"
  pb_trustgrant :: "'w trustgrant_port list"
  pb_transaction_manager :: "'w transaction_manager option"

datatype ports_build_error =
    MissingIntentStore | MissingStateIndex | MissingTenantStore | MissingTransactionManager

definition ports_builder_default :: "'w ports_builder" where
  "ports_builder_default = \<lparr>pb_intent_store = None, pb_state_index = None, pb_tenant_store = None,
    pb_trustgrant = [], pb_transaction_manager = None\<rparr>"

definition with_intent_store :: "'w intent_store \<Rightarrow> 'w ports_builder \<Rightarrow> 'w ports_builder" where
  "with_intent_store store b = b\<lparr>pb_intent_store := Some store\<rparr>"

definition with_state_index :: "'w state_index \<Rightarrow> 'w ports_builder \<Rightarrow> 'w ports_builder" where
  "with_state_index index b = b\<lparr>pb_state_index := Some index\<rparr>"

definition with_tenant_store :: "'w tenant_store \<Rightarrow> 'w ports_builder \<Rightarrow> 'w ports_builder" where
  "with_tenant_store store b = b\<lparr>pb_tenant_store := Some store\<rparr>"

definition with_trustgrant :: "'w trustgrant_port list \<Rightarrow> 'w ports_builder \<Rightarrow> 'w ports_builder" where
  "with_trustgrant members b = b\<lparr>pb_trustgrant := members\<rparr>"

definition with_transaction_manager :: "'w transaction_manager \<Rightarrow> 'w ports_builder \<Rightarrow> 'w ports_builder" where
  "with_transaction_manager manager b = b\<lparr>pb_transaction_manager := Some manager\<rparr>"

definition build_ports :: "'w ports_builder \<Rightarrow> ('w ports, ports_build_error) result" where
  "build_ports b =
    and_then (ok_or (pb_intent_store b) MissingIntentStore) (\<lambda>intents.
    and_then (ok_or (pb_state_index b) MissingStateIndex) (\<lambda>states.
    and_then (ok_or (pb_tenant_store b) MissingTenantStore) (\<lambda>tenants.
    and_then (ok_or (pb_transaction_manager b) MissingTransactionManager) (\<lambda>transactions.
    Ok \<lparr>po_get_intent = fst intents, po_put_intent = snd intents, po_get_state = fst states,
      po_get_subject_state = snd states, po_tenant_exists = tenants, po_trustgrant = pb_trustgrant b,
      po_begin = fst transactions, po_begin_multi = snd transactions\<rparr>))))"

record 'w executor_builder =
  eb_ports :: "'w ports option"
  eb_profiles :: "profile_registry option"
  eb_executor :: "subject_id option"
  eb_now :: "('w \<Rightarrow> timestamp \<times> 'w) option"
  eb_event_id_fn :: "('w \<Rightarrow> string \<times> 'w) option"
  eb_intent_verifier :: "(signature_block \<Rightarrow> byte list \<Rightarrow> (unit, executor_error) result) option"

datatype executor_build_error =
    MissingPorts | MissingExecutor | MissingClock | MissingEventIdGen | MissingIntentVerifier

definition executor_builder_default :: "'w executor_builder" where
  "executor_builder_default = \<lparr>eb_ports = None, eb_profiles = None, eb_executor = None, eb_now = None,
    eb_event_id_fn = None, eb_intent_verifier = None\<rparr>"

definition with_ports :: "'w ports \<Rightarrow> 'w executor_builder \<Rightarrow> 'w executor_builder" where
  "with_ports ports b = b\<lparr>eb_ports := Some ports\<rparr>"

definition with_profiles :: "profile_registry \<Rightarrow> 'w executor_builder \<Rightarrow> 'w executor_builder" where
  "with_profiles registry b = b\<lparr>eb_profiles := Some registry\<rparr>"

definition with_executor :: "subject_id \<Rightarrow> 'w executor_builder \<Rightarrow> 'w executor_builder" where
  "with_executor identity b = b\<lparr>eb_executor := Some identity\<rparr>"

definition with_clock ::
  "('w \<Rightarrow> timestamp \<times> 'w) \<Rightarrow> 'w executor_builder \<Rightarrow> 'w executor_builder" where
  "with_clock clock b = b\<lparr>eb_now := Some clock\<rparr>"

definition with_event_id_gen ::
  "('w \<Rightarrow> string \<times> 'w) \<Rightarrow> 'w executor_builder \<Rightarrow> 'w executor_builder" where
  "with_event_id_gen event_ids b = b\<lparr>eb_event_id_fn := Some event_ids\<rparr>"

definition with_intent_verifier ::
  "(signature_block \<Rightarrow> byte list \<Rightarrow> (unit, executor_error) result) \<Rightarrow> 'w executor_builder \<Rightarrow> 'w executor_builder" where
  "with_intent_verifier verifier b = b\<lparr>eb_intent_verifier := Some verifier\<rparr>"

definition build_executor :: "'w executor_builder \<Rightarrow> ('w executor, executor_build_error) result" where
  "build_executor b =
    and_then (ok_or (eb_ports b) MissingPorts) (\<lambda>ports.
    and_then (ok_or (eb_executor b) MissingExecutor) (\<lambda>identity.
    and_then (ok_or (eb_now b) MissingClock) (\<lambda>clock.
    and_then (ok_or (eb_event_id_fn b) MissingEventIdGen) (\<lambda>event_ids.
    and_then (ok_or (eb_intent_verifier b) MissingIntentVerifier) (\<lambda>verifier.
    Ok \<lparr>ex_ports = ports, ex_profiles = (case eb_profiles b of Some r \<Rightarrow> r | None \<Rightarrow> baseline),
      ex_executor = identity, ex_now = clock, ex_event_id_fn = event_ids,
      ex_intent_verifier = verifier\<rparr>)))))"

section \<open>What a builder accepts\<close>

lemma build_ports_complete:
  "is_ok (build_ports b) \<longleftrightarrow>
    pb_intent_store b \<noteq> None \<and> pb_state_index b \<noteq> None \<and> pb_tenant_store b \<noteq> None \<and>
    pb_transaction_manager b \<noteq> None"
  by (cases "pb_intent_store b"; cases "pb_state_index b"; cases "pb_tenant_store b";
      cases "pb_transaction_manager b") (simp_all add: build_ports_def ok_or_def is_ok_iff)

lemma build_ports_of_setters:
  "build_ports (with_intent_store (g, p) (with_state_index (s, ss) (with_tenant_store t
     (with_transaction_manager (b, m) ports_builder_default)))) =
   Ok \<lparr>po_get_intent = g, po_put_intent = p, po_get_state = s, po_get_subject_state = ss,
     po_tenant_exists = t, po_trustgrant = [], po_begin = b, po_begin_multi = m\<rparr>"
  by (simp add: build_ports_def with_intent_store_def with_state_index_def with_tenant_store_def
      with_transaction_manager_def ports_builder_default_def ok_or_def)

lemma build_executor_complete:
  "is_ok (build_executor b) \<longleftrightarrow>
    eb_ports b \<noteq> None \<and> eb_executor b \<noteq> None \<and> eb_now b \<noteq> None \<and> eb_event_id_fn b \<noteq> None \<and>
    eb_intent_verifier b \<noteq> None"
  by (cases "eb_ports b"; cases "eb_executor b"; cases "eb_now b"; cases "eb_event_id_fn b";
      cases "eb_intent_verifier b") (simp_all add: build_executor_def ok_or_def is_ok_iff)

lemma build_executor_of_setters:
  "build_executor (with_intent_verifier v (with_event_id_gen g (with_clock c (with_executor i
     (with_ports p executor_builder_default))))) =
   Ok \<lparr>ex_ports = p, ex_profiles = baseline, ex_executor = i, ex_now = c, ex_event_id_fn = g,
     ex_intent_verifier = v\<rparr>"
  by (simp add: build_executor_def with_intent_verifier_def with_event_id_gen_def with_clock_def
      with_executor_def with_ports_def executor_builder_default_def)

end
