(* ===== verification/Executor_Batch.thy ===== *)
theory Executor_Batch
  imports Executor
begin

text \<open>
  The entry points of the executor above a single intent (\<^verbatim>\<open>pipeline.rs\<close> and \<^verbatim>\<open>settlement.rs\<close> of
  \<^verbatim>\<open>statechronicle-executor\<close>): authenticated and player mutations, batches, settlements and
  cross-tenant trades, each with its durable variant.
\<close>

section \<open>Authenticated mutations\<close>

record authenticated_principal =
  pi_subject :: subject_id
  pi_credential_id :: string
  pi_tenant :: tenant_id

datatype authorization_error =
    Unauthenticated
  | AuthorizationDenied
  | AuthorizationUnavailable string
  | ContextMismatch string

fun authorization_error_to_string :: "authorization_error \<Rightarrow> string" where
  "authorization_error_to_string Unauthenticated = ''authentication failed''"
| "authorization_error_to_string AuthorizationDenied = ''authorization denied''"
| "authorization_error_to_string (AuthorizationUnavailable m) = ''authorization service unavailable: '' @ m"
| "authorization_error_to_string (ContextMismatch m) = ''authorization context mismatch: '' @ m"

type_synonym 'w authorizer =
  "authenticated_principal \<Rightarrow> tenant_id \<Rightarrow> intent \<Rightarrow> resource_id \<Rightarrow> ('w, unit, authorization_error) port"

type_synonym 'w key_port =
  "tenant_id \<Rightarrow> subject_id \<Rightarrow> string \<Rightarrow> operation \<Rightarrow> timestamp \<Rightarrow> ('w, key_record, key_registry_error) port"

type_synonym 'w mutation_sink =
  "validated_intent \<Rightarrow> authenticated_principal \<Rightarrow> event list \<Rightarrow> ('w, unit, string) port"

type_synonym 'w batch_sink = "validated_intent list \<Rightarrow> event list \<Rightarrow> ('w, unit, string) port"

definition deny_all :: "'w authorizer" where
  "deny_all caller tenant intent resource = pure (Err AuthorizationDenied)"

definition authorize_principal ::
  "'w authorizer \<Rightarrow> authenticated_principal \<Rightarrow> intent \<Rightarrow> ('w, unit) run" where
  "authorize_principal authorizer caller intent =
    (if pi_tenant caller \<noteq> in_tenant_id intent \<or> pi_subject caller \<noteq> in_actor intent
     then pure (Err (ActorAuthenticationFailed
       ''authenticated principal is not bound to intent actor and tenant''))
     else on_err (\<lambda>e. ActorAuthenticationFailed (authorization_error_to_string e))
       (authorizer caller (in_tenant_id intent) intent (in_resource_id intent)))"

definition execute_authenticated_inner ::
  "codec \<Rightarrow> 'w executor \<Rightarrow> validated_intent \<Rightarrow> authenticated_principal \<Rightarrow> 'w authorizer \<Rightarrow> bool \<Rightarrow>
    ('w, event list) run" where
  "execute_authenticated_inner cd ex vi caller authorizer persist_intent =
    then_run (authorize_principal authorizer caller (vi_intent vi)) (\<lambda>_.
    execute_inner cd ex vi False persist_intent)"

definition execute_authenticated ::
  "codec \<Rightarrow> 'w executor \<Rightarrow> validated_intent \<Rightarrow> authenticated_principal \<Rightarrow> 'w authorizer \<Rightarrow>
    ('w, event list) run" where
  "execute_authenticated cd ex vi caller authorizer =
    execute_authenticated_inner cd ex vi caller authorizer True"

definition require_signature :: "validated_intent \<Rightarrow> (signature_block, executor_error) result" where
  "require_signature vi =
    ok_or (vi_signature vi)
      (ActorAuthenticationFailed ''player mutation requires a detached intent signature'')"

definition execute_player ::
  "codec \<Rightarrow> 'w executor \<Rightarrow> validated_intent \<Rightarrow> authenticated_principal \<Rightarrow> 'w authorizer \<Rightarrow>
    ('w, event list) run" where
  "execute_player cd ex vi caller authorizer =
    then_run (pure (require_signature vi)) (\<lambda>_. execute_authenticated cd ex vi caller authorizer)"

definition execute_player_durable ::
  "codec \<Rightarrow> 'w executor \<Rightarrow> validated_intent \<Rightarrow> authenticated_principal \<Rightarrow> 'w authorizer \<Rightarrow>
    'w mutation_sink \<Rightarrow> ('w, event list) run" where
  "execute_player_durable cd ex vi caller authorizer sink =
    then_run (pure (require_signature vi)) (\<lambda>_.
    then_run (execute_authenticated_inner cd ex vi caller authorizer False) (\<lambda>events.
    if events = [] then yield events
    else then_run (on_err StoreFailure (sink vi caller events)) (\<lambda>_. yield events)))"

definition resolve_signer ::
  "'w key_port \<Rightarrow> intent \<Rightarrow> authenticated_principal \<Rightarrow> signature_block \<Rightarrow> ('w, key_record) run" where
  "resolve_signer keys intent caller signature =
    on_err (\<lambda>e. ActorAuthenticationFailed (key_registry_error_to_string e))
      (keys (in_tenant_id intent) (pi_subject caller) (sb_key_id signature) (in_operation intent)
        (in_created_at intent))"

definition execute_player_with_key_registry ::
  "codec \<Rightarrow> 'w executor \<Rightarrow> validated_intent \<Rightarrow> authenticated_principal \<Rightarrow> 'w authorizer \<Rightarrow> 'w key_port \<Rightarrow>
    ('w, event list) run" where
  "execute_player_with_key_registry cd ex vi caller authorizer keys =
    then_run (pure (require_signature vi)) (\<lambda>signature.
    then_run (resolve_signer keys (vi_intent vi) caller signature) (\<lambda>_.
    execute_player cd ex vi caller authorizer))"

definition execute_player_durable_with_key_registry ::
  "codec \<Rightarrow> 'w executor \<Rightarrow> validated_intent \<Rightarrow> authenticated_principal \<Rightarrow> 'w authorizer \<Rightarrow> 'w key_port \<Rightarrow>
    'w mutation_sink \<Rightarrow> ('w, event list) run" where
  "execute_player_durable_with_key_registry cd ex vi caller authorizer keys sink =
    then_run (pure (require_signature vi)) (\<lambda>signature.
    then_run (resolve_signer keys (vi_intent vi) caller signature) (\<lambda>_.
    execute_player_durable cd ex vi caller authorizer sink))"

section \<open>Batches\<close>

text \<open>
  The first loop of \<^verbatim>\<open>validate_profile_batch\<close> with the identities and the tenant seen so far, then the
  loop over the events grouped by intent.
\<close>

fun profile_batch_loop :: "string list \<Rightarrow> tenant_id option \<Rightarrow> event list \<Rightarrow> (unit, executor_error) result" where
  "profile_batch_loop identities tenant [] = Ok ()"
| "profile_batch_loop identities tenant (e # es) =
    (if ev_event_id e \<in> set identities
     then Err (ExecutorAtomicityViolation ''duplicate event id in batch'')
     else if tenant \<noteq> None \<and> tenant \<noteq> Some (ev_tenant_id e)
     then Err (ExecutorAtomicityViolation ''mixed tenant scopes in batch'')
     else profile_batch_loop (ev_event_id e # identities) (Some (ev_tenant_id e)) es)"

definition validate_profile_group ::
  "'w executor \<Rightarrow> validated_intent list \<Rightarrow> string \<times> event list \<Rightarrow> (unit, executor_error) result" where
  "validate_profile_group ex intents = (\<lambda>(identity, members).
    and_then (ok_or (find (\<lambda>vi. in_intent_id (vi_intent vi) = identity) intents)
      (ExecutorAtomicityViolation ''event has no accepted intent'')) (\<lambda>vi.
    and_then (ok_or (in_state_type (vi_intent vi)) StateTypeRequired) (\<lambda>st.
    and_then (map_err executor_error_of_profile
      (resolve (ex_profiles ex) st (in_inputs (vi_intent vi)))) (\<lambda>rules.
    map_err executor_error_of_profile (validate_events (pr_execution_policy rules) members)))))"

definition validate_profile_batch ::
  "'w executor \<Rightarrow> validated_intent list \<Rightarrow> event list \<Rightarrow> (unit, executor_error) result" where
  "validate_profile_batch ex intents events =
    and_then (profile_batch_loop [] None events) (\<lambda>_.
    for_each (validate_profile_group ex intents) (group_by ev_intent_id events))"

fun run_batch ::
  "codec \<Rightarrow> 'w executor \<Rightarrow> validated_intent list \<Rightarrow> bool \<Rightarrow> bool \<Rightarrow> ('w, event list) run" where
  "run_batch cd ex [] allow_coordinated persist_intent = yield []"
| "run_batch cd ex (vi # rest) allow_coordinated persist_intent =
    then_run (execute_inner cd ex vi allow_coordinated persist_intent) (\<lambda>produced.
    then_run (run_batch cd ex rest allow_coordinated persist_intent) (\<lambda>events.
    yield (produced @ events)))"

definition partial_replay :: "validated_intent \<Rightarrow> executor_error" where
  "partial_replay vi = ExecutorAtomicityViolation
    (''partial replay detected in batch: intent '' @ quoted (in_intent_id (vi_intent vi)) @
     '' was already claimed and replayed idempotently; the batch fails closed so no partial results escape'')"

fun run_batch_fail_closed :: "codec \<Rightarrow> 'w executor \<Rightarrow> validated_intent list \<Rightarrow> bool \<Rightarrow> ('w, event list) run" where
  "run_batch_fail_closed cd ex [] persist_intent = yield []"
| "run_batch_fail_closed cd ex (vi # rest) persist_intent =
    then_run (execute_inner cd ex vi False persist_intent) (\<lambda>produced.
    if produced = [] then pure (Err (partial_replay vi))
    else
      then_run (run_batch_fail_closed cd ex rest persist_intent) (\<lambda>events.
      yield (produced @ events)))"

text \<open>The transaction around a batch: none when a durable sink owns the boundary.\<close>

definition begin_unless_durable ::
  "'w batch_sink option \<Rightarrow> ('w, 'w transaction_handle, transaction_manager_error) port \<Rightarrow>
    ('w, 'w transaction_handle option) run" where
  "begin_unless_durable sink start =
    (if Option.is_none sink
     then then_run (on_err map_transaction_manager_error start) (\<lambda>handle. yield (Some handle))
     else yield None)"

definition rollback_quietly :: "'w transaction_handle option \<Rightarrow> ('w, unit) run" where
  "rollback_quietly handle =
    (case handle of
       Some h \<Rightarrow> then_run (outcome (th_rollback h)) (\<lambda>_. yield ())
     | None \<Rightarrow> yield ())"

definition conclude ::
  "'w batch_sink option \<Rightarrow> 'w transaction_handle option \<Rightarrow> validated_intent list \<Rightarrow> ('a \<Rightarrow> event list) \<Rightarrow>
    ('a, executor_error) result \<Rightarrow> ('w, 'a) run" where
  "conclude sink handle intents flatten result =
    (case result of
       Ok produced \<Rightarrow>
         then_run (case sink of
             Some persist_batch \<Rightarrow>
               if flatten produced \<noteq> [] then outcome (persist_batch intents (flatten produced))
               else yield (Ok ())
           | None \<Rightarrow> yield (Ok ())) (\<lambda>persisted.
         case persisted of
           Err error \<Rightarrow> then_run (rollback_quietly handle) (\<lambda>_. pure (Err (StoreFailure error)))
         | Ok _ \<Rightarrow>
             (case handle of
                Some h \<Rightarrow> then_run (on_err map_transaction_manager_error (th_commit h)) (\<lambda>_. yield produced)
              | None \<Rightarrow> yield produced))
     | Err error \<Rightarrow>
         then_run (rollback_quietly handle) (\<lambda>_.
         pure (Err (ExecutorAtomicityViolation (executor_error_to_string error)))))"

definition execute_batch_inner ::
  "codec \<Rightarrow> 'w executor \<Rightarrow> validated_intent list \<Rightarrow> 'w batch_sink option \<Rightarrow> ('w, event list) run" where
  "execute_batch_inner cd ex intents sink =
    (case intents of
       [] \<Rightarrow> pure (Err (ExecutorAtomicityViolation ''empty batch''))
     | first # _ \<Rightarrow>
         then_run (begin_unless_durable sink (po_begin (ex_ports ex) (in_tenant_id (vi_intent first)))) (\<lambda>handle.
         then_run (outcome (run_batch_fail_closed cd ex intents (\<not> Option.is_none sink))) (\<lambda>ran.
         conclude sink handle intents (\<lambda>events. events)
           (and_then ran (\<lambda>events. map_ok (\<lambda>_. events) (validate_profile_batch ex intents events))))))"

definition execute_batch :: "codec \<Rightarrow> 'w executor \<Rightarrow> validated_intent list \<Rightarrow> ('w, event list) run" where
  "execute_batch cd ex intents = execute_batch_inner cd ex intents None"

definition execute_batch_durable ::
  "codec \<Rightarrow> 'w executor \<Rightarrow> validated_intent list \<Rightarrow> 'w batch_sink \<Rightarrow> ('w, event list) run" where
  "execute_batch_durable cd ex intents sink = execute_batch_inner cd ex intents (Some sink)"

fun authorize_items ::
  "'w authorizer \<Rightarrow> 'w key_port \<Rightarrow> (validated_intent \<times> authenticated_principal) list \<Rightarrow> ('w, unit) run" where
  "authorize_items authorizer keys [] = yield ()"
| "authorize_items authorizer keys ((vi, caller) # rest) =
    then_run (pure (require_signature vi)) (\<lambda>signature.
    then_run (authorize_principal authorizer caller (vi_intent vi)) (\<lambda>_.
    then_run (resolve_signer keys (vi_intent vi) caller signature) (\<lambda>_.
    authorize_items authorizer keys rest)))"

definition execute_player_batch_durable_with_key_registry ::
  "codec \<Rightarrow> 'w executor \<Rightarrow> (validated_intent \<times> authenticated_principal) list \<Rightarrow> 'w authorizer \<Rightarrow>
    'w key_port \<Rightarrow> 'w batch_sink \<Rightarrow> ('w, event list) run" where
  "execute_player_batch_durable_with_key_registry cd ex items authorizer keys sink =
    then_run (authorize_items authorizer keys items) (\<lambda>_.
    execute_batch_durable cd ex (map fst items) sink)"

section \<open>Settlements and cross-tenant trades\<close>

definition settle_intents :: "validated_intent list \<Rightarrow> intent list" where
  "settle_intents intents = filter (\<lambda>i. in_operation i = ''trade.settle'') (map vi_intent intents)"

definition execute_settle_inner ::
  "codec \<Rightarrow> 'w executor \<Rightarrow> validated_intent list \<Rightarrow> 'w batch_sink option \<Rightarrow> ('w, event list) run" where
  "execute_settle_inner cd ex intents sink =
    (case intents of
       [] \<Rightarrow> pure (Err (ExecutorAtomicityViolation ''empty settle batch''))
     | first # _ \<Rightarrow>
         then_run (begin_unless_durable sink (po_begin (ex_ports ex) (in_tenant_id (vi_intent first)))) (\<lambda>handle.
         then_run (outcome (run_batch cd ex intents True (\<not> Option.is_none sink))) (\<lambda>ran.
         conclude sink handle intents (\<lambda>events. events)
           (and_then ran (\<lambda>events.
            map_ok (\<lambda>_. events) (map_err executor_error_of_profile
              (and_then (validate_batch_consistency events) (\<lambda>_.
               validate_settle_batch events (settle_intents intents)))))))))"

definition execute_settle :: "codec \<Rightarrow> 'w executor \<Rightarrow> validated_intent list \<Rightarrow> ('w, event list) run" where
  "execute_settle cd ex intents = execute_settle_inner cd ex intents None"

definition execute_settle_durable ::
  "codec \<Rightarrow> 'w executor \<Rightarrow> validated_intent list \<Rightarrow> 'w batch_sink \<Rightarrow> ('w, event list) run" where
  "execute_settle_durable cd ex intents sink = execute_settle_inner cd ex intents (Some sink)"

fun run_cross_tenant_legs ::
  "codec \<Rightarrow> 'w executor \<Rightarrow> (string, validated_intent list) btree_map \<Rightarrow> bool \<Rightarrow> bool \<Rightarrow>
    ('w, tenant_event_group list) run" where
  "run_cross_tenant_legs cd ex [] allow_coordinated persist_intent = yield []"
| "run_cross_tenant_legs cd ex ((name, sub_intents) # rest) allow_coordinated persist_intent =
    then_run (run_batch cd ex sub_intents allow_coordinated persist_intent) (\<lambda>events.
    then_run (run_cross_tenant_legs cd ex rest allow_coordinated persist_intent) (\<lambda>groups.
    yield (\<lparr>tg_tenant = name, tg_events = events\<rparr> # groups)))"

definition by_tenant :: "validated_intent list \<Rightarrow> (string, validated_intent list) btree_map" where
  "by_tenant intents = group_by (\<lambda>vi. in_tenant_id (vi_intent vi)) intents"

definition group_events :: "tenant_event_group list \<Rightarrow> event list" where
  "group_events groups = concat (map tg_events groups)"

text \<open>What the two cross-tenant entry points share; they differ in the message, in whether value legs
  are allowed and in the validation of the groups.\<close>

definition cross_tenant_batch ::
  "codec \<Rightarrow> 'w executor \<Rightarrow> string \<Rightarrow> bool \<Rightarrow> (tenant_event_group list \<Rightarrow> unit presult) \<Rightarrow>
    validated_intent list \<Rightarrow> 'w batch_sink option \<Rightarrow> ('w, tenant_event_group list) run" where
  "cross_tenant_batch cd ex too_few allow_coordinated validate_groups intents sink =
    (if length (by_tenant intents) < 2 then pure (Err (ExecutorAtomicityViolation too_few))
     else
       then_run (begin_unless_durable sink
         (po_begin_multi (ex_ports ex) (map fst (by_tenant intents)))) (\<lambda>handle.
       then_run (outcome (run_cross_tenant_legs cd ex (by_tenant intents) allow_coordinated (\<not> Option.is_none sink))) (\<lambda>ran.
       conclude sink handle intents group_events
         (and_then ran (\<lambda>groups.
          map_ok (\<lambda>_. groups) (map_err executor_error_of_profile (validate_groups groups)))))))"

definition execute_cross_tenant_inner ::
  "codec \<Rightarrow> 'w executor \<Rightarrow> validated_intent list \<Rightarrow> 'w batch_sink option \<Rightarrow>
    ('w, tenant_event_group list) run" where
  "execute_cross_tenant_inner cd ex intents sink =
    cross_tenant_batch cd ex ''cross-tenant batch requires at least two distinct tenants'' False
      validate_cross_tenant_consistency intents sink"

definition execute_cross_tenant_trade_inner ::
  "codec \<Rightarrow> 'w executor \<Rightarrow> validated_intent list \<Rightarrow> trade_manifest \<Rightarrow> 'w batch_sink option \<Rightarrow>
    ('w, tenant_event_group list) run" where
  "execute_cross_tenant_trade_inner cd ex intents manifest sink =
    cross_tenant_batch cd ex ''cross-tenant trade requires at least two distinct tenants'' True
      (\<lambda>groups. validate_cross_tenant_trade groups manifest (settle_intents intents)) intents sink"

definition execute_cross_tenant ::
  "codec \<Rightarrow> 'w executor \<Rightarrow> validated_intent list \<Rightarrow> ('w, tenant_event_group list) run" where
  "execute_cross_tenant cd ex intents = execute_cross_tenant_inner cd ex intents None"

definition execute_cross_tenant_durable ::
  "codec \<Rightarrow> 'w executor \<Rightarrow> validated_intent list \<Rightarrow> 'w batch_sink \<Rightarrow>
    ('w, tenant_event_group list) run" where
  "execute_cross_tenant_durable cd ex intents sink = execute_cross_tenant_inner cd ex intents (Some sink)"

definition execute_cross_tenant_trade ::
  "codec \<Rightarrow> 'w executor \<Rightarrow> validated_intent list \<Rightarrow> trade_manifest \<Rightarrow>
    ('w, tenant_event_group list) run" where
  "execute_cross_tenant_trade cd ex intents manifest =
    execute_cross_tenant_trade_inner cd ex intents manifest None"

definition execute_cross_tenant_trade_durable ::
  "codec \<Rightarrow> 'w executor \<Rightarrow> validated_intent list \<Rightarrow> trade_manifest \<Rightarrow> 'w batch_sink \<Rightarrow>
    ('w, tenant_event_group list) run" where
  "execute_cross_tenant_trade_durable cd ex intents manifest sink =
    execute_cross_tenant_trade_inner cd ex intents manifest (Some sink)"

end
