(* ===== verification/Executor_Examples.thy ===== *)
theory Executor_Examples
  imports Executor_Batch Example_Data
begin

text \<open>
  A small world in memory with the executor's ports over it: the claimed intents, the current states,
  a counter for event ids and the events a durable sink has stored.  The properties of the executor
  are instantiated on it.
\<close>

record mem_world =
  mw_intents :: "intent list"
  mw_states :: "((subject_id option \<times> resource_id) \<times> state_projection) list"
  mw_counter :: nat
  mw_stored :: "event list"

definition mem_get_intent :: "tenant_id \<Rightarrow> string \<Rightarrow> (mem_world, intent option, intent_store_error) port" where
  "mem_get_intent t k w =
    (Ok (find (\<lambda>i. in_tenant_id i = t \<and> in_intent_id i = k) (mw_intents w)), w)"

definition mem_put_intent :: "tenant_id \<Rightarrow> intent \<Rightarrow> (mem_world, unit, intent_store_error) port" where
  "mem_put_intent t i w =
    (case find (\<lambda>j. in_tenant_id j = t \<and> in_intent_id j = in_intent_id i) (mw_intents w) of
       None \<Rightarrow> (Ok (), w\<lparr>mw_intents := mw_intents w @ [i]\<rparr>)
     | Some j \<Rightarrow> (if j = i then Ok () else Err DuplicateStored, w))"

definition mem_ports :: "mem_world ports" where
  "mem_ports =
    \<lparr>po_get_intent = mem_get_intent, po_put_intent = mem_put_intent,
     po_get_state = (\<lambda>t r w. (Ok (map_of (mw_states w) (None, r)), w)),
     po_get_subject_state = (\<lambda>t s r w. (Ok (map_of (mw_states w) (Some s, r)), w)),
     po_tenant_exists = (\<lambda>t w. (Ok (t = ''t''), w)), po_trustgrant = [],
     po_begin = (\<lambda>t w. (Ok \<lparr>th_commit = (\<lambda>w. (Ok (), w)), th_rollback = (\<lambda>w. (Ok (), w))\<rparr>, w)),
     po_begin_multi = (\<lambda>ts w. (Ok \<lparr>th_commit = (\<lambda>w. (Ok (), w)), th_rollback = (\<lambda>w. (Ok (), w))\<rparr>, w))\<rparr>"

definition mem_executor :: "mem_world executor" where
  "mem_executor =
    \<lparr>ex_ports = mem_ports, ex_profiles = baseline, ex_executor = ''svc'', ex_now = (\<lambda>w. (10, w)),
     ex_event_id_fn =
       (\<lambda>w. (''evt_'' @ nat_to_string (mw_counter w), w\<lparr>mw_counter := Suc (mw_counter w)\<rparr>)),
     ex_intent_verifier = (\<lambda>block bytes. Ok ())\<rparr>"

definition mem_codec :: codec where
  "mem_codec =
    \<lparr>cd_intent_bytes = (\<lambda>i. Ok [0]), cd_state_bytes = (\<lambda>s. Ok [0]),
     cd_aggregate_bytes = (\<lambda>d pol ds. Ok [0]), cd_sha256 = (\<lambda>bytes. replicate 32 0)\<rparr>"

definition mem_sink :: "mem_world batch_sink" where
  "mem_sink intents events w = (Ok (), w\<lparr>mw_stored := mw_stored w @ events\<rparr>)"

text \<open>Alice holds 100 gold, bob holds 5.\<close>

definition mem_start :: mem_world where
  "mem_start =
    \<lparr>mw_intents = [],
     mw_states = [((Some ''alice'', ''purse''), ex_projection ''purse'' (ex_balance ''alice'' 100)),
       ((Some ''bob'', ''purse''), ex_projection ''purse'' (ex_balance ''bob'' 5))],
     mw_counter = 0, mw_stored = []\<rparr>"

definition mem_intent :: "string \<Rightarrow> operation \<Rightarrow> (string \<times> string) list \<Rightarrow> validated_intent" where
  "mem_intent intent_id op inputs =
    from_intent ((ex_intent intent_id op ''purse'' (map (\<lambda>(k, v). (k, JString v)) inputs))
      \<lparr>in_state_type := Some FungibleBalanceT\<rparr>) None"

definition mem_transfer :: validated_intent where
  "mem_transfer = mem_intent ''int_1'' ''balance.transfer'' [(''amount'', ''30''), (''to_subject'', ''bob'')]"

definition mem_run :: "(mem_world, 'a) run \<Rightarrow> ('a, executor_error) result" where
  "mem_run m = fst (m mem_start)"

lemma mem_transfer_events:
  "map_ok (map (\<lambda>e. (ev_event_id e, sc_state (ev_before e), sc_state (ev_after e))))
     (mem_run (execute mem_codec mem_executor mem_transfer)) =
   Ok [(''evt_0'', ex_balance ''alice'' 100, ex_balance ''alice'' 70),
       (''evt_1'', ex_balance ''bob'' 5, ex_balance ''bob'' 35)]"
  by code_simp

lemma mem_transfer_runs:
  "\<exists>debit credit w'. execute_inner mem_codec mem_executor mem_transfer False True mem_start =
    (Ok [debit, credit], w')"
proof -
  have "case execute_inner mem_codec mem_executor mem_transfer False True mem_start of
      (Ok [debit, credit], w') \<Rightarrow> True | _ \<Rightarrow> False" by code_simp
  then show ?thesis by (auto split: prod.splits result.splits list.splits)
qed

text \<open>The same transfer under an authority that allowed it at time 7.\<close>

definition granting_member :: "mem_world trustgrant_port" where
  "granting_member =
    \<lparr>tg_evaluate = (\<lambda>t s op r w.
       (Ok \<lparr>to_evaluation_digest = replicate 32 1, to_result = Allow, to_evaluated_at = 7\<rparr>, w)),
     tg_check_revocation_freshness = (\<lambda>proof w. (Ok (), w))\<rparr>"

definition granted_executor :: "mem_world executor" where
  "granted_executor = mem_executor\<lparr>ex_ports := mem_ports\<lparr>po_trustgrant := [granting_member]\<rparr>\<rparr>"

definition granted_transfer :: validated_intent where
  "granted_transfer = mem_transfer\<lparr>vi_intent := (vi_intent mem_transfer)\<lparr>in_authority := Some
    \<lparr>ap_kind = ''trustgrant.evaluation'', ap_evaluation_digest = replicate 32 1, ap_result = Allow,
     ap_evaluated_at = 5\<rparr>\<rparr>\<rparr>"

lemma granted_transfer_runs:
  "\<exists>e rest w' proof. execute_inner mem_codec granted_executor granted_transfer False True mem_start =
    (Ok (e # rest), w') \<and> ev_authority e = Some proof"
proof -
  have "case execute_inner mem_codec granted_executor granted_transfer False True mem_start of
      (Ok (e # rest), w') \<Rightarrow> ev_authority e \<noteq> None | _ \<Rightarrow> False" by code_simp
  then show ?thesis by (auto split: prod.splits result.splits list.splits)
qed

end
