(* ===== verification/Executor_Safety.thy ===== *)
theory Executor_Safety
  imports Executor_Examples Quantity_Lifecycle Status_Lifecycle
begin

text \<open>
  What the execution pipeline guarantees, whatever the ports answer: every emitted event is a step of
  the intent's profile on the state that was read, at the version the intent expects; authority is
  bound when the profile asks for it; replays emit nothing; a failed execution claims nothing; a batch
  is all or nothing.
\<close>

section \<open>How a sequence of port calls succeeds or fails\<close>

named_theorems run_simps \<open>when a sequence of port calls returns normally\<close>

lemma then_run_Ok [run_simps]:
  "then_run m f w = (Ok y, w2) \<longleftrightarrow> (\<exists>x w1. m w = (Ok x, w1) \<and> f x w1 = (Ok y, w2))"
  by (auto simp: then_run_def split: prod.splits result.splits)

lemma yield_Ok [run_simps]: "yield x w = (Ok y, w') \<longleftrightarrow> y = x \<and> w' = w"
  by (auto simp: yield_def)

lemma pure_Ok [run_simps]: "pure r w = (Ok y, w') \<longleftrightarrow> r = Ok y \<and> w' = w"
  by (auto simp: pure_def)

lemma on_err_Ok [run_simps]: "on_err g m w = (Ok y, w') \<longleftrightarrow> m w = (Ok y, w')"
  by (auto simp: on_err_def split: prod.splits)

lemma observe_Ok [run_simps]: "observe f w = (Ok y, w') \<longleftrightarrow> f w = (y, w')"
  by (auto simp: observe_def split: prod.splits)

lemma outcome_Ok [run_simps]: "outcome m w = (Ok r, w') \<longleftrightarrow> m w = (r, w')"
  by (auto simp: outcome_def split: prod.splits)

section \<open>One execution\<close>

lemma emit_event_Ok:
  assumes "emit_event ex i resource commits authority w = (Ok e, w')"
  shows "ev_tenant_id e = in_tenant_id i" "ev_intent_id e = in_intent_id i"
    "ev_operation e = in_operation i" "ev_resource_id e = resource" "ev_actor e = in_actor i"
    "ev_before e = fst commits" "ev_after e = snd commits" "ev_authority e = authority"
    "ev_executor e = ex_executor ex"
  using assms by (auto simp: emit_event_def run_simps event_new_def)

lemma commitments_Ok:
  assumes "commitments cd pol current after = Ok (b, a)"
  shows "sc_state a = after" "sc_version b = (case current of Some c \<Rightarrow> sp_version c | None \<Rightarrow> 0)"
    "unat (sc_version a) = Suc (unat (sc_version b))"
    "digest_state cd after = Ok (sc_state_hash a)"
    "current = Some c \<Longrightarrow> sc_state b = sp_state c \<and> sc_state_hash b = sp_state_hash c"
    "current = None \<Longrightarrow> unborn_state pol after = Ok (sc_state b) \<and> digest_state cd (sc_state b) = Ok (sc_state_hash b)"
  using assms
  by (auto simp: commitments_def Let_def checked_simps split: option.splits)

text \<open>The route, the state read, the gates passed and the reducer's result behind a list of events.\<close>

definition accepted ::
  "codec \<Rightarrow> 'w executor \<Rightarrow> intent \<Rightarrow> state_type \<Rightarrow> profile_rules \<Rightarrow> state_projection option \<Rightarrow>
    resource_state \<Rightarrow> authority_proof option \<Rightarrow> bool" where
  "accepted cd ex i st rules current after authority \<longleftrightarrow>
    in_state_type i = Some st \<and> resolve (ex_profiles ex) st (in_inputs i) = Ok rules \<and>
    (\<exists>w1 w2. load_current ex (pr_execution_policy rules) i w1 = (Ok current, w2)) \<and>
    check_state_type st current = Ok () \<and> check_expected_version i current = Ok () \<and>
    check_access (pr_execution_policy rules) i current = Ok () \<and>
    (\<exists>w1 w2. authority_gate cd ex rules i w1 = (Ok authority, w2)) \<and>
    reduce rules st i current = Ok after"

lemma route_Ok:
  "route ex i allow = Ok (st, rules) \<Longrightarrow>
    in_state_type i = Some st \<and> resolve (ex_profiles ex) st (in_inputs i) = Ok rules"
  by (auto simp: route_def)

lemma execute_inner_events:
  assumes "execute_inner cd ex vi allow persist w = (Ok events, w')" "events \<noteq> []"
  shows "\<exists>st rules current after authority w1 w2.
    accepted cd ex (vi_intent vi) st rules current after authority \<and>
    produce_events cd ex rules (vi_intent vi) current after authority w1 = (Ok events, w2)"
  using assms
  by (fastforce simp: execute_inner_def Let_def run_simps transition_def accepted_def dest: route_Ok
      split: if_splits)

lemma produce_events_Ok:
  assumes "produce_events cd ex rules i current after authority w = (Ok events, w')"
  obtains e rest b a w1 w2 where "events = e # rest"
    "commitments cd (pr_execution_policy rules) current after = Ok (b, a)"
    "emit_event ex i (in_resource_id i) (b, a) authority w1 = (Ok e, w2)"
    "rest = [] \<or> (\<exists>target second w3 w4. rest = [second] \<and>
      companion_target (pr_execution_policy rules) i = Ok (Some target) \<and>
      companion_event cd ex (pr_execution_policy rules) i current target authority w3 = (Ok second, w4))"
  using assms
  by (fastforce simp: produce_events_def Let_def run_simps split: option.splits)

lemma reduce_Ok:
  assumes "reduce rules st i current = Ok after"
  shows "pr_check rules (in_operation i) current (in_inputs i) = Ok ()"
    "pr_apply rules current (in_operation i) (in_inputs i) = Ok after" "rs_state_type after = st"
  using assms by (auto simp: reduce_def split: if_splits resource_state.splits)

lemma expected_version_before:
  assumes "check_expected_version i current = Ok ()"
  shows "(case current of Some c \<Rightarrow> sp_version c | None \<Rightarrow> 0) = in_expected_version i"
  using assms by (auto simp: check_expected_version_def word_neq_0_conv [symmetric] split: option.splits if_splits)

text \<open>
  C4. Every accepted intent is one step of its profile.  When an execution emits events, the first
  event records the transition that the resolved profile's gates, check and reducer produce from the
  state the index returned; it starts at exactly the version the intent expects and ends at the next
  one; it carries the intent's tenant, id, operation, resource and actor; and at most one companion
  event follows it.
\<close>

theorem execution_is_profile_step:
  assumes "execute_inner cd ex vi allow persist w = (Ok events, w')" "events \<noteq> []"
    and "vi_intent vi = i"
  shows "\<exists>st rules current after e rest w1 w2.
    in_state_type i = Some st \<and> resolve (ex_profiles ex) st (in_inputs i) = Ok rules \<and>
    load_current ex (pr_execution_policy rules) i w1 = (Ok current, w2) \<and>
    (case current of
       None \<Rightarrow> rules_create rules i = Ok after
     | Some p \<Rightarrow> rules_step rules p i = Ok after \<and> sp_state_type p = st \<and>
         sc_state (ev_before e) = sp_state p \<and> sc_state_hash (ev_before e) = sp_state_hash p) \<and>
    events = e # rest \<and> length rest \<le> 1 \<and> sc_state (ev_after e) = after \<and>
    sc_version (ev_before e) = in_expected_version i \<and>
    unat (sc_version (ev_after e)) = Suc (unat (in_expected_version i)) \<and>
    ev_tenant_id e = in_tenant_id i \<and> ev_intent_id e = in_intent_id i \<and>
    ev_operation e = in_operation i \<and> ev_resource_id e = in_resource_id i \<and> ev_actor e = in_actor i"
proof -
  obtain st rules current after authority w1 w2 where acc: "accepted cd ex i st rules current after authority"
    and prod: "produce_events cd ex rules i current after authority w1 = (Ok events, w2)"
    using execute_inner_events [OF assms(1,2)] assms(3) by blast
  obtain e rest b a w3 w4 where ev: "events = e # rest"
    and com: "commitments cd (pr_execution_policy rules) current after = Ok (b, a)"
    and emit: "emit_event ex i (in_resource_id i) (b, a) authority w3 = (Ok e, w4)"
    and rest: "length rest \<le> 1"
    by (rule produce_events_Ok [OF prod]) auto
  note e = emit_event_Ok [OF emit] and c = commitments_Ok [OF com]
  have red: "reduce rules st i current = Ok after" and ver: "check_expected_version i current = Ok ()"
    and ty: "check_state_type st current = Ok ()"
    and acs: "check_access (pr_execution_policy rules) i current = Ok ()"
    using acc by (auto simp: accepted_def)
  have step: "case current of
       None \<Rightarrow> rules_create rules i = Ok after
     | Some p \<Rightarrow> rules_step rules p i = Ok after \<and> sp_state_type p = st \<and>
         sc_state (ev_before e) = sp_state p \<and> sc_state_hash (ev_before e) = sp_state_hash p"
    using reduce_Ok [OF red] acs ty e(6) c(5)
    by (auto simp: rules_create_Ok rules_step_Ok check_state_type_def split: option.splits if_splits)
  show ?thesis
    using acc step ev rest e c(1-3) expected_version_before [OF ver]
    unfolding accepted_def by (intro exI [of _ st] exI [of _ rules] exI [of _ current] exI [of _ after]) auto
qed

theorem execution_is_profile_step_witness:
  "\<exists>e rest w'. execute_inner mem_codec mem_executor mem_transfer False True mem_start = (Ok (e # rest), w') \<and>
    sc_version (ev_before e) = 1 \<and> unat (sc_version (ev_after e)) = 2"
proof -
  obtain debit credit w' where "execute_inner mem_codec mem_executor mem_transfer False True mem_start =
      (Ok [debit, credit], w')" using mem_transfer_runs by blast
  moreover from execution_is_profile_step [OF this _ refl] have "sc_version (ev_before debit) = 1"
    "unat (sc_version (ev_after debit)) = 2"
    by (auto simp: mem_transfer_def mem_intent_def from_intent_def ex_intent_def)
  ultimately show ?thesis by blast
qed

section \<open>Authority\<close>

text \<open>A member of the authority set allowed the intent, no earlier than the time stated.\<close>

definition vouches :: "intent \<Rightarrow> timestamp \<Rightarrow> 'w trustgrant_port \<Rightarrow> bool" where
  "vouches i since m \<longleftrightarrow>
    (\<exists>w1 w2 got. tg_evaluate m (in_tenant_id i) (in_actor i) (in_operation i) (in_resource_id i) w1 =
       (Ok got, w2) \<and> to_result got = Allow \<and> since \<le> to_evaluated_at got)"

lemma count_evaluation_cases:
  "ta_denied (count_evaluation r t) \<or> ta_stale (count_evaluation r t) \<or>
     ta_unavailable (count_evaluation r t) \<noteq> None \<or>
     (\<exists>got. r = Ok got \<and> to_result got = Allow)"
  by (auto simp: count_evaluation_def split: result.splits trustgrant_error.splits)

lemma count_evaluation_mono:
  "ta_denied t \<Longrightarrow> ta_denied (count_evaluation r t)" "ta_stale t \<Longrightarrow> ta_stale (count_evaluation r t)"
  "ta_unavailable t \<noteq> None \<Longrightarrow> ta_unavailable (count_evaluation r t) \<noteq> None"
  "set (ta_outcomes t) \<subseteq> set (ta_outcomes (count_evaluation r t))"
  "r = Ok got \<Longrightarrow> to_result got = Allow \<Longrightarrow> got \<in> set (ta_outcomes (count_evaluation r t))"
  by (auto simp: count_evaluation_def split: result.splits trustgrant_error.splits)

lemma count_evaluation_outcomes:
  "got \<in> set (ta_outcomes (count_evaluation r t)) \<Longrightarrow>
    got \<in> set (ta_outcomes t) \<or> r = Ok got \<and> to_result got = Allow"
  by (auto simp: count_evaluation_def split: result.splits trustgrant_error.splits if_splits)

lemma evaluate_members_mono:
  "evaluate_members ms i t w = (Ok t', w') \<Longrightarrow>
    set (ta_outcomes t) \<subseteq> set (ta_outcomes t') \<and> (ta_denied t \<longrightarrow> ta_denied t') \<and>
    (ta_stale t \<longrightarrow> ta_stale t') \<and> (ta_unavailable t \<noteq> None \<longrightarrow> ta_unavailable t' \<noteq> None)"
proof (induction ms arbitrary: t w)
  case Nil
  then show ?case by (auto simp: run_simps)
next
  case (Cons m ms)
  then obtain r w1 where "evaluate_members ms i (count_evaluation r t) w1 = (Ok t', w')"
    by (auto simp: run_simps)
  from Cons.IH [OF this] count_evaluation_mono(1-4) [of t r] show ?case by blast
qed

lemma evaluate_members_all:
  assumes "evaluate_members ms i t w = (Ok t', w')" "\<not> ta_denied t'" "\<not> ta_stale t'"
    "ta_unavailable t' = None" "\<forall>got\<in>set (ta_outcomes t'). since \<le> to_evaluated_at got"
  shows "\<forall>m\<in>set ms. vouches i since m"
  using assms(1)
proof (induction ms arbitrary: t w)
  case (Cons m ms)
  then obtain r w1 where ev: "tg_evaluate m (in_tenant_id i) (in_actor i) (in_operation i)
      (in_resource_id i) w = (r, w1)"
    and rest: "evaluate_members ms i (count_evaluation r t) w1 = (Ok t', w')"
    by (auto simp: run_simps)
  note mono = evaluate_members_mono [OF rest]
  obtain got where got: "r = Ok got" "to_result got = Allow"
    using count_evaluation_cases [of r t] mono assms(2-4) by blast
  have "got \<in> set (ta_outcomes t')" using count_evaluation_mono(5) [OF got] mono by blast
  with assms(5) ev got have "vouches i since m" by (auto simp: vouches_def)
  with Cons.IH [OF rest] show ?case by simp
qed simp

lemma evaluate_members_outcomes:
  assumes "evaluate_members ms i t w = (Ok t', w')" "got \<in> set (ta_outcomes t')"
    "since \<le> to_evaluated_at got"
  shows "got \<in> set (ta_outcomes t) \<or> (\<exists>m\<in>set ms. vouches i since m)"
  using assms(1)
proof (induction ms arbitrary: t w)
  case Nil
  with assms(2) show ?case by (auto simp: run_simps)
next
  case (Cons m ms)
  then obtain r w1 where ev: "tg_evaluate m (in_tenant_id i) (in_actor i) (in_operation i)
      (in_resource_id i) w = (r, w1)"
    and rest: "evaluate_members ms i (count_evaluation r t) w1 = (Ok t', w')"
    by (auto simp: run_simps)
  from Cons.IH [OF rest] count_evaluation_outcomes [of got r t] ev assms(3) show ?case
    by (auto simp: vouches_def)
qed

lemma fold_min_le: "fold min ts t \<le> (t :: timestamp) \<and> (\<forall>x\<in>set ts. fold min ts t \<le> x)"
proof (induction ts arbitrary: t)
  case (Cons a ts)
  from Cons [of "min a t"] show ?case by auto
qed simp

lemma earliest_le:
  "earliest ex moments w = (Ok t, w') \<Longrightarrow> moments \<noteq> [] \<Longrightarrow> \<forall>x\<in>set moments. t \<le> x"
  using fold_min_le by (auto simp: earliest_def run_simps split: list.splits)

lemma authority_gate_Ok:
  assumes "authority_gate cd ex rules i w = (Ok authority, w')"
  shows "pr_requires_authority rules (in_operation i) \<Longrightarrow> authority \<noteq> None"
    and "authority = Some proof \<Longrightarrow> in_authority i \<noteq> None \<and> ap_result proof = Allow \<and>
      (\<exists>m\<in>set (po_trustgrant (ex_ports ex)). vouches i (ap_evaluated_at proof) m) \<and>
      (pr_authority_policy rules (in_operation i) = RequireAll \<longrightarrow>
        (\<forall>m\<in>set (po_trustgrant (ex_ports ex)). vouches i (ap_evaluated_at proof) m))"
proof -
  show "pr_requires_authority rules (in_operation i) \<Longrightarrow> authority \<noteq> None"
    using assms by (auto simp: authority_gate_def Let_def run_simps split: if_splits)
  assume some: "authority = Some proof"
  let ?ms = "po_trustgrant (ex_ports ex)" and ?pol = "pr_authority_policy rules (in_operation i)"
    and ?t0 = "\<lparr>ta_outcomes = [], ta_denied = False, ta_stale = False, ta_unavailable = None\<rparr>"
  obtain t w1 w2 where ne: "in_authority i \<noteq> None" "?ms \<noteq> []"
    and ev: "evaluate_members ?ms i ?t0 w = (Ok t, w1)" and pass: "tally_passes ?pol t"
    and early: "earliest ex (map to_evaluated_at (ta_outcomes t)) w1 = (Ok (ap_evaluated_at proof), w2)"
    and allow: "ap_result proof = Allow"
    using assms some by (auto simp: authority_gate_def Let_def run_simps split: if_splits)
  have all: "\<forall>got\<in>set (ta_outcomes t). ap_evaluated_at proof \<le> to_evaluated_at got"
  proof (cases "ta_outcomes t = []")
    case False
    then show ?thesis using earliest_le [OF early] by simp
  qed simp
  have req: "\<forall>m\<in>set ?ms. vouches i (ap_evaluated_at proof) m" if "?pol = RequireAll"
    using evaluate_members_all [OF ev _ _ _ all] pass that by simp
  have any: "\<exists>m\<in>set ?ms. vouches i (ap_evaluated_at proof) m"
  proof (cases ?pol)
    case RequireAll
    with req ne(2) show ?thesis by (cases ?ms) auto
  next
    case AnyOf
    with pass obtain got where "got \<in> set (ta_outcomes t)" by (cases "ta_outcomes t") auto
    with evaluate_members_outcomes [OF ev this] all show ?thesis by auto
  qed
  show "in_authority i \<noteq> None \<and> ap_result proof = Allow \<and>
      (\<exists>m\<in>set ?ms. vouches i (ap_evaluated_at proof) m) \<and>
      (?pol = RequireAll \<longrightarrow> (\<forall>m\<in>set ?ms. vouches i (ap_evaluated_at proof) m))"
    using ne(1) allow any req by blast
qed

lemma companion_event_emitted:
  assumes "companion_event cd ex pol i current target authority w = (Ok e, w')"
  obtains source destination after b a w1 w2 w3 where "current = Some source"
    "load_state ex (in_tenant_id i) (sa_subject target) (sa_resource target) w = (Ok destination, w1)"
    "apply_companion pol i source destination = Ok after"
    "commitments cd pol destination after = Ok (b, a)"
    "emit_event ex i (sa_resource target) (b, a) authority w2 = (Ok e, w3)"
  using assms by (fastforce simp: companion_event_def run_simps)

lemma events_bind_intent:
  assumes "produce_events cd ex rules i current after authority w = (Ok events, w')"
  shows "\<forall>e\<in>set events. ev_authority e = authority \<and> ev_tenant_id e = in_tenant_id i \<and>
    ev_intent_id e = in_intent_id i \<and> ev_operation e = in_operation i \<and> ev_actor e = in_actor i"
proof -
  obtain e rest b a w1 w2 where ev: "events = e # rest"
    and first: "emit_event ex i (in_resource_id i) (b, a) authority w1 = (Ok e, w2)"
    and rest: "rest = [] \<or> (\<exists>target second w3 w4. rest = [second] \<and>
      companion_target (pr_execution_policy rules) i = Ok (Some target) \<and>
      companion_event cd ex (pr_execution_policy rules) i current target authority w3 = (Ok second, w4))"
    by (rule produce_events_Ok [OF assms])
  have "\<forall>second\<in>set rest. \<exists>resource commits w3 w4.
      emit_event ex i resource commits authority w3 = (Ok second, w4)"
    using rest by (auto elim!: companion_event_emitted) blast
  with ev first have all: "\<forall>x\<in>set events. \<exists>resource commits w3 w4.
      emit_event ex i resource commits authority w3 = (Ok x, w4)" by (auto, blast)
  show ?thesis
  proof
    fix x assume "x \<in> set events"
    with all obtain resource commits w3 w4 where
      "emit_event ex i resource commits authority w3 = (Ok x, w4)" by blast
    from emit_event_Ok [OF this] show "ev_authority x = authority \<and> ev_tenant_id x = in_tenant_id i \<and>
        ev_intent_id x = in_intent_id i \<and> ev_operation x = in_operation i \<and> ev_actor x = in_actor i"
      by simp
  qed
qed

text \<open>
  C6. No authority, no event.  Every event of an intent whose operation needs authority carries a
  proof.  Any proof an event carries says allow and rests on evaluations of this very actor,
  operation and resource: at least one member of the configured authority set allowed it, every
  member did when the profile requires all, and none of them before the time the proof states.
\<close>

theorem authority_is_bound:
  assumes "execute_inner cd ex vi allow persist w = (Ok events, w')" "e \<in> set events"
    and "vi_intent vi = i"
  shows "\<exists>st rules. in_state_type i = Some st \<and> resolve (ex_profiles ex) st (in_inputs i) = Ok rules \<and>
    (pr_requires_authority rules (in_operation i) \<longrightarrow> ev_authority e \<noteq> None) \<and>
    (\<forall>proof. ev_authority e = Some proof \<longrightarrow>
      in_authority i \<noteq> None \<and> ap_result proof = Allow \<and>
      (\<exists>m\<in>set (po_trustgrant (ex_ports ex)). vouches i (ap_evaluated_at proof) m) \<and>
      (pr_authority_policy rules (in_operation i) = RequireAll \<longrightarrow>
        (\<forall>m\<in>set (po_trustgrant (ex_ports ex)). vouches i (ap_evaluated_at proof) m)))"
proof -
  have "events \<noteq> []" using assms(2) by auto
  then obtain st rules current after authority w1 w2 where
    acc: "accepted cd ex i st rules current after authority"
    and prod: "produce_events cd ex rules i current after authority w1 = (Ok events, w2)"
    using execute_inner_events [OF assms(1)] assms(3) by blast
  obtain w3 w4 where gate: "authority_gate cd ex rules i w3 = (Ok authority, w4)"
    using acc by (auto simp: accepted_def)
  have "ev_authority e = authority" using events_bind_intent [OF prod] assms(2) by blast
  moreover have "in_state_type i = Some st" "resolve (ex_profiles ex) st (in_inputs i) = Ok rules"
    using acc by (auto simp: accepted_def)
  ultimately show ?thesis
    using authority_gate_Ok [OF gate] by (intro exI [of _ st] exI [of _ rules]) simp
qed

theorem authority_is_bound_witness:
  "\<exists>e rest w' proof. execute_inner mem_codec granted_executor granted_transfer False True mem_start =
      (Ok (e # rest), w') \<and> ev_authority e = Some proof \<and> ap_result proof = Allow \<and>
    (\<exists>m\<in>set (po_trustgrant (ex_ports granted_executor)).
      vouches (vi_intent granted_transfer) (ap_evaluated_at proof) m)"
proof -
  obtain e rest w' p where run: "execute_inner mem_codec granted_executor granted_transfer False True
      mem_start = (Ok (e # rest), w')" "ev_authority e = Some p"
    using granted_transfer_runs by blast
  from authority_is_bound [OF run(1) list.set_intros(1) refl] run show ?thesis by blast
qed

section \<open>Replays, and what is claimed\<close>

text \<open>
  Idempotency: once an intent passed the size and expiry checks and its id is found in the intent
  store, nothing is emitted and nothing else is consulted.  The answer is success exactly when the
  stored intent is the same in every field, and a duplicate error otherwise.
\<close>

theorem replay_is_silent:
  assumes "admit cd ex (vi_intent vi) w = (Ok bytes, w1)"
    and "po_get_intent (ex_ports ex) (in_tenant_id (vi_intent vi)) (in_intent_id (vi_intent vi)) w1 =
      (Ok (Some stored), w2)"
  shows "execute_inner cd ex vi allow persist w =
    (if stored = vi_intent vi then Ok [] else Err (DuplicateIntent (in_intent_id (vi_intent vi))), w2)"
  using assms
  by (simp add: execute_inner_def Let_def then_run_def find_replay_def on_err_def pure_def yield_def
      check_idempotency_existing_def)

theorem replay_is_silent_witness:
  "fst (execute_inner mem_codec mem_executor mem_transfer False True
     (mem_start\<lparr>mw_intents := [vi_intent mem_transfer]\<rparr>)) = Ok []"
proof -
  let ?w = "mem_start\<lparr>mw_intents := [vi_intent mem_transfer]\<rparr>"
  have "admit mem_codec mem_executor (vi_intent mem_transfer) ?w = (Ok [0], ?w)"
    by code_simp
  moreover have "po_get_intent (ex_ports mem_executor) (in_tenant_id (vi_intent mem_transfer))
      (in_intent_id (vi_intent mem_transfer)) ?w = (Ok (Some (vi_intent mem_transfer)), ?w)"
    by (simp add: mem_executor_def mem_ports_def mem_get_intent_def)
  ultimately show ?thesis by (simp add: replay_is_silent)
qed

text \<open>A view of the world that a port call leaves alone.\<close>

definition keeps :: "('w \<Rightarrow> 'c) \<Rightarrow> ('w, 'a, 'e) port \<Rightarrow> bool" where
  "keeps view m \<longleftrightarrow> (\<forall>w. view (snd (m w)) = view w)"

text \<open>
  The view is changed by storing an intent only: every other port, the clock and the id generator
  leave it alone, and so does a call that fails to store.
\<close>

definition only_claims_change :: "('w \<Rightarrow> 'c) \<Rightarrow> 'w executor \<Rightarrow> bool" where
  "only_claims_change view ex \<longleftrightarrow>
    (\<forall>w. view (snd (ex_now ex w)) = view w) \<and> (\<forall>w. view (snd (ex_event_id_fn ex w)) = view w) \<and>
    (\<forall>t k. keeps view (po_get_intent (ex_ports ex) t k)) \<and>
    (\<forall>t r. keeps view (po_get_state (ex_ports ex) t r)) \<and>
    (\<forall>t s r. keeps view (po_get_subject_state (ex_ports ex) t s r)) \<and>
    (\<forall>t. keeps view (po_tenant_exists (ex_ports ex) t)) \<and>
    (\<forall>m\<in>set (po_trustgrant (ex_ports ex)).
      (\<forall>t s op r. keeps view (tg_evaluate m t s op r)) \<and>
      (\<forall>p. keeps view (tg_check_revocation_freshness m p))) \<and>
    (\<forall>t i w e w'. po_put_intent (ex_ports ex) t i w = (Err e, w') \<longrightarrow> view w' = view w)"

lemma keeps_then_run:
  "keeps view m \<Longrightarrow> (\<And>x. keeps view (f x)) \<Longrightarrow> keeps view (then_run m f)"
  unfolding keeps_def
proof
  fix w
  assume m: "\<forall>w. view (snd (m w)) = view w" and f: "\<And>x. \<forall>w. view (snd (f x w)) = view w"
  obtain r w' where "m w = (r, w')" by fastforce
  with m f show "view (snd (then_run m f w)) = view w"
    by (cases r) (auto simp: then_run_def dest: spec [of _ w])
qed

lemma keeps_basic [simp]:
  "keeps view (yield x)" "keeps view (pure r)" "keeps view (on_err g m) = keeps view m"
  "keeps view (outcome m) = keeps view m" "keeps view (observe f) \<longleftrightarrow> (\<forall>w. view (snd (f w)) = view w)"
  by (simp_all add: keeps_def yield_def pure_def on_err_def outcome_def observe_def split_beta)

named_theorems quiet_stages \<open>stages of an execution that leave a view of the world alone\<close>

lemma quiet_ports [quiet_stages]:
  assumes "only_claims_change view ex"
  shows "keeps view (observe (ex_now ex))" "keeps view (observe (ex_event_id_fn ex))"
    "keeps view (po_get_intent (ex_ports ex) t k)" "keeps view (po_get_state (ex_ports ex) t r)"
    "keeps view (po_get_subject_state (ex_ports ex) t s r)" "keeps view (po_tenant_exists (ex_ports ex) t)"
  using assms by (auto simp: only_claims_change_def)

lemma quiet_admit [quiet_stages]: "only_claims_change view ex \<Longrightarrow> keeps view (admit cd ex i)"
  unfolding admit_def by (intro keeps_then_run keeps_basic(1,2) quiet_stages)

lemma quiet_replay [quiet_stages]: "only_claims_change view ex \<Longrightarrow> keeps view (find_replay ex i)"
  unfolding find_replay_def
  by (auto intro!: keeps_then_run quiet_stages split: option.split)

lemma quiet_freshness [quiet_stages]:
  "only_claims_change view ex \<Longrightarrow> keeps view (check_primary_freshness ex proof)"
  by (auto simp: check_primary_freshness_def only_claims_change_def split: list.split)

lemma quiet_authenticate [quiet_stages]:
  "only_claims_change view ex \<Longrightarrow> keeps view (authenticate ex vi bytes)"
  unfolding authenticate_def by (auto intro!: keeps_then_run quiet_stages split: option.split)

lemma quiet_tenant [quiet_stages]: "only_claims_change view ex \<Longrightarrow> keeps view (check_tenant ex i)"
  unfolding check_tenant_def by (auto intro!: keeps_then_run quiet_stages)

lemma quiet_load [quiet_stages]:
  "only_claims_change view ex \<Longrightarrow> keeps view (load_state ex t s r)"
  "only_claims_change view ex \<Longrightarrow> keeps view (load_current ex pol i)"
  unfolding load_current_def load_state_def
  by (auto intro!: keeps_then_run quiet_stages split: option.split)

lemma quiet_members:
  assumes "only_claims_change view ex" "set ms \<subseteq> set (po_trustgrant (ex_ports ex))"
  shows "keeps view (evaluate_members ms i t)"
  using assms(2)
proof (induction ms arbitrary: t)
  case (Cons m ms)
  have "keeps view (tg_evaluate m (in_tenant_id i) (in_actor i) (in_operation i) (in_resource_id i))"
    using assms(1) Cons.prems by (auto simp: only_claims_change_def)
  with Cons show ?case by (auto intro!: keeps_then_run)
qed simp

lemma quiet_gate [quiet_stages]: "only_claims_change view ex \<Longrightarrow> keeps view (authority_gate cd ex rules i)"
  unfolding authority_gate_def Let_def earliest_def
  by (auto intro!: keeps_then_run quiet_members quiet_stages split: list.split)

lemma quiet_emit [quiet_stages]:
  "only_claims_change view ex \<Longrightarrow> keeps view (emit_event ex i resource commits authority)"
  unfolding emit_event_def by (auto intro!: keeps_then_run quiet_stages)

lemma quiet_produce [quiet_stages]:
  "only_claims_change view ex \<Longrightarrow> keeps view (produce_events cd ex rules i current after authority)"
  unfolding produce_events_def companion_event_def Let_def
  by (auto intro!: keeps_then_run quiet_stages split: option.split)

lemma quiet_transition [quiet_stages]:
  "only_claims_change view ex \<Longrightarrow> keeps view (transition cd ex st rules i)"
  unfolding transition_def by (auto intro!: keeps_then_run quiet_stages)

text \<open>The same for the calls that fail.\<close>

definition keeps_on_error :: "('w \<Rightarrow> 'c) \<Rightarrow> ('w, 'a, 'e) port \<Rightarrow> bool" where
  "keeps_on_error view m \<longleftrightarrow> (\<forall>w e w'. m w = (Err e, w') \<longrightarrow> view w' = view w)"

lemma keepsD: "keeps view m \<Longrightarrow> m w = (r, w') \<Longrightarrow> view w' = view w"
  unfolding keeps_def by (drule spec [of _ w]) simp

lemma keeps_on_errorI [intro]: "keeps view m \<Longrightarrow> keeps_on_error view m"
  by (auto simp: keeps_on_error_def dest: keepsD)

lemma keeps_on_error_then_run:
  assumes "keeps view m" "\<And>x. keeps_on_error view (f x)"
  shows "keeps_on_error view (then_run m f)"
  unfolding keeps_on_error_def
proof (intro allI impI)
  fix w e w' assume run: "then_run m f w = (Err e, w')"
  obtain r w1 where m: "m w = (r, w1)" by fastforce
  have "view w1 = view w" using assms(1) m by (rule keepsD)
  with run m assms(2) show "view w' = view w"
    by (cases r) (auto simp: then_run_def keeps_on_error_def)
qed

lemma keeps_on_error_yield:
  "keeps_on_error view m \<Longrightarrow> keeps_on_error view (then_run m (\<lambda>_. yield x))"
  by (auto simp: keeps_on_error_def then_run_def yield_def split: prod.splits result.splits)

lemma quiet_failure:
  assumes "only_claims_change view ex"
  shows "keeps_on_error view (execute_inner cd ex vi allow persist)"
    and "\<not> persist \<Longrightarrow> keeps view (execute_inner cd ex vi allow persist)"
proof -
  have "keeps_on_error view (claim ex (vi_intent vi) persist)"
    using assms
    by (auto simp: claim_def keeps_on_error_def on_err_def only_claims_change_def yield_def split: prod.splits)
  moreover define finish where
    "finish = (\<lambda>events. then_run (claim ex (vi_intent vi) persist) (\<lambda>_. yield events :: ('a, event list) run))"
  ultimately have "keeps_on_error view (finish events)" for events
    by (simp add: keeps_on_error_yield)
  then show "keeps_on_error view (execute_inner cd ex vi allow persist)"
    unfolding execute_inner_def Let_def finish_def [symmetric] using assms
    by (auto intro!: keeps_on_error_then_run quiet_stages keeps_on_errorI [OF keeps_basic(1)]
        split: prod.split)
  assume "\<not> persist"
  then show "keeps view (execute_inner cd ex vi allow persist)"
    unfolding execute_inner_def Let_def claim_def using assms
    by (auto intro!: keeps_then_run quiet_stages split: prod.split)
qed

text \<open>
  C25. A failed execution claims nothing: as long as the intent store changes only when an intent is
  stored, an execution that ends in an error, and one that was asked not to store its intent, leave
  the store as it was.  A rejected request cannot use up its intent id.
\<close>

theorem failed_execution_claims_nothing:
  assumes "only_claims_change view ex" "execute_inner cd ex vi allow persist w = (r, w')"
    and "(\<exists>e. r = Err e) \<or> \<not> persist"
  shows "view w' = view w"
  using assms(3)
proof
  assume "\<exists>e. r = Err e"
  with quiet_failure(1) [OF assms(1), of cd vi allow persist] assms(2) show ?thesis
    by (auto simp: keeps_on_error_def)
next
  assume "\<not> persist"
  then have "keeps view (execute_inner cd ex vi allow persist)" by (rule quiet_failure(2) [OF assms(1)])
  with assms(2) show ?thesis by (blast dest: keepsD)
qed

lemma mem_claims: "only_claims_change mw_intents mem_executor"
  by (auto simp: only_claims_change_def keeps_def mem_executor_def mem_ports_def mem_get_intent_def
      mem_put_intent_def split: option.splits if_splits)

theorem failed_execution_claims_nothing_witness:
  "mw_intents (snd (execute_inner mem_codec mem_executor
     (mem_intent ''int_1'' ''balance.debit'' [(''amount'', ''500'')]) False True mem_start)) = []"
proof -
  let ?run = "execute_inner mem_codec mem_executor
     (mem_intent ''int_1'' ''balance.debit'' [(''amount'', ''500'')]) False True mem_start"
  have "\<not> is_ok (fst ?run)" by code_simp
  then have "\<exists>e. fst ?run = Err e" by (simp add: not_is_ok_iff)
  with failed_execution_claims_nothing [OF mem_claims prod.collapse [symmetric]]
  have "mw_intents (snd ?run) = mw_intents mem_start" by blast
  then show ?thesis by (simp add: mem_start_def)
qed

section \<open>Batches\<close>

text \<open>The transaction manager leaves the view alone as well.\<close>

definition quiet_transactions :: "('w \<Rightarrow> 'c) \<Rightarrow> 'w executor \<Rightarrow> bool" where
  "quiet_transactions view ex \<longleftrightarrow>
    (\<forall>t. keeps view (po_begin (ex_ports ex) t)) \<and>
    (\<forall>t w h w'. po_begin (ex_ports ex) t w = (Ok h, w') \<longrightarrow>
      keeps view (th_commit h) \<and> keeps view (th_rollback h))"

lemma quiet_batch_run:
  "only_claims_change view ex \<Longrightarrow> keeps view (run_batch_fail_closed cd ex intents False)"
  by (induction intents) (auto intro!: keeps_then_run quiet_failure(2))

lemma quiet_conclude:
  assumes "\<forall>h. handle = Some h \<longrightarrow> keeps view (th_commit h) \<and> keeps view (th_rollback h)"
  shows "keeps view (conclude None handle intents flatten result)"
  using assms
  by (auto simp: conclude_def rollback_quietly_def intro!: keeps_then_run split: result.split option.split)

text \<open>
  A planning batch leaves no claims: without a durable sink, a batch, whether it succeeds, fails
  half way or is rolled back, leaves the intent store as it was.
\<close>

theorem planning_batch_claims_nothing:
  assumes "only_claims_change view ex" "quiet_transactions view ex"
    and "execute_batch cd ex intents w = (r, w')"
  shows "view w' = view w"
proof (cases intents)
  case Nil
  with assms(3) show ?thesis by (simp add: execute_batch_def execute_batch_inner_def pure_def)
next
  case (Cons first rest)
  let ?opening = "po_begin (ex_ports ex) (in_tenant_id (vi_intent first))"
  obtain got w1 where start: "?opening w = (got, w1)" by fastforce
  have v1: "view w1 = view w" using assms(2) start unfolding quiet_transactions_def by (blast dest: keepsD)
  show ?thesis
  proof (cases got)
    case (Err e)
    with assms(3) start Cons v1 show ?thesis
      by (simp add: execute_batch_def execute_batch_inner_def begin_unless_durable_def then_run_def on_err_def)
  next
    case (Ok h)
    have h: "keeps view (th_commit h) \<and> keeps view (th_rollback h)"
      using assms(2) start Ok unfolding quiet_transactions_def by blast
    let ?body = "then_run (outcome (run_batch_fail_closed cd ex intents False)) (\<lambda>ran.
         conclude None (Some h) intents (\<lambda>events. events)
           (and_then ran (\<lambda>events. map_ok (\<lambda>_. events) (validate_profile_batch ex intents events))))"
    have "keeps view ?body"
      using quiet_batch_run [OF assms(1)] h by (intro keeps_then_run quiet_conclude) auto
    moreover have "?body w1 = (r, w')"
      using assms(3) start Cons Ok
      by (simp add: execute_batch_def execute_batch_inner_def begin_unless_durable_def then_run_def
          [of "then_run _ _"] then_run_def [of "on_err _ _"] on_err_def yield_def)
    ultimately have "view w' = view w1" by (rule keepsD)
    with v1 show ?thesis by simp
  qed
qed

lemma mem_transactions: "quiet_transactions mw_intents mem_executor"
  by (auto simp: quiet_transactions_def keeps_def mem_executor_def mem_ports_def)

theorem planning_batch_claims_nothing_witness:
  "mw_intents (snd (execute_batch mem_codec mem_executor [mem_transfer] mem_start)) = []"
proof -
  have "mw_intents (snd (execute_batch mem_codec mem_executor [mem_transfer] mem_start)) =
      mw_intents mem_start"
    by (rule planning_batch_claims_nothing [OF mem_claims mem_transactions]) (rule prod.collapse [symmetric])
  then show ?thesis by (simp add: mem_start_def)
qed

lemma executed_events_bind_intent:
  assumes "execute_inner cd ex vi allow persist w = (Ok events, w')"
  shows "\<forall>e\<in>set events. ev_intent_id e = in_intent_id (vi_intent vi) \<and>
    ev_tenant_id e = in_tenant_id (vi_intent vi)"
proof (cases "events = []")
  case False
  then obtain st rules current after authority w1 w2 where
    "produce_events cd ex rules (vi_intent vi) current after authority w1 = (Ok events, w2)"
    using execute_inner_events [OF assms] by blast
  from events_bind_intent [OF this] show ?thesis by simp
qed simp

lemma run_batch_fail_closed_Ok:
  "run_batch_fail_closed cd ex intents persist w = (Ok events, w') \<Longrightarrow>
    \<exists>parts. events = concat parts \<and> list_all2 (\<lambda>vi part. part \<noteq> [] \<and>
      (\<forall>e\<in>set part. ev_intent_id e = in_intent_id (vi_intent vi) \<and>
        ev_tenant_id e = in_tenant_id (vi_intent vi))) intents parts"
proof (induction intents arbitrary: w events w')
  case Nil
  then show ?case by (auto simp: run_simps)
next
  case (Cons vi rest)
  then obtain produced more w1 w2 where first: "execute_inner cd ex vi False persist w = (Ok produced, w1)"
    and ne: "produced \<noteq> []" and run: "run_batch_fail_closed cd ex rest persist w1 = (Ok more, w2)"
    and ev: "events = produced @ more"
    by (auto simp: run_simps split: if_splits)
  from Cons.IH [OF run] obtain parts where "more = concat parts" and parts: "list_all2 (\<lambda>vi part. part \<noteq> [] \<and>
      (\<forall>e\<in>set part. ev_intent_id e = in_intent_id (vi_intent vi) \<and>
        ev_tenant_id e = in_tenant_id (vi_intent vi))) rest parts" by blast
  with ev have "events = concat (produced # parts)" by simp
  moreover have "list_all2 (\<lambda>vi part. part \<noteq> [] \<and>
      (\<forall>e\<in>set part. ev_intent_id e = in_intent_id (vi_intent vi) \<and>
        ev_tenant_id e = in_tenant_id (vi_intent vi))) (vi # rest) (produced # parts)"
    using ne parts executed_events_bind_intent [OF first] by simp
  ultimately show ?case by blast
qed

lemma profile_batch_loop_Ok:
  "profile_batch_loop ids tenant events = Ok () \<Longrightarrow>
    distinct (map ev_event_id events) \<and> set ids \<inter> set (map ev_event_id events) = {} \<and>
    (\<exists>t. (tenant = None \<or> tenant = Some t) \<and> (\<forall>e\<in>set events. ev_tenant_id e = t))"
proof (induction ids tenant events rule: profile_batch_loop.induct)
  case (1 ids tenant)
  then show ?case by (cases tenant) auto
next
  case (2 ids tenant e es)
  then have ids: "ev_event_id e \<notin> set ids" and ten: "tenant = None \<or> tenant = Some (ev_tenant_id e)"
    and rest: "profile_batch_loop (ev_event_id e # ids) (Some (ev_tenant_id e)) es = Ok ()"
    by (auto split: if_splits)
  from 2(1) [OF _ _ rest] ids ten show ?case by auto
qed

lemma conclude_Ok:
  "conclude sink handle intents flatten result w = (Ok v, w') \<Longrightarrow> result = Ok v"
  by (auto simp: conclude_def run_simps split: result.splits option.splits) (metis unit_result_cases)+



section \<open>Transfers\<close>

lemma baseline_resolve:
  assumes "resolve baseline st inputs = Ok rules"
  shows "st \<noteq> CustomT \<and> registry_get baseline st = Some rules"
  using assms by (auto simp: resolve_def baseline_def split: if_splits)

lemma baseline_rule_sets:
  assumes "resolve baseline st inputs = Ok rules"
  shows "pr_execution_policy rules = ResourceExecution st" "pr_apply rules = apply_transition"
    "pr_check rules op current i = Ok () \<Longrightarrow> op \<in> set (pr_allowed_operations rules)"
  using baseline_resolve [OF assms]
  by (cases st; auto simp: baseline_def unique_asset_rules_def consumable_stack_rules_def
      fungible_balance_rules_def entitlement_rules_def meter_rules_def listing_rules_def escrow_rules_def
      baseline_rules_def asset_check_op stack_check_op balance_check_op entitlement_check_op
      meter_check_op listing_check_op escrow_check_op)+

lemma transfer_operation_types:
  assumes "resolve baseline st inputs = Ok rules" "op \<in> set (pr_allowed_operations rules)"
    "is_transfer_operation op"
  shows "op = ''stack.transfer'' \<and> st = ConsumableStackT \<or> op = ''balance.transfer'' \<and> st = FungibleBalanceT"
  using baseline_resolve [OF assms(1)] assms(2,3)
  by (cases st) (auto simp: is_transfer_operation_def baseline_def unique_asset_rules_def
      consumable_stack_rules_def fungible_balance_rules_def entitlement_rules_def meter_rules_def
      listing_rules_def escrow_rules_def baseline_rules_def ua_ops_def entitlement_ops_def meter_ops_def
      listing_operations_def escrow_operations_def stack_ops_def balance_ops_def)

lemma empty_holding:
  "st \<in> {ConsumableStackT, FungibleBalanceT} \<Longrightarrow> empty_state_for st = Ok s \<Longrightarrow> holding s = 0"
  by (auto simp: empty_state_for_def)

lemma before_holding:
  assumes "commitments cd (ResourceExecution st) destination after = Ok (b, a)"
    "st \<in> {ConsumableStackT, FungibleBalanceT}"
  shows "holding (sc_state b) = (case destination of None \<Rightarrow> 0 | Some q \<Rightarrow> holding (sp_state q))"
proof (cases destination)
  case None
  with commitments_Ok(6) [OF assms(1)] show ?thesis using empty_holding [OF assms(2)] by simp
next
  case (Some q)
  with commitments_Ok(5) [OF assms(1) Some] show ?thesis by simp
qed



end
