(* ===== verification/Executor_Limits.thy ===== *)
theory Executor_Limits
  imports Executor_Examples
begin

text \<open>
  Where the pipeline's guarantees end.  Each property is a run of the executor on a concrete world
  whose outcome the caller may not expect.
\<close>

section \<open>Transfers to oneself\<close>

definition states_of :: "event list \<Rightarrow> (subject_id option \<times> resource_state \<times> resource_state) list" where
  "states_of events =
    map (\<lambda>e. (rs_subject (sc_state (ev_after e)), sc_state (ev_before e), sc_state (ev_after e))) events"

text \<open>
  A transfer to oneself is accepted and creates value: the debit and the credit are both computed
  from the state before, at the same version, so the holder of 100 is recorded once with 70 and once
  with 130 for the same version of the same state, and the pair passes the batch validator.
\<close>

theorem self_transfer_creates_value:
  "mem_run (execute_batch mem_codec mem_executor
      [mem_intent ''int_1'' ''balance.transfer'' [(''amount'', ''30''), (''to_subject'', ''alice'')]]) =
    mem_run (execute mem_codec mem_executor
      (mem_intent ''int_1'' ''balance.transfer'' [(''amount'', ''30''), (''to_subject'', ''alice'')])) \<and>
   map_ok states_of (mem_run (execute mem_codec mem_executor
      (mem_intent ''int_1'' ''balance.transfer'' [(''amount'', ''30''), (''to_subject'', ''alice'')]))) =
    Ok [(Some ''alice'', ex_balance ''alice'' 100, ex_balance ''alice'' 70),
        (Some ''alice'', ex_balance ''alice'' 100, ex_balance ''alice'' 130)]"
  by code_simp

section \<open>One balance spent twice in a batch\<close>

text \<open>
  Within one batch the same state can be spent twice: two transfers of 80 from a balance of 100 are
  both accepted, because each intent of the batch reads the index as it was before the batch and the
  batch validator does not compare versions.
\<close>

theorem batch_spends_twice:
  "map_ok (map (\<lambda>(subject, before, after). after)) (map_ok states_of
     (mem_run (execute_batch mem_codec mem_executor
      [mem_intent ''int_1'' ''balance.transfer'' [(''amount'', ''80''), (''to_subject'', ''bob'')],
       mem_intent ''int_2'' ''balance.transfer'' [(''amount'', ''80''), (''to_subject'', ''carol'')]]))) =
    Ok [ex_balance ''alice'' 20, ex_balance ''bob'' 85, ex_balance ''alice'' 20, ex_balance ''carol'' 80]"
  by code_simp

section \<open>Intents claimed by a durable batch that failed\<close>

definition poison_first :: validated_intent where
  "poison_first = mem_intent ''int_1'' ''balance.transfer'' [(''amount'', ''30''), (''to_subject'', ''bob'')]"

definition poison_batch :: "validated_intent list" where
  "poison_batch =
    [poison_first, mem_intent ''int_2'' ''balance.debit'' [(''amount'', ''500'')]]"

definition poisoned_world :: mem_world where
  "poisoned_world = snd (execute_batch_durable mem_codec mem_executor poison_batch mem_sink mem_start)"

text \<open>
  A durable batch that fails leaves its earlier intents claimed although nothing was stored.  The
  first intent of the failed batch is a good transfer and the second exceeds the balance: the batch is
  rejected and the sink holds no event, yet afterwards the first intent executes as a replay, reporting
  success without events, and a durable batch with it alone is rejected for good.
\<close>

theorem failed_durable_batch_keeps_claims:
  "\<not> is_ok (mem_run (execute_batch_durable mem_codec mem_executor poison_batch mem_sink)) \<and>
   mw_stored poisoned_world = [] \<and>
   fst (execute mem_codec mem_executor poison_first poisoned_world) = Ok [] \<and>
   \<not> is_ok (fst (execute_batch_durable mem_codec mem_executor [poison_first] mem_sink poisoned_world))"
  by code_simp

section \<open>Keys past their validity\<close>

definition late_executor :: "mem_world executor" where
  "late_executor = mem_executor\<lparr>ex_now := (\<lambda>w. (1000, w))\<rparr>"

definition expired_key :: key_record where
  "expired_key =
    \<lparr>kr_key_id = ''key_1'', kr_tenant = ''t'', kr_subject = Some ''alice'',
     kr_operations = [''balance.transfer''], kr_valid_from = 0, kr_valid_until = Some 100,
     kr_status = Active\<rparr>"

definition mem_keys :: "mem_world key_port" where
  "mem_keys tenant subject key_id op t w =
    (resolve_intent_key (snd (register_key expired_key registry_new)) tenant subject key_id op t, w)"

text \<open>
  A key is checked at the time the client wrote into the intent, not at the time of execution: with
  a key that was valid until 100, a signed intent that says it was created at 0 is executed at 1000,
  when the registry itself no longer resolves the key.
\<close>

theorem expired_key_signs_backdated_intent:
  "is_ok (mem_run (execute_player_with_key_registry mem_codec late_executor
     (mem_transfer\<lparr>vi_signature := Some \<lparr>sb_alg = Ed25519, sb_key_id = ''key_1'', sb_sig = []\<rparr>\<rparr>)
     \<lparr>pi_subject = ''alice'', pi_credential_id = ''c'', pi_tenant = ''t''\<rparr>
     (\<lambda>caller tenant intent resource w. (Ok (), w)) mem_keys)) \<and>
   \<not> is_ok (fst (mem_keys ''t'' ''alice'' ''key_1'' ''balance.transfer'' 1000 mem_start))"
  by code_simp

end
