(* ===== verification/Default_Hashes.thy ===== *)
theory Default_Hashes
  imports Domain
begin

text \<open>
  The hashes of the empty subtrees (\<^verbatim>\<open>sparse_merkle.rs\<close> of \<^verbatim>\<open>statechronicle-accumulator\<close>), byte for
  byte the table of the source: the entry at a level is the hash of the subtree of that height
  without a leaf. SHA-256 itself is a parameter of the theories that use the table; that the table
  fits it is their hypothesis \<^verbatim>\<open>defaults_ok\<close>.
\<close>

type_synonym hash = "byte list"

definition TREE_DEPTH :: nat where
  "TREE_DEPTH = 256"

definition HASH_BYTE_LEN :: nat where
  "HASH_BYTE_LEN = 32"

definition EMPTY_LEAF_HASH :: hash where
  "EMPTY_LEAF_HASH =
    [0x3a, 0xbd, 0xdd, 0x59, 0x4d, 0x88, 0x4f, 0xf6, 0x61, 0xd2, 0x46, 0x66, 0x37, 0x2d, 0x9f, 0xe6,
     0x69, 0xa1, 0xec, 0x9e, 0x61, 0x64, 0x01, 0xdb, 0x6b, 0xd2, 0xed, 0xeb, 0x3c, 0x39, 0x71, 0x43]"

definition DEFAULT_SUBTREE_HASHES :: "hash list" where
  "DEFAULT_SUBTREE_HASHES = [
    [0x3a, 0xbd, 0xdd, 0x59, 0x4d, 0x88, 0x4f, 0xf6, 0x61, 0xd2, 0x46, 0x66, 0x37, 0x2d, 0x9f, 0xe6,
     0x69, 0xa1, 0xec, 0x9e, 0x61, 0x64, 0x01, 0xdb, 0x6b, 0xd2, 0xed, 0xeb, 0x3c, 0x39, 0x71, 0x43],
    [0x64, 0x61, 0xa6, 0xd0, 0x0f, 0x23, 0xef, 0xd1, 0x8b, 0x78, 0x9a, 0x7c, 0xb4, 0xf6, 0xb3, 0xa4,
     0x37, 0xf0, 0x46, 0x8a, 0x22, 0x68, 0xcf, 0x5a, 0x46, 0x04, 0x3b, 0xef, 0xaa, 0xfc, 0x2f, 0x21],
    [0x31, 0x52, 0xaa, 0x7d, 0xe5, 0xf1, 0xba, 0xb6, 0x93, 0xbe, 0x58, 0x79, 0x43, 0x33, 0x37, 0x97,
     0x48, 0x16, 0x48, 0xfe, 0x79, 0x2e, 0xaa, 0x3b, 0x37, 0xa8, 0x0d, 0xe5, 0x32, 0xf7, 0x04, 0x73],
    [0x9e, 0x73, 0xba, 0x56, 0x9b, 0xb4, 0xf3, 0x1f, 0xc4, 0xb6, 0xe0, 0x27, 0x4e, 0x4a, 0x63, 0x26,
     0x19, 0x15, 0x5b, 0xe3, 0xe8, 0xa3, 0xb9, 0x39, 0x91, 0x94, 0xc2, 0x39, 0x33, 0xa5, 0x16, 0xdc],
    [0xb1, 0x98, 0x4f, 0x84, 0x00, 0x58, 0xe3, 0x9b, 0x6a, 0x00, 0x64, 0xe4, 0xc6, 0x64, 0x4a, 0xe1,
     0xa5, 0xac, 0x32, 0xdd, 0xf3, 0xbe, 0xc8, 0x94, 0xe3, 0x3a, 0xed, 0xa9, 0xd2, 0xa0, 0xc8, 0xb1],
    [0x14, 0x40, 0x00, 0xbe, 0x9a, 0x27, 0x48, 0x96, 0x07, 0x6e, 0x83, 0x33, 0xc4, 0x91, 0x6d, 0xcd,
     0xbe, 0x36, 0x24, 0x2e, 0xa8, 0x70, 0xc0, 0x15, 0xc8, 0x09, 0xcf, 0x5b, 0xe6, 0x87, 0xb0, 0x35],
    [0xfd, 0xa6, 0x51, 0x66, 0xe6, 0xbb, 0xeb, 0x17, 0x9a, 0xe7, 0xe9, 0x70, 0xc3, 0xc6, 0xf0, 0xb1,
     0xba, 0x6e, 0xce, 0x8b, 0xa1, 0x70, 0x53, 0x01, 0xca, 0xf3, 0xa5, 0xa1, 0xae, 0xad, 0xa0, 0xab],
    [0x31, 0x90, 0x98, 0x5a, 0xec, 0xc9, 0x3e, 0x11, 0x9d, 0x42, 0xf5, 0x86, 0xbf, 0x8f, 0xcf, 0x23,
     0x6d, 0xc5, 0x2a, 0xb3, 0x8b, 0xdd, 0xd1, 0xef, 0x7a, 0xaa, 0x7c, 0xec, 0x9d, 0x5f, 0xbd, 0xd5],
    [0x40, 0x46, 0x1a, 0x3a, 0x5e, 0x6a, 0x17, 0x29, 0x2a, 0xfd, 0xd0, 0x2b, 0x03, 0xfe, 0x1c, 0x31,
     0x8e, 0x7d, 0xf5, 0xc6, 0xa4, 0xcf, 0xad, 0x95, 0x67, 0x42, 0xa7, 0xa4, 0x4c, 0x2b, 0x24, 0xd4],
    [0x37, 0x3a, 0x41, 0x04, 0xa7, 0x92, 0x33, 0xc4, 0x40, 0x2d, 0x0f, 0x49, 0xe8, 0xf5, 0xb0, 0x88,
     0xcc, 0x09, 0x89, 0xa8, 0x7b, 0x3e, 0xc3, 0x4f, 0x68, 0xe0, 0x79, 0x82, 0xf3, 0xd9, 0x76, 0xcf],
    [0xeb, 0x3f, 0xe9, 0x76, 0x51, 0x6d, 0x2b, 0x96, 0x98, 0x5a, 0x76, 0x46, 0x08, 0x13, 0x86, 0xb1,
     0xa9, 0xad, 0x6c, 0xa8, 0xc6, 0x99, 0x40, 0x7b, 0xb1, 0xa2, 0x16, 0x06, 0xa6, 0x43, 0x05, 0xa0],
    [0x0d, 0xde, 0x9f, 0x26, 0xd7, 0x2d, 0xeb, 0x6b, 0xd3, 0xda, 0x83, 0x6a, 0x44, 0x15, 0x19, 0x98,
     0xc6, 0xc7, 0x71, 0xb6, 0x89, 0xb8, 0x16, 0x0b, 0x9e, 0xb8, 0x44, 0x2e, 0x0c, 0x49, 0x8d, 0x3e],
    [0xd6, 0xdd, 0xd6, 0xff, 0x06, 0xac, 0x79, 0x70, 0x79, 0xfa, 0x30, 0x33, 0xaa, 0x66, 0xd2, 0x83,
     0x7f, 0x89, 0x11, 0x66, 0x5f, 0xa9, 0x74, 0x54, 0xdc, 0x7f, 0x8d, 0x70, 0x43, 0x52, 0xa1, 0xaf],
    [0xc9, 0xd9, 0x7f, 0x1a, 0x0d, 0x17, 0xf3, 0x44, 0x32, 0xbd, 0x2f, 0x85, 0xac, 0x41, 0x82, 0x6b,
     0x53, 0xbf, 0x8e, 0xe7, 0xac, 0x0d, 0x68, 0xec, 0xdd, 0xe5, 0x70, 0x07, 0x26, 0xe7, 0x11, 0x6d],
    [0xa8, 0x94, 0x09, 0x87, 0xc9, 0xa3, 0x73, 0xa5, 0x3b, 0xb5, 0xb5, 0x56, 0xfd, 0xd5, 0x9a, 0x72,
     0x93, 0x12, 0xff, 0x31, 0x55, 0xf9, 0x34, 0xf3, 0x78, 0xdb, 0x6e, 0x86, 0x2b, 0x6b, 0x66, 0xaf],
    [0x30, 0x23, 0x5f, 0x5f, 0x27, 0x9d, 0x34, 0x43, 0xac, 0x21, 0x20, 0xc6, 0x96, 0x0e, 0x50, 0x2e,
     0xf3, 0xb8, 0x1b, 0xf2, 0x08, 0xf1, 0xcc, 0x6b, 0x00, 0x7f, 0x99, 0xc7, 0x51, 0x9b, 0x64, 0x53],
    [0xab, 0x00, 0x48, 0xd1, 0x41, 0x95, 0xee, 0x4c, 0x26, 0x09, 0xa1, 0x1a, 0x89, 0xf4, 0x82, 0x86,
     0x6c, 0xd8, 0x3f, 0xed, 0x8f, 0x73, 0x5d, 0x88, 0xc8, 0x69, 0x35, 0x5b, 0x70, 0xe2, 0x89, 0x13],
    [0x44, 0xac, 0xe1, 0xd5, 0xdc, 0x53, 0x8a, 0xb3, 0x19, 0xbf, 0x5d, 0x9f, 0xaf, 0x48, 0xda, 0x51,
     0x69, 0x4c, 0xf1, 0xe2, 0x55, 0x24, 0x05, 0x27, 0x97, 0x31, 0xce, 0x01, 0xac, 0x16, 0xe9, 0x5d],
    [0x8b, 0x3e, 0x0f, 0xa4, 0xf1, 0x97, 0x33, 0x21, 0x2d, 0x87, 0x02, 0x3f, 0x64, 0x55, 0x2e, 0x0c,
     0x9d, 0x16, 0xee, 0xa3, 0x11, 0xf0, 0xa8, 0x95, 0x23, 0x7c, 0x47, 0x80, 0x27, 0x7e, 0x7d, 0x73],
    [0x8f, 0x19, 0x93, 0x64, 0xca, 0x32, 0x02, 0xf5, 0x25, 0x54, 0x6f, 0x56, 0x4a, 0x7a, 0x30, 0xbf,
     0x7d, 0x8c, 0x35, 0x2a, 0x32, 0x31, 0xe2, 0x4d, 0x70, 0xcd, 0x09, 0x37, 0x51, 0xcb, 0x9d, 0x6c],
    [0x25, 0x5a, 0x6e, 0xa5, 0xbf, 0x02, 0x35, 0x2c, 0x99, 0xca, 0xeb, 0xfe, 0x29, 0x7f, 0x96, 0x1f,
     0xd4, 0x4c, 0xec, 0xdc, 0x28, 0x8e, 0x56, 0xff, 0x27, 0xbb, 0x95, 0x43, 0x68, 0x9d, 0x96, 0xa9],
    [0x82, 0x46, 0x3e, 0x7e, 0x29, 0xdd, 0xad, 0xab, 0xea, 0x0d, 0x95, 0xba, 0x4a, 0x0d, 0x50, 0xcf,
     0xa9, 0x77, 0x0d, 0x6d, 0xcb, 0x5f, 0xcc, 0xb9, 0x51, 0xd0, 0x49, 0x3f, 0xc9, 0x82, 0xbf, 0x15],
    [0x6a, 0x0c, 0xae, 0xba, 0xb1, 0xf8, 0x36, 0xbe, 0x10, 0x51, 0x3a, 0x5d, 0xf0, 0x95, 0x06, 0xe2,
     0xa7, 0x9e, 0x3c, 0x7f, 0xa3, 0x56, 0xa8, 0xe4, 0x31, 0xbe, 0x8f, 0x1f, 0xa1, 0x10, 0x46, 0x05],
    [0x12, 0xae, 0x19, 0x76, 0xcf, 0x03, 0x66, 0x8b, 0xa4, 0x8b, 0xfe, 0x34, 0x74, 0x13, 0xe2, 0xdd,
     0x01, 0xb8, 0xe4, 0x84, 0x8e, 0x59, 0xe1, 0x38, 0x67, 0xa6, 0xe3, 0xad, 0xb1, 0xf2, 0xe2, 0xc5],
    [0x18, 0xeb, 0x40, 0x23, 0x4c, 0x69, 0xd2, 0xbb, 0x52, 0x5c, 0x28, 0xaf, 0x04, 0x98, 0xb1, 0xa9,
     0x9e, 0x96, 0xa0, 0xab, 0xa4, 0x37, 0x44, 0xa4, 0x9f, 0x02, 0x98, 0x07, 0x58, 0x39, 0xd1, 0xc3],
    [0x2e, 0xf3, 0xf6, 0xfc, 0xff, 0xd3, 0x7f, 0x25, 0x96, 0xac, 0x90, 0x55, 0xe1, 0xc0, 0x5d, 0xb0,
     0xd7, 0x6c, 0x8c, 0xd1, 0x0b, 0x87, 0x3d, 0x50, 0xd2, 0x07, 0xda, 0xa1, 0xec, 0x1d, 0x20, 0xb2],
    [0x6f, 0x52, 0xd5, 0xb4, 0xdd, 0x3c, 0x8f, 0x6b, 0xb3, 0x79, 0x13, 0xec, 0x5f, 0xb5, 0xee, 0x09,
     0x28, 0x5e, 0xef, 0x9e, 0x51, 0x22, 0x3b, 0xdc, 0xeb, 0x45, 0x35, 0xcc, 0x01, 0x30, 0x3d, 0xac],
    [0xd7, 0x8d, 0x35, 0x7d, 0x75, 0x28, 0x7a, 0xdf, 0x24, 0x3e, 0x00, 0x9a, 0x37, 0x31, 0xac, 0x66,
     0xb8, 0xa1, 0x9e, 0x27, 0xbd, 0x64, 0x1c, 0x89, 0x66, 0xeb, 0x8f, 0x0f, 0x37, 0xad, 0xb2, 0xb0],
    [0x36, 0xa1, 0xad, 0xdd, 0xfb, 0x81, 0xc0, 0xa5, 0x79, 0x4f, 0xc9, 0xd7, 0xbc, 0xf4, 0x87, 0x3d,
     0x4d, 0x1d, 0x9e, 0x0e, 0xfd, 0x14, 0xb0, 0xb4, 0x3c, 0xa1, 0x0b, 0x48, 0xb8, 0x84, 0x73, 0x29],
    [0x9b, 0xd9, 0x33, 0x19, 0xba, 0xbf, 0xca, 0x10, 0xe7, 0x68, 0x2b, 0x76, 0x61, 0xe1, 0xfd, 0x49,
     0xc8, 0x49, 0x72, 0x2a, 0x3c, 0xc6, 0x43, 0x00, 0x46, 0xb6, 0xfa, 0xc6, 0xf3, 0x41, 0x1c, 0x91],
    [0x9d, 0xb2, 0x42, 0x78, 0x2f, 0x7b, 0xd9, 0x71, 0xe3, 0x58, 0x11, 0x83, 0xe1, 0x6c, 0x71, 0x53,
     0xa2, 0xa5, 0x10, 0xc7, 0x32, 0x61, 0x9f, 0x1f, 0x71, 0x27, 0x0c, 0x4a, 0x1e, 0x9d, 0x50, 0xf0],
    [0x79, 0x6d, 0x58, 0xed, 0x16, 0x21, 0x59, 0xe9, 0xf7, 0xc1, 0x84, 0x37, 0xb8, 0x23, 0xe4, 0xfd,
     0x70, 0xf2, 0xd9, 0xe4, 0x1e, 0x30, 0xc9, 0x0e, 0x62, 0x20, 0x52, 0x15, 0x01, 0x82, 0x19, 0x1c],
    [0xcb, 0x8b, 0x8e, 0xec, 0x3b, 0xb1, 0xc0, 0x59, 0xe6, 0x1b, 0x49, 0x96, 0x19, 0xd2, 0x98, 0xf5,
     0x2d, 0xa5, 0x27, 0x14, 0x27, 0xbd, 0x1c, 0x64, 0xaf, 0x55, 0x3b, 0x2d, 0x27, 0xa6, 0x75, 0x32],
    [0xf0, 0x9d, 0x0b, 0xb4, 0x9e, 0xdf, 0x34, 0x96, 0x7b, 0xb0, 0xf3, 0xab, 0x7c, 0xb8, 0xe9, 0x49,
     0xce, 0x14, 0x54, 0x1a, 0x94, 0x0b, 0x56, 0xbd, 0x0a, 0xba, 0x0d, 0x89, 0xb6, 0x89, 0xe7, 0x62],
    [0xb6, 0x3c, 0x81, 0x0b, 0xcb, 0xc2, 0xe1, 0xf2, 0x32, 0x77, 0xd8, 0xf0, 0x92, 0x4a, 0xdd, 0x25,
     0xc4, 0xcd, 0xcb, 0x23, 0x14, 0x8a, 0xa5, 0xa9, 0xaa, 0x70, 0x8c, 0xb4, 0x5a, 0xdc, 0x1c, 0xb1],
    [0xe5, 0x29, 0x7d, 0xf7, 0xef, 0x40, 0x4c, 0x9d, 0x21, 0x4a, 0x23, 0xad, 0x52, 0x9a, 0x6b, 0xb8,
     0xc2, 0x9e, 0xae, 0x7b, 0x72, 0xa0, 0xca, 0x9b, 0x2a, 0x7e, 0x9a, 0x6f, 0xaa, 0x10, 0x7f, 0x32],
    [0x7d, 0xe7, 0xf9, 0xec, 0xf0, 0x96, 0xa4, 0xee, 0x35, 0x1d, 0x5e, 0xe4, 0xba, 0x5c, 0x53, 0xb2,
     0xd6, 0xfe, 0x81, 0x32, 0x9d, 0x18, 0x86, 0x63, 0x2a, 0x1b, 0x8f, 0xb7, 0xff, 0xad, 0x94, 0x57],
    [0x07, 0x48, 0xa8, 0x7f, 0x99, 0x0d, 0x0d, 0x7d, 0x6f, 0x53, 0xaa, 0x95, 0x1a, 0x29, 0x06, 0x1c,
     0x5a, 0x63, 0x57, 0x2e, 0x83, 0xa7, 0x6e, 0xff, 0x7e, 0xe2, 0x17, 0xbb, 0xfd, 0x8a, 0x3c, 0xf1],
    [0x74, 0x7d, 0x08, 0xcc, 0x83, 0x3c, 0xef, 0x7e, 0xe1, 0x6d, 0xe0, 0xb1, 0x2c, 0x80, 0xfd, 0xe9,
     0x8b, 0xcb, 0xd8, 0xf8, 0x30, 0x79, 0x28, 0x91, 0xef, 0x9e, 0x94, 0x57, 0x16, 0x03, 0x1d, 0x53],
    [0xbc, 0xf9, 0xe3, 0x2a, 0x23, 0x9c, 0xd2, 0x51, 0xc2, 0x02, 0xbe, 0x6d, 0xcf, 0x35, 0x86, 0x20,
     0x72, 0x9e, 0x4f, 0xe3, 0xfb, 0xd1, 0x3d, 0xea, 0x21, 0xa1, 0x2a, 0x14, 0x5a, 0x16, 0x8b, 0x38],
    [0x40, 0x78, 0x3c, 0x99, 0x72, 0x89, 0xea, 0x49, 0xa7, 0x18, 0xea, 0xde, 0x0c, 0xde, 0x7e, 0xa1,
     0x15, 0x58, 0xa2, 0x57, 0xb6, 0xd8, 0x2e, 0x81, 0xf3, 0x74, 0x2a, 0x73, 0x90, 0x74, 0xe1, 0x3e],
    [0xd6, 0xda, 0x55, 0xfc, 0x40, 0x86, 0xe9, 0x84, 0xdc, 0x83, 0x3e, 0x14, 0xd6, 0x7d, 0xc3, 0xb6,
     0x29, 0x24, 0x93, 0xd9, 0x63, 0x20, 0x2f, 0x7e, 0x5b, 0xe9, 0x6f, 0x07, 0x22, 0x21, 0xb9, 0xc1],
    [0x57, 0x80, 0x6e, 0x8b, 0xd5, 0xf6, 0x81, 0xad, 0x24, 0x74, 0x74, 0x77, 0xe2, 0x89, 0x12, 0xa2,
     0xa6, 0x07, 0x6c, 0x85, 0x88, 0xeb, 0xee, 0x59, 0x9f, 0xb0, 0xc9, 0xd5, 0x6d, 0x91, 0xd2, 0x2a],
    [0x0d, 0x67, 0x6b, 0xd9, 0x64, 0x90, 0xbb, 0x2d, 0xcc, 0xc7, 0xe2, 0xbe, 0x40, 0x6e, 0xae, 0x81,
     0x9f, 0x0f, 0xfe, 0x65, 0x23, 0x0c, 0xd9, 0x94, 0xd3, 0x4c, 0xcd, 0x71, 0xd6, 0xd7, 0x46, 0x19],
    [0x7a, 0xb9, 0xee, 0x68, 0x85, 0x06, 0x3f, 0x13, 0xb9, 0xfe, 0x38, 0x33, 0x02, 0x03, 0xdc, 0x0f,
     0xe7, 0xcc, 0xb1, 0x27, 0x8f, 0xb1, 0x29, 0x87, 0xf7, 0x5d, 0xd2, 0x48, 0x83, 0xf9, 0x19, 0xb9],
    [0xfb, 0x8f, 0x8f, 0xaf, 0x01, 0x2e, 0x47, 0x33, 0x1b, 0x2e, 0xa7, 0xd6, 0xfc, 0xc7, 0x97, 0xd8,
     0xb5, 0xc7, 0xc7, 0x03, 0xa2, 0x58, 0x66, 0xf1, 0xc8, 0xc0, 0x61, 0x6a, 0x30, 0x7d, 0x32, 0xfa],
    [0x84, 0xaf, 0xb1, 0x3d, 0xc5, 0x0c, 0x56, 0xb1, 0x81, 0xc4, 0x81, 0xbb, 0xb6, 0xbe, 0xfd, 0x99,
     0x50, 0x1e, 0x5e, 0x3b, 0x2c, 0x8d, 0x50, 0xe7, 0x62, 0x16, 0x55, 0x29, 0xbf, 0x2a, 0x2d, 0xb4],
    [0x93, 0x03, 0x22, 0x97, 0xe3, 0xb0, 0x4e, 0x34, 0x79, 0x2c, 0x3a, 0x67, 0x96, 0xba, 0x2f, 0xe7,
     0x76, 0x71, 0x61, 0x0c, 0xea, 0x7a, 0x36, 0x07, 0x57, 0x4f, 0xda, 0x3d, 0xc8, 0x65, 0x4e, 0xd9],
    [0x66, 0x5c, 0xc8, 0x8b, 0x09, 0x1e, 0x89, 0x34, 0x12, 0x22, 0xce, 0x0c, 0xa1, 0xb9, 0xc1, 0x4d,
     0x65, 0x20, 0xe5, 0x0e, 0x23, 0xe6, 0x9f, 0xe6, 0x2b, 0x30, 0x60, 0xe1, 0xa5, 0xda, 0xf4, 0xeb],
    [0x83, 0x96, 0x35, 0x06, 0xe8, 0x6d, 0x12, 0x4e, 0xbd, 0x45, 0x5f, 0xd5, 0xc9, 0xdf, 0xcc, 0xdc,
     0xaa, 0xa2, 0xda, 0x83, 0xe2, 0xb0, 0xd4, 0x07, 0xf1, 0x44, 0x6f, 0x54, 0x3b, 0x25, 0xb8, 0xd7],
    [0x8a, 0x2d, 0xb2, 0x97, 0xcd, 0xf6, 0x4c, 0x9a, 0xdb, 0xa9, 0xb2, 0x7f, 0x84, 0x53, 0x57, 0x9f,
     0xdd, 0x5e, 0x4e, 0x33, 0xe6, 0x87, 0x96, 0xe0, 0xca, 0x47, 0x4f, 0x3f, 0x2e, 0x0f, 0x2c, 0x61],
    [0xfb, 0x40, 0x39, 0xfb, 0x1c, 0x90, 0x5c, 0x65, 0xb4, 0x6c, 0x87, 0x60, 0x59, 0x61, 0x0f, 0x87,
     0x4a, 0x1e, 0x79, 0x39, 0xd5, 0x8c, 0x0d, 0xde, 0x02, 0x62, 0xde, 0x02, 0xf8, 0x18, 0x43, 0x91],
    [0x72, 0xf1, 0xdf, 0x10, 0xff, 0x23, 0x3a, 0x97, 0x90, 0xd0, 0x1b, 0x2e, 0x24, 0xef, 0x1b, 0x79,
     0xd8, 0x21, 0x57, 0xe8, 0xd8, 0xb6, 0x47, 0x99, 0x41, 0x45, 0x37, 0x67, 0xe4, 0xbe, 0x28, 0x61],
    [0x9a, 0x78, 0x66, 0x29, 0xd2, 0x24, 0x68, 0x77, 0x5d, 0xaf, 0xf6, 0x25, 0xe4, 0xfe, 0x58, 0x9d,
     0x40, 0x89, 0xd5, 0xe5, 0x99, 0x50, 0x96, 0x40, 0x9b, 0xdd, 0x3c, 0x86, 0x0b, 0x96, 0x08, 0x73],
    [0xdc, 0x41, 0x38, 0x6b, 0xbf, 0x3d, 0x60, 0x4c, 0x6c, 0xa6, 0x3b, 0x25, 0x91, 0x80, 0x75, 0x5e,
     0x7d, 0xe6, 0x6f, 0xc5, 0x6b, 0xd6, 0x46, 0xde, 0x47, 0xd9, 0xc9, 0x14, 0x43, 0xa7, 0x6c, 0xd1],
    [0xf8, 0xb6, 0x5a, 0x8d, 0xd0, 0xf2, 0x5a, 0xbd, 0x96, 0x56, 0x10, 0xc2, 0x82, 0x34, 0x69, 0x9b,
     0xb8, 0xcf, 0x96, 0xa9, 0x7d, 0xb2, 0x8e, 0x2a, 0x29, 0xf1, 0x2a, 0x18, 0x74, 0x94, 0x77, 0x47],
    [0x5f, 0xec, 0xc2, 0x37, 0xbf, 0x42, 0x7d, 0x4c, 0x85, 0x19, 0xd0, 0xd1, 0x00, 0x19, 0x30, 0x8f,
     0xe6, 0xb5, 0xe1, 0x28, 0x64, 0xae, 0x70, 0x4c, 0x22, 0x5d, 0xa6, 0xd0, 0x43, 0xb8, 0x2b, 0xa1],
    [0x59, 0xc2, 0x47, 0x70, 0xa0, 0xc0, 0x71, 0xb5, 0x40, 0x5e, 0xe6, 0xa1, 0x6e, 0x77, 0xc9, 0xfc,
     0x99, 0x7c, 0xc8, 0x27, 0x75, 0x7a, 0x4e, 0x66, 0x18, 0x55, 0x3e, 0x1a, 0x8c, 0x07, 0x77, 0xf0],
    [0xca, 0x10, 0xb0, 0x8d, 0xdb, 0x5a, 0x8d, 0x96, 0x6a, 0x00, 0xb4, 0x17, 0x10, 0x2e, 0x40, 0x80,
     0xc1, 0x63, 0x1c, 0x70, 0x9d, 0x5d, 0xd8, 0xf8, 0x2d, 0x7b, 0x26, 0x5a, 0xe3, 0x0b, 0xe9, 0x0f],
    [0x05, 0x7c, 0xeb, 0xe1, 0x0c, 0x5a, 0x56, 0x6e, 0xad, 0x1e, 0xd4, 0xc8, 0x42, 0x10, 0x19, 0xa7,
     0x35, 0xfb, 0x4b, 0x0a, 0x0e, 0xa8, 0x48, 0xb9, 0xf6, 0x4c, 0xd7, 0x4a, 0x45, 0xf1, 0x63, 0x8d],
    [0x33, 0xcd, 0x12, 0x7a, 0x64, 0xf3, 0x98, 0xea, 0xe3, 0x5c, 0x24, 0x60, 0xcd, 0x1e, 0xd5, 0x02,
     0xcc, 0xa7, 0x9f, 0x96, 0x19, 0x08, 0x0b, 0x00, 0x87, 0x01, 0x94, 0xbd, 0x72, 0xb2, 0x7b, 0xcb],
    [0xff, 0xb1, 0x77, 0xa4, 0xfc, 0xd6, 0xaa, 0xa6, 0x68, 0x96, 0xbd, 0xa5, 0x71, 0x76, 0xa3, 0x41,
     0x1b, 0x67, 0x93, 0xb7, 0x41, 0x76, 0x53, 0x0b, 0x21, 0xeb, 0x19, 0x5f, 0x5f, 0x44, 0x1d, 0xf4],
    [0xcc, 0xf2, 0xb2, 0xfa, 0x90, 0x71, 0xc8, 0xc3, 0xec, 0x42, 0x1b, 0x92, 0xa9, 0xd7, 0xc0, 0xc5,
     0x7a, 0x3f, 0x70, 0x44, 0xc8, 0xcf, 0x35, 0x3e, 0x83, 0x05, 0x0b, 0xf7, 0xe1, 0xc4, 0x84, 0x6c],
    [0x9c, 0xe8, 0x6f, 0xd8, 0x45, 0x11, 0x00, 0x71, 0xc7, 0x19, 0xf7, 0x0a, 0xf8, 0x56, 0x53, 0x2f,
     0xcc, 0x4a, 0xf4, 0xfc, 0x11, 0x9a, 0x62, 0x61, 0x63, 0x6e, 0x03, 0xe1, 0x59, 0x4a, 0x41, 0x66],
    [0x36, 0xca, 0x8d, 0x02, 0xe4, 0x6d, 0x68, 0x8e, 0x44, 0xbc, 0x9d, 0x6c, 0x6a, 0xcb, 0x66, 0x7a,
     0x38, 0xf6, 0xf0, 0x02, 0xbd, 0xf6, 0x8b, 0x3a, 0x91, 0x17, 0x6e, 0xa8, 0xd3, 0x4b, 0xef, 0x4f],
    [0xda, 0xf1, 0xc2, 0x45, 0xdd, 0x95, 0xeb, 0x5a, 0xd4, 0x15, 0x2f, 0x91, 0x2e, 0x48, 0x81, 0xe3,
     0xae, 0x9c, 0x19, 0xb1, 0xc2, 0x7f, 0xc4, 0x15, 0xfa, 0x81, 0xa3, 0xe8, 0xb9, 0xed, 0x03, 0xf3],
    [0x67, 0xc4, 0x14, 0x33, 0xb0, 0x9d, 0x45, 0xab, 0x28, 0x83, 0x18, 0xcc, 0x0d, 0x2c, 0xf4, 0x45,
     0x8c, 0x5d, 0xd8, 0x0f, 0x50, 0x58, 0x51, 0xf0, 0x67, 0xbb, 0x12, 0x9f, 0xe2, 0xa7, 0x9d, 0xce],
    [0x86, 0x6c, 0x7c, 0x53, 0x84, 0x71, 0xee, 0x11, 0xd1, 0x57, 0x3e, 0xbf, 0x23, 0xaf, 0x7d, 0x38,
     0xc8, 0x73, 0x59, 0x90, 0x65, 0x7f, 0xac, 0x51, 0xea, 0x69, 0x2f, 0x65, 0x23, 0x9c, 0x8e, 0x3a],
    [0x82, 0x9e, 0x5b, 0xd2, 0xc4, 0x11, 0x9f, 0x55, 0xed, 0xd5, 0x3d, 0xbd, 0x21, 0xb6, 0x20, 0x93,
     0x03, 0x48, 0x26, 0xe0, 0x02, 0x47, 0xbb, 0xdf, 0x36, 0x43, 0x69, 0x40, 0x3f, 0x21, 0x9b, 0x97],
    [0x64, 0xbe, 0x08, 0x90, 0x7c, 0x71, 0xf7, 0x2a, 0x84, 0x0e, 0x91, 0x76, 0x03, 0x6b, 0x2a, 0x55,
     0x45, 0x7b, 0x06, 0xca, 0x5c, 0x75, 0x56, 0x7b, 0xce, 0x89, 0xfa, 0x87, 0x61, 0x4b, 0xf7, 0x02],
    [0xb1, 0xd3, 0x95, 0x6b, 0xba, 0x35, 0x48, 0x0d, 0x12, 0x7b, 0xa4, 0x61, 0x81, 0x12, 0xbb, 0xf1,
     0xf0, 0xf1, 0xd5, 0x03, 0x55, 0xfe, 0x92, 0x82, 0xad, 0x9a, 0xb7, 0xad, 0x52, 0x4d, 0x3e, 0xff],
    [0x26, 0x44, 0x08, 0xdd, 0xdf, 0x38, 0x9b, 0x1f, 0x0c, 0x7e, 0xb1, 0x9e, 0xcd, 0x88, 0xd1, 0x2a,
     0x64, 0x73, 0x9c, 0xe6, 0x2f, 0x5a, 0x74, 0x44, 0xd7, 0x14, 0x7f, 0x35, 0xf9, 0x32, 0x6e, 0xa7],
    [0x44, 0x8a, 0x8b, 0xe7, 0x22, 0x41, 0x99, 0x30, 0xd0, 0xed, 0x2f, 0xc9, 0x49, 0x91, 0x21, 0x40,
     0x07, 0xb3, 0xcf, 0x3a, 0xc7, 0x92, 0xfc, 0xfe, 0x2e, 0x90, 0x5f, 0xea, 0x06, 0xc2, 0xd5, 0xc0],
    [0x6b, 0x5f, 0x2b, 0xf6, 0x2c, 0xd7, 0xa9, 0x47, 0xdc, 0x5c, 0xd8, 0x60, 0xe7, 0x77, 0x01, 0x48,
     0x88, 0x79, 0xc3, 0x7f, 0x98, 0xd8, 0x14, 0x64, 0x32, 0x9b, 0xee, 0x3d, 0x60, 0xbd, 0x01, 0x31],
    [0x4a, 0x57, 0x10, 0xab, 0x26, 0x96, 0x79, 0xdb, 0x80, 0x59, 0xec, 0x1d, 0xe5, 0x6b, 0x6e, 0xd5,
     0x6c, 0x08, 0x73, 0x28, 0x74, 0x14, 0xa7, 0x43, 0x72, 0x73, 0xe1, 0x10, 0x0a, 0x5b, 0xd1, 0x29],
    [0x9c, 0x42, 0xef, 0x38, 0x95, 0xa7, 0x35, 0x91, 0xb8, 0x69, 0x90, 0x26, 0x83, 0xad, 0xdb, 0xd5,
     0x8d, 0xb0, 0xeb, 0x19, 0x89, 0x58, 0x0d, 0x10, 0x4f, 0x6a, 0x54, 0x46, 0x76, 0xd0, 0xbd, 0x32],
    [0xc0, 0x33, 0x49, 0x70, 0xf7, 0xa5, 0x42, 0x36, 0x10, 0x25, 0x1e, 0xdb, 0x65, 0xea, 0x2f, 0xcb,
     0x05, 0x05, 0xb3, 0xaa, 0x5b, 0x5a, 0xd6, 0x63, 0xae, 0xbe, 0x3e, 0x54, 0x16, 0xb8, 0xe8, 0xb7],
    [0xe7, 0x97, 0xdb, 0x7e, 0x19, 0xc9, 0x92, 0x76, 0xee, 0xf5, 0xda, 0xca, 0x8a, 0x9c, 0xba, 0xd0,
     0x40, 0x2a, 0x66, 0x10, 0x35, 0x77, 0x0e, 0xda, 0x00, 0x7a, 0x0e, 0xbf, 0x9d, 0xc9, 0x24, 0xa5],
    [0x02, 0xbc, 0x25, 0x6a, 0xb6, 0x1e, 0xe6, 0xa1, 0x4e, 0xde, 0x16, 0x24, 0x69, 0x85, 0x5c, 0xf5,
     0x5c, 0x98, 0xe7, 0x96, 0x96, 0x26, 0x69, 0xa2, 0x4f, 0x14, 0xe0, 0xbb, 0x2e, 0x24, 0x25, 0xa3],
    [0x77, 0xa9, 0x34, 0xe4, 0x48, 0xf3, 0xaa, 0x83, 0xd9, 0xe1, 0x63, 0x6d, 0xdd, 0x3c, 0xa0, 0x6c,
     0x87, 0x06, 0x6d, 0xaa, 0x92, 0xc8, 0x03, 0xd5, 0xbb, 0x59, 0x2d, 0xaf, 0x29, 0x34, 0xe8, 0x6f],
    [0x50, 0xa4, 0x5e, 0x23, 0xa1, 0xc3, 0x0b, 0xc4, 0x6f, 0x64, 0x32, 0x80, 0x71, 0x64, 0x39, 0x73,
     0x67, 0x2d, 0x23, 0x59, 0xb1, 0x15, 0x0a, 0x78, 0xb8, 0xfd, 0x67, 0x41, 0x38, 0x49, 0x92, 0x11],
    [0x5c, 0x50, 0xc6, 0x43, 0x19, 0x6f, 0x42, 0xe7, 0x55, 0x35, 0x69, 0xa8, 0xe1, 0x05, 0x3b, 0xfc,
     0x05, 0x2a, 0x8f, 0x0d, 0xf5, 0xc1, 0xf7, 0x8c, 0x65, 0x0e, 0x8a, 0x3d, 0x23, 0xf3, 0x3a, 0x92],
    [0xe2, 0x6c, 0x5f, 0x94, 0x08, 0xce, 0xb8, 0xfb, 0xfa, 0xe6, 0x93, 0xa5, 0x1a, 0xb0, 0xd6, 0x88,
     0x6f, 0xe2, 0x87, 0x85, 0xc8, 0xa5, 0x10, 0x80, 0x08, 0x2b, 0xd2, 0x9c, 0xc8, 0x88, 0x7c, 0xb6],
    [0xd0, 0xaf, 0x39, 0xcc, 0x67, 0x85, 0x08, 0x3d, 0xe7, 0xe5, 0x67, 0x05, 0xa5, 0xf2, 0xcc, 0xea,
     0x46, 0xdc, 0xd3, 0x74, 0xa7, 0xb0, 0x60, 0xd7, 0x35, 0xae, 0x39, 0x3c, 0xe9, 0x94, 0x2a, 0xbd],
    [0xc2, 0x04, 0x2a, 0xb1, 0x15, 0x9d, 0x01, 0x0f, 0x2a, 0x60, 0xd6, 0x75, 0x4b, 0x8e, 0x02, 0x4c,
     0xdf, 0x48, 0x80, 0x29, 0xe9, 0xc1, 0x08, 0x54, 0xe5, 0x00, 0x69, 0xf0, 0x06, 0xc2, 0x8a, 0x39],
    [0x2e, 0x98, 0x58, 0x13, 0xdb, 0xd4, 0xe7, 0xf1, 0x29, 0xf8, 0x88, 0x99, 0xc1, 0xf2, 0xe1, 0xe7,
     0xd5, 0x3b, 0xfa, 0x1e, 0xaa, 0x2c, 0xe6, 0x7b, 0xa8, 0x88, 0x2c, 0xd2, 0xe7, 0xca, 0x26, 0x87],
    [0x82, 0x85, 0xa4, 0x1e, 0x1c, 0xdd, 0x6e, 0x7e, 0xd6, 0x5d, 0xdb, 0x9d, 0x6a, 0x1d, 0x20, 0x4d,
     0x0b, 0x9b, 0xc3, 0xea, 0xdb, 0xae, 0x04, 0xa0, 0x7a, 0x56, 0xc2, 0xa4, 0xdf, 0x35, 0xd4, 0x0f],
    [0xfe, 0xe9, 0x12, 0x3a, 0xd3, 0xbd, 0x83, 0x25, 0xcf, 0x44, 0x37, 0x09, 0xe2, 0xfc, 0xe3, 0x2b,
     0xa9, 0x8b, 0xd3, 0xf5, 0x8f, 0xfc, 0x1f, 0xdb, 0x71, 0xaf, 0x7b, 0xac, 0xad, 0x08, 0x7a, 0x1d],
    [0xb2, 0x27, 0xd7, 0x5d, 0x54, 0x9b, 0xa5, 0xf0, 0xe6, 0x0a, 0xbf, 0x70, 0x2e, 0x13, 0xb0, 0x59,
     0xf8, 0xa1, 0xdc, 0x3b, 0x00, 0x28, 0x81, 0xbb, 0x8e, 0x4f, 0xdd, 0x02, 0x28, 0x5b, 0x97, 0xa5],
    [0x69, 0x2b, 0x76, 0x9e, 0x8c, 0x37, 0x2f, 0xf5, 0x51, 0xef, 0x9f, 0xca, 0x69, 0x5f, 0x8f, 0x00,
     0x19, 0xd2, 0xe7, 0xe9, 0x6c, 0xf7, 0x15, 0x19, 0x7d, 0x10, 0x12, 0x1d, 0xb2, 0x3a, 0x04, 0x1e],
    [0xde, 0xcd, 0xd0, 0x0f, 0xab, 0x7b, 0xae, 0x62, 0x2f, 0x8b, 0xe1, 0x7a, 0x45, 0x44, 0x18, 0xf9,
     0xc6, 0x35, 0x76, 0xc7, 0xda, 0x63, 0xd2, 0x17, 0xd6, 0x17, 0x4b, 0xc1, 0x14, 0xff, 0xbf, 0x0f],
    [0xc5, 0x8c, 0xe3, 0x9e, 0x06, 0x87, 0xc3, 0x4e, 0x77, 0x8d, 0x33, 0x3a, 0xe7, 0xd7, 0x84, 0x63,
     0x16, 0xd3, 0x15, 0x3f, 0xde, 0x8e, 0x6e, 0xbc, 0x95, 0x09, 0x6a, 0x62, 0x8e, 0xc5, 0xd2, 0xd6],
    [0x70, 0x94, 0x34, 0x07, 0xcf, 0x6b, 0xa0, 0xa1, 0xf6, 0xa9, 0xb5, 0x15, 0xf5, 0x24, 0xc6, 0x6c,
     0x62, 0xa7, 0x7e, 0x05, 0x1f, 0xf2, 0xcc, 0x77, 0xa7, 0x9a, 0x46, 0x4f, 0x39, 0x5d, 0x3a, 0xb0],
    [0x6c, 0x32, 0x00, 0x0f, 0xd2, 0x74, 0xfb, 0xd4, 0x9f, 0x92, 0xf4, 0x70, 0xc3, 0xb6, 0xf3, 0xec,
     0x8f, 0x81, 0xb0, 0x97, 0x41, 0x6a, 0x5a, 0xf4, 0xce, 0x74, 0x00, 0xbd, 0x6c, 0x66, 0x89, 0x10],
    [0x4a, 0x7e, 0x03, 0x1a, 0x98, 0xff, 0xe2, 0x5d, 0xff, 0xb7, 0xac, 0xf1, 0xd4, 0x8c, 0x30, 0x8d,
     0x6e, 0x95, 0xc8, 0x06, 0xec, 0xb0, 0xf8, 0xd5, 0x29, 0x53, 0xfc, 0xb2, 0xfe, 0xaa, 0x49, 0x57],
    [0x3d, 0x37, 0xf1, 0xcc, 0xe4, 0xb1, 0x47, 0xcf, 0x0f, 0xd8, 0x37, 0x5e, 0xdf, 0x6d, 0x3a, 0x98,
     0x41, 0xe9, 0xd8, 0x69, 0xcb, 0x12, 0x85, 0xb7, 0x64, 0xe4, 0x8f, 0x84, 0x25, 0x75, 0x6f, 0x17],
    [0x39, 0x9c, 0x00, 0x77, 0x59, 0xe5, 0xe9, 0x83, 0x15, 0x5a, 0x20, 0x68, 0x56, 0xf5, 0x5f, 0x8b,
     0xb3, 0x3b, 0xcb, 0x60, 0xcb, 0xe0, 0x28, 0x4b, 0x6c, 0x1b, 0x4f, 0xf2, 0xca, 0xd7, 0x9a, 0xd2],
    [0x92, 0xe2, 0xad, 0xf4, 0x43, 0xd7, 0x22, 0x1d, 0x10, 0x90, 0xba, 0x5b, 0x05, 0x4f, 0xc3, 0xee,
     0xef, 0x9f, 0x12, 0x56, 0x62, 0xc3, 0x56, 0x4a, 0x9a, 0x6d, 0x85, 0xa9, 0x7b, 0xb9, 0x1e, 0x12],
    [0x18, 0x85, 0xd3, 0x0f, 0x40, 0x48, 0x2a, 0x79, 0x02, 0x5d, 0xb2, 0x71, 0xcb, 0x81, 0xc1, 0x43,
     0xb0, 0xad, 0xea, 0x3b, 0x18, 0xa4, 0x3d, 0x2d, 0x2f, 0xc3, 0xe1, 0x9f, 0x48, 0x51, 0x5b, 0xc8],
    [0x4f, 0x1d, 0x36, 0x7d, 0xc2, 0xf7, 0x00, 0x87, 0xee, 0xd7, 0x54, 0xa8, 0x8a, 0x1f, 0x77, 0xa0,
     0xe3, 0x12, 0x34, 0xcf, 0xcf, 0x4d, 0x64, 0xed, 0xd4, 0x84, 0x15, 0x32, 0x1e, 0x22, 0x97, 0x8c],
    [0x7a, 0x23, 0x7b, 0x08, 0x6f, 0xa2, 0xe7, 0x51, 0x13, 0x2c, 0xa6, 0xd7, 0xd5, 0x2d, 0xc1, 0xa8,
     0x99, 0x0b, 0x0e, 0x03, 0xbf, 0x02, 0x8e, 0x5f, 0xbb, 0x12, 0x9f, 0x60, 0x94, 0x46, 0xf8, 0xb9],
    [0x66, 0x22, 0x57, 0xae, 0x87, 0xc8, 0xb1, 0x71, 0xf2, 0x0f, 0x1d, 0x2f, 0x9e, 0x54, 0x23, 0x2e,
     0x02, 0x3e, 0x3b, 0xcf, 0x9f, 0xe6, 0xc5, 0x93, 0x7a, 0x0c, 0xc4, 0x5b, 0x08, 0x8d, 0xdd, 0x2f],
    [0x4c, 0x40, 0xc9, 0x76, 0x0c, 0x6d, 0xbc, 0x2a, 0xfe, 0xea, 0xd9, 0xf0, 0xce, 0x08, 0xc2, 0x37,
     0x4b, 0xe2, 0x1a, 0x1a, 0x02, 0x13, 0x7c, 0x1e, 0x4c, 0x04, 0x13, 0x9e, 0x08, 0xc3, 0x90, 0xd4],
    [0x8c, 0x39, 0xba, 0x18, 0xc6, 0xd0, 0xc8, 0xdd, 0x08, 0xe9, 0x7b, 0xeb, 0xad, 0xda, 0x05, 0x75,
     0xf4, 0x39, 0x40, 0xbc, 0xa8, 0x43, 0x4b, 0x36, 0xa9, 0x50, 0xa1, 0x2d, 0xbe, 0x09, 0x4d, 0xc0],
    [0xfa, 0x12, 0x34, 0x21, 0xc9, 0x83, 0xde, 0xbd, 0x49, 0x9d, 0xc2, 0x5b, 0x5d, 0x94, 0xdc, 0x1a,
     0x92, 0x76, 0xcf, 0xe1, 0x2e, 0x88, 0xb4, 0x0a, 0xff, 0xf4, 0xc0, 0xfb, 0x90, 0x2c, 0x1b, 0xdb],
    [0xc2, 0x6c, 0x32, 0x2a, 0x66, 0x8f, 0xc3, 0xaa, 0x43, 0x82, 0x60, 0x1c, 0x61, 0x39, 0xf6, 0xd2,
     0x1b, 0x43, 0x10, 0x65, 0x7e, 0x52, 0xf7, 0x7a, 0x57, 0x04, 0x84, 0x35, 0xfc, 0x2e, 0xc1, 0x91],
    [0x3c, 0x6b, 0xee, 0xe0, 0x60, 0xd5, 0x1e, 0xf6, 0x97, 0x52, 0x99, 0x4f, 0x24, 0x30, 0x17, 0x15,
     0xe8, 0xa1, 0x96, 0xd3, 0xdc, 0x60, 0xe8, 0xe2, 0x29, 0xc4, 0x3c, 0x70, 0x0c, 0xcf, 0x33, 0xde],
    [0x37, 0x5c, 0x20, 0x86, 0xda, 0xb1, 0x72, 0xf9, 0x4b, 0x07, 0x7c, 0x92, 0x00, 0x32, 0x2b, 0x7d,
     0xbd, 0x05, 0xa7, 0xb0, 0x8a, 0x4c, 0x8d, 0x08, 0x45, 0x6f, 0x9d, 0x3f, 0x87, 0x80, 0xbb, 0x73],
    [0x8d, 0xa0, 0xb7, 0xf3, 0x9e, 0x49, 0xc2, 0x8e, 0xec, 0xf3, 0xd8, 0x93, 0x6a, 0x25, 0x5b, 0x2b,
     0x19, 0x4b, 0xe0, 0x0a, 0xe7, 0x2a, 0xb7, 0xcf, 0x36, 0xe0, 0xba, 0xd1, 0xbf, 0xca, 0xd4, 0x67],
    [0x5e, 0xce, 0x53, 0xba, 0xe8, 0x00, 0xd1, 0x49, 0x10, 0x1a, 0xbd, 0x87, 0xcd, 0xc9, 0x75, 0x72,
     0x62, 0xfe, 0x86, 0x38, 0x40, 0x45, 0x0e, 0x3d, 0xb7, 0xc9, 0x6d, 0xee, 0x16, 0xc0, 0x01, 0x25],
    [0x7e, 0x5b, 0x98, 0xdb, 0xeb, 0xfa, 0x01, 0x93, 0xbf, 0x3b, 0x8e, 0xad, 0xa4, 0xb8, 0xbb, 0x43,
     0x34, 0x2b, 0x7b, 0x8b, 0x8a, 0x53, 0x82, 0x18, 0x55, 0x3a, 0xfb, 0xad, 0x33, 0x4d, 0xef, 0x45],
    [0x90, 0xb1, 0x5b, 0xc8, 0xdf, 0xfc, 0xca, 0x9a, 0xc8, 0xf9, 0xf2, 0x7b, 0x10, 0xb1, 0x45, 0xe5,
     0x62, 0x20, 0x54, 0xe2, 0xbd, 0x0a, 0x71, 0x70, 0xd2, 0x1f, 0x4a, 0xc2, 0x97, 0x55, 0x67, 0x5e],
    [0xcb, 0x7f, 0x7f, 0x88, 0xe8, 0x7d, 0x78, 0xa1, 0xd7, 0x97, 0x3b, 0x00, 0x77, 0x02, 0x33, 0xa0,
     0xec, 0x89, 0x63, 0x2b, 0x93, 0x82, 0x64, 0x81, 0x41, 0x3d, 0x2d, 0xd1, 0x4f, 0x5d, 0xc2, 0xef],
    [0x9e, 0x12, 0xcb, 0x68, 0xcc, 0xbd, 0x4f, 0xe3, 0x86, 0xb6, 0xa7, 0x6f, 0xe0, 0x9f, 0x42, 0x91,
     0x1b, 0x57, 0x82, 0x8b, 0x95, 0x9d, 0xac, 0x86, 0x63, 0x5b, 0x18, 0x7f, 0x07, 0xe8, 0x62, 0x16],
    [0xcd, 0xd7, 0x3c, 0x9e, 0xa1, 0x0e, 0x36, 0x5e, 0xab, 0x18, 0xf9, 0x68, 0x81, 0x78, 0xc7, 0xb3,
     0xb4, 0x42, 0x94, 0xdb, 0xec, 0x79, 0xfd, 0xc7, 0x3f, 0x0c, 0x14, 0x12, 0xbc, 0x9b, 0xcf, 0x50],
    [0x55, 0x5b, 0xe7, 0x00, 0x59, 0xd3, 0xbc, 0x2d, 0xf7, 0xa6, 0x9e, 0x0d, 0x34, 0x1d, 0xc2, 0xb8,
     0xdd, 0x81, 0x2f, 0x64, 0x0c, 0x27, 0xc5, 0xa2, 0xad, 0xe1, 0x7c, 0xa4, 0xd4, 0x3e, 0x10, 0x2a],
    [0x70, 0x87, 0x18, 0x97, 0x68, 0x8a, 0xc5, 0xfc, 0x2e, 0x48, 0x84, 0xd6, 0xb1, 0x44, 0xc2, 0xa9,
     0xed, 0x62, 0xb5, 0xfd, 0xe5, 0x7f, 0x17, 0xc1, 0x4f, 0x75, 0xb7, 0x3b, 0x0c, 0xe7, 0xdc, 0x12],
    [0xef, 0xe8, 0x28, 0x29, 0x47, 0x77, 0x7f, 0x60, 0x00, 0x40, 0x4f, 0xd1, 0x99, 0x04, 0xe5, 0xd3,
     0x74, 0x6e, 0xb0, 0x5f, 0x04, 0x67, 0x1b, 0xe6, 0xae, 0x52, 0x1e, 0x13, 0xae, 0x36, 0x54, 0xb4],
    [0xae, 0x22, 0xf5, 0x05, 0xc5, 0xd6, 0x18, 0x16, 0x82, 0x60, 0x5c, 0x47, 0x93, 0xf4, 0x19, 0x53,
     0x00, 0xc3, 0x2f, 0xdc, 0xd2, 0xd0, 0x1d, 0x30, 0x39, 0x76, 0xce, 0xda, 0x98, 0xa4, 0x68, 0x1f],
    [0x70, 0x53, 0x89, 0xc3, 0xf9, 0x3c, 0xc9, 0x10, 0xce, 0x6b, 0xa6, 0xa1, 0x75, 0xb3, 0xe0, 0xad,
     0xe1, 0x61, 0xd1, 0x4a, 0xe9, 0xe4, 0x14, 0x7b, 0x8a, 0x37, 0xb5, 0xca, 0x4b, 0x95, 0x3a, 0x1b],
    [0xc0, 0xf0, 0x21, 0x2c, 0x76, 0x66, 0xb0, 0x60, 0xa0, 0x2c, 0x3f, 0xd0, 0x98, 0x71, 0x5b, 0xd4,
     0xaf, 0xfb, 0x21, 0x05, 0xcd, 0x62, 0x0b, 0xed, 0xb2, 0xa2, 0xbf, 0x61, 0x9f, 0x16, 0x72, 0x32],
    [0x9e, 0x47, 0x02, 0xe8, 0x26, 0xb4, 0xd5, 0x1d, 0xa1, 0xf5, 0x63, 0x22, 0x61, 0x73, 0xff, 0x5f,
     0x47, 0x54, 0x57, 0x3a, 0x66, 0xce, 0x33, 0x39, 0x90, 0xb3, 0x16, 0xad, 0xc0, 0x20, 0xf4, 0x5b],
    [0x28, 0x05, 0x47, 0x37, 0x0a, 0x0a, 0xac, 0x4c, 0xf4, 0x41, 0xf5, 0x01, 0x87, 0x8b, 0xe7, 0x55,
     0x78, 0x22, 0x41, 0x86, 0x16, 0xcd, 0xeb, 0x40, 0x3a, 0x11, 0xe0, 0x0a, 0xb0, 0x0c, 0x52, 0xa5],
    [0x11, 0x53, 0x2e, 0x03, 0xd2, 0x1c, 0x71, 0x83, 0xca, 0xa8, 0x21, 0x42, 0x1a, 0x45, 0x29, 0x48,
     0xca, 0xb2, 0x99, 0x79, 0x32, 0x15, 0x64, 0x95, 0xc8, 0x58, 0x64, 0x37, 0x07, 0xf3, 0x79, 0xcf],
    [0x13, 0x96, 0x01, 0x4b, 0x90, 0xc0, 0x6d, 0xe7, 0x00, 0xe3, 0xad, 0x00, 0x53, 0xf9, 0x19, 0x70,
     0x0b, 0xcd, 0xd6, 0x07, 0xd5, 0xe9, 0x6d, 0x67, 0x03, 0xba, 0xeb, 0xdf, 0xb6, 0x15, 0x96, 0xb0],
    [0xef, 0x7c, 0x7e, 0xef, 0xc3, 0x14, 0x58, 0x57, 0xa3, 0xc5, 0xcf, 0x26, 0x31, 0x62, 0x7e, 0xef,
     0x4a, 0x19, 0xba, 0x1d, 0x6e, 0x6f, 0x73, 0x19, 0xbf, 0x1e, 0xde, 0xaf, 0x25, 0x14, 0xaf, 0x4b],
    [0x49, 0xce, 0xa1, 0x88, 0x99, 0x42, 0x72, 0x0b, 0x92, 0x20, 0x33, 0x14, 0xa4, 0x80, 0x84, 0x9d,
     0xe8, 0x24, 0xca, 0x8a, 0x4f, 0xec, 0x71, 0xaf, 0xb6, 0xaa, 0x6b, 0x4f, 0xc2, 0xc3, 0x25, 0xf9],
    [0xd6, 0xab, 0x32, 0x27, 0x85, 0x84, 0x57, 0x6b, 0xd7, 0x27, 0xd3, 0x98, 0x05, 0xef, 0x8c, 0x9a,
     0x36, 0x57, 0x9e, 0x74, 0x23, 0x5c, 0x59, 0x91, 0xbc, 0xdf, 0xf6, 0xe9, 0xc5, 0xf1, 0x58, 0x6e],
    [0x2e, 0xca, 0x9e, 0x79, 0xb6, 0x2b, 0x0b, 0xbd, 0xd4, 0x10, 0x02, 0x44, 0x1c, 0xe2, 0x61, 0xd5,
     0x97, 0x1f, 0x01, 0x65, 0x36, 0x41, 0x71, 0x6d, 0x9c, 0x87, 0xdd, 0x21, 0x9d, 0xbf, 0x31, 0x2f],
    [0x8c, 0xe1, 0xdb, 0xad, 0xb8, 0x5a, 0xf9, 0xe4, 0xfa, 0x8b, 0x61, 0x03, 0x1f, 0xbe, 0x0e, 0x2c,
     0x82, 0x12, 0xc9, 0x25, 0x24, 0x64, 0xc6, 0xf8, 0x6d, 0x50, 0x2d, 0x5c, 0x69, 0x54, 0x87, 0x17],
    [0xd7, 0xc8, 0x9c, 0xad, 0x97, 0xea, 0x17, 0x47, 0xb5, 0xdf, 0x7e, 0x18, 0xb0, 0xf1, 0x01, 0x07,
     0xe9, 0x45, 0xf5, 0x8e, 0x82, 0x7a, 0x4a, 0xb8, 0x91, 0xb4, 0x10, 0x5f, 0x74, 0x71, 0x65, 0xd0],
    [0xee, 0x9f, 0xa7, 0xa4, 0x93, 0x14, 0xb7, 0x37, 0x17, 0xe3, 0xc8, 0x6c, 0x8d, 0xff, 0x9d, 0x99,
     0xe9, 0x98, 0x39, 0x21, 0x81, 0xb0, 0x29, 0x8f, 0x47, 0x4b, 0x00, 0x9f, 0x61, 0xcd, 0xe5, 0x46],
    [0x36, 0x57, 0xeb, 0x75, 0x49, 0x25, 0x5a, 0x3e, 0xb7, 0xbf, 0xb5, 0x32, 0xc6, 0x89, 0x2a, 0xa0,
     0x92, 0xef, 0x16, 0x1e, 0xe4, 0x18, 0x6a, 0x98, 0xe3, 0x15, 0x2f, 0x6f, 0x96, 0xfa, 0x71, 0xeb],
    [0x01, 0x41, 0x2d, 0xec, 0x3f, 0xe1, 0xce, 0x19, 0x58, 0xe8, 0x4d, 0x4a, 0x54, 0xa7, 0xbb, 0xde,
     0xcc, 0x72, 0x6a, 0x2d, 0xb1, 0x35, 0x4f, 0x6d, 0x66, 0x3b, 0x1d, 0x00, 0xc7, 0x84, 0xd0, 0xd0],
    [0x1b, 0xca, 0xa7, 0xbc, 0x7d, 0xa9, 0xad, 0xf8, 0xbc, 0x1d, 0x7b, 0xfe, 0x67, 0x34, 0x63, 0xb8,
     0x24, 0xe5, 0xbc, 0xad, 0x1a, 0x11, 0x66, 0xf8, 0x4c, 0x13, 0x89, 0xff, 0xae, 0x2b, 0xf0, 0x30],
    [0x68, 0xd5, 0x3e, 0x9c, 0x50, 0x82, 0x46, 0xf7, 0xad, 0x9a, 0x9e, 0xe3, 0xe4, 0x81, 0x90, 0x02,
     0x07, 0x0e, 0x3b, 0xd6, 0xd8, 0x4e, 0x8f, 0x01, 0x0b, 0xc5, 0x76, 0x75, 0xca, 0x71, 0x97, 0x46],
    [0x3a, 0x38, 0x0e, 0xe7, 0xf2, 0x94, 0x8a, 0x81, 0xdd, 0xb3, 0x65, 0x86, 0xbb, 0x3f, 0x98, 0xe8,
     0x7f, 0xf7, 0x18, 0x18, 0x19, 0x91, 0x91, 0x06, 0x08, 0x27, 0x27, 0xd3, 0xa3, 0xa1, 0x8e, 0x3d],
    [0x2d, 0x4a, 0x40, 0x02, 0xeb, 0x96, 0xb5, 0x2f, 0x87, 0x95, 0x4e, 0x92, 0x1e, 0x05, 0x36, 0xdf,
     0x2b, 0xf2, 0x55, 0x9d, 0x37, 0xda, 0x99, 0x73, 0x46, 0x08, 0x18, 0xb6, 0x52, 0x21, 0xe2, 0xb7],
    [0xc4, 0xc2, 0x79, 0x2f, 0xc5, 0xb7, 0xf7, 0x2e, 0x44, 0x60, 0xa0, 0xb4, 0x5a, 0x51, 0x1e, 0x78,
     0x6e, 0xa6, 0x12, 0x21, 0x62, 0x42, 0x92, 0x88, 0x9c, 0xfb, 0xf5, 0x40, 0xac, 0x15, 0x9c, 0x7e],
    [0x13, 0xb2, 0x8a, 0xb7, 0x29, 0xcd, 0x26, 0xc7, 0xc8, 0x11, 0xa9, 0xdf, 0x70, 0xd3, 0xfa, 0x2b,
     0x41, 0x41, 0xf2, 0x6b, 0x9d, 0x5d, 0x0c, 0x32, 0x8e, 0x8e, 0x7b, 0x97, 0xf8, 0xf4, 0x90, 0xd5],
    [0x6f, 0x6c, 0x13, 0xe2, 0x5f, 0x90, 0x63, 0x45, 0x22, 0xb0, 0x12, 0xa9, 0x8b, 0xad, 0x7b, 0x16,
     0x7b, 0x97, 0x99, 0x0d, 0xb1, 0x37, 0xb0, 0xaf, 0x82, 0x13, 0x91, 0xc1, 0xc2, 0x5b, 0x6a, 0xb7],
    [0x6c, 0x2e, 0x8a, 0xed, 0xd5, 0x30, 0x93, 0x0a, 0x43, 0x46, 0xe7, 0x81, 0x56, 0xae, 0xa5, 0xea,
     0x6d, 0xb8, 0xc1, 0x4e, 0x16, 0x5b, 0x37, 0x9a, 0xb3, 0x3e, 0x98, 0x18, 0x96, 0xab, 0xd6, 0xb1],
    [0x78, 0x50, 0xaf, 0x72, 0xff, 0x9e, 0x46, 0x5c, 0x55, 0xb4, 0xe2, 0x52, 0x5d, 0x55, 0xa0, 0xad,
     0x99, 0xdb, 0xd9, 0xf4, 0x38, 0xf5, 0xe0, 0x08, 0x7b, 0x11, 0xdb, 0x9d, 0x8c, 0x48, 0x9d, 0xb5],
    [0x94, 0x98, 0xd3, 0x49, 0x6c, 0x03, 0xc1, 0x8d, 0xc6, 0x78, 0x34, 0x22, 0x03, 0xd6, 0xce, 0x6b,
     0xd8, 0xa7, 0xa7, 0x55, 0x37, 0x59, 0x0d, 0x6f, 0xfa, 0x04, 0xfb, 0xe7, 0x41, 0x10, 0x08, 0xa5],
    [0xbd, 0xf7, 0x41, 0xbb, 0x48, 0xc1, 0xe3, 0xd1, 0x59, 0x27, 0x20, 0x54, 0x12, 0xc2, 0x1e, 0xfa,
     0x23, 0x32, 0x9a, 0x34, 0x49, 0xc9, 0x91, 0x1b, 0xe8, 0xfa, 0x39, 0x2b, 0x20, 0x0d, 0xa0, 0x40],
    [0xe0, 0x0a, 0x91, 0x04, 0x99, 0x4b, 0xd3, 0xca, 0x5d, 0xcd, 0xcc, 0x34, 0xca, 0x9a, 0x07, 0x56,
     0xfd, 0x06, 0x3a, 0xa7, 0x63, 0x60, 0x7e, 0xbc, 0x0c, 0x58, 0xb0, 0xcf, 0xb0, 0xc8, 0xa7, 0x23],
    [0xc1, 0xe5, 0xaf, 0xcb, 0xfc, 0x5c, 0xef, 0x77, 0xbc, 0x4e, 0x71, 0x8d, 0x77, 0x62, 0xfb, 0xc0,
     0xee, 0xaa, 0x0c, 0xe4, 0x19, 0x4a, 0xdd, 0x9a, 0x9a, 0xb5, 0xa3, 0xa8, 0x93, 0xed, 0x29, 0x4b],
    [0x77, 0x95, 0x61, 0xac, 0xd7, 0x0e, 0xd4, 0x45, 0x12, 0x4f, 0x26, 0x33, 0xd8, 0xad, 0x08, 0x41,
     0x4a, 0xd7, 0xc6, 0x8d, 0x71, 0x45, 0x9f, 0x95, 0x0c, 0x07, 0xf6, 0xc8, 0x80, 0x13, 0x1b, 0x40],
    [0x1a, 0x1b, 0xb1, 0x17, 0x56, 0x97, 0xb1, 0x8b, 0xc7, 0xf8, 0xba, 0x06, 0xeb, 0xaa, 0x38, 0x05,
     0x36, 0xeb, 0x51, 0xc9, 0x2f, 0x09, 0x28, 0xe1, 0xa3, 0xee, 0x7b, 0x14, 0xb2, 0x17, 0x62, 0x5e],
    [0x3f, 0xbc, 0x8c, 0x99, 0x30, 0xcc, 0xa2, 0x16, 0x6f, 0xd3, 0x9e, 0xee, 0x97, 0x0f, 0x05, 0xa3,
     0xbf, 0x76, 0x0d, 0xfb, 0xbc, 0x84, 0x75, 0x90, 0x43, 0x49, 0x22, 0x42, 0xe6, 0xfb, 0x5a, 0xa7],
    [0x84, 0x18, 0x83, 0xe3, 0xa0, 0x2f, 0x6e, 0x0b, 0xdf, 0x96, 0xf6, 0x58, 0x40, 0x2b, 0xe7, 0x86,
     0x6a, 0xaf, 0xa3, 0xfa, 0x9a, 0xaf, 0xc5, 0x73, 0x6a, 0xc9, 0x47, 0x1b, 0x52, 0x4d, 0x5e, 0x32],
    [0x41, 0x0f, 0x15, 0x38, 0x92, 0x34, 0xbb, 0x59, 0x09, 0xa5, 0x6c, 0xd3, 0xaa, 0x89, 0x19, 0x89,
     0x89, 0x74, 0xf4, 0xa3, 0x88, 0x29, 0x7a, 0x3b, 0x59, 0xc5, 0xbf, 0x64, 0xa5, 0x5b, 0xc7, 0x1e],
    [0x09, 0xdb, 0xe5, 0x93, 0xb0, 0x44, 0xfd, 0xf4, 0x38, 0xb9, 0xdb, 0x95, 0xb5, 0x57, 0x71, 0x72,
     0xc2, 0xd9, 0xd6, 0xf6, 0x98, 0x2b, 0xb7, 0x27, 0x58, 0x20, 0xa0, 0x06, 0xde, 0xbe, 0xdc, 0xe6],
    [0x15, 0xdb, 0xdb, 0x9f, 0x6a, 0x90, 0x59, 0x4b, 0x96, 0x60, 0xac, 0x22, 0x69, 0xa6, 0xa9, 0xac,
     0xac, 0x1b, 0x0d, 0xc7, 0x82, 0xe0, 0x5c, 0xed, 0x73, 0x5e, 0x29, 0xbd, 0xda, 0xdc, 0x21, 0x0b],
    [0x20, 0x22, 0x8b, 0xd8, 0x0e, 0xf7, 0x78, 0x23, 0x97, 0xa4, 0xc4, 0x7e, 0x9c, 0x57, 0x37, 0x95,
     0xe4, 0x7a, 0x29, 0xe4, 0xbc, 0x59, 0x42, 0x90, 0xcf, 0x59, 0x96, 0xfb, 0xa7, 0xfa, 0x54, 0xaa],
    [0xe9, 0x9b, 0x20, 0xf1, 0x06, 0xae, 0x01, 0x4e, 0x7a, 0x1a, 0x56, 0xe2, 0x90, 0xf9, 0xf2, 0xe8,
     0xc6, 0xbb, 0xbf, 0x58, 0x4e, 0xc3, 0x3b, 0x31, 0x64, 0x11, 0x0b, 0x98, 0xd2, 0xbc, 0xfd, 0x49],
    [0xa5, 0xa8, 0xc1, 0xad, 0x79, 0xd2, 0x23, 0x11, 0x44, 0xb4, 0xc7, 0x59, 0xa8, 0x82, 0xce, 0x6f,
     0xd5, 0x33, 0x7a, 0x9b, 0x3e, 0xe9, 0x4f, 0xb7, 0xb6, 0x60, 0xe7, 0x06, 0xe7, 0x52, 0x50, 0x93],
    [0x6b, 0x80, 0x46, 0x75, 0xb0, 0x9d, 0xcd, 0x41, 0x5b, 0xf1, 0xbe, 0x27, 0xa2, 0x57, 0xf6, 0x06,
     0x62, 0x33, 0xee, 0xe4, 0x12, 0x12, 0x1c, 0x60, 0xd9, 0xc4, 0x1d, 0x1e, 0xf1, 0x8a, 0x7a, 0xdd],
    [0x98, 0x56, 0xe8, 0xe6, 0xe1, 0x72, 0x2a, 0xe9, 0xdb, 0xef, 0xaf, 0xdd, 0xea, 0x67, 0x64, 0x46,
     0x25, 0x0e, 0xe5, 0xe7, 0x06, 0xcb, 0x5c, 0x1a, 0x66, 0x50, 0xce, 0x6c, 0x34, 0x74, 0x12, 0x52],
    [0xb6, 0x17, 0xfb, 0x11, 0xf2, 0x19, 0x61, 0x22, 0xcb, 0x1f, 0xcb, 0xe4, 0xf7, 0xe3, 0x32, 0x43,
     0x07, 0x61, 0xae, 0x05, 0xf4, 0x58, 0x0b, 0x58, 0x48, 0x1e, 0xec, 0x1d, 0x48, 0xd1, 0x99, 0xfa],
    [0x15, 0x38, 0xc2, 0xd9, 0x33, 0xe9, 0xf3, 0x72, 0xf9, 0x52, 0xb3, 0xeb, 0xbd, 0xc2, 0x8f, 0xaa,
     0x3c, 0xde, 0xd4, 0x28, 0xf6, 0x1b, 0x58, 0x97, 0x92, 0xce, 0x56, 0x3c, 0x66, 0xa4, 0x89, 0x7b],
    [0x55, 0x97, 0x46, 0x82, 0x2c, 0x3a, 0x77, 0xd0, 0x4d, 0xff, 0x8a, 0xa0, 0xb5, 0xd9, 0x3d, 0x04,
     0x45, 0x03, 0xa0, 0xf4, 0x75, 0x2a, 0xb7, 0x1b, 0xb9, 0x8a, 0x0c, 0xeb, 0x3e, 0x56, 0xee, 0xeb],
    [0xea, 0xf0, 0x12, 0x93, 0xd4, 0xf9, 0x0c, 0xff, 0x28, 0x16, 0x04, 0x2d, 0x03, 0xce, 0x3f, 0x28,
     0xc0, 0xa0, 0x88, 0x1e, 0x8b, 0xbf, 0xb8, 0xd6, 0xa9, 0x0a, 0x0a, 0xd5, 0x62, 0x2a, 0xe2, 0xab],
    [0x01, 0x04, 0x5d, 0xdb, 0x55, 0xac, 0xad, 0x35, 0x2f, 0xae, 0x76, 0xb0, 0xff, 0xb5, 0x8a, 0x9d,
     0xbf, 0x90, 0x13, 0x96, 0x85, 0xa2, 0xfc, 0x89, 0x47, 0xaa, 0xa9, 0x11, 0xe0, 0x24, 0x96, 0x6f],
    [0x22, 0x10, 0x3f, 0x64, 0x66, 0x4e, 0xf5, 0x25, 0x0b, 0x09, 0xb7, 0x49, 0xf6, 0x5b, 0x79, 0xe1,
     0xad, 0x03, 0xee, 0x5f, 0x41, 0x7c, 0xb9, 0x57, 0x0a, 0x30, 0xa9, 0x7a, 0x30, 0x5c, 0x66, 0x6e],
    [0xd3, 0x0b, 0x78, 0xd8, 0xf6, 0xbe, 0x38, 0x7c, 0xac, 0x66, 0xe7, 0x85, 0x6e, 0xf1, 0x27, 0x36,
     0xd3, 0xee, 0xdb, 0x05, 0x41, 0x34, 0x29, 0x97, 0x72, 0x02, 0x19, 0x88, 0xf8, 0x1d, 0x16, 0x1a],
    [0xe0, 0xcc, 0x0e, 0xbb, 0x4c, 0x48, 0xd2, 0x19, 0x69, 0xe6, 0x8c, 0x2b, 0x76, 0xb0, 0x0f, 0x54,
     0x9b, 0xf0, 0xe0, 0x99, 0x9b, 0xa6, 0x4d, 0x13, 0x55, 0x73, 0xa2, 0x85, 0x47, 0xcd, 0xb4, 0x9f],
    [0x54, 0xaa, 0x59, 0x5f, 0xd1, 0xe6, 0x0e, 0x39, 0x26, 0x64, 0x55, 0x70, 0x83, 0x2e, 0xb1, 0x76,
     0xd0, 0x87, 0xe4, 0x71, 0x7f, 0x56, 0x86, 0xfc, 0x9d, 0x13, 0x52, 0xd0, 0x6f, 0xb1, 0xcc, 0xe7],
    [0x6e, 0x55, 0xf6, 0xef, 0x9d, 0xfb, 0x0f, 0x56, 0xcf, 0xf0, 0x56, 0x8d, 0x02, 0x1f, 0x12, 0xd1,
     0xf7, 0x66, 0xb0, 0x8a, 0x4f, 0x87, 0x3e, 0x9e, 0x8b, 0xda, 0x3c, 0x9a, 0x49, 0xb1, 0x4b, 0xb9],
    [0x42, 0x8c, 0x5f, 0x06, 0x89, 0x37, 0xfa, 0xfb, 0xc1, 0x95, 0x3a, 0xb6, 0x8e, 0xec, 0x45, 0x98,
     0x6e, 0xbd, 0xe5, 0x39, 0x5a, 0xa1, 0xad, 0x36, 0x83, 0xe3, 0xb8, 0x05, 0x1c, 0x53, 0x30, 0x6a],
    [0xee, 0xbb, 0x2a, 0xff, 0x1b, 0x1f, 0x10, 0xf1, 0xa1, 0xae, 0xa8, 0x22, 0x4d, 0x38, 0xf4, 0x9e,
     0x4f, 0x84, 0xb6, 0xd0, 0x52, 0x2c, 0xa8, 0xdc, 0xad, 0x29, 0xeb, 0xdb, 0xc6, 0xaa, 0x45, 0x69],
    [0xc9, 0x83, 0x13, 0x75, 0xc3, 0x9f, 0x76, 0xf0, 0x50, 0xbd, 0xaf, 0xbf, 0xc8, 0x84, 0x36, 0xf0,
     0x92, 0x1d, 0x7f, 0xf0, 0x93, 0x85, 0xfa, 0x4b, 0x9d, 0xc5, 0x32, 0x7b, 0x11, 0xb7, 0xcf, 0x80],
    [0xc1, 0x3b, 0xf3, 0x0e, 0xc0, 0x82, 0x3d, 0x8b, 0x6e, 0x00, 0xe8, 0x88, 0x21, 0xce, 0x82, 0xbb,
     0xad, 0x72, 0xa8, 0xc6, 0xd4, 0x5d, 0xa3, 0x6c, 0xb2, 0xda, 0xd2, 0x53, 0x57, 0xef, 0xf0, 0x1e],
    [0xc3, 0x83, 0xb4, 0xd7, 0xce, 0xd0, 0x05, 0x8f, 0xe1, 0xc8, 0x5d, 0x4e, 0x31, 0x19, 0x11, 0x03,
     0x9f, 0xe4, 0x87, 0x68, 0xc1, 0xb3, 0x85, 0x09, 0x02, 0x36, 0xac, 0xee, 0x58, 0x0f, 0xbc, 0x7e],
    [0x4c, 0x21, 0xde, 0x03, 0x72, 0x3d, 0xa8, 0xee, 0x67, 0x1e, 0x03, 0x82, 0x2b, 0x88, 0x02, 0xda,
     0x02, 0x9c, 0xf4, 0x82, 0xfb, 0x03, 0x91, 0xef, 0x59, 0x50, 0x0c, 0xa4, 0x00, 0xa9, 0x00, 0xfb],
    [0xff, 0x37, 0x71, 0x03, 0x0e, 0xa8, 0x99, 0x26, 0x0f, 0xb1, 0xa3, 0xdd, 0xa9, 0x58, 0xde, 0xfa,
     0x1a, 0x6c, 0x15, 0xae, 0x04, 0xa8, 0x2c, 0x46, 0x48, 0x02, 0x23, 0xc5, 0x9e, 0xc5, 0x20, 0x7e],
    [0xb1, 0x50, 0x43, 0xb5, 0xd4, 0x72, 0x9a, 0x48, 0x5d, 0x65, 0xc4, 0x50, 0xeb, 0x9f, 0x33, 0x85,
     0x5f, 0x1c, 0xcb, 0x86, 0x20, 0x72, 0x75, 0xaf, 0x7c, 0x79, 0xa5, 0x5f, 0x71, 0xca, 0x6f, 0x5d],
    [0xa5, 0x06, 0xe7, 0x00, 0x95, 0x91, 0x13, 0x69, 0x7f, 0x36, 0xa2, 0x7d, 0x23, 0x6d, 0x03, 0xb6,
     0x0b, 0xb0, 0x21, 0xf4, 0xf8, 0x38, 0x26, 0x48, 0x7f, 0xee, 0x0e, 0xf2, 0x13, 0xde, 0xd2, 0x50],
    [0xd1, 0xea, 0x3d, 0x1e, 0x6a, 0x2a, 0xde, 0x1b, 0xf4, 0xeb, 0x57, 0x49, 0xe4, 0x19, 0xf9, 0xf1,
     0xb9, 0xf7, 0x56, 0x5a, 0x2c, 0x5c, 0xae, 0xa1, 0x51, 0xbc, 0x4f, 0x61, 0xac, 0xd8, 0xc5, 0x84],
    [0xad, 0x40, 0xb5, 0x8c, 0xbb, 0x1a, 0x1c, 0x8e, 0xc6, 0xfc, 0xda, 0x7b, 0x95, 0x38, 0xd3, 0x99,
     0x09, 0x23, 0x05, 0xd1, 0x0d, 0x9b, 0x44, 0x17, 0x23, 0x1b, 0xce, 0x81, 0xc3, 0x14, 0x50, 0xdf],
    [0xca, 0x9d, 0xf6, 0x1b, 0x51, 0x72, 0xa5, 0x23, 0x5e, 0xdb, 0xda, 0xc3, 0xbf, 0xda, 0xd2, 0xbb,
     0x1d, 0x7a, 0xb1, 0x57, 0x91, 0x68, 0xa6, 0xc8, 0x13, 0x42, 0x92, 0xc4, 0x37, 0xac, 0x43, 0x54],
    [0x4e, 0x6c, 0xc6, 0x8c, 0x4c, 0x6c, 0xbe, 0x94, 0xe4, 0x37, 0x7d, 0x3d, 0x76, 0x7c, 0xea, 0x3a,
     0x41, 0xce, 0x37, 0x54, 0x5b, 0x3d, 0xdc, 0xa5, 0xdd, 0x20, 0x98, 0xc6, 0x99, 0x6b, 0x0f, 0x26],
    [0xc1, 0xdb, 0x35, 0xe1, 0x88, 0x8c, 0x73, 0xec, 0xb1, 0x93, 0x9a, 0x32, 0xf0, 0x89, 0xc3, 0x82,
     0xc5, 0xf7, 0x43, 0xda, 0x80, 0xf5, 0xbe, 0x17, 0x82, 0xad, 0xba, 0x87, 0x85, 0xad, 0xd9, 0xcb],
    [0x20, 0x64, 0x37, 0xfc, 0x60, 0x1d, 0x8b, 0xd2, 0xf2, 0x5d, 0x10, 0xe4, 0xa0, 0x4e, 0x8d, 0x8f,
     0xa3, 0x5b, 0x63, 0xf2, 0xd3, 0x1d, 0x7b, 0x29, 0xeb, 0x7a, 0x91, 0x99, 0x63, 0xa6, 0xfa, 0x02],
    [0xd0, 0x73, 0x81, 0xce, 0x3f, 0x6a, 0x08, 0x0e, 0x37, 0x0d, 0x71, 0xfb, 0xc1, 0xc6, 0x39, 0x8f,
     0xa9, 0xc1, 0xda, 0xf5, 0xbb, 0x66, 0xe9, 0x2c, 0x8e, 0xb2, 0xf1, 0x4a, 0x07, 0xeb, 0xf2, 0xc1],
    [0x01, 0x23, 0x78, 0xe1, 0x10, 0x31, 0xc3, 0x8f, 0x2b, 0x56, 0x00, 0x6f, 0x34, 0xd9, 0x7c, 0xd9,
     0x40, 0xf4, 0x0d, 0x47, 0x35, 0xda, 0xf2, 0x4b, 0xdf, 0xdf, 0x3f, 0xd3, 0x7a, 0x65, 0x9e, 0x2c],
    [0x6a, 0xd8, 0xc7, 0xbc, 0xe9, 0x0b, 0xa6, 0x54, 0x82, 0xc0, 0xb7, 0x07, 0x57, 0xe5, 0xcf, 0xef,
     0x75, 0x15, 0x2e, 0xab, 0x62, 0x90, 0x60, 0x54, 0x5d, 0x67, 0xae, 0x72, 0x38, 0x48, 0x57, 0xc2],
    [0x25, 0xf6, 0xc2, 0x27, 0x4e, 0x09, 0x3d, 0x99, 0x42, 0x18, 0x0f, 0x8e, 0x2f, 0xa5, 0x7b, 0x38,
     0xfe, 0xc7, 0x4e, 0xa6, 0x0e, 0x2e, 0x06, 0xa1, 0x50, 0xf2, 0xb6, 0x5f, 0xb4, 0x9d, 0x2f, 0x92],
    [0xdc, 0x03, 0x7e, 0xbe, 0x85, 0x4a, 0x87, 0x3e, 0x42, 0x73, 0x8d, 0x84, 0x53, 0xfa, 0x4c, 0xc4,
     0x0f, 0xe2, 0xd6, 0x83, 0x79, 0x7b, 0x83, 0x2b, 0x6f, 0x62, 0xec, 0x09, 0xb3, 0x73, 0x8b, 0x57],
    [0x4a, 0x73, 0xb2, 0xbe, 0xd2, 0x2a, 0x83, 0x59, 0xdb, 0xb7, 0xbe, 0xf8, 0x0c, 0xcd, 0x71, 0x78,
     0xf3, 0x66, 0x80, 0xe1, 0x8f, 0x3c, 0xbb, 0xb5, 0xe5, 0x16, 0xb9, 0xbf, 0x6d, 0x83, 0x8c, 0x17],
    [0xee, 0xd9, 0x0f, 0x94, 0x04, 0xb4, 0x23, 0x8e, 0x11, 0x58, 0x01, 0x40, 0x7b, 0xc1, 0xbb, 0xa8,
     0x19, 0x13, 0x08, 0xf7, 0xf7, 0x04, 0x91, 0xd1, 0x4f, 0x84, 0xd7, 0x50, 0x96, 0x3c, 0x73, 0x47],
    [0xf6, 0xb8, 0x0a, 0x0a, 0xb2, 0xfe, 0xbd, 0x55, 0x55, 0xb7, 0x5d, 0x70, 0xfa, 0x5f, 0xef, 0x88,
     0x0e, 0xce, 0x1d, 0x47, 0x10, 0x21, 0xcd, 0x7a, 0x14, 0xf5, 0xd9, 0x41, 0x40, 0x2b, 0x6c, 0xe9],
    [0xb6, 0xee, 0xa2, 0x42, 0xe4, 0xe6, 0x41, 0x69, 0x0d, 0x3b, 0x6c, 0x17, 0xad, 0xc6, 0x11, 0xb6,
     0x0a, 0x27, 0x15, 0xd3, 0x52, 0x6d, 0x4d, 0x0f, 0x32, 0x7e, 0x34, 0x9b, 0x6d, 0x18, 0xc0, 0xec],
    [0x6d, 0x9b, 0x93, 0x36, 0x80, 0x4f, 0x90, 0xb3, 0xa8, 0x58, 0xc0, 0x07, 0x76, 0xc4, 0x1f, 0x31,
     0x0d, 0x75, 0x05, 0xec, 0x54, 0x13, 0x24, 0x27, 0xbd, 0xc2, 0xcc, 0xc0, 0xe7, 0xca, 0x88, 0xc9],
    [0xf0, 0x75, 0x01, 0x28, 0x59, 0x69, 0x01, 0xb4, 0x83, 0x0b, 0x77, 0x4d, 0xbb, 0x03, 0xfb, 0xe7,
     0xa9, 0x43, 0xc1, 0xb7, 0xd5, 0xe1, 0x1e, 0x92, 0xf0, 0x3f, 0x42, 0x40, 0xa3, 0xab, 0x7f, 0x90],
    [0xac, 0xe5, 0x6e, 0x0a, 0x36, 0x0e, 0x1b, 0x2b, 0xca, 0x4b, 0xe7, 0x17, 0x7d, 0x18, 0xbf, 0x72,
     0xcd, 0x70, 0x6e, 0x86, 0x5d, 0x7c, 0x0d, 0x4b, 0xf0, 0x9f, 0xe7, 0xd3, 0x10, 0x4e, 0x68, 0xc4],
    [0x51, 0x4c, 0x2a, 0x51, 0xd3, 0x22, 0xfe, 0x90, 0x37, 0x95, 0x5e, 0xeb, 0x7d, 0x71, 0xa5, 0x1b,
     0xc2, 0xcc, 0x7d, 0xce, 0x60, 0x82, 0x85, 0x7c, 0x26, 0x31, 0xfc, 0xed, 0x60, 0xbd, 0xc1, 0xfa],
    [0x21, 0xb9, 0x6a, 0x1a, 0x51, 0xdf, 0x07, 0xee, 0x5c, 0x37, 0xab, 0x5a, 0xd8, 0xa7, 0x04, 0xfc,
     0xcf, 0xb6, 0x76, 0xca, 0x98, 0x46, 0xe7, 0x12, 0xe6, 0xa9, 0xa6, 0x92, 0x1f, 0x64, 0x6a, 0x32],
    [0xd8, 0x43, 0x81, 0x37, 0x0b, 0xd3, 0x1f, 0x05, 0x4d, 0xab, 0x34, 0x8a, 0x63, 0xe2, 0x81, 0xa6,
     0x5d, 0xd0, 0xad, 0xa1, 0x36, 0x2d, 0x7b, 0xfa, 0xfb, 0xdf, 0x69, 0x44, 0x85, 0xb2, 0xa2, 0x7f],
    [0x31, 0x2f, 0x0c, 0xfc, 0xb9, 0x83, 0x90, 0x78, 0xc7, 0x32, 0xf6, 0xa2, 0xa7, 0xd4, 0xc6, 0x14,
     0xaf, 0x94, 0x65, 0x69, 0x3e, 0x4e, 0x22, 0x8f, 0xa9, 0xbd, 0x7a, 0xe8, 0x6f, 0xb8, 0x1f, 0x4d],
    [0x2d, 0x9f, 0xa9, 0x29, 0x31, 0x48, 0x07, 0x17, 0xd5, 0x28, 0x52, 0x25, 0x61, 0x3b, 0xaa, 0xc4,
     0xbe, 0x8f, 0x3d, 0x9f, 0xc2, 0x26, 0x25, 0xd8, 0xfe, 0x43, 0x9c, 0x4b, 0x17, 0x2e, 0x0d, 0xc7],
    [0x63, 0xf1, 0x79, 0x0d, 0xe9, 0x42, 0xd4, 0xcd, 0x61, 0xb2, 0x24, 0x4f, 0xc1, 0x2a, 0x23, 0x04,
     0xa9, 0xfc, 0x83, 0x1d, 0x91, 0xb4, 0x02, 0x07, 0x38, 0x74, 0x1c, 0x0a, 0xf3, 0x9f, 0x48, 0xc4],
    [0x97, 0x5e, 0xe7, 0x2d, 0x32, 0x34, 0xf9, 0xd0, 0xbe, 0xc2, 0x6c, 0xda, 0xba, 0xaf, 0x69, 0xb2,
     0x06, 0xd5, 0x91, 0x80, 0x8b, 0xf0, 0x25, 0xce, 0x83, 0x3b, 0xaa, 0xa7, 0x7a, 0xc2, 0xeb, 0x16],
    [0x45, 0x01, 0xd5, 0x41, 0x96, 0x9c, 0xb9, 0x6f, 0x9b, 0x80, 0x78, 0xec, 0x56, 0x84, 0xb1, 0xa2,
     0xb1, 0x4f, 0xc7, 0x30, 0xe9, 0xe4, 0xaa, 0xb5, 0x85, 0x2d, 0x91, 0xf6, 0x2b, 0x0e, 0x0a, 0x48],
    [0xc1, 0x5b, 0x58, 0x7d, 0xe7, 0x4b, 0x27, 0xc8, 0xdf, 0xc2, 0xed, 0x40, 0x4a, 0x71, 0x62, 0x46,
     0x50, 0x01, 0xf5, 0x52, 0x2f, 0x2a, 0x45, 0x1c, 0x9b, 0x2f, 0xc8, 0x8a, 0x2b, 0x29, 0x6d, 0xeb],
    [0xbd, 0x3d, 0x7f, 0x0d, 0xf6, 0xcd, 0xbe, 0x0c, 0x14, 0x3d, 0x42, 0x18, 0xd0, 0x24, 0xf3, 0xd8,
     0xb6, 0x78, 0xbc, 0xeb, 0xdb, 0xaf, 0x05, 0x04, 0x3e, 0x15, 0x7b, 0x72, 0x31, 0x15, 0x7b, 0xe2],
    [0xcf, 0x0a, 0x55, 0x0f, 0xbd, 0x86, 0x64, 0x4a, 0x60, 0x9c, 0x63, 0xcf, 0x4e, 0x67, 0xea, 0xf6,
     0x97, 0xe3, 0x18, 0x54, 0x0c, 0xda, 0xe8, 0xed, 0x43, 0x38, 0xa0, 0x07, 0xd5, 0x5f, 0x4d, 0x8c],
    [0x40, 0x64, 0xe1, 0x7f, 0xa6, 0x77, 0x07, 0xa3, 0x9d, 0xe1, 0xd6, 0x48, 0x49, 0x63, 0x2e, 0xa9,
     0xdb, 0x22, 0x25, 0xe6, 0x51, 0xc2, 0x7a, 0x26, 0x63, 0x10, 0x73, 0x41, 0x2c, 0x96, 0xac, 0x35],
    [0xdf, 0x9b, 0x12, 0xfd, 0x06, 0x1d, 0x08, 0x3e, 0x4e, 0x54, 0xa2, 0xd4, 0x0d, 0xd7, 0xad, 0xc4,
     0x9c, 0x25, 0x11, 0x6c, 0x56, 0x1a, 0x8a, 0x3d, 0xec, 0x78, 0x1c, 0x35, 0xe8, 0xda, 0xad, 0x94],
    [0x4b, 0xa7, 0x85, 0x54, 0x4b, 0x9f, 0xb9, 0xf4, 0x0f, 0x83, 0x80, 0x97, 0xff, 0x7a, 0x74, 0x87,
     0xca, 0x3e, 0x51, 0xb6, 0x8d, 0x8f, 0xf8, 0xea, 0x43, 0xb7, 0xed, 0x2a, 0x5b, 0xfe, 0xeb, 0x5a],
    [0x0b, 0x80, 0xba, 0xc6, 0xa4, 0x11, 0x06, 0xda, 0xf8, 0xb7, 0x7a, 0x19, 0xb0, 0x96, 0x78, 0xbf,
     0xf8, 0x34, 0x1d, 0x28, 0x5c, 0xd4, 0xa3, 0x0e, 0x86, 0x94, 0xfa, 0x1a, 0xa6, 0xc9, 0xdf, 0x5b],
    [0x3c, 0xfd, 0xdf, 0xb0, 0x3f, 0xd5, 0x45, 0x79, 0x0f, 0x10, 0x8f, 0x6f, 0xfa, 0xdd, 0x85, 0x4c,
     0x7b, 0xc3, 0xeb, 0x8a, 0x64, 0xb5, 0xcb, 0xed, 0xa3, 0x33, 0xe2, 0x68, 0x41, 0xbf, 0x45, 0x9f],
    [0x74, 0x8b, 0xbd, 0x48, 0x18, 0xc1, 0x8f, 0x16, 0x45, 0xdf, 0xe3, 0xab, 0xa2, 0x66, 0x03, 0x33,
     0x82, 0xcd, 0x0a, 0xe8, 0x82, 0xcf, 0x14, 0xa0, 0x5c, 0x3a, 0x73, 0xe6, 0x16, 0xa5, 0xe3, 0x6b],
    [0xc3, 0x08, 0x67, 0xef, 0xf3, 0x5d, 0x53, 0x62, 0xf0, 0xdd, 0xcc, 0xdb, 0xdb, 0xba, 0x00, 0x4f,
     0xe0, 0xf2, 0xd8, 0x86, 0x39, 0x79, 0xd7, 0xe9, 0x45, 0x55, 0x55, 0xc9, 0xcf, 0x2c, 0x5c, 0xfb],
    [0x87, 0x34, 0xfc, 0x30, 0xef, 0x46, 0x69, 0x89, 0x92, 0xd5, 0x69, 0x36, 0x6e, 0x37, 0x50, 0xb7,
     0x78, 0xc4, 0x03, 0xa7, 0x96, 0xef, 0x88, 0x91, 0xbd, 0x4b, 0x22, 0x27, 0x6a, 0x82, 0xa2, 0xbd],
    [0xde, 0xfd, 0x3b, 0x7e, 0x48, 0x46, 0x15, 0x9e, 0xca, 0x24, 0x5c, 0x64, 0xa2, 0x56, 0x82, 0xab,
     0x6b, 0x75, 0xb0, 0x7b, 0xf1, 0xc3, 0xac, 0x3b, 0xdb, 0x47, 0x09, 0x2b, 0x3a, 0xad, 0xdb, 0x1d],
    [0x3f, 0xe2, 0xce, 0x59, 0x7c, 0xc1, 0x8a, 0x46, 0x9f, 0xc9, 0x47, 0x0e, 0x0a, 0x02, 0x28, 0x1c,
     0x11, 0xde, 0x4a, 0xec, 0x53, 0x66, 0xe1, 0x71, 0xeb, 0x09, 0xdb, 0x50, 0x67, 0x25, 0x24, 0x0c],
    [0x72, 0x45, 0xd9, 0xf8, 0xa7, 0x14, 0x33, 0xaf, 0x44, 0xf4, 0xbc, 0x2f, 0x6e, 0x80, 0x5c, 0x93,
     0xd1, 0xe1, 0x4f, 0x5f, 0xe1, 0x56, 0x11, 0xf2, 0xd5, 0x9a, 0xaf, 0xb2, 0xc0, 0x5a, 0x81, 0x9e],
    [0xf9, 0xbf, 0x0b, 0x4e, 0xab, 0xa4, 0x7b, 0x4a, 0x45, 0xb5, 0x1c, 0x8b, 0x0b, 0x94, 0xa6, 0x21,
     0xa4, 0x12, 0xb1, 0xc0, 0x2c, 0xad, 0x67, 0x43, 0xa7, 0x4d, 0x5e, 0xbf, 0xe9, 0xb3, 0xdd, 0x94],
    [0x22, 0xf1, 0x3c, 0x53, 0x4b, 0xcc, 0x55, 0x0f, 0x96, 0x3d, 0x3d, 0xe3, 0xa6, 0x09, 0x95, 0x14,
     0x09, 0xcd, 0x9e, 0x4e, 0x1a, 0x7a, 0x2c, 0xb5, 0x87, 0xb7, 0xd5, 0x75, 0x83, 0xa3, 0x1d, 0xb8],
    [0x95, 0xb7, 0xbd, 0x6a, 0x68, 0x94, 0xd4, 0x45, 0x8f, 0x33, 0x4d, 0x38, 0xd8, 0xc7, 0xff, 0x8d,
     0x39, 0xa3, 0x2a, 0xdc, 0xe5, 0xdd, 0xde, 0xda, 0x64, 0xeb, 0xf8, 0x88, 0x75, 0x9c, 0x51, 0xb3],
    [0xe1, 0xbd, 0x9c, 0xd2, 0xcd, 0xba, 0xeb, 0xd0, 0x56, 0x47, 0xe4, 0x07, 0xe2, 0x88, 0x50, 0xe2,
     0x62, 0x9f, 0x28, 0xb9, 0x97, 0x14, 0xc3, 0x14, 0xce, 0x76, 0x2b, 0x5a, 0xce, 0x68, 0x5f, 0xa9],
    [0x69, 0x75, 0x00, 0x4a, 0x3d, 0x58, 0x19, 0x9d, 0xcd, 0x8b, 0x66, 0x46, 0x90, 0xaf, 0xf3, 0xa2,
     0x32, 0x2a, 0x9d, 0x48, 0x3f, 0x4a, 0x00, 0x9a, 0xd0, 0x44, 0x6e, 0x62, 0xc5, 0xee, 0xaf, 0x0a],
    [0x98, 0xb9, 0xa0, 0x2f, 0x84, 0x1f, 0x11, 0xbb, 0xe0, 0xef, 0x1c, 0xdd, 0x01, 0x71, 0x92, 0xc4,
     0xc4, 0xa6, 0x30, 0xa4, 0x60, 0x2f, 0xdf, 0x6c, 0x38, 0x71, 0x53, 0xfe, 0xf5, 0x21, 0xc0, 0x2b],
    [0xee, 0x15, 0x33, 0x81, 0x20, 0xda, 0xfb, 0xf6, 0x6f, 0x00, 0xa2, 0x52, 0x69, 0xd0, 0x58, 0x45,
     0x78, 0x40, 0xcc, 0x5d, 0x9e, 0x51, 0x97, 0x01, 0xf2, 0x7c, 0x98, 0x4a, 0x8d, 0xb9, 0xf4, 0x39],
    [0x2c, 0x18, 0xd2, 0x3f, 0x75, 0x68, 0x8c, 0x75, 0xc7, 0xdd, 0xb6, 0xe1, 0xa0, 0x87, 0xac, 0x8f,
     0xf3, 0x7b, 0x44, 0xb8, 0x56, 0x2c, 0xc4, 0xe6, 0x6f, 0x22, 0xa9, 0x8e, 0xdd, 0x68, 0x45, 0x8d],
    [0xae, 0x77, 0xd9, 0x3e, 0xff, 0x2e, 0x82, 0xec, 0x3b, 0xd7, 0xfa, 0x58, 0xa7, 0x77, 0xb1, 0x0f,
     0xb7, 0xf6, 0x1a, 0x78, 0x58, 0x1d, 0xad, 0xda, 0x78, 0xe7, 0x88, 0x13, 0x16, 0xb4, 0x8d, 0xaf],
    [0xe2, 0x22, 0x6b, 0xc1, 0x0b, 0xe8, 0x2f, 0xee, 0xf6, 0x4b, 0x7d, 0xe5, 0xb6, 0x82, 0xa6, 0x0d,
     0xbd, 0xb1, 0x6d, 0x59, 0x5b, 0x5e, 0x20, 0x73, 0xd1, 0xc7, 0x45, 0x18, 0xf0, 0xbc, 0x54, 0xf4],
    [0x4a, 0xf0, 0x65, 0x8e, 0x7f, 0xa2, 0x0d, 0xbe, 0xd1, 0xfc, 0x74, 0xef, 0xb9, 0x4b, 0xc8, 0xe2,
     0xe0, 0xc2, 0x63, 0xf4, 0x4d, 0xe7, 0xf8, 0x76, 0x1b, 0x72, 0x9d, 0x6f, 0x2e, 0xf0, 0x0a, 0x18],
    [0x9a, 0xed, 0xf9, 0x24, 0xe1, 0xb9, 0x68, 0x7e, 0x17, 0x26, 0x1e, 0xd4, 0xb3, 0x7a, 0x4d, 0x63,
     0x80, 0xef, 0x48, 0x07, 0x9d, 0x77, 0xc0, 0x89, 0x79, 0xaf, 0xbd, 0x4f, 0xdb, 0xf1, 0xd5, 0x2c],
    [0xc1, 0x7c, 0x70, 0x7c, 0xb9, 0x00, 0x15, 0xd7, 0xa0, 0xf6, 0xf3, 0xb6, 0x70, 0xbd, 0x8f, 0x17,
     0xe0, 0xa3, 0x6b, 0xd7, 0xee, 0x9e, 0xf7, 0xb6, 0xcc, 0x02, 0x7b, 0x8e, 0x0e, 0xab, 0xeb, 0xb6],
    [0x19, 0x14, 0xae, 0xc9, 0x13, 0xa2, 0xd3, 0x5e, 0x97, 0x39, 0x16, 0x48, 0x48, 0x83, 0x95, 0x63,
     0xc4, 0x08, 0xf9, 0xc9, 0xa8, 0xd5, 0xde, 0x23, 0x0f, 0x3a, 0x2a, 0xa4, 0x9b, 0x21, 0xd6, 0x93],
    [0x55, 0xeb, 0xee, 0x18, 0x00, 0x3a, 0xeb, 0x53, 0x61, 0x77, 0xb8, 0x1e, 0xa7, 0x74, 0x44, 0xc2,
     0x5c, 0x75, 0x7a, 0xa2, 0xe5, 0x6b, 0xfe, 0x8a, 0xb4, 0x5c, 0xff, 0x00, 0x3c, 0x31, 0x0f, 0x0c],
    [0x2e, 0xed, 0x06, 0xda, 0x03, 0xdc, 0x06, 0xc4, 0x01, 0x7d, 0x33, 0x34, 0xc2, 0x89, 0x1b, 0x56,
     0x54, 0x8d, 0xf1, 0x9a, 0xcc, 0xaf, 0x6f, 0x4f, 0x17, 0xf9, 0x59, 0xb1, 0x70, 0x8f, 0x20, 0x58],
    [0x28, 0xee, 0xb0, 0x68, 0xb3, 0x75, 0x2f, 0xea, 0x25, 0xef, 0x9e, 0xbe, 0x6b, 0xa4, 0x82, 0x42,
     0x23, 0x72, 0x30, 0x7d, 0x14, 0xa2, 0x98, 0x49, 0xed, 0x85, 0x9a, 0x02, 0x9e, 0x15, 0x83, 0x58],
    [0xa6, 0xe9, 0x86, 0xd8, 0xce, 0x00, 0xd5, 0xdb, 0x1c, 0x02, 0xfc, 0xc2, 0x0a, 0x63, 0x37, 0x36,
     0xb7, 0x4f, 0x6e, 0x19, 0x90, 0xdd, 0x62, 0xd2, 0x39, 0x6b, 0x8b, 0x34, 0xa9, 0x81, 0x62, 0x3a],
    [0xea, 0x8a, 0x2c, 0x3c, 0x82, 0x65, 0x3c, 0x17, 0x10, 0xe3, 0x06, 0x04, 0xa0, 0x9a, 0x47, 0x71,
     0xd8, 0x58, 0x1c, 0x41, 0xfa, 0x49, 0x8c, 0x20, 0x33, 0xd7, 0x3a, 0x19, 0x48, 0xc6, 0xec, 0xd1],
    [0x30, 0xd6, 0xbd, 0xa0, 0x33, 0x21, 0x3a, 0xff, 0x65, 0xab, 0x45, 0x39, 0xa5, 0x01, 0x5a, 0x3b,
     0x0f, 0x79, 0xfc, 0xd8, 0x37, 0x26, 0xbe, 0x53, 0x9c, 0x4c, 0x59, 0xda, 0x6d, 0x8f, 0x49, 0x2b],
    [0xc9, 0xaf, 0x0a, 0xc7, 0x08, 0xea, 0x0a, 0xa4, 0x2a, 0x5f, 0xa3, 0xc7, 0xdd, 0xd5, 0x45, 0xa2,
     0x48, 0x78, 0x41, 0x80, 0x54, 0x2c, 0x41, 0x74, 0x08, 0x49, 0x0c, 0xc3, 0x0d, 0x40, 0x20, 0xe6],
    [0x54, 0x78, 0xca, 0x56, 0xcc, 0x1d, 0x22, 0x7c, 0xab, 0x4e, 0xc2, 0x28, 0x26, 0x9f, 0xe6, 0x6b,
     0x86, 0x0c, 0xd6, 0x14, 0x58, 0x4a, 0x15, 0x17, 0x50, 0x99, 0x21, 0xaf, 0x75, 0x3e, 0x15, 0xde],
    [0x3b, 0xfa, 0x06, 0x31, 0x3a, 0x8c, 0x00, 0x4a, 0xf1, 0x72, 0x24, 0x25, 0xf8, 0x37, 0x53, 0xfd,
     0xf7, 0x7e, 0x71, 0x5d, 0x6b, 0xc6, 0xe7, 0x88, 0x6b, 0xb6, 0x9a, 0x4f, 0x44, 0x3d, 0x80, 0x73],
    [0xf3, 0x36, 0x14, 0xc4, 0x84, 0x26, 0x57, 0x95, 0x0c, 0xd4, 0x37, 0xcc, 0x5a, 0xbe, 0x31, 0x90,
     0x1e, 0x95, 0xc2, 0xfc, 0x9c, 0x6b, 0xd3, 0x5f, 0x4c, 0x05, 0x66, 0x43, 0x31, 0x4e, 0xb3, 0x77],
    [0x1d, 0x08, 0xa1, 0x43, 0xe8, 0x4a, 0x09, 0x33, 0x22, 0xbf, 0xf6, 0x2c, 0x64, 0x86, 0x5e, 0x11,
     0xa4, 0xde, 0x1e, 0x89, 0x4e, 0xdb, 0xa8, 0x45, 0x81, 0xda, 0x10, 0x0e, 0x88, 0x12, 0x23, 0xa6],
    [0x7c, 0x9b, 0x3d, 0x72, 0x7f, 0xf8, 0xe9, 0x5a, 0x16, 0x58, 0x25, 0x6c, 0xe4, 0xf1, 0xe5, 0xf0,
     0x60, 0x04, 0xb0, 0xf8, 0x45, 0xb9, 0x14, 0x47, 0x79, 0x60, 0xb0, 0x64, 0x50, 0x10, 0x1a, 0xa8],
    [0xc0, 0x74, 0x82, 0x6d, 0x07, 0x8d, 0xf1, 0x89, 0xa5, 0xbf, 0x85, 0x7c, 0x85, 0xd8, 0xaa, 0x64,
     0xb0, 0x9c, 0xb8, 0x35, 0xd6, 0x90, 0xce, 0xfe, 0x02, 0x6f, 0xdb, 0xa5, 0xfe, 0xdd, 0x4f, 0xc9],
    [0xc3, 0xa0, 0x46, 0x37, 0x30, 0xeb, 0x21, 0x54, 0xec, 0x68, 0x0b, 0x6a, 0xdf, 0x55, 0xf9, 0x16,
     0x97, 0xba, 0x0d, 0x30, 0x2d, 0x02, 0xee, 0x90, 0x3b, 0xe4, 0x10, 0xcf, 0x96, 0xe1, 0xe4, 0xcb],
    [0xcb, 0x47, 0x60, 0x88, 0xba, 0xb9, 0xa4, 0x2a, 0xd9, 0xaf, 0x03, 0x6b, 0xd9, 0xf7, 0xe7, 0x6e,
     0x09, 0x83, 0xdb, 0xaf, 0xf6, 0x81, 0xac, 0xbf, 0x6d, 0xfc, 0xad, 0xd9, 0x89, 0xa9, 0xd9, 0xc7],
    [0xa2, 0xd7, 0xad, 0xf5, 0x26, 0x3c, 0xef, 0xf9, 0x50, 0xdf, 0xf3, 0x5b, 0xc8, 0x2c, 0xd5, 0x38,
     0x6e, 0xf9, 0xe0, 0x5b, 0xdd, 0xd1, 0x95, 0x1b, 0xe4, 0xf9, 0x3c, 0x79, 0x31, 0x80, 0xcc, 0x4b],
    [0x9a, 0x10, 0xed, 0x3c, 0x4a, 0x96, 0xcc, 0x7c, 0x14, 0xc7, 0x5e, 0x7f, 0xa8, 0x46, 0x85, 0x8d,
     0xe7, 0xc1, 0x2e, 0x6a, 0x7b, 0x50, 0xcb, 0x1b, 0x80, 0xa8, 0x8a, 0xa6, 0xde, 0xf5, 0x53, 0x71],
    [0x19, 0x78, 0x3e, 0x82, 0xcb, 0xe2, 0x85, 0x8b, 0x8e, 0xf0, 0x32, 0x7c, 0x3b, 0x14, 0xf4, 0x89,
     0x49, 0x85, 0x21, 0x66, 0x6b, 0xc1, 0x33, 0xa4, 0x43, 0x72, 0x83, 0x72, 0x5f, 0x63, 0x9f, 0xfb],
    [0xa9, 0xb7, 0x6b, 0xb5, 0x56, 0xfa, 0xf0, 0xa4, 0xde, 0x11, 0xa1, 0xab, 0x2c, 0x65, 0x0a, 0xbc,
     0x94, 0x62, 0xc8, 0x64, 0x60, 0x4d, 0x12, 0xc1, 0xfd, 0xd5, 0x3c, 0xd4, 0x68, 0xce, 0x6c, 0xc4],
    [0x25, 0x56, 0x65, 0x31, 0x01, 0xba, 0x88, 0x8f, 0xb8, 0x9a, 0x5d, 0x34, 0xbc, 0xc8, 0x9e, 0x8a,
     0xc3, 0xad, 0x65, 0xab, 0x99, 0xf2, 0xf0, 0x9e, 0x16, 0x33, 0x78, 0x93, 0xfb, 0x29, 0x46, 0xc7],
    [0xf8, 0xe6, 0x5a, 0x20, 0x0e, 0xb5, 0x2f, 0x55, 0xe4, 0xa8, 0xe0, 0x77, 0x63, 0x7d, 0x88, 0x1f,
     0x82, 0x64, 0x34, 0x9c, 0xd9, 0x5d, 0x9f, 0x14, 0xd6, 0x5f, 0x71, 0x5d, 0xde, 0xac, 0x26, 0x19],
    [0x39, 0xf6, 0x70, 0xba, 0x06, 0xa2, 0x53, 0x4d, 0xa7, 0x82, 0x13, 0x38, 0x20, 0x14, 0x19, 0x3d,
     0x67, 0xa9, 0xec, 0x88, 0xa6, 0x53, 0x53, 0xdf, 0xc2, 0x92, 0xa9, 0x81, 0x67, 0x5a, 0x51, 0xe2],
    [0xd6, 0x7a, 0xb5, 0xd4, 0x3b, 0x47, 0x18, 0xed, 0xd0, 0xe9, 0x48, 0xad, 0xfb, 0xa7, 0x8b, 0x52,
     0x43, 0x01, 0x77, 0x9d, 0x27, 0x05, 0x46, 0xab, 0x0c, 0x92, 0x8f, 0xf2, 0x5e, 0xaa, 0x70, 0x37],
    [0x18, 0x71, 0xa1, 0xd8, 0xdc, 0x0d, 0x8e, 0x9e, 0x89, 0xdc, 0x62, 0xc9, 0x16, 0xde, 0xac, 0xb7,
     0x38, 0x10, 0xdd, 0xae, 0x46, 0x4d, 0x0c, 0xa4, 0x88, 0xed, 0x3b, 0x6b, 0xa9, 0x9f, 0x21, 0x4f],
    [0xc8, 0x10, 0xa0, 0xe2, 0x62, 0xc2, 0xaf, 0x1f, 0x3b, 0x6d, 0xbb, 0x71, 0xc2, 0x6f, 0xe2, 0x46,
     0xb0, 0xb6, 0xb5, 0xa3, 0xe9, 0x03, 0x75, 0x95, 0x95, 0xd1, 0x76, 0x01, 0xf0, 0x17, 0x83, 0x11]]"

definition default_hash :: "nat \<Rightarrow> hash" where
  "default_hash level =
    (if level < length DEFAULT_SUBTREE_HASHES then DEFAULT_SUBTREE_HASHES ! level else EMPTY_LEAF_HASH)"

section \<open>What the table looks like\<close>

lemma table_length: "length DEFAULT_SUBTREE_HASHES = 257"
  by (simp add: DEFAULT_SUBTREE_HASHES_def)

lemma table_hash_length: "list_all (\<lambda>h. length h = 32) DEFAULT_SUBTREE_HASHES"
  by (simp add: DEFAULT_SUBTREE_HASHES_def)

lemma table_head: "DEFAULT_SUBTREE_HASHES ! 0 = EMPTY_LEAF_HASH"
  by (simp add: DEFAULT_SUBTREE_HASHES_def EMPTY_LEAF_HASH_def)

text \<open>Two bytes of an entry already tell it from the others.\<close>

lemma table_distinct: "distinct DEFAULT_SUBTREE_HASHES"
proof -
  let ?mark = "\<lambda>h :: hash. 256 * unat (hd h) + unat (hd (tl h))"
  have "distinct (map ?mark DEFAULT_SUBTREE_HASHES)"
    by (simp add: DEFAULT_SUBTREE_HASHES_def)
  then show ?thesis by (simp add: distinct_map)
qed

end
