(* ===== verification/State_Key.thy ===== *)
theory State_Key
  imports Default_Hashes
begin

text \<open>
  The keys of the state tree (\<^verbatim>\<open>key.rs\<close> of \<^verbatim>\<open>statechronicle-accumulator\<close>): the SHA-256 image of a tagged and
  length-prefixed composite of tenant, resource and, for state a subject holds, the subject. SHA-256
  is the parameter \<^verbatim>\<open>sha\<close>. The lemmas relate the order of keys, in which the tree keeps its leaves,
  to the bits on which it routes, and show that the composite determines its parts.
\<close>

unbundle bit_operations_syntax

type_synonym state_key = "byte list"

type_synonym sha256 = "byte list \<Rightarrow> hash"

definition KEY_DOMAIN_PREFIX :: byte where
  "KEY_DOMAIN_PREFIX = 0x00"

definition KEY_RESOURCE_TAG :: byte where
  "KEY_RESOURCE_TAG = 0x01"

definition KEY_SUBJECT_TAG :: byte where
  "KEY_SUBJECT_TAG = 0x02"

definition bit_at :: "state_key \<Rightarrow> nat \<Rightarrow> bool" where
  "bit_at key pos =
    (let byte_index = drop_bit 3 pos; bit_in_byte = pos AND 7 in
     if byte_index < length key
     then drop_bit (7 - bit_in_byte) (key ! byte_index) AND 1 = 1
     else False)"

definition u64_len_prefix :: "string \<Rightarrow> byte list" where
  "u64_len_prefix value =
    (let len = of_nat (length value) :: 64 word in map (\<lambda>i. ucast (drop_bit (8 * i) len)) [0..<8])"

definition resource_preimage :: "string \<Rightarrow> string \<Rightarrow> byte list" where
  "resource_preimage tenant_id resource_id =
    KEY_DOMAIN_PREFIX # u64_len_prefix tenant_id @ map of_char tenant_id @
    KEY_RESOURCE_TAG # u64_len_prefix resource_id @ map of_char resource_id"

definition subject_preimage :: "string \<Rightarrow> string \<Rightarrow> string \<Rightarrow> byte list" where
  "subject_preimage tenant_id resource_id subject_id =
    KEY_DOMAIN_PREFIX # u64_len_prefix tenant_id @ map of_char tenant_id @
    KEY_RESOURCE_TAG # u64_len_prefix resource_id @ map of_char resource_id @
    KEY_SUBJECT_TAG # u64_len_prefix subject_id @ map of_char subject_id"

definition for_resource :: "sha256 \<Rightarrow> string \<Rightarrow> string \<Rightarrow> state_key" where
  "for_resource sha tenant_id resource_id = sha (resource_preimage tenant_id resource_id)"

definition for_subject_held :: "sha256 \<Rightarrow> string \<Rightarrow> string \<Rightarrow> string \<Rightarrow> state_key" where
  "for_subject_held sha tenant_id resource_id subject_id =
    sha (subject_preimage tenant_id resource_id subject_id)"

section \<open>Bits and the order of keys\<close>

lemma bit_at_eq:
  "bit_at key p \<longleftrightarrow> p div 8 < length key \<and> bit (key ! (p div 8)) (7 - p mod 8)"
proof -
  have "p AND 7 = p mod 8" using take_bit_eq_mask [of 3 p] by (simp add: take_bit_eq_mod mask_eq_exp_minus_1)
  moreover have "drop_bit 3 p = p div 8" by (simp add: drop_bit_eq_div)
  moreover have "drop_bit n w AND 1 = 1 \<longleftrightarrow> bit w n" for n and w :: byte
    by (simp add: and_one_eq bit_iff_odd_drop_bit odd_iff_mod_2_eq_one)
  ultimately show ?thesis by (auto simp: bit_at_def Let_def)
qed

lemma bit_at_byte: "p < 8 \<Longrightarrow> bit_at (b # bs) p \<longleftrightarrow> bit b (7 - p)"
  by (simp add: bit_at_eq)

lemma bit_at_next: "bit_at (b # bs) (p + 8) \<longleftrightarrow> bit_at bs p"
  by (simp add: bit_at_eq)

text \<open>The most significant bit in which two numbers differ decides their order.\<close>

lemma nat_less_bits:
  fixes x y :: nat
  assumes "x < y"
  shows "\<exists>m. \<not> bit x m \<and> bit y m \<and> (\<forall>j. m < j \<longrightarrow> bit x j = bit y j)"
  using assms
proof (induction y arbitrary: x rule: less_induct)
  case (less y)
  show ?case
  proof (cases "x div 2 = y div 2")
    case True
    then have "even x" "odd y" using less.prems by presburger+
    moreover have "bit x j = bit y j" if "0 < j" for j
      using that True by (cases j) (simp_all add: bit_Suc)
    ultimately show ?thesis by (auto simp: bit_0 intro!: exI [of _ 0])
  next
    case False
    then have "x div 2 < y div 2" using less.prems by presburger
    moreover have "y div 2 < y" using less.prems by simp
    ultimately obtain m where m: "\<not> bit (x div 2) m" "bit (y div 2) m"
      "\<forall>j. m < j \<longrightarrow> bit (x div 2) j = bit (y div 2) j"
      using less.IH by blast
    have "bit x j = bit y j" if "Suc m < j" for j
      using that m(3) by (cases j) (simp_all add: bit_Suc)
    with m(1,2) show ?thesis by (intro exI [of _ "Suc m"]) (simp add: bit_Suc)
  qed
qed

lemma byte_less_bits:
  fixes b b' :: byte
  assumes "b < b'"
  shows "\<exists>i < 8. \<not> bit b (7 - i) \<and> bit b' (7 - i) \<and> (\<forall>j < i. bit b (7 - j) = bit b' (7 - j))"
proof -
  obtain m where m: "\<not> bit b m" "bit b' m" "\<forall>j. m < j \<longrightarrow> bit b j = bit b' j"
    using nat_less_bits [of "unat b" "unat b'"] assms by (auto simp: word_less_nat_alt bit_unsigned_iff)
  have "m < 8" using m(2) bit_imp_le_length [of b' m] by simp
  moreover have "m < 7 - j" if "j < 7 - m" for j using that by simp
  ultimately show ?thesis using m by (intro exI [of _ "7 - m"]) auto
qed

lemma key_less_bits:
  assumes "length k = length k'" and "k < k'"
  shows "\<exists>p < 8 * length k. \<not> bit_at k p \<and> bit_at k' p \<and> (\<forall>q < p. bit_at k q = bit_at k' q)"
  using assms
proof (induction k k' rule: list_induct2)
  case (Cons b bs b' bs')
  consider "b < b'" | "b = b'" "bs < bs'" using Cons.prems by (auto simp: Cons_less_Cons)
  then show ?case
  proof cases
    case 1
    then obtain i where "i < 8" "\<not> bit b (7 - i)" "bit b' (7 - i)" "\<forall>j < i. bit b (7 - j) = bit b' (7 - j)"
      using byte_less_bits by blast
    then show ?thesis by (intro exI [of _ i]) (auto simp: bit_at_byte)
  next
    case 2
    then obtain p where p: "p < 8 * length bs" "\<not> bit_at bs p" "bit_at bs' p" "\<forall>q < p. bit_at bs q = bit_at bs' q"
      using Cons.IH by blast
    have "bit_at (b # bs) q = bit_at (b' # bs') q" if "q < p + 8" for q
    proof (cases "q < 8")
      case False
      then obtain r where "q = r + 8" by (metis add.commute le_Suc_ex not_less)
      then show ?thesis using that p(4) by (simp add: bit_at_next)
    qed (simp add: bit_at_byte 2)
    then show ?thesis using p by (intro exI [of _ "p + 8"]) (auto simp: bit_at_next)
  qed
qed simp

lemma key_order_follows_bit:
  assumes "length k = length k'" and "k < k'" and "\<forall>q < p. bit_at k q = bit_at k' q" and "bit_at k p"
  shows "bit_at k' p"
proof -
  obtain s where "\<not> bit_at k s" "bit_at k' s" "\<forall>q < s. bit_at k q = bit_at k' q"
    using key_less_bits [OF assms(1,2)] by blast
  then show ?thesis using assms(3,4) by (cases s p rule: linorder_cases) auto
qed

lemma key_eq_bits:
  assumes "length k = length k'" and "\<forall>q < 8 * length k. bit_at k q = bit_at k' q"
  shows "k = k'"
proof (rule ccontr)
  assume "k \<noteq> k'"
  then consider "k < k'" | "k' < k" by (auto simp: neq_iff)
  then show False
    by cases (use key_less_bits [of k k'] key_less_bits [of k' k] assms in auto)
qed

section \<open>The composite determines its parts\<close>

lemma length_u64_len_prefix [simp]: "length (u64_len_prefix s) = 8"
  by (simp add: u64_len_prefix_def Let_def)

lemma le_bytes_inj:
  fixes v w :: "64 word"
  assumes "\<forall>i < 8. (ucast (drop_bit (8 * i) v) :: byte) = ucast (drop_bit (8 * i) w)"
  shows "v = w"
proof (rule bit_word_eqI)
  fix n assume n: "n < LENGTH(64)"
  let ?i = "n div 8" and ?j = "n mod 8"
  have "bit (ucast (drop_bit (8 * ?i) u) :: byte) ?j \<longleftrightarrow> bit u n" for u :: "64 word"
    using n by (simp add: bit_ucast_iff bit_drop_bit_eq)
  moreover have "?i < 8" using n by simp
  ultimately show "bit v n = bit w n" using assms by metis
qed

lemma u64_len_prefix_inj:
  assumes "u64_len_prefix s = u64_len_prefix t" and "length s < 2 ^ 64" and "length t < 2 ^ 64"
  shows "length s = length t"
proof -
  have "(of_nat (length s) :: 64 word) = of_nat (length t)"
    using assms(1) by (intro le_bytes_inj) (auto simp: u64_len_prefix_def Let_def)
  then have "unat (of_nat (length s) :: 64 word) = unat (of_nat (length t) :: 64 word)" by simp
  then show ?thesis using assms(2,3) by (simp add: unat_of_nat_less)
qed

lemma field_inj:
  assumes "u64_len_prefix s @ map of_char s @ x = u64_len_prefix t @ map of_char t @ (y :: byte list)"
    and "length s < 2 ^ 64" and "length t < 2 ^ 64"
  shows "s = t \<and> x = y"
proof -
  have split: "u64_len_prefix s = u64_len_prefix t" "map of_char s @ x = map of_char t @ y"
    using assms(1) by (simp_all add: append_eq_append_conv)
  then have "length s = length t" using u64_len_prefix_inj assms(2,3) by blast
  with split(2) have "map (of_char :: char \<Rightarrow> byte) s = map of_char t" "x = y"
    by (simp_all add: append_eq_append_conv)
  moreover have "inj (of_char :: char \<Rightarrow> byte)"
    by (rule injI) (metis of_char_eq_iff unat_of_char_byte)
  ultimately show ?thesis by (simp add: inj_map_eq_map)
qed

definition address_preimage :: "string \<Rightarrow> string \<Rightarrow> string option \<Rightarrow> byte list" where
  "address_preimage tenant_id resource_id subject_id =
    (case subject_id of
       None \<Rightarrow> resource_preimage tenant_id resource_id
     | Some s \<Rightarrow> subject_preimage tenant_id resource_id s)"

definition short_address :: "string \<Rightarrow> string \<Rightarrow> string option \<Rightarrow> bool" where
  "short_address tenant_id resource_id subject_id \<longleftrightarrow>
    length tenant_id < 2 ^ 64 \<and> length resource_id < 2 ^ 64 \<and>
    (case subject_id of None \<Rightarrow> True | Some s \<Rightarrow> length s < 2 ^ 64)"

definition address_tail :: "string option \<Rightarrow> byte list" where
  "address_tail subject_id =
    (case subject_id of None \<Rightarrow> [] | Some s \<Rightarrow> KEY_SUBJECT_TAG # u64_len_prefix s @ map of_char s)"

lemma address_preimage_eq:
  "address_preimage t r s = KEY_DOMAIN_PREFIX # u64_len_prefix t @ map of_char t @
    KEY_RESOURCE_TAG # u64_len_prefix r @ map of_char r @ address_tail s"
  by (simp add: address_preimage_def address_tail_def resource_preimage_def subject_preimage_def split: option.split)

lemma address_preimage_inj:
  assumes "address_preimage t r s = address_preimage t' r' s'"
    and "short_address t r s" and "short_address t' r' s'"
  shows "t = t' \<and> r = r' \<and> s = s'"
proof -
  have "t = t' \<and> KEY_RESOURCE_TAG # u64_len_prefix r @ map of_char r @ address_tail s =
      KEY_RESOURCE_TAG # u64_len_prefix r' @ map of_char r' @ address_tail s'"
    using assms by (intro field_inj) (simp_all add: address_preimage_eq short_address_def)
  moreover from this have "r = r' \<and> address_tail s = address_tail s'"
    using assms(2,3) by (intro field_inj) (simp_all add: short_address_def)
  moreover have "s = s'" if "address_tail s = address_tail s'"
    using that assms(2,3) field_inj [of _ "[]" _ "[]"]
    by (auto simp: address_tail_def short_address_def split: option.splits)
  ultimately show ?thesis by blast
qed

end
