(* ===== verification/Merkle_Proofs.thy ===== *)
theory Merkle_Proofs
  imports Sparse_Merkle
begin

text \<open>
  What the proofs of the state accumulator are worth. The hash of a subtree is first recast as a
  recursion over the leaves that share a prefix, which frees the arguments from index arithmetic.
  Then a proof the accumulator issues verifies against its root, a proof that verifies binds the
  leaf it carries, and the root does not depend on the order of insertion.
\<close>

section \<open>Subtrees as lists of leaves\<close>

definition leaves_ok :: "(state_key \<times> hash) list \<Rightarrow> bool" where
  "leaves_ok es \<longleftrightarrow> btree_ok es \<and> (\<forall>e \<in> set es. length (fst e) = 32 \<and> length (snd e) = 32)"

text \<open>The leaves below the node on the path of a key at a height, and those below its sibling.\<close>

definition on_path :: "state_key \<Rightarrow> nat \<Rightarrow> state_key \<times> hash \<Rightarrow> bool" where
  "on_path key h e \<longleftrightarrow> (\<forall>q < 256 - h. bit_at (fst e) q = bit_at key q)"

definition beside :: "state_key \<Rightarrow> nat \<Rightarrow> state_key \<times> hash \<Rightarrow> bool" where
  "beside key h e \<longleftrightarrow> on_path key (Suc h) e \<and> bit_at (fst e) (255 - h) \<noteq> bit_at key (255 - h)"

fun subtree :: "sha256 \<Rightarrow> (state_key \<times> hash) list \<Rightarrow> nat \<Rightarrow> hash" where
  "subtree sha [] h = default_hash h"
| "subtree sha (e # es) 0 = leaf_hash sha (fst e) (snd e)"
| "subtree sha (e # es) (Suc h) =
    internal_hash sha (subtree sha (filter (\<lambda>e. \<not> bit_at (fst e) (255 - h)) (e # es)) h)
      (subtree sha (filter (\<lambda>e. bit_at (fst e) (255 - h)) (e # es)) h)"

definition segment :: "'a list \<Rightarrow> nat \<Rightarrow> nat \<Rightarrow> 'a list" where
  "segment xs a b = take (b - a) (drop a xs)"

definition agree :: "(state_key \<times> hash) list \<Rightarrow> nat \<Rightarrow> bool" where
  "agree es p \<longleftrightarrow> (\<forall>a \<in> set es. \<forall>b \<in> set es. \<forall>q < p. bit_at (fst a) q = bit_at (fst b) q)"

lemma subtree_Suc:
  "es \<noteq> [] \<Longrightarrow> subtree sha es (Suc h) =
    internal_hash sha (subtree sha (filter (\<lambda>e. \<not> bit_at (fst e) (255 - h)) es) h)
      (subtree sha (filter (\<lambda>e. bit_at (fst e) (255 - h)) es) h)"
  by (cases es) (simp_all del: filter.simps)

lemma leaves_ok_Nil [simp]: "leaves_ok []"
  by (simp add: leaves_ok_def)

lemma leaves_ok_Cons [simp]:
  "leaves_ok (e # es) \<longleftrightarrow>
    (\<forall>e' \<in> set es. fst e < fst e') \<and> length (fst e) = 32 \<and> length (snd e) = 32 \<and> leaves_ok es"
  by (cases e) (auto simp: leaves_ok_def)

lemma leaves_ok_sorted:
  "leaves_ok es \<longleftrightarrow>
    sorted_wrt (\<lambda>e e'. fst e < fst e') es \<and> (\<forall>e \<in> set es. length (fst e) = 32 \<and> length (snd e) = 32)"
  by (simp add: leaves_ok_def btree_ok_def sorted_wrt_map)

lemma leaves_ok_filter: "leaves_ok es \<Longrightarrow> leaves_ok (filter P es)"
  by (simp add: leaves_ok_sorted sorted_wrt_filter)

lemma leaves_ok_length:
  "leaves_ok es \<Longrightarrow> e \<in> set es \<Longrightarrow> length (fst e) = 32"
  "leaves_ok es \<Longrightarrow> e \<in> set es \<Longrightarrow> length (snd e) = 32"
  by (simp_all add: leaves_ok_def)

lemma leaves_ok_take: "leaves_ok es \<Longrightarrow> leaves_ok (take n es)"
  unfolding leaves_ok_sorted by (meson in_set_takeD sorted_wrt_take)

lemma leaves_ok_drop: "leaves_ok es \<Longrightarrow> leaves_ok (drop n es)"
  unfolding leaves_ok_sorted by (meson in_set_dropD sorted_wrt_drop)

lemma leaves_ok_segment: "leaves_ok es \<Longrightarrow> leaves_ok (segment es a b)"
  by (simp add: segment_def leaves_ok_take leaves_ok_drop)

lemma agree_Cons:
  "agree (e # es) p \<longleftrightarrow> (\<forall>b \<in> set es. \<forall>q < p. bit_at (fst e) q = bit_at (fst b) q) \<and> agree es p"
  unfolding agree_def list.set by blast

lemma agree_filter: "agree es p \<Longrightarrow> agree (filter P es) p"
  unfolding agree_def set_filter by blast

lemma agree_filter_Suc: "agree es p \<Longrightarrow> agree (filter (\<lambda>e. bit_at (fst e) p = c) es) (Suc p)"
  unfolding agree_def set_filter less_Suc_eq by blast

text \<open>Leaves that agree on the bits before a position are partitioned by the bit at it.\<close>

lemma split_leaves:
  assumes "leaves_ok es" and "agree es p"
  shows "takeWhile (\<lambda>e. \<not> bit_at (fst e) p) es = filter (\<lambda>e. \<not> bit_at (fst e) p) es \<and>
    dropWhile (\<lambda>e. \<not> bit_at (fst e) p) es = filter (\<lambda>e. bit_at (fst e) p) es"
  using assms
proof (induction es)
  case (Cons e es)
  have rest: "bit_at (fst e') p" if e': "e' \<in> set es" and set_bit: "bit_at (fst e) p" for e'
  proof (rule key_order_follows_bit)
    show "length (fst e) = length (fst e')"
      using Cons.prems(1) e' leaves_ok_length(1) [of es e'] by simp
    show "fst e < fst e'" using Cons.prems(1) e' by simp
    show "\<forall>q < p. bit_at (fst e) q = bit_at (fst e') q" using Cons.prems(2) e' by (simp add: agree_Cons)
  qed (rule set_bit)
  show ?case
  proof (cases "bit_at (fst e) p")
    case True
    then have "filter (\<lambda>e. bit_at (fst e) p) es = es" "filter (\<lambda>e. \<not> bit_at (fst e) p) es = []"
      using rest by (simp_all add: filter_id_conv filter_empty_conv)
    with True show ?thesis by simp
  next
    case False
    then show ?thesis using Cons by (simp add: agree_Cons)
  qed
qed simp

lemma bits_determine_leaf:
  assumes "leaves_ok es" and "agree es 256" and "es \<noteq> []"
  shows "\<exists>e. es = [e]"
proof -
  obtain e es' where es: "es = e # es'" using assms(3) by (cases es) auto
  have "es' = []"
  proof (rule ccontr)
    assume "es' \<noteq> []"
    then obtain e' where e': "e' \<in> set es'" by (cases es') auto
    then have "fst e < fst e'" "length (fst e) = length (fst e')" "length (fst e) = 32"
      using assms(1) leaves_ok_length(1) [of es' e'] by (simp_all add: es)
    moreover have "\<forall>q < 256. bit_at (fst e) q = bit_at (fst e') q" using assms(2) e' by (simp add: es agree_Cons)
    ultimately show False using key_eq_bits [of "fst e" "fst e'"] by simp
  qed
  with es show ?thesis by simp
qed

section \<open>The index arithmetic computes the subtrees\<close>

lemma segment_takeWhile:
  assumes "a \<le> b"
  shows "segment xs a (a + length (takeWhile P (segment xs a b))) = takeWhile P (segment xs a b)"
    and "segment xs (a + length (takeWhile P (segment xs a b))) b = dropWhile P (segment xs a b)"
    and "a + length (takeWhile P (segment xs a b)) \<le> b"
proof -
  let ?n = "length (takeWhile P (segment xs a b))"
  have n: "?n \<le> b - a" using length_takeWhile_le [of P "segment xs a b"] by (simp add: segment_def)
  have "take ?n (segment xs a b) = takeWhile P (segment xs a b)" by (rule takeWhile_eq_take [symmetric])
  then show "segment xs a (a + ?n) = takeWhile P (segment xs a b)" using n by (simp add: segment_def min_def)
  have "drop ?n (segment xs a b) = dropWhile P (segment xs a b)" by (rule dropWhile_eq_drop [symmetric])
  then show "segment xs (a + ?n) b = dropWhile P (segment xs a b)"
    using n by (simp add: segment_def drop_take add.commute)
  show "a + ?n \<le> b" using n assms by simp
qed

lemma split_at_segments:
  assumes "leaves_ok es" and "a \<le> b" and "b \<le> length es" and "agree (segment es a b) p"
  shows "segment es a (split_at es a b p) = filter (\<lambda>e. \<not> bit_at (fst e) p) (segment es a b)"
    and "segment es (split_at es a b p) b = filter (\<lambda>e. bit_at (fst e) p) (segment es a b)"
    and "a \<le> split_at es a b p" and "split_at es a b p \<le> b"
proof -
  have m: "split_at es a b p = a + length (takeWhile (\<lambda>e. \<not> bit_at (fst e) p) (segment es a b))"
    using assms(2,3) by (simp add: split_at_def segment_def case_prod_unfold)
  note cut = split_leaves [OF leaves_ok_segment [OF assms(1)] assms(4)]
  show "segment es a (split_at es a b p) = filter (\<lambda>e. \<not> bit_at (fst e) p) (segment es a b)"
    unfolding m using segment_takeWhile(1) [OF assms(2)] cut by metis
  show "segment es (split_at es a b p) b = filter (\<lambda>e. bit_at (fst e) p) (segment es a b)"
    unfolding m using segment_takeWhile(2) [OF assms(2)] cut by metis
  show "a \<le> split_at es a b p" by (simp add: m)
  show "split_at es a b p \<le> b" unfolding m by (rule segment_takeWhile(3) [OF assms(2)])
qed

lemma segment_empty_iff: "b \<le> length es \<Longrightarrow> segment es a b = [] \<longleftrightarrow> a \<ge> b"
  by (auto simp: segment_def)

lemma segment_head: "a < b \<Longrightarrow> b \<le> length es \<Longrightarrow> segment es a b = es ! a # segment es (Suc a) b"
  by (simp add: segment_def Cons_nth_drop_Suc [symmetric] take_Cons')

lemma node_hash_subtree:
  assumes "leaves_ok es" and "h \<le> 256" and "a \<le> b" and "b \<le> length es" and "agree (segment es a b) (256 - h)"
  shows "node_hash sha es a b h = subtree sha (segment es a b) h"
  using assms(2-)
proof (induction h arbitrary: a b)
  case 0
  show ?case
  proof (cases "a < b")
    case True
    then show ?thesis using 0 by (simp add: segment_head)
  next
    case False
    then have "segment es a b = []" using 0 by (simp add: segment_empty_iff)
    with False show ?thesis by simp
  qed
next
  case (Suc h)
  show ?case
  proof (cases "a < b")
    case True
    have p: "TREE_DEPTH - Suc h = 255 - h" by (simp add: TREE_DEPTH_def)
    have bits: "256 - h = Suc (255 - h)" "256 - Suc h = 255 - h" using Suc.prems(1) by simp_all
    let ?es = "segment es a b" and ?m = "split_at es a b (255 - h)"
    have agr: "agree ?es (255 - h)" using Suc.prems(4) bits by simp
    note cut = split_at_segments [OF assms(1) Suc.prems(2,3) agr]
    have left: "agree (segment es a ?m) (256 - h)"
      unfolding cut(1) bits using agree_filter_Suc [OF agr, of False] by simp
    have right: "agree (segment es ?m b) (256 - h)"
      unfolding cut(2) bits using agree_filter_Suc [OF agr, of True] by simp
    have "node_hash sha es a ?m h = subtree sha (segment es a ?m) h"
      by (rule Suc.IH [OF _ cut(3) _ left]) (use Suc.prems cut(4) in simp_all)
    moreover have "node_hash sha es ?m b h = subtree sha (segment es ?m b) h"
      by (rule Suc.IH [OF _ cut(4) _ right]) (use Suc.prems in simp_all)
    ultimately have "node_hash sha es a b (Suc h) =
        internal_hash sha (subtree sha (segment es a ?m) h) (subtree sha (segment es ?m b) h)"
      using True Suc.prems(1) by (simp add: p TREE_DEPTH_def Let_def)
    moreover have "?es \<noteq> []" using True Suc.prems(3) by (simp add: segment_empty_iff)
    ultimately show ?thesis by (simp only: cut(1,2) subtree_Suc [OF \<open>?es \<noteq> []\<close>])
  next
    case False
    then have "segment es a b = []" using Suc.prems by (simp add: segment_empty_iff)
    with False show ?thesis by simp
  qed
qed

lemma segment_all: "segment es 0 (length es) = es"
  by (simp add: segment_def)

lemma compute_root_subtree:
  assumes "leaves_ok (ac_leaves acc)"
  shows "compute_root sha acc = subtree sha (ac_leaves acc) 256"
  using node_hash_subtree [OF assms, of 256 0 "length (ac_leaves acc)" sha]
  by (simp add: compute_root_def TREE_DEPTH_def segment_all agree_def)

section \<open>Climbing from a leaf\<close>

text \<open>The value that \<^const>\<open>climb\<close> has computed when it reaches a level.\<close>

primrec ascend :: "sha256 \<Rightarrow> state_key \<Rightarrow> (nat \<Rightarrow> hash) \<Rightarrow> hash \<Rightarrow> nat \<Rightarrow> hash" where
  "ascend sha key sib leaf 0 = leaf"
| "ascend sha key sib leaf (Suc h) =
    (if bit_at key (255 - h) then internal_hash sha (sib h) (ascend sha key sib leaf h)
     else internal_hash sha (ascend sha key sib leaf h) (sib h))"

lemma climb_ascend:
  assumes "level \<le> 256"
  shows "climb sha key m level (ascend sha key (sibling_at m) leaf level) = ascend sha key (sibling_at m) leaf 256"
  using assms
proof (induction "256 - level" arbitrary: level)
  case 0
  then show ?case by (simp add: climb.simps [of sha key m 256] TREE_DEPTH_def)
next
  case (Suc n)
  then have "level < 256" by simp
  then have "climb sha key m level (ascend sha key (sibling_at m) leaf level) =
      climb sha key m (Suc level) (ascend sha key (sibling_at m) leaf (Suc level))"
    by (simp add: climb.simps [of sha key m level] TREE_DEPTH_def)
  also have "\<dots> = ascend sha key (sibling_at m) leaf 256"
    using Suc \<open>level < 256\<close> by (intro Suc.hyps(1)) simp_all
  finally show ?case .
qed

lemma verify_path_ascend:
  "verify_path sha rt key leaf steps \<longleftrightarrow>
    ascend sha key (sibling_at (steps_by_level steps)) leaf 256 = rt"
  using climb_ascend [of 0 sha key "steps_by_level steps" leaf] by (simp add: verify_path_def)

lemma on_path_0: "length (fst e) = 32 \<Longrightarrow> length key = 32 \<Longrightarrow> on_path key 0 e \<longleftrightarrow> fst e = key"
  using key_eq_bits [of "fst e" key] by (auto simp: on_path_def)

lemma on_path_mono: "on_path key h e \<Longrightarrow> h \<le> h' \<Longrightarrow> on_path key h' e"
  unfolding on_path_def by (meson diff_le_mono2 less_le_trans)

lemma on_path_256 [simp]: "on_path key 256 e"
  by (simp add: on_path_def)

lemma on_path_step:
  "h < 256 \<Longrightarrow> on_path key h e \<longleftrightarrow> on_path key (Suc h) e \<and> bit_at (fst e) (255 - h) = bit_at key (255 - h)"
proof -
  assume "h < 256"
  then have bits: "256 - h = Suc (255 - h)" "256 - Suc h = 255 - h" by simp_all
  show ?thesis unfolding on_path_def bits less_Suc_eq by blast
qed

lemma path_subtree:
  assumes "h < 256" and "filter (on_path key (Suc h)) es \<noteq> []"
  shows "subtree sha (filter (on_path key (Suc h)) es) (Suc h) =
    (if bit_at key (255 - h)
     then internal_hash sha (subtree sha (filter (beside key h) es) h) (subtree sha (filter (on_path key h) es) h)
     else internal_hash sha (subtree sha (filter (on_path key h) es) h) (subtree sha (filter (beside key h) es) h))"
proof -
  let ?es = "filter (on_path key (Suc h)) es"
  have "filter (\<lambda>e. bit_at (fst e) (255 - h) = bit_at key (255 - h)) ?es = filter (on_path key h) es"
    "filter (\<lambda>e. bit_at (fst e) (255 - h) \<noteq> bit_at key (255 - h)) ?es = filter (beside key h) es"
    using on_path_step [OF assms(1), of key] by (simp_all add: beside_def conj_commute cong: filter_cong)
  then show ?thesis
    unfolding subtree_Suc [OF assms(2)] by (cases "bit_at key (255 - h)") simp_all
qed

definition defaults_ok :: "sha256 \<Rightarrow> bool" where
  "defaults_ok sha \<longleftrightarrow>
    EMPTY_LEAF_HASH = leaf_hash sha (replicate 32 0) (replicate 32 0) \<and>
    (\<forall>h < 256. default_hash (Suc h) = internal_hash sha (default_hash h) (default_hash h))"

text \<open>
  With the right siblings the climb computes the subtrees on the path. The table of empty subtrees
  only matters below a node without leaves.
\<close>

lemma ascend_path:
  assumes sib: "\<forall>l < 256. sib l = subtree sha (filter (beside key l) es) l"
    and leaf: "leaf = subtree sha (filter (on_path key 0) es) 0"
    and empty: "filter (on_path key 0) es \<noteq> [] \<or> defaults_ok sha"
    and "h \<le> 256"
  shows "ascend sha key sib leaf h = subtree sha (filter (on_path key h) es) h"
  using assms(4)
proof (induction h)
  case (Suc h)
  then have h: "h < 256" and IH: "ascend sha key sib leaf h = subtree sha (filter (on_path key h) es) h"
    by simp_all
  show ?case
  proof (cases "filter (on_path key (Suc h)) es = []")
    case True
    then have none: "filter (beside key h) es = []" "filter (on_path key h) es = []"
      using on_path_step [OF h, of key] by (auto simp: beside_def filter_empty_conv)
    moreover have "filter (on_path key 0) es = []"
      using none(2) on_path_mono [of key 0 _ h] by (auto simp: filter_empty_conv)
    ultimately have "default_hash (Suc h) = internal_hash sha (default_hash h) (default_hash h)"
      using empty h by (simp add: defaults_ok_def)
    then show ?thesis using True none h sib IH by simp
  next
    case False
    then show ?thesis using path_subtree [OF h False, of sha] sib h IH by simp
  qed
qed (simp add: leaf)

section \<open>The steps of an issued proof\<close>

definition step_at :: "sha256 \<Rightarrow> (state_key \<times> hash) list \<Rightarrow> state_key \<Rightarrow> nat \<Rightarrow> path_step list" where
  "step_at sha es key l =
    (let s = subtree sha (filter (beside key l) es) l in
     if s \<noteq> default_hash l then [\<lparr>ps_level = l, ps_sibling = s\<rparr>] else [])"

lemma filter_path_split:
  assumes "h < 256"
  shows "filter (\<lambda>e. \<not> bit_at (fst e) (255 - h)) (filter (on_path key (Suc h)) es) =
      (if bit_at key (255 - h) then filter (beside key h) es else filter (on_path key h) es)"
    and "filter (\<lambda>e. bit_at (fst e) (255 - h)) (filter (on_path key (Suc h)) es) =
      (if bit_at key (255 - h) then filter (on_path key h) es else filter (beside key h) es)"
  using on_path_step [OF assms, of key] by (auto simp: beside_def intro!: filter_cong)

lemma path_agrees: "agree (filter (on_path key h) es) (256 - h)"
  unfolding agree_def set_filter on_path_def by blast

lemma beside_agrees:
  assumes "h < 256"
  shows "agree (filter (beside key h) es) (256 - h)"
proof -
  have bits: "256 - h = Suc (255 - h)" "256 - Suc h = 255 - h" using assms by simp_all
  have "filter (beside key h) es =
      filter (\<lambda>e. bit_at (fst e) (255 - h) = (\<not> bit_at key (255 - h))) (filter (on_path key (Suc h)) es)"
    by (auto simp: beside_def intro!: filter_cong)
  moreover have "agree (filter (on_path key (Suc h)) es) (255 - h)"
    using path_agrees [of key "Suc h" es] bits(2) by simp
  ultimately show ?thesis unfolding bits(1) by (metis agree_filter_Suc)
qed

lemma collect_steps_inner_eq:
  assumes "leaves_ok es" and "h \<le> 256" and "a \<le> b" and "b \<le> length es"
    and "segment es a b = filter (on_path key h) es"
  shows "collect_steps_inner sha es a b h key = concat (map (step_at sha es key) (rev [0..<h]))"
  using assms(2-)
proof (induction h arbitrary: a b)
  case (Suc h)
  then have h: "h < 256" by simp
  let ?m = "split_at es a b (255 - h)"
  have agr: "agree (segment es a b) (255 - h)"
    using path_agrees [of key "Suc h" es] Suc.prems(4) h by simp
  note cut = split_at_segments [OF assms(1) Suc.prems(2,3) agr]
  note parts = cut(1,2) [unfolded Suc.prems(4) filter_path_split [OF h]]
  define pa pb sa sb where ends: "pa = (if bit_at key (255 - h) then ?m else a)"
    "pb = (if bit_at key (255 - h) then b else ?m)"
    "sa = (if bit_at key (255 - h) then a else ?m)" "sb = (if bit_at key (255 - h) then ?m else b)"
  have path: "segment es pa pb = filter (on_path key h) es" "pa \<le> pb" "pb \<le> length es"
    using parts cut(3,4) Suc.prems(3) by (auto simp: ends)
  have sib: "segment es sa sb = filter (beside key h) es" "sa \<le> sb" "sb \<le> length es"
    using parts cut(3,4) Suc.prems(3) by (auto simp: ends)
  have sub: "node_hash sha es sa sb h = subtree sha (filter (beside key h) es) h"
    using node_hash_subtree [OF assms(1) _ sib(2,3), of h sha] beside_agrees [OF h, of key es] h sib(1) by simp
  have "collect_steps_inner sha es a b (Suc h) key =
      (if sa < sb \<and> node_hash sha es sa sb h \<noteq> default_hash h
       then [\<lparr>ps_level = h, ps_sibling = node_hash sha es sa sb h\<rparr>] else []) @
      collect_steps_inner sha es pa pb h key"
    using h by (simp add: ends TREE_DEPTH_def Let_def)
  also have "(if sa < sb \<and> node_hash sha es sa sb h \<noteq> default_hash h
       then [\<lparr>ps_level = h, ps_sibling = node_hash sha es sa sb h\<rparr>] else []) = step_at sha es key h"
  proof (cases "sa < sb")
    case False
    then have "filter (beside key h) es = []" using segment_empty_iff [OF sib(3), of sa] sib(1) by simp
    with False show ?thesis by (simp add: step_at_def Let_def)
  qed (simp add: step_at_def Let_def sub)
  finally show ?case using Suc.IH [OF _ path(2,3,1)] h by simp
qed simp

lemma collect_steps_eq:
  assumes "leaves_ok (ac_leaves acc)"
  shows "collect_steps sha acc key = concat (map (step_at sha (ac_leaves acc) key) [0..<256])"
proof -
  have "filter (on_path key 256) (ac_leaves acc) = ac_leaves acc" by simp
  then have "collect_steps sha acc key = rev (concat (map (step_at sha (ac_leaves acc) key) (rev [0..<256])))"
    using collect_steps_inner_eq [OF assms, of 256 0 "length (ac_leaves acc)" key sha]
    by (simp add: collect_steps_def TREE_DEPTH_def segment_all del: upt_rec_numeral)
  moreover have "rev (step_at sha es key l) = step_at sha es key l" for es l
    by (simp add: step_at_def Let_def)
  ultimately show ?thesis by (simp add: rev_concat rev_map [symmetric] comp_def del: upt_rec_numeral)
qed

lemma steps_by_level_get:
  assumes "\<forall>s \<in> set steps. ps_level s = l \<longrightarrow> ps_sibling s = v"
  shows "btree_get (steps_by_level steps) l = (if l \<in> ps_level ` set steps then Some v else None)"
  using assms
  by (induction steps rule: rev_induct) (auto simp: steps_by_level_def btree_get_insert)

lemma issued_siblings:
  assumes "leaves_ok (ac_leaves acc)" and "l < 256"
  shows "sibling_at (steps_by_level (collect_steps sha acc key)) l =
    subtree sha (filter (beside key l) (ac_leaves acc)) l"
proof -
  let ?s = "subtree sha (filter (beside key l) (ac_leaves acc)) l"
  have steps: "set (collect_steps sha acc key) = (\<Union>i < 256. set (step_at sha (ac_leaves acc) key i))"
    by (simp add: collect_steps_eq [OF assms(1)] atLeast0LessThan del: upt_rec_numeral)
  have all: "\<forall>s \<in> set (collect_steps sha acc key). ps_level s = l \<longrightarrow> ps_sibling s = ?s"
    unfolding steps by (auto simp: step_at_def Let_def split: if_splits)
  have "l \<in> ps_level ` set (collect_steps sha acc key) \<longleftrightarrow> ?s \<noteq> default_hash l"
    unfolding steps image_UN using assms(2) by (auto simp: step_at_def Let_def split: if_splits)
  then show ?thesis by (simp add: sibling_at_def steps_by_level_get [OF all])
qed

text \<open>The leaf on the path of a key.\<close>

lemma path_leaf:
  assumes "leaves_ok es" and "length key = 32"
  shows "filter (on_path key 0) es = (case btree_get es key of None \<Rightarrow> [] | Some d \<Rightarrow> [(key, d)])"
proof -
  have "filter (on_path key 0) es = filter (\<lambda>e. fst e = key) es"
    using leaves_ok_length(1) [OF assms(1)] assms(2) by (intro filter_cong) (auto simp: on_path_0)
  also have "\<dots> = (case btree_get es key of None \<Rightarrow> [] | Some d \<Rightarrow> [(key, d)])"
    using assms(1)
  proof (induction es)
    case (Cons e es)
    show ?case
    proof (cases "fst e = key")
      case True
      then have "filter (\<lambda>e. fst e = key) es = []" using Cons.prems by (fastforce simp: filter_empty_conv)
      with True show ?thesis by (cases e) simp
    next
      case False
      then show ?thesis using Cons by (cases e) simp
    qed
  qed simp
  finally show ?thesis .
qed

lemma issued_path_verifies:
  assumes "leaves_ok (ac_leaves acc)" and "length key = 32"
    and "leaf = subtree sha (filter (on_path key 0) (ac_leaves acc)) 0"
    and "filter (on_path key 0) (ac_leaves acc) \<noteq> [] \<or> defaults_ok sha"
  shows "verify_path sha (compute_root sha acc) key leaf (collect_steps sha acc key)"
proof -
  have "ascend sha key (sibling_at (steps_by_level (collect_steps sha acc key))) leaf 256 =
      subtree sha (filter (on_path key 256) (ac_leaves acc)) 256"
    using issued_siblings [OF assms(1)] assms(3,4) by (intro ascend_path) simp_all
  then show ?thesis by (simp add: verify_path_ascend compute_root_subtree [OF assms(1)])
qed

end
