(* ===== verification/Merkle_Binding.thy ===== *)
theory Merkle_Binding
  imports Merkle_Proofs
begin

text \<open>
  The guarantees of the state accumulator: issued proofs verify, verified proofs bind and the order
  of updates does not matter. SHA-256 cannot be injective, so binding is stated as in the
  literature on authenticated data structures: the claim holds or two different strings in a list,
  computed from the tree and the proof, have the same hash. The list holds the strings hashed for
  the root, for the verification and for the table of empty subtrees.
\<close>

section \<open>What is hashed\<close>

fun subtree_inputs :: "sha256 \<Rightarrow> (state_key \<times> hash) list \<Rightarrow> nat \<Rightarrow> byte list list" where
  "subtree_inputs sha [] h = []"
| "subtree_inputs sha (e # es) 0 = [LEAF_NODE_TAG # fst e @ snd e]"
| "subtree_inputs sha (e # es) (Suc h) =
    (INTERNAL_NODE_TAG # subtree sha (filter (\<lambda>e. \<not> bit_at (fst e) (255 - h)) (e # es)) h @
      subtree sha (filter (\<lambda>e. bit_at (fst e) (255 - h)) (e # es)) h) #
    subtree_inputs sha (filter (\<lambda>e. \<not> bit_at (fst e) (255 - h)) (e # es)) h @
    subtree_inputs sha (filter (\<lambda>e. bit_at (fst e) (255 - h)) (e # es)) h"

primrec path_inputs :: "sha256 \<Rightarrow> state_key \<Rightarrow> (nat \<Rightarrow> hash) \<Rightarrow> hash \<Rightarrow> nat \<Rightarrow> byte list list" where
  "path_inputs sha key sib leaf 0 = []"
| "path_inputs sha key sib leaf (Suc h) =
    (if bit_at key (255 - h) then INTERNAL_NODE_TAG # sib h @ ascend sha key sib leaf h
     else INTERNAL_NODE_TAG # ascend sha key sib leaf h @ sib h) # path_inputs sha key sib leaf h"

definition default_inputs :: "byte list list" where
  "default_inputs =
    (LEAF_NODE_TAG # replicate 32 0 @ replicate 32 0) #
    map (\<lambda>h. INTERNAL_NODE_TAG # default_hash h @ default_hash h) [0..<256]"

definition hashed_strings :: "sha256 \<Rightarrow> state_accumulator \<Rightarrow> state_key \<Rightarrow> hash \<Rightarrow> path_step list \<Rightarrow> byte list list" where
  "hashed_strings sha acc key leaf steps =
    path_inputs sha key (sibling_at (steps_by_level steps)) leaf 256 @
    subtree_inputs sha (ac_leaves acc) 256 @ default_inputs"

definition collision :: "sha256 \<Rightarrow> byte list list \<Rightarrow> bool" where
  "collision sha xs \<longleftrightarrow> (\<exists>x \<in> set xs. \<exists>y \<in> set xs. x \<noteq> y \<and> sha x = sha y)"

definition fixed_width :: "sha256 \<Rightarrow> bool" where
  "fixed_width sha \<longleftrightarrow> (\<forall>x. length (sha x) = HASH_BYTE_LEN)"

lemma no_collisionD:
  "\<not> collision sha xs \<Longrightarrow> x \<in> set xs \<Longrightarrow> y \<in> set xs \<Longrightarrow> sha x = sha y \<Longrightarrow> x = y"
  by (auto simp: collision_def)

lemma length_default_hash [simp]: "length (default_hash h) = 32"
  using table_hash_length by (auto simp: default_hash_def list_all_length EMPTY_LEAF_HASH_def)

lemma fixed_widthD: "fixed_width sha \<Longrightarrow> length (sha x) = 32"
  by (simp add: fixed_width_def HASH_BYTE_LEN_def)

lemma length_subtree: "fixed_width sha \<Longrightarrow> length (subtree sha es h) = 32"
  by (cases "(sha, es, h)" rule: subtree.cases)
    (simp_all add: leaf_hash_def internal_hash_def fixed_widthD)

lemma length_ascend: "fixed_width sha \<Longrightarrow> length leaf = 32 \<Longrightarrow> length (ascend sha key sib leaf h) = 32"
  by (cases h) (simp_all add: internal_hash_def fixed_widthD)

lemma default_input:
  "h < 256 \<Longrightarrow> INTERNAL_NODE_TAG # default_hash h @ default_hash h \<in> set default_inputs"
  "LEAF_NODE_TAG # replicate 32 0 @ replicate 32 0 \<in> set default_inputs"
  by (auto simp: default_inputs_def simp del: upt_rec_numeral)

text \<open>The inputs along a path lie among those of the tree.\<close>

lemma path_subtree_inputs:
  assumes "h < 256" and "filter (on_path key (Suc h)) es \<noteq> []"
  shows "(if bit_at key (255 - h)
      then INTERNAL_NODE_TAG # subtree sha (filter (beside key h) es) h @ subtree sha (filter (on_path key h) es) h
      else INTERNAL_NODE_TAG # subtree sha (filter (on_path key h) es) h @ subtree sha (filter (beside key h) es) h)
      \<in> set (subtree_inputs sha (filter (on_path key (Suc h)) es) (Suc h))" (is ?node)
    and "set (subtree_inputs sha (filter (on_path key h) es) h) \<subseteq>
      set (subtree_inputs sha (filter (on_path key (Suc h)) es) (Suc h))" (is ?below)
proof -
  let ?es = "filter (on_path key (Suc h)) es"
  have unfold: "subtree_inputs sha ?es (Suc h) =
    (INTERNAL_NODE_TAG # subtree sha (filter (\<lambda>e. \<not> bit_at (fst e) (255 - h)) ?es) h @
      subtree sha (filter (\<lambda>e. bit_at (fst e) (255 - h)) ?es) h) #
    subtree_inputs sha (filter (\<lambda>e. \<not> bit_at (fst e) (255 - h)) ?es) h @
    subtree_inputs sha (filter (\<lambda>e. bit_at (fst e) (255 - h)) ?es) h"
    using assms(2) by (cases ?es) (simp_all del: filter.simps)
  show ?node ?below unfolding unfold filter_path_split [OF assms(1)] by auto
qed

section \<open>A verified path binds its leaf\<close>

lemma ascend_binds:
  assumes width: "fixed_width sha" and table: "defaults_ok sha"
    and sib: "\<forall>l < 256. length (sib l) = 32" and leaf: "length leaf = 32"
    and free: "\<not> collision sha S" and "set default_inputs \<subseteq> set S"
    and "h \<le> 256" and "set (path_inputs sha key sib leaf h) \<subseteq> set S"
    and "set (subtree_inputs sha (filter (on_path key h) es) h) \<subseteq> set S"
    and "ascend sha key sib leaf h = subtree sha (filter (on_path key h) es) h"
  shows "leaf = subtree sha (filter (on_path key 0) es) 0"
  using assms(7-)
proof (induction h)
  case (Suc h)
  let ?A = "ascend sha key sib leaf h" and ?B = "subtree sha (filter (on_path key h) es) h"
    and ?s = "subtree sha (filter (beside key h) es) h"
  have h: "h < 256" using Suc.prems(1) by simp
  have lens: "length (sib h) = 32" "length ?A = 32" "length ?B = 32" "length ?s = 32"
    using sib h width leaf by (simp_all add: length_ascend length_subtree)
  let ?x = "if bit_at key (255 - h) then INTERNAL_NODE_TAG # sib h @ ?A else INTERNAL_NODE_TAG # ?A @ sib h"
  have x: "?x \<in> set S" "ascend sha key sib leaf (Suc h) = sha ?x"
    using Suc.prems(2) by (simp_all add: internal_hash_def)
  have "?A = ?B \<and> set (subtree_inputs sha (filter (on_path key h) es) h) \<subseteq> set S"
  proof (cases "filter (on_path key (Suc h)) es = []")
    case True
    then have none: "filter (on_path key h) es = []"
      using on_path_step [OF h, of key] by (auto simp: filter_empty_conv)
    have "sha ?x = sha (INTERNAL_NODE_TAG # default_hash h @ default_hash h)"
      using Suc.prems(4) x(2) True table h by (simp add: defaults_ok_def internal_hash_def)
    then have "?x = INTERNAL_NODE_TAG # default_hash h @ default_hash h"
      using no_collisionD [OF free x(1)] default_input(1) [OF h] assms(6) by blast
    then have "?A = default_hash h" using lens by (auto split: if_splits)
    then show ?thesis using none by simp
  next
    case False
    let ?y = "if bit_at key (255 - h) then INTERNAL_NODE_TAG # ?s @ ?B else INTERNAL_NODE_TAG # ?B @ ?s"
    have "sha ?x = subtree sha (filter (on_path key (Suc h)) es) (Suc h)"
      using Suc.prems(4) unfolding x(2) .
    also have "\<dots> = sha ?y" unfolding path_subtree [OF h False] internal_hash_def by simp
    finally have "sha ?x = sha ?y" .
    moreover have "?y \<in> set S" using path_subtree_inputs(1) [OF h False] Suc.prems(3) by blast
    ultimately have "?x = ?y" using no_collisionD [OF free x(1)] by blast
    then have "?A = ?B" using lens by (auto split: if_splits)
    then show ?thesis using path_subtree_inputs(2) [OF h False] Suc.prems(3) by blast
  qed
  then show ?case using Suc.IH Suc.prems(1,2) by simp
qed simp

lemma stored_sibling:
  "btree_get (steps_by_level steps) l = Some v \<Longrightarrow> v \<in> ps_sibling ` set steps"
  by (induction steps rule: rev_induct) (auto simp: steps_by_level_def btree_get_insert split: if_splits)

lemma length_sibling_at:
  "\<forall>s \<in> set steps. length (ps_sibling s) = 32 \<Longrightarrow> length (sibling_at (steps_by_level steps) l) = 32"
  using stored_sibling [of steps l] by (auto simp: sibling_at_def split: option.split)

lemma verified_leaf:
  assumes "fixed_width sha" and "defaults_ok sha" and "leaves_ok (ac_leaves acc)" and "length key = 32"
    and "length leaf = 32" and "\<forall>s \<in> set steps. length (ps_sibling s) = 32"
    and "verify_path sha (compute_root sha acc) key leaf steps"
    and "\<not> collision sha S" and "set (hashed_strings sha acc key leaf steps) \<subseteq> set S"
  shows "leaf = (case btree_get (ac_leaves acc) key of None \<Rightarrow> EMPTY_LEAF_HASH | Some d \<Rightarrow> leaf_hash sha key d)"
proof -
  let ?es = "ac_leaves acc"
  have "ascend sha key (sibling_at (steps_by_level steps)) leaf 256 = subtree sha (filter (on_path key 256) ?es) 256"
    using assms(7) by (simp add: verify_path_ascend compute_root_subtree [OF assms(3)])
  moreover have "\<forall>l < 256. length (sibling_at (steps_by_level steps) l) = 32"
    using length_sibling_at [OF assms(6)] by blast
  ultimately have "leaf = subtree sha (filter (on_path key 0) ?es) 0"
    using assms(9) by (intro ascend_binds [OF assms(1,2) _ assms(5,8), where h = 256])
      (simp_all add: hashed_strings_def)
  then show ?thesis
    using table_head by (simp add: path_leaf [OF assms(3,4)] default_hash_def table_length split: option.splits)
qed

text \<open>Every leaf of the tree is hashed.\<close>

lemma leaf_input:
  assumes "leaves_ok es" and "h \<le> 256" and "agree es (256 - h)" and "e \<in> set es"
  shows "LEAF_NODE_TAG # fst e @ snd e \<in> set (subtree_inputs sha es h)"
  using assms
proof (induction h arbitrary: es)
  case 0
  then have "es \<noteq> []" by auto
  then obtain e' where "es = [e']" using bits_determine_leaf [of es] 0 by auto
  with 0 show ?case by simp
next
  case (Suc h)
  let ?l = "filter (\<lambda>e. \<not> bit_at (fst e) (255 - h)) es" and ?r = "filter (\<lambda>e. bit_at (fst e) (255 - h)) es"
  have bits: "256 - h = Suc (255 - h)" "256 - Suc h = 255 - h" using Suc.prems(2) by simp_all
  have agr: "agree ?l (256 - h)" "agree ?r (256 - h)"
    using agree_filter_Suc [of es "255 - h" False] agree_filter_Suc [of es "255 - h" True] Suc.prems(3)
    unfolding bits by simp_all
  have "es \<noteq> []" using Suc.prems(4) by auto
  then have "set (subtree_inputs sha ?l h) \<union> set (subtree_inputs sha ?r h) \<subseteq> set (subtree_inputs sha es (Suc h))"
    by (cases es) (auto simp del: filter.simps)
  moreover have "e \<in> set ?l \<or> e \<in> set ?r" using Suc.prems(4) by auto
  ultimately show ?case
    using Suc.IH [OF leaves_ok_filter [OF Suc.prems(1)] _ agr(1)]
      Suc.IH [OF leaves_ok_filter [OF Suc.prems(1)] _ agr(2)] Suc.prems(2) by auto
qed

section \<open>A hash function that fits the table\<close>

text \<open>
  A stand-in for SHA-256 with which the hypotheses can be met: it continues the table of empty
  subtrees and answers every other string with a constant.
\<close>

definition table_hash :: sha256 where
  "table_hash x =
    (if x = LEAF_NODE_TAG # replicate 32 0 @ replicate 32 0 then EMPTY_LEAF_HASH
     else case find (\<lambda>h. x = INTERNAL_NODE_TAG # default_hash h @ default_hash h) [0..<256] of
         Some h \<Rightarrow> default_hash (Suc h)
       | None \<Rightarrow> replicate 32 7)"

lemma default_hash_inj: "h < 257 \<Longrightarrow> h' < 257 \<Longrightarrow> default_hash h = default_hash h' \<Longrightarrow> h = h'"
  using table_distinct by (simp add: default_hash_def table_length nth_eq_iff_index_eq)

lemma table_hash_width: "fixed_width table_hash"
  by (auto simp: fixed_width_def HASH_BYTE_LEN_def table_hash_def EMPTY_LEAF_HASH_def split: option.split
      simp del: upt_rec_numeral)

lemma find_default:
  assumes "h < 256"
  shows "find (\<lambda>i. INTERNAL_NODE_TAG # default_hash h @ default_hash h = INTERNAL_NODE_TAG # default_hash i @ default_hash i)
    [0..<256] = Some h"
proof -
  have "default_hash h = default_hash i \<longleftrightarrow> h = i" if "i < 256" for i
    using default_hash_inj [of h i] assms that by auto
  then show ?thesis
    using assms unfolding find_Some_iff by (intro exI [of _ h]) (auto simp del: upt_rec_numeral)
qed

lemma table_hash_defaults: "defaults_ok table_hash"
  unfolding defaults_ok_def
proof (intro conjI allI impI)
  show "EMPTY_LEAF_HASH = leaf_hash table_hash (replicate 32 0) (replicate 32 0)"
    by (simp only: leaf_hash_def table_hash_def simp_thms if_True)
  fix h :: nat
  assume h: "h < 256"
  have "INTERNAL_NODE_TAG # default_hash h @ default_hash h \<noteq> LEAF_NODE_TAG # replicate 32 0 @ replicate 32 0"
    by (simp add: INTERNAL_NODE_TAG_def LEAF_NODE_TAG_def)
  then show "default_hash (Suc h) = internal_hash table_hash (default_hash h) (default_hash h)"
    unfolding internal_hash_def table_hash_def find_default [OF h] by (simp only: if_False option.case)
qed

definition ex_tree :: state_accumulator where
  "ex_tree = \<lparr>ac_leaves = [(replicate 32 1, replicate 32 9), (replicate 32 4, replicate 32 8)]\<rparr>"

lemma ex_tree_ok: "leaves_ok (ac_leaves ex_tree)"
  by code_simp

section \<open>Guarantees\<close>

lemma ex_tree_lookup:
  "btree_get (ac_leaves ex_tree) (replicate 32 1) = Some (replicate 32 9)"
  "btree_get (ac_leaves ex_tree) (replicate 32 2) = None"
  by code_simp+

lemma default_hash_0: "default_hash 0 = EMPTY_LEAF_HASH"
  using table_head by (simp add: default_hash_def table_length)

text \<open>C7.
  Every proof the accumulator issues verifies against its root: an inclusion proof for a key it
  holds always, and a proof of absence for a key it does not hold when the table of empty subtrees
  fits the hash function.
\<close>
theorem issued_proofs_verify:
  assumes "leaves_ok (ac_leaves acc)" and "length key = HASH_BYTE_LEN"
  shows "(case prove_inclusion sha acc key of
        Some p \<Rightarrow> verify_inclusion sha (compute_root sha acc) p
      | None \<Rightarrow> btree_get (ac_leaves acc) key = None) \<and>
    (case prove_non_membership sha acc key of
        Some q \<Rightarrow> defaults_ok sha \<longrightarrow> verify_non_membership sha (compute_root sha acc) q
      | None \<Rightarrow> btree_get (ac_leaves acc) key \<noteq> None)"
proof -
  have key: "length key = 32" using assms(2) by (simp add: HASH_BYTE_LEN_def)
  then show ?thesis
    using issued_path_verifies [OF assms(1) key, of _ sha]
    by (auto simp: prove_inclusion_def verify_inclusion_def prove_non_membership_def verify_non_membership_def
        path_leaf [OF assms(1) key] default_hash_0 split: option.splits)
qed

theorem issued_proofs_verify_witness:
  "(\<exists>p. prove_inclusion table_hash ex_tree (replicate 32 1) = Some p \<and>
      verify_inclusion table_hash (compute_root table_hash ex_tree) p) \<and>
   (\<exists>q. prove_non_membership table_hash ex_tree (replicate 32 2) = Some q \<and>
      verify_non_membership table_hash (compute_root table_hash ex_tree) q)"
  using issued_proofs_verify [OF ex_tree_ok, of "replicate 32 1" table_hash]
    issued_proofs_verify [OF ex_tree_ok, of "replicate 32 2" table_hash] table_hash_defaults ex_tree_lookup
  by (simp add: HASH_BYTE_LEN_def split: option.splits)

text \<open>
  A verified inclusion proof binds: when the leaf it carries is the hash of its key with a digest,
  the tree behind the root holds that digest under the key, unless two of the strings hashed
  for the root, the proof or the table of empty subtrees collide. The all-zero key with the
  all-zero digest is excepted, since its leaf is the empty leaf.
\<close>
lemma included_digest:
  assumes "fixed_width sha" and "defaults_ok sha" and "leaves_ok (ac_leaves acc)"
    and "length (ip_key p) = HASH_BYTE_LEN" and "length digest = HASH_BYTE_LEN"
    and "list_all (\<lambda>s. length (ps_sibling s) = HASH_BYTE_LEN) (ip_steps p)"
    and "ip_leaf_hash p = leaf_hash sha (ip_key p) digest"
    and "ip_key p @ digest \<noteq> replicate 64 0"
    and "verify_inclusion sha (compute_root sha acc) p"
  shows "btree_get (ac_leaves acc) (ip_key p) = Some digest \<or>
    collision sha ((LEAF_NODE_TAG # ip_key p @ digest) #
      hashed_strings sha acc (ip_key p) (ip_leaf_hash p) (ip_steps p))"
    (is "_ \<or> collision sha ?S")
proof (rule disjCI)
  assume free: "\<not> collision sha ?S"
  have lens: "length (ip_key p) = 32" "length digest = 32" "length (ip_leaf_hash p) = 32"
    "\<forall>s \<in> set (ip_steps p). length (ps_sibling s) = 32"
    using assms(1,4-7) by (simp_all add: HASH_BYTE_LEN_def list_all_iff leaf_hash_def fixed_widthD)
  have leaf: "leaf_hash sha (ip_key p) digest =
      (case btree_get (ac_leaves acc) (ip_key p) of None \<Rightarrow> EMPTY_LEAF_HASH | Some d \<Rightarrow> leaf_hash sha (ip_key p) d)"
    unfolding assms(7) [symmetric]
    using verified_leaf [OF assms(1-3) lens(1,3,4) _ free] assms(9) by (auto simp: verify_inclusion_def)
  have own: "LEAF_NODE_TAG # ip_key p @ digest \<in> set ?S" by simp
  show "btree_get (ac_leaves acc) (ip_key p) = Some digest"
  proof (cases "btree_get (ac_leaves acc) (ip_key p)")
    case None
    then have "sha (LEAF_NODE_TAG # ip_key p @ digest) = sha (LEAF_NODE_TAG # replicate 32 0 @ replicate 32 0)"
      using leaf assms(2) by (simp add: defaults_ok_def leaf_hash_def)
    moreover have "LEAF_NODE_TAG # replicate 32 0 @ replicate 32 0 \<in> set ?S"
      using default_input(2) by (simp add: hashed_strings_def)
    ultimately have "ip_key p @ digest = replicate 32 0 @ replicate 32 0"
      using no_collisionD [OF free own] by blast
    then show ?thesis using assms(8) by (simp add: replicate_add [symmetric])
  next
    case (Some d)
    then have "sha (LEAF_NODE_TAG # ip_key p @ digest) = sha (LEAF_NODE_TAG # ip_key p @ d)"
      using leaf by (simp add: leaf_hash_def)
    moreover have "LEAF_NODE_TAG # ip_key p @ d \<in> set ?S"
      using leaf_input [OF assms(3) order.refl _ btree_get_Some_in [OF Some], of sha]
      by (simp add: hashed_strings_def agree_def)
    ultimately show ?thesis using no_collisionD [OF free own] Some by blast
  qed
qed

text \<open>
  A verified proof of absence whose leaf is the empty leaf binds: the tree behind the root holds
  nothing under the key (other than the all-zero digest under the all-zero key), unless two of the
  hashed strings collide.
\<close>
lemma absent_key:
  assumes "fixed_width sha" and "defaults_ok sha" and "leaves_ok (ac_leaves acc)"
    and "length (np_key p) = HASH_BYTE_LEN"
    and "list_all (\<lambda>s. length (ps_sibling s) = HASH_BYTE_LEN) (np_steps p)"
    and "np_leaf_hash p = EMPTY_LEAF_HASH"
    and "np_key p \<noteq> replicate 32 0"
    and "verify_non_membership sha (compute_root sha acc) p"
  shows "btree_get (ac_leaves acc) (np_key p) = None \<or>
    collision sha (hashed_strings sha acc (np_key p) (np_leaf_hash p) (np_steps p))"
    (is "_ \<or> collision sha ?S")
proof (rule disjCI)
  assume free: "\<not> collision sha ?S"
  have lens: "length (np_key p) = 32" "length (np_leaf_hash p) = 32"
    "\<forall>s \<in> set (np_steps p). length (ps_sibling s) = 32"
    using assms(4-6) length_default_hash [of 0] by (simp_all add: HASH_BYTE_LEN_def list_all_iff default_hash_0)
  have leaf: "np_leaf_hash p =
      (case btree_get (ac_leaves acc) (np_key p) of None \<Rightarrow> EMPTY_LEAF_HASH | Some d \<Rightarrow> leaf_hash sha (np_key p) d)"
    using verified_leaf [OF assms(1-3) lens _ free] assms(8) by (simp add: verify_non_membership_def)
  show "btree_get (ac_leaves acc) (np_key p) = None"
  proof (cases "btree_get (ac_leaves acc) (np_key p)")
    case (Some d)
    then have "sha (LEAF_NODE_TAG # np_key p @ d) = sha (LEAF_NODE_TAG # replicate 32 0 @ replicate 32 0)"
      using leaf assms(2,6) by (simp add: defaults_ok_def leaf_hash_def)
    moreover have "LEAF_NODE_TAG # np_key p @ d \<in> set ?S"
      using leaf_input [OF assms(3) order.refl _ btree_get_Some_in [OF Some], of sha]
      by (simp add: hashed_strings_def agree_def)
    moreover have "LEAF_NODE_TAG # replicate 32 0 @ replicate 32 0 \<in> set ?S"
      using default_input(2) by (simp add: hashed_strings_def)
    ultimately have "np_key p @ d = replicate 32 0 @ replicate 32 0"
      using no_collisionD [OF free] by blast
    then show ?thesis using assms(7) lens(1) by (simp add: append_eq_append_conv)
  qed
qed

section \<open>The order of updates\<close>

lemma btree_ok_updates:
  "btree_ok m \<Longrightarrow> btree_ok (fold (\<lambda>u. btree_insert (su_key u) (su_state_digest u)) us m)"
  by (induction us arbitrary: m) auto

lemma get_updates:
  "btree_get (fold (\<lambda>u. btree_insert (su_key u) (su_state_digest u)) us m) k =
    (case find (\<lambda>u. su_key u = k) (rev us) of Some u \<Rightarrow> Some (su_state_digest u) | None \<Rightarrow> btree_get m k)"
  by (induction us rule: rev_induct) (auto simp: btree_get_insert)

lemma find_unique:
  assumes "distinct (map f xs)" and "mset xs = mset ys"
  shows "find (\<lambda>x. f x = k) xs = find (\<lambda>x. f x = k) ys"
proof -
  have set_eq: "set xs = set ys" using assms(2) by (rule mset_eq_setD)
  have "mset (map f xs) = mset (map f ys)" using assms(2) by simp
  then have "distinct (map f ys)" using assms(1) mset_eq_imp_distinct_iff by blast
  then have unique: "x = y" if "x \<in> set ys" "y \<in> set ys" "f x = f y" for x y
    using that by (auto simp: distinct_map inj_on_def)
  show ?thesis
  proof (cases "find (\<lambda>x. f x = k) xs")
    case None
    then have "find (\<lambda>x. f x = k) ys = None" using set_eq by (auto simp: find_None_iff)
    with None show ?thesis by simp
  next
    case (Some x)
    then have "x \<in> set ys" "f x = k" using set_eq by (auto simp: find_Some_iff nth_mem)
    moreover obtain y where "find (\<lambda>x. f x = k) ys = Some y"
      using calculation by (cases "find (\<lambda>x. f x = k) ys") (auto simp: find_None_iff)
    moreover from this have "y \<in> set ys" "f y = k" by (auto simp: find_Some_iff)
    ultimately show ?thesis using unique Some by simp
  qed
qed

text \<open>Inserting a batch leaves every key with the digest of its last update, or with what it had when
  the batch does not name it, and when the keys of the batch are distinct its order changes
  neither the tree nor its root.
\<close>
theorem insert_batch_by_key:
  assumes "btree_ok (ac_leaves acc)"
  shows "(\<forall>k. btree_get (ac_leaves (snd (insert_batch sha us acc))) k =
      (case find (\<lambda>u. su_key u = k) (rev us) of
         Some u \<Rightarrow> Some (su_state_digest u) | None \<Rightarrow> btree_get (ac_leaves acc) k)) \<and>
    (distinct (map su_key us) \<and> mset us = mset vs \<longrightarrow> insert_batch sha us acc = insert_batch sha vs acc)"
proof (intro conjI allI impI)
  show "btree_get (ac_leaves (snd (insert_batch sha us acc))) k =
      (case find (\<lambda>u. su_key u = k) (rev us) of
         Some u \<Rightarrow> Some (su_state_digest u) | None \<Rightarrow> btree_get (ac_leaves acc) k)" for k
    by (simp add: insert_batch_def Let_def get_updates)
next
  assume "distinct (map su_key us) \<and> mset us = mset vs"
  then have "distinct (map su_key (rev us))" "mset (rev us) = mset (rev vs)" by (simp_all add: rev_map [symmetric])
  then have "find (\<lambda>u. su_key u = k) (rev us) = find (\<lambda>u. su_key u = k) (rev vs)" for k
    by (rule find_unique)
  then have "fold (\<lambda>u. btree_insert (su_key u) (su_state_digest u)) us (ac_leaves acc) =
      fold (\<lambda>u. btree_insert (su_key u) (su_state_digest u)) vs (ac_leaves acc)"
    by (intro btree_ext) (simp_all add: btree_ok_updates assms get_updates)
  then show "insert_batch sha us acc = insert_batch sha vs acc" by (simp add: insert_batch_def)
qed

theorem insert_batch_by_key_witness:
  "let u = \<lparr>su_key = replicate 32 1, su_state_digest = replicate 32 5\<rparr>;
       v = \<lparr>su_key = replicate 32 2, su_state_digest = replicate 32 6\<rparr> in
   insert_batch table_hash [u, v] ex_tree = insert_batch table_hash [v, u] ex_tree \<and>
   btree_get (ac_leaves (snd (insert_batch table_hash [u, v] ex_tree))) (replicate 32 1) = Some (replicate 32 5)"
proof -
  let ?u = "\<lparr>su_key = replicate 32 1, su_state_digest = replicate 32 5\<rparr>"
    and ?v = "\<lparr>su_key = replicate 32 2, su_state_digest = replicate 32 6\<rparr>"
  have keys: "replicate 32 (1 :: byte) \<noteq> replicate 32 2" by code_simp
  have ok: "btree_ok (ac_leaves ex_tree)" using ex_tree_ok by (simp add: leaves_ok_def)
  note batch = insert_batch_by_key [OF ok, of table_hash "[?u, ?v]" "[?v, ?u]"]
  have "insert_batch table_hash [?u, ?v] ex_tree = insert_batch table_hash [?v, ?u] ex_tree"
    using conjunct2 [OF batch] keys by simp
  moreover have "btree_get (ac_leaves (snd (insert_batch table_hash [?u, ?v] ex_tree))) (replicate 32 1) =
      Some (replicate 32 5)"
    using conjunct1 [OF batch, THEN spec, of "replicate 32 1"] keys by simp
  ultimately show ?thesis by (simp add: Let_def)
qed

end
