(* ===== verification/Pair_Tree.thy ===== *)
theory Pair_Tree
  imports Merkle_Binding
begin

text \<open>
  The plain Merkle tree over a list, which the code builds in two places: over the tenants of a
  checkpoint (\<^verbatim>\<open>checkpoint.rs\<close> of \<^verbatim>\<open>statechronicle-accumulator\<close>) and over the events of a commit
  (\<^verbatim>\<open>roots.rs\<close> of \<^verbatim>\<open>statechronicle-commit\<close>). Both hash the nodes of a level in pairs, with the last one
  doubled when it is alone, until one node is left. The locale holds what follows from the node
  hash being a tagged hash of its two children; each tree interprets it with its own tag.
\<close>

text \<open>The loop over \<^verbatim>\<open>chunks(2)\<close>.\<close>

fun pair_level :: "(hash \<Rightarrow> hash \<Rightarrow> hash) \<Rightarrow> hash list \<Rightarrow> hash list" where
  "pair_level node [] = []"
| "pair_level node [first] = [node first first]"
| "pair_level node (first # second # rest) = node first second # pair_level node rest"

lemma length_pair_level [simp]: "length (pair_level node xs) = (length xs + 1) div 2"
  by (induction node xs rule: pair_level.induct) simp_all

lemma pair_level_Nil_iff [simp]: "pair_level node xs = [] \<longleftrightarrow> xs = []"
  by (cases "(node, xs)" rule: pair_level.cases) simp_all

text \<open>All levels, bottom up; the loop ends because a level of more than one node shrinks.\<close>

function build_levels :: "(hash \<Rightarrow> hash \<Rightarrow> hash) \<Rightarrow> hash list \<Rightarrow> hash list list" where
  "build_levels node level =
    level # (if length level > 1 then build_levels node (pair_level node level) else [])"
  by pat_completeness auto

termination build_levels
  by (relation "measure (\<lambda>(node, level). length level)") auto

text \<open>The last level alone.\<close>

function reduce_level :: "(hash \<Rightarrow> hash \<Rightarrow> hash) \<Rightarrow> hash list \<Rightarrow> hash list" where
  "reduce_level node level =
    (if length level > 1 then reduce_level node (pair_level node level) else level)"
  by pat_completeness auto

termination reduce_level
  by (relation "measure (\<lambda>(node, level). length level)") auto

declare build_levels.simps [simp del] reduce_level.simps [simp del]

lemma build_levels_step:
  "length level > 1 \<Longrightarrow> build_levels node level = level # build_levels node (pair_level node level)"
  "length level \<le> 1 \<Longrightarrow> build_levels node level = [level]"
  by (simp_all add: build_levels.simps [of node level])

lemma reduce_level_step:
  "length level > 1 \<Longrightarrow> reduce_level node level = reduce_level node (pair_level node level)"
  "length level \<le> 1 \<Longrightarrow> reduce_level node level = level"
  by (simp_all add: reduce_level.simps [of node level])

lemma build_levels_not_Nil [simp]: "build_levels node level \<noteq> []"
  by (simp add: build_levels.simps [of node level])

lemma reduce_level_last: "reduce_level node level = last (build_levels node level)"
proof (induction node level rule: reduce_level.induct)
  case (1 node level)
  show ?case
    by (cases "length level > 1") (use 1 in \<open>simp_all add: build_levels_step reduce_level_step\<close>)
qed

text \<open>One node is left, and the height is logarithmic.\<close>

lemma length_reduce_level: "xs \<noteq> [] \<Longrightarrow> length (reduce_level node xs) = 1"
proof (induction node xs rule: reduce_level.induct)
  case (1 node xs)
  show ?case
  proof (cases "length xs > 1")
    case True
    then show ?thesis using 1 by (simp add: reduce_level_step)
  next
    case False
    then have "length xs = 1" using 1(2) by (cases xs) auto
    then show ?thesis by (simp add: reduce_level_step)
  qed
qed

lemma length_build_levels: "length xs \<le> 2 ^ n \<Longrightarrow> length (build_levels node xs) \<le> Suc n"
proof (induction n arbitrary: xs)
  case 0
  then show ?case by (simp add: build_levels_step)
next
  case (Suc n)
  show ?case
  proof (cases "length xs > 1")
    case True
    have "length (pair_level node xs) \<le> 2 ^ n" using Suc.prems by simp
    then show ?thesis using Suc.IH True by (simp add: build_levels_step)
  qed (simp add: build_levels_step)
qed

text \<open>The node above a position, and the node beside it.\<close>

definition beside_index :: "nat \<Rightarrow> nat \<Rightarrow> nat" where
  "beside_index len i = (if even i then (if i + 1 < len then i + 1 else i) else i - 1)"

lemma nth_pair_level:
  "i < length xs \<Longrightarrow>
    pair_level node xs ! (i div 2) =
      (if even i then node (xs ! i) (xs ! beside_index (length xs) i)
       else node (xs ! beside_index (length xs) i) (xs ! i))"
proof (induction node xs arbitrary: i rule: pair_level.induct)
  case (3 node first second rest)
  consider "i = 0" | "i = 1" | j where "i = Suc (Suc j)" by (cases i; cases "i - 1") auto
  then show ?case
  proof cases
    case deeper: 3
    have "beside_index (length (first # second # rest)) i = Suc (Suc (beside_index (length rest) j))"
      using deeper by (auto simp: beside_index_def elim: oddE)
    then show ?thesis using "3.IH" [of j] "3.prems" deeper by simp
  qed (simp_all add: beside_index_def)
qed (auto simp: beside_index_def)

section \<open>What is hashed\<close>

fun pair_inputs :: "byte \<Rightarrow> hash list \<Rightarrow> byte list list" where
  "pair_inputs tag [] = []"
| "pair_inputs tag [first] = [tag # first @ first]"
| "pair_inputs tag (first # second # rest) = (tag # first @ second) # pair_inputs tag rest"

function tree_inputs :: "byte \<Rightarrow> (hash \<Rightarrow> hash \<Rightarrow> hash) \<Rightarrow> hash list \<Rightarrow> byte list list" where
  "tree_inputs tag node level =
    (if length level > 1 then pair_inputs tag level @ tree_inputs tag node (pair_level node level) else [])"
  by pat_completeness auto

termination tree_inputs
  by (relation "measure (\<lambda>(tag, node, level). length level)") auto

declare tree_inputs.simps [simp del]

lemma pair_inputs_inj:
  assumes "length xs = length ys" and "\<forall>x \<in> set xs \<union> set ys. length x = 32" and "pair_inputs tag xs = pair_inputs tag ys"
  shows "xs = ys"
  using assms
proof (induction tag xs arbitrary: ys rule: pair_inputs.induct)
  case (2 tag first)
  then obtain y where "ys = [y]" by (cases ys) auto
  with 2 show ?case by (simp add: append_eq_append_conv)
next
  case (3 tag first second rest)
  then obtain y y' ys' where ys: "ys = y # y' # ys'" by (cases ys; cases "tl ys") auto
  have "rest = ys'" using 3 by (intro "3.IH") (auto simp: ys)
  with 3 show ?case by (simp add: ys append_eq_append_conv)
qed simp

lemma pair_inputs_parent:
  "v \<in> set (pair_inputs tag xs) \<Longrightarrow> \<exists>l \<in> set xs. \<exists>r \<in> set xs. v = tag # l @ r"
  by (induction tag xs rule: pair_inputs.induct) auto

lemma build_levels_long: "Suc m < length (build_levels node xs) \<Longrightarrow> length xs > 1"
  by (rule ccontr) (simp add: build_levels_step)

lemma nth_build_levels:
  "Suc m < length (build_levels node xs) \<Longrightarrow>
    build_levels node xs ! Suc m = pair_level node (build_levels node xs ! m)"
proof (induction m arbitrary: xs)
  case 0
  then have "length xs > 1" using build_levels_long by blast
  then show ?case by (simp add: build_levels_step build_levels.simps [of node "pair_level node xs"])
next
  case (Suc m)
  then have "length xs > 1" using build_levels_long by blast
  then show ?case using Suc by (simp add: build_levels_step)
qed

lemma build_levels_inputs:
  "Suc m < length (build_levels node xs) \<Longrightarrow>
    set (pair_inputs tag (build_levels node xs ! m)) \<subseteq> set (tree_inputs tag node xs)"
proof (induction m arbitrary: xs)
  case 0
  then have "length xs > 1" using build_levels_long by blast
  then show ?case by (simp add: build_levels_step tree_inputs.simps [of tag node xs])
next
  case (Suc m)
  then have "length xs > 1" using build_levels_long by blast
  then show ?case using Suc by (auto simp: build_levels_step tree_inputs.simps [of tag node xs])
qed

locale tagged_node =
  fixes node :: "sha256 \<Rightarrow> hash \<Rightarrow> hash \<Rightarrow> hash" and tag :: byte
  assumes node_eq: "node sha l r = sha (tag # l @ r)"
begin

lemma pair_level_inputs: "pair_level (node sha) xs = map sha (pair_inputs tag xs)"
  by (induction "node sha" xs rule: pair_level.induct) (simp_all add: node_eq)

lemma width_pair_level: "fixed_width sha \<Longrightarrow> x \<in> set (pair_level (node sha) xs) \<Longrightarrow> length x = 32"
  by (auto simp: pair_level_inputs fixed_widthD)

lemma pair_level_inj:
  assumes "\<not> collision sha S" and "set (pair_inputs tag xs) \<subseteq> set S" and "set (pair_inputs tag ys) \<subseteq> set S"
    and "length xs = length ys" and "\<forall>x \<in> set xs \<union> set ys. length x = 32"
    and "pair_level (node sha) xs = pair_level (node sha) ys"
  shows "xs = ys"
proof -
  have "inj_on sha (set (pair_inputs tag xs) \<union> set (pair_inputs tag ys))"
    using assms(1-3) unfolding collision_def inj_on_def by blast
  moreover have "map sha (pair_inputs tag xs) = map sha (pair_inputs tag ys)"
    using assms(6) by (simp only: pair_level_inputs)
  ultimately have "pair_inputs tag xs = pair_inputs tag ys" by (simp add: inj_on_map_eq_map)
  then show ?thesis using assms(4,5) pair_inputs_inj by blast
qed

text \<open>Lists of the same length with the same root are the same.\<close>

lemma root_inj:
  assumes "fixed_width sha" and "\<not> collision sha S"
    and "length xs = length ys" and "\<forall>x \<in> set xs \<union> set ys. length x = 32"
    and "set (tree_inputs tag (node sha) xs) \<subseteq> set S" and "set (tree_inputs tag (node sha) ys) \<subseteq> set S"
    and "reduce_level (node sha) xs = reduce_level (node sha) ys"
  shows "xs = ys"
  using assms(3-)
proof (induction "length xs" arbitrary: xs ys rule: less_induct)
  case less
  show ?case
  proof (cases "length xs > 1")
    case True
    let ?xs = "pair_level (node sha) xs" and ?ys = "pair_level (node sha) ys"
    have ys: "length ys > 1" using True less.prems(1) by simp
    have sub: "set (pair_inputs tag xs) \<union> set (tree_inputs tag (node sha) ?xs) \<subseteq> set S"
      "set (pair_inputs tag ys) \<union> set (tree_inputs tag (node sha) ?ys) \<subseteq> set S"
      using less.prems(3,4) True ys
      by (simp_all add: tree_inputs.simps [of tag "node sha" xs] tree_inputs.simps [of tag "node sha" ys])
    have "?xs = ?ys"
    proof (rule less.hyps)
      show "length ?xs < length xs" using True by simp
      show "length ?xs = length ?ys" using less.prems(1) by simp
      show "\<forall>x \<in> set ?xs \<union> set ?ys. length x = 32" using width_pair_level [OF assms(1)] by blast
      show "reduce_level (node sha) ?xs = reduce_level (node sha) ?ys"
        using less.prems(5) True ys by (simp add: reduce_level_step)
    qed (use sub in auto)
    then show ?thesis using pair_level_inj [OF assms(2) _ _ less.prems(1,2)] sub by blast
  next
    case False
    then show ?thesis using less.prems(1,5) by (simp add: reduce_level_step)
  qed
qed

end

end
