(* ===== verification/Checkpoint_Tree.thy ===== *)
theory Checkpoint_Tree
  imports Pair_Tree
begin

text \<open>
  The checkpoint over the state roots of all tenants (\<^verbatim>\<open>checkpoint.rs\<close>, \<^verbatim>\<open>proof.rs\<close> and \<^verbatim>\<open>error.rs\<close> of
  \<^verbatim>\<open>statechronicle-accumulator\<close>): its Merkle tree, the proofs that a tenant's root is in it and their
  verification.
\<close>

definition CHECKPOINT_LEAF_TAG :: byte where
  "CHECKPOINT_LEAF_TAG = 0x12"

definition CHECKPOINT_INTERNAL_TAG :: byte where
  "CHECKPOINT_INTERNAL_TAG = 0x13"

datatype accumulator_error = EmptyTenantRoots | DuplicateTenant string

record checkpoint_step =
  cs_level :: nat
  cs_sibling :: hash

record tenant_root_proof =
  tp_tenant_id :: string
  tp_tenant_root :: hash
  tp_index :: nat
  tp_steps :: "checkpoint_step list"

record checkpoint_root =
  cr_root :: hash
  cr_entries :: "(tenant_id \<times> hash) list"
  cr_levels :: "hash list list"

definition leaf_input_of :: "string \<Rightarrow> hash \<Rightarrow> byte list" where
  "leaf_input_of tenant state_root =
    CHECKPOINT_LEAF_TAG # u64_len_prefix tenant @ map of_char tenant @ state_root"

definition checkpoint_leaf :: "sha256 \<Rightarrow> string \<Rightarrow> hash \<Rightarrow> hash" where
  "checkpoint_leaf sha tenant state_root = sha (leaf_input_of tenant state_root)"

definition checkpoint_internal :: "sha256 \<Rightarrow> hash \<Rightarrow> hash \<Rightarrow> hash" where
  "checkpoint_internal sha left right = sha (CHECKPOINT_INTERNAL_TAG # left @ right)"

text \<open>The loop that looks for two neighbours of the same tenant.\<close>

fun first_duplicate :: "tenant_id option \<Rightarrow> (tenant_id \<times> hash) list \<Rightarrow> tenant_id option" where
  "first_duplicate previous [] = None"
| "first_duplicate previous ((tenant, _) # rest) =
    (if previous = Some tenant then Some tenant else first_duplicate (Some tenant) rest)"

definition from_tenant_roots ::
  "sha256 \<Rightarrow> (tenant_id \<times> hash) list \<Rightarrow> (checkpoint_root, accumulator_error) result" where
  "from_tenant_roots sha tenant_roots =
    (if tenant_roots = [] then Err EmptyTenantRoots
     else
       let entries = sort_key fst tenant_roots in
       case first_duplicate None entries of
         Some tenant \<Rightarrow> Err (DuplicateTenant tenant)
       | None \<Rightarrow>
           let levels = build_levels (checkpoint_internal sha) (map (\<lambda>(t, r). checkpoint_leaf sha t r) entries) in
           case last levels of
             [] \<Rightarrow> Err EmptyTenantRoots
           | top_node # _ \<Rightarrow> Ok \<lparr>cr_root = top_node, cr_entries = entries, cr_levels = levels\<rparr>)"

definition tenant_root_of :: "checkpoint_root \<Rightarrow> tenant_id \<Rightarrow> hash option" where
  "tenant_root_of cr tenant = map_option snd (find (\<lambda>(t, _). t = tenant) (cr_entries cr))"

text \<open>The loop over the levels with the index of the node on the path.\<close>

fun tenant_steps :: "nat \<Rightarrow> nat \<Rightarrow> hash list list \<Rightarrow> checkpoint_step list" where
  "tenant_steps level node_index [] = []"
| "tenant_steps level node_index (nodes # rest) =
    (if length nodes \<le> 1 then []
     else if node_index < length nodes then
       let sibling =
         (if node_index AND 1 = 0
          then if node_index + 1 \<ge> length nodes then nodes ! node_index else nodes ! (node_index + 1)
          else nodes ! (node_index - 1))
       in \<lparr>cs_level = level, cs_sibling = sibling\<rparr> # tenant_steps (level + 1) (drop_bit 1 node_index) rest
     else [])"

definition prove_tenant_root :: "checkpoint_root \<Rightarrow> tenant_id \<Rightarrow> tenant_root_proof option" where
  "prove_tenant_root cr tenant =
    (case position (\<lambda>(t, _). t = tenant) (cr_entries cr) of
       None \<Rightarrow> None
     | Some index \<Rightarrow> Some \<lparr>tp_tenant_id = tenant, tp_tenant_root = snd (cr_entries cr ! index), tp_index = index,
         tp_steps = tenant_steps 0 index (cr_levels cr)\<rparr>)"

fun climb_tenant :: "sha256 \<Rightarrow> nat \<Rightarrow> hash \<Rightarrow> checkpoint_step list \<Rightarrow> hash" where
  "climb_tenant sha node_index acc [] = acc"
| "climb_tenant sha node_index acc (step # rest) =
    climb_tenant sha (drop_bit 1 node_index)
      (if node_index AND 1 = 0 then checkpoint_internal sha acc (cs_sibling step)
       else checkpoint_internal sha (cs_sibling step) acc) rest"

definition verify_tenant_root :: "sha256 \<Rightarrow> checkpoint_root \<Rightarrow> tenant_root_proof \<Rightarrow> bool" where
  "verify_tenant_root sha cr p \<longleftrightarrow>
    climb_tenant sha (tp_index p) (checkpoint_leaf sha (tp_tenant_id p) (tp_tenant_root p)) (tp_steps p) = cr_root cr"

interpretation checkpoint_nodes: tagged_node checkpoint_internal CHECKPOINT_INTERNAL_TAG
  by unfold_locales (simp add: checkpoint_internal_def)

section \<open>Issued proofs verify\<close>

lemma even_AND_1: "i AND 1 = 0 \<longleftrightarrow> even (i :: nat)"
  by (simp add: and_one_eq even_iff_mod_2_eq_zero)

lemma tenant_steps_Cons:
  "tenant_steps l i (nodes # rest) =
    (if length nodes \<le> 1 then []
     else if i < length nodes
     then \<lparr>cs_level = l, cs_sibling = nodes ! beside_index (length nodes) i\<rparr> # tenant_steps (l + 1) (i div 2) rest
     else [])"
  unfolding tenant_steps.simps even_AND_1 by (simp add: beside_index_def drop_bit_eq_div)

lemma climb_tenant_Cons:
  "climb_tenant sha i acc (step # rest) =
    climb_tenant sha (i div 2)
      (if even i then checkpoint_internal sha acc (cs_sibling step)
       else checkpoint_internal sha (cs_sibling step) acc) rest"
  unfolding climb_tenant.simps even_AND_1 by (simp add: drop_bit_eq_div)

declare tenant_steps.simps(2) [simp del] climb_tenant.simps(2) [simp del]

lemma climb_issued:
  assumes "i < length xs"
  shows "climb_tenant sha i (xs ! i) (tenant_steps l i (build_levels (checkpoint_internal sha) xs)) =
    hd (reduce_level (checkpoint_internal sha) xs)"
  using assms
proof (induction "length xs" arbitrary: xs i l rule: less_induct)
  case less
  let ?up = "pair_level (checkpoint_internal sha) xs"
  show ?case
  proof (cases "length xs > 1")
    case True
    have "i div 2 < length ?up" using less.prems True by simp
    moreover have "length ?up < length xs" using True by simp
    ultimately have "climb_tenant sha (i div 2) (?up ! (i div 2))
        (tenant_steps (l + 1) (i div 2) (build_levels (checkpoint_internal sha) ?up)) =
        hd (reduce_level (checkpoint_internal sha) ?up)"
      by (intro less.hyps)
    moreover have "climb_tenant sha i (xs ! i) (tenant_steps l i (build_levels (checkpoint_internal sha) xs)) =
        climb_tenant sha (i div 2) (?up ! (i div 2))
          (tenant_steps (l + 1) (i div 2) (build_levels (checkpoint_internal sha) ?up))"
      unfolding nth_pair_level [OF less.prems]
      using True less.prems by (simp add: build_levels_step tenant_steps_Cons climb_tenant_Cons)
    ultimately show ?thesis using True by (simp add: reduce_level_step)
  next
    case False
    then obtain x where "xs = [x]" using less.prems by (cases xs) auto
    then show ?thesis using less.prems by (simp add: build_levels_step reduce_level_step tenant_steps_Cons)
  qed
qed

lemma first_duplicate_None:
  "first_duplicate previous es = None \<Longrightarrow> sorted (map fst es) \<Longrightarrow>
    (case previous of None \<Rightarrow> True | Some t \<Rightarrow> \<forall>e \<in> set es. t \<le> fst e) \<Longrightarrow>
    distinct (map fst es) \<and> (case previous of None \<Rightarrow> True | Some t \<Rightarrow> t \<notin> fst ` set es)"
  by (induction previous es rule: first_duplicate.induct) (force split: if_splits option.splits)+

lemma position_Some:
  "position P xs = Some i \<Longrightarrow> i < length xs \<and> P (xs ! i)"
  by (induction xs arbitrary: i) (auto split: if_splits)

lemma position_None: "position P xs = None \<longleftrightarrow> (\<forall>x \<in> set xs. \<not> P x)"
  by (induction xs) auto

lemma from_tenant_roots_Ok:
  assumes "from_tenant_roots sha rs = Ok cr"
  shows "rs \<noteq> []" and "cr_entries cr = sort_key fst rs" and "distinct (map fst (cr_entries cr))"
    and "cr_levels cr = build_levels (checkpoint_internal sha) (map (\<lambda>(t, r). checkpoint_leaf sha t r) (cr_entries cr))"
    and "cr_root cr = hd (reduce_level (checkpoint_internal sha) (map (\<lambda>(t, r). checkpoint_leaf sha t r) (cr_entries cr)))"
  using assms first_duplicate_None [of None "sort_key fst rs"]
  by (auto simp: from_tenant_roots_def Let_def reduce_level_last split: if_splits option.splits list.splits)

section \<open>A verified proof names an entry\<close>

definition step_input :: "nat \<Rightarrow> hash \<Rightarrow> checkpoint_step \<Rightarrow> byte list" where
  "step_input i acc step =
    (if even i then CHECKPOINT_INTERNAL_TAG # acc @ cs_sibling step
     else CHECKPOINT_INTERNAL_TAG # cs_sibling step @ acc)"

fun climb_inputs :: "sha256 \<Rightarrow> nat \<Rightarrow> hash \<Rightarrow> checkpoint_step list \<Rightarrow> byte list list" where
  "climb_inputs sha i acc [] = []"
| "climb_inputs sha i acc (step # rest) =
    step_input i acc step # climb_inputs sha (i div 2) (sha (step_input i acc step)) rest"

lemma climb_tenant_step: "climb_tenant sha i acc (step # rest) = climb_tenant sha (i div 2) (sha (step_input i acc step)) rest"
  by (simp add: climb_tenant_Cons step_input_def checkpoint_internal_def)

definition checkpoint_strings :: "sha256 \<Rightarrow> checkpoint_root \<Rightarrow> tenant_root_proof \<Rightarrow> byte list list" where
  "checkpoint_strings sha cr p =
    leaf_input_of (tp_tenant_id p) (tp_tenant_root p) # map (\<lambda>(t, r). leaf_input_of t r) (cr_entries cr) @
    tree_inputs CHECKPOINT_INTERNAL_TAG (checkpoint_internal sha)
      (map (\<lambda>(t, r). checkpoint_leaf sha t r) (cr_entries cr)) @
    climb_inputs sha (tp_index p) (checkpoint_leaf sha (tp_tenant_id p) (tp_tenant_root p)) (tp_steps p)"

lemma leaf_not_internal: "leaf_input_of t r \<noteq> CHECKPOINT_INTERNAL_TAG # xs"
  by (simp add: leaf_input_of_def CHECKPOINT_LEAF_TAG_def CHECKPOINT_INTERNAL_TAG_def)

lemma leaf_input_inj:
  assumes "leaf_input_of t r = leaf_input_of t' r'" and "length t < 2 ^ 64" and "length t' < 2 ^ 64"
  shows "t = t' \<and> r = r'"
  using assms field_inj [of t r t' r'] by (simp add: leaf_input_of_def)

text \<open>The nodes at a level of the tree over some leaves: leaves at the bottom, hashed pairs above.\<close>

lemma level_node:
  assumes "fixed_width sha" and "m < length (build_levels (checkpoint_internal sha) (map sha ls))"
    and "x \<in> set (build_levels (checkpoint_internal sha) (map sha ls) ! m)"
  shows "length x = 32" and "m = 0 \<Longrightarrow> \<exists>v \<in> set ls. x = sha v"
    and "m = Suc m' \<Longrightarrow> \<exists>l r. l \<in> set (build_levels (checkpoint_internal sha) (map sha ls) ! m') \<and>
      r \<in> set (build_levels (checkpoint_internal sha) (map sha ls) ! m') \<and>
      x = sha (CHECKPOINT_INTERNAL_TAG # l @ r) \<and>
      CHECKPOINT_INTERNAL_TAG # l @ r \<in> set (tree_inputs CHECKPOINT_INTERNAL_TAG (checkpoint_internal sha) (map sha ls))"
proof -
  let ?L = "build_levels (checkpoint_internal sha) (map sha ls)"
  have bottom: "?L ! 0 = map sha ls" by (simp add: build_levels.simps [of "checkpoint_internal sha" "map sha ls"])
  have up: "x \<in> sha ` set (pair_inputs CHECKPOINT_INTERNAL_TAG (?L ! n))" if "m = Suc n" for n
    using assms(2,3) nth_build_levels [of n "checkpoint_internal sha" "map sha ls"] that
    by (simp add: checkpoint_nodes.pair_level_inputs)
  show "length x = 32" using up assms(3) bottom fixed_widthD [OF assms(1)] by (cases m) auto
  show "\<exists>v \<in> set ls. x = sha v" if "m = 0" using assms(3) bottom that by auto
  show "\<exists>l r. l \<in> set (?L ! m') \<and> r \<in> set (?L ! m') \<and> x = sha (CHECKPOINT_INTERNAL_TAG # l @ r) \<and>
      CHECKPOINT_INTERNAL_TAG # l @ r \<in> set (tree_inputs CHECKPOINT_INTERNAL_TAG (checkpoint_internal sha) (map sha ls))"
    if m: "m = Suc m'"
  proof -
    obtain v where v: "v \<in> set (pair_inputs CHECKPOINT_INTERNAL_TAG (?L ! m'))" "x = sha v" using up [OF m] by auto
    moreover have "v \<in> set (tree_inputs CHECKPOINT_INTERNAL_TAG (checkpoint_internal sha) (map sha ls))"
      using build_levels_inputs [of m' "checkpoint_internal sha" "map sha ls" CHECKPOINT_INTERNAL_TAG] v assms(2) m by auto
    ultimately show ?thesis using pair_inputs_parent [OF v(1)] by blast
  qed
qed

lemma climb_stays_in_tree:
  assumes "fixed_width sha" and "\<not> collision sha S" and "set ls \<subseteq> set S"
    and "\<forall>v \<in> set ls. \<forall>xs. v \<noteq> CHECKPOINT_INTERNAL_TAG # xs"
    and "set (tree_inputs CHECKPOINT_INTERNAL_TAG (checkpoint_internal sha) (map sha ls)) \<subseteq> set S"
    and "\<forall>s \<in> set steps. length (cs_sibling s) = 32" and "length acc = 32"
    and "set (climb_inputs sha i acc steps) \<subseteq> set S"
    and "m < length (build_levels (checkpoint_internal sha) (map sha ls))"
    and "climb_tenant sha i acc steps \<in> set (build_levels (checkpoint_internal sha) (map sha ls) ! m)"
  shows "\<exists>n < length (build_levels (checkpoint_internal sha) (map sha ls)).
    acc \<in> set (build_levels (checkpoint_internal sha) (map sha ls) ! n)"
  using assms(6-)
proof (induction steps arbitrary: i acc)
  case (Cons step rest)
  let ?L = "build_levels (checkpoint_internal sha) (map sha ls)"
  let ?v = "step_input i acc step"
  have v: "?v \<in> set S" "set (climb_inputs sha (i div 2) (sha ?v) rest) \<subseteq> set S"
    "climb_tenant sha (i div 2) (sha ?v) rest \<in> set (?L ! m)"
    using Cons.prems(3,5) by (simp_all add: climb_tenant_step)
  obtain n where n: "n < length ?L" "sha ?v \<in> set (?L ! n)"
    using Cons.IH [OF _ _ v(2) Cons.prems(4) v(3)] Cons.prems(1) fixed_widthD [OF assms(1)] by auto
  show ?case
  proof (cases n)
    case 0
    obtain u where "u \<in> set ls" "sha ?v = sha u" using level_node(2) [OF assms(1) n 0] by blast
    then have "?v = u" using no_collisionD [OF assms(2) v(1)] assms(3) by blast
    then show ?thesis using \<open>u \<in> set ls\<close> assms(4) by (auto simp: step_input_def split: if_splits)
  next
    case (Suc n')
    obtain l r where lr: "l \<in> set (?L ! n')" "r \<in> set (?L ! n')" "sha ?v = sha (CHECKPOINT_INTERNAL_TAG # l @ r)"
      "CHECKPOINT_INTERNAL_TAG # l @ r \<in> set S"
      using level_node(3) [OF assms(1) n Suc] assms(5) by blast
    then have eq: "?v = CHECKPOINT_INTERNAL_TAG # l @ r" using no_collisionD [OF assms(2) v(1)] by blast
    have n': "n' < length ?L" using n(1) Suc by simp
    have "length l = 32" "length r = 32" "length (cs_sibling step) = 32"
      using level_node(1) [OF assms(1) n'] lr(1,2) Cons.prems(1) by auto
    then have "acc = l \<or> acc = r" using eq Cons.prems(2) by (auto simp: step_input_def split: if_splits)
    then show ?thesis using lr(1,2) n' by blast
  qed
qed auto

section \<open>Guarantees\<close>

definition short_roots :: "(tenant_id \<times> hash) list \<Rightarrow> bool" where
  "short_roots rs \<longleftrightarrow> (\<forall>e \<in> set rs. length (fst e) < 2 ^ 64 \<and> length (snd e) = HASH_BYTE_LEN)"

text \<open>A stand-in for SHA-256 that is cheap to evaluate.\<close>

definition pad_hash :: sha256 where
  "pad_hash x = take 32 (rev x @ replicate 32 0)"

definition ex_roots :: "(tenant_id \<times> hash) list" where
  "ex_roots = [(''tenant:b'', replicate 32 2), (''tenant:a'', replicate 32 1), (''tenant:c'', replicate 32 3)]"

definition ex_checkpoint :: checkpoint_root where
  "ex_checkpoint = (case from_tenant_roots pad_hash ex_roots of Ok cr \<Rightarrow> cr | Err _ \<Rightarrow> \<lparr>cr_root = [], cr_entries = [], cr_levels = []\<rparr>)"

lemma pad_hash_width: "fixed_width pad_hash"
  by (auto simp: fixed_width_def pad_hash_def HASH_BYTE_LEN_def min_def)

lemma ex_checkpoint_built: "from_tenant_roots pad_hash ex_roots = Ok ex_checkpoint"
  by code_simp

text \<open>A checkpoint that is built anchors exactly one root per tenant, whatever the order of its input,
  and for each of them the proof it issues carries that root and verifies.
\<close>
theorem checkpoint_proofs_verify:
  assumes "from_tenant_roots sha rs = Ok cr"
  shows "distinct (map fst rs) \<and>
    (\<forall>e \<in> set rs. tenant_root_of cr (fst e) = Some (snd e) \<and>
      (\<exists>p. prove_tenant_root cr (fst e) = Some p \<and> tp_tenant_root p = snd e \<and> verify_tenant_root sha cr p))"
proof (intro conjI ballI)
  note cr = from_tenant_roots_Ok [OF assms]
  have sets: "set (cr_entries cr) = set rs" by (simp add: cr(2))
  show "distinct (map fst rs)"
    using cr(3) mset_eq_imp_distinct_iff [of "map fst (sort_key fst rs)" "map fst rs"] by (simp add: cr(2))
  fix e assume e: "e \<in> set rs"
  have unique: "snd e' = snd e" if "e' \<in> set (cr_entries cr)" "fst e' = fst e" for e'
    using that e sets cr(3) by (auto simp: distinct_map inj_on_def)
  have found: "\<exists>x \<in> set (cr_entries cr). (\<lambda>(t, _). t = fst e) x"
    by (rule bexI [of _ e]) (simp_all add: case_prod_unfold sets e)
  then have "find (\<lambda>(t, _). t = fst e) (cr_entries cr) \<noteq> None" unfolding find_None_iff by blast
  then obtain e' where "find (\<lambda>(t, _). t = fst e) (cr_entries cr) = Some e'" by blast
  moreover from this have "e' \<in> set (cr_entries cr)" "fst e' = fst e"
    by (auto simp: find_Some_iff case_prod_unfold)
  ultimately show "tenant_root_of cr (fst e) = Some (snd e)" using unique by (simp add: tenant_root_of_def)
  have "position (\<lambda>(t, _). t = fst e) (cr_entries cr) \<noteq> None" using found unfolding position_None by blast
  then obtain i where i: "position (\<lambda>(t, _). t = fst e) (cr_entries cr) = Some i" by blast
  then have at_i: "i < length (cr_entries cr)" "fst (cr_entries cr ! i) = fst e"
    using position_Some [OF i] by (auto simp: case_prod_unfold)
  then have root_i: "snd (cr_entries cr ! i) = snd e" using unique by simp
  let ?leaves = "map (\<lambda>(t, r). checkpoint_leaf sha t r) (cr_entries cr)"
  have "?leaves ! i = checkpoint_leaf sha (fst e) (snd e)"
    using at_i root_i by (simp add: case_prod_unfold)
  then show "\<exists>p. prove_tenant_root cr (fst e) = Some p \<and> tp_tenant_root p = snd e \<and> verify_tenant_root sha cr p"
    using climb_issued [of i ?leaves sha 0] at_i(1) root_i i
    by (simp add: prove_tenant_root_def verify_tenant_root_def cr(4,5))
qed

theorem checkpoint_proofs_verify_witness:
  "distinct (map fst ex_roots) \<and> tenant_root_of ex_checkpoint ''tenant:b'' = Some (replicate 32 2) \<and>
   (\<exists>p. prove_tenant_root ex_checkpoint ''tenant:b'' = Some p \<and> verify_tenant_root pad_hash ex_checkpoint p)"
proof -
  have "(''tenant:b'', replicate 32 2) \<in> set ex_roots" by (simp add: ex_roots_def)
  then show ?thesis using checkpoint_proofs_verify [OF ex_checkpoint_built] by fastforce
qed

text \<open>C39.
  A verified proof for a tenant's root names an entry of the checkpoint, whatever its index and the
  number of its steps, unless two of the strings hashed for the checkpoint or the proof collide.
\<close>
theorem checkpoint_binds:
  assumes "fixed_width sha" and "from_tenant_roots sha rs = Ok cr" and "short_roots rs"
    and "length (tp_tenant_id p) < 2 ^ 64"
    and "list_all (\<lambda>s. length (cs_sibling s) = HASH_BYTE_LEN) (tp_steps p)"
    and "verify_tenant_root sha cr p"
  shows "(tp_tenant_id p, tp_tenant_root p) \<in> set rs \<or> collision sha (checkpoint_strings sha cr p)"
proof (rule disjCI)
  let ?S = "checkpoint_strings sha cr p" and ?ls = "map (\<lambda>(t, r). leaf_input_of t r) (cr_entries cr)"
  let ?L = "build_levels (checkpoint_internal sha) (map sha ?ls)"
  let ?leaf = "checkpoint_leaf sha (tp_tenant_id p) (tp_tenant_root p)"
  assume free: "\<not> collision sha ?S"
  note cr = from_tenant_roots_Ok [OF assms(2)]
  have leaves: "map (\<lambda>(t, r). checkpoint_leaf sha t r) (cr_entries cr) = map sha ?ls"
    by (simp add: checkpoint_leaf_def case_prod_unfold)
  have "cr_entries cr \<noteq> []" using cr(1,2) by (metis set_empty set_sort)
  then have "length (last ?L) = 1"
    using length_reduce_level [of "map sha ?ls" "checkpoint_internal sha"] by (simp add: reduce_level_last)
  then have top: "cr_root cr \<in> set (?L ! (length ?L - 1))"
    unfolding cr(5) leaves reduce_level_last last_conv_nth [OF build_levels_not_Nil, symmetric] by (cases "last ?L") auto
  have sub: "set ?ls \<subseteq> set ?S"
    "set (tree_inputs CHECKPOINT_INTERNAL_TAG (checkpoint_internal sha) (map sha ?ls)) \<subseteq> set ?S"
    "set (climb_inputs sha (tp_index p) ?leaf (tp_steps p)) \<subseteq> set ?S"
    "leaf_input_of (tp_tenant_id p) (tp_tenant_root p) \<in> set ?S"
    by (auto simp: checkpoint_strings_def leaves)
  have "\<exists>n < length ?L. ?leaf \<in> set (?L ! n)"
  proof (rule climb_stays_in_tree [OF assms(1) free sub(1) _ sub(2) _ _ sub(3)])
    show "\<forall>v \<in> set ?ls. \<forall>xs. v \<noteq> CHECKPOINT_INTERNAL_TAG # xs" using leaf_not_internal by auto
    show "\<forall>s \<in> set (tp_steps p). length (cs_sibling s) = 32" using assms(5) by (simp add: list_all_iff HASH_BYTE_LEN_def)
    show "length ?leaf = 32" by (simp add: checkpoint_leaf_def fixed_widthD [OF assms(1)])
    show "length ?L - 1 < length ?L" by simp
    show "climb_tenant sha (tp_index p) ?leaf (tp_steps p) \<in> set (?L ! (length ?L - 1))"
      using top assms(6) by (simp add: verify_tenant_root_def)
  qed
  then obtain n where n: "n < length ?L" "sha (leaf_input_of (tp_tenant_id p) (tp_tenant_root p)) \<in> set (?L ! n)"
    by (auto simp: checkpoint_leaf_def)
  show "(tp_tenant_id p, tp_tenant_root p) \<in> set rs"
  proof (cases n)
    case 0
    then obtain v where v: "v \<in> set ?ls" "sha (leaf_input_of (tp_tenant_id p) (tp_tenant_root p)) = sha v"
      using level_node(2) [OF assms(1) n] by blast
    then have "leaf_input_of (tp_tenant_id p) (tp_tenant_root p) = v"
      using no_collisionD [OF free sub(4)] sub(1) by blast
    then obtain e where e: "e \<in> set rs" "leaf_input_of (tp_tenant_id p) (tp_tenant_root p) = leaf_input_of (fst e) (snd e)"
      using v(1) cr(2) by auto
    then have "tp_tenant_id p = fst e \<and> tp_tenant_root p = snd e"
      using assms(3,4) by (intro leaf_input_inj) (auto simp: short_roots_def)
    then show ?thesis using e(1) by simp
  next
    case (Suc n')
    then obtain l r where "sha (leaf_input_of (tp_tenant_id p) (tp_tenant_root p)) = sha (CHECKPOINT_INTERNAL_TAG # l @ r)"
      "CHECKPOINT_INTERNAL_TAG # l @ r \<in> set ?S"
      using level_node(3) [OF assms(1) n] sub(2) by blast
    then show ?thesis using no_collisionD [OF free sub(4)] leaf_not_internal by blast
  qed
qed

theorem checkpoint_binds_witness:
  "case prove_tenant_root ex_checkpoint ''tenant:b'' of
     Some p \<Rightarrow> (tp_tenant_id p, tp_tenant_root p) \<in> set ex_roots \<or> collision pad_hash (checkpoint_strings pad_hash ex_checkpoint p)
   | None \<Rightarrow> False"
proof -
  have "short_roots ex_roots" by (simp add: short_roots_def ex_roots_def HASH_BYTE_LEN_def)
  moreover have "case prove_tenant_root ex_checkpoint ''tenant:b'' of
      Some p \<Rightarrow> length (tp_tenant_id p) < 2 ^ 64 \<and> list_all (\<lambda>s. length (cs_sibling s) = HASH_BYTE_LEN) (tp_steps p) \<and>
        verify_tenant_root pad_hash ex_checkpoint p
    | None \<Rightarrow> False" by code_simp
  ultimately show ?thesis
    using checkpoint_binds [OF pad_hash_width ex_checkpoint_built] by (auto split: option.splits)
qed

lemma first_duplicate_distinct:
  "distinct (map fst es) \<Longrightarrow> (case previous of None \<Rightarrow> True | Some t \<Rightarrow> t \<notin> fst ` set es) \<Longrightarrow> first_duplicate previous es = None"
  by (induction previous es rule: first_duplicate.induct) (auto split: option.splits)

lemma length_tenant_steps:
  "length (tenant_steps l i (build_levels node xs)) < length (build_levels node xs)"
proof (induction "length xs" arbitrary: xs i l rule: less_induct)
  case less
  show ?case
  proof (cases "length xs > 1")
    case True
    then have "length (pair_level node xs) < length xs" by simp
    then show ?thesis using less True by (simp add: build_levels_step tenant_steps_Cons)
  qed (simp add: build_levels_step tenant_steps_Cons)
qed

text \<open>Building a checkpoint ends with a result for every non-empty list of distinct tenants, and for at
  most \<open>2 ^ n\<close> of them the tree has at most \<open>n + 1\<close> levels and no proof more than \<open>n\<close> steps.
\<close>
theorem checkpoint_is_built:
  assumes "rs \<noteq> []" and "distinct (map fst rs)" and "length rs \<le> 2 ^ n"
  shows "\<exists>cr. from_tenant_roots sha rs = Ok cr \<and> length (cr_levels cr) \<le> n + 1 \<and>
    (\<forall>tenant p. prove_tenant_root cr tenant = Some p \<longrightarrow> length (tp_steps p) \<le> n)"
proof -
  let ?entries = "sort_key fst rs"
  let ?levels = "build_levels (checkpoint_internal sha) (map (\<lambda>(t, r). checkpoint_leaf sha t r) ?entries)"
  have "distinct (map fst ?entries)"
    using assms(2) mset_eq_imp_distinct_iff [of "map fst ?entries" "map fst rs"] by simp
  then have dup: "first_duplicate None ?entries = None" by (simp add: first_duplicate_distinct)
  have "map (\<lambda>(t, r). checkpoint_leaf sha t r) ?entries \<noteq> []"
    using assms(1) by (metis length_0_conv length_map length_sort)
  then obtain t where "last ?levels = [t]"
    using length_reduce_level [of _ "checkpoint_internal sha"] by (auto simp: reduce_level_last length_Suc_conv)
  then have built: "from_tenant_roots sha rs = Ok \<lparr>cr_root = t, cr_entries = ?entries, cr_levels = ?levels\<rparr>"
    using assms(1) dup by (simp add: from_tenant_roots_def Let_def)
  have height: "length ?levels \<le> n + 1" using length_build_levels [of _ n] assms(3) by simp
  have "length (tp_steps p) \<le> n"
    if issued: "prove_tenant_root \<lparr>cr_root = t, cr_entries = ?entries, cr_levels = ?levels\<rparr> tenant = Some p" for tenant p
  proof -
    obtain i where "tp_steps p = tenant_steps 0 i ?levels"
      using issued by (auto simp: prove_tenant_root_def split: option.splits)
    then have "length (tp_steps p) < length ?levels" by (simp add: length_tenant_steps)
    then show ?thesis using height by simp
  qed
  then show ?thesis using built height by auto
qed

theorem checkpoint_is_built_witness:
  "\<exists>cr. from_tenant_roots pad_hash ex_roots = Ok cr \<and> length (cr_levels cr) \<le> 2 + 1"
proof -
  have "ex_roots \<noteq> []" "distinct (map fst ex_roots)" "length ex_roots \<le> 2 ^ 2" by code_simp+
  then show ?thesis using checkpoint_is_built [of ex_roots 2 pad_hash] by blast
qed

end
