(* ===== verification/Commit_Forming.thy ===== *)
theory Commit_Forming
  imports Checkpoint_Tree Intent_Ingress Profile_Base
begin

text \<open>
  How events become a commit (\<^verbatim>\<open>statechronicle-commit\<close> and \<^verbatim>\<open>commit.rs\<close> of \<^verbatim>\<open>statechronicle-domain\<close>): the
  batch with its limits, the canonical order, the event and state roots, the builder, the checks
  on the chain of commits and the global checkpoint. BCS of an event and SHA-256 are parameters.
\<close>

section \<open>Errors and records\<close>

datatype commit_error =
    CommitEmptyBatch
  | CommitDomain domain_error
  | CommitCore core_error
  | CommitAccumulator accumulator_error
  | CommitInvalidEvent string
  | CommitMixedTenant
  | CommitDuplicateEventId string
  | CommitDuplicateCanonicalKey string "64 word"
  | CommitOutOfOrder string "64 word"
  | CommitStateRootMismatch content_digest content_digest
  | CommitEventRootMismatch
  | CommitForkDetected string "64 word"
  | CommitChainGap string "string option"
  | CommitSequenceMismatch "64 word" "64 word"
  | CommitEventRewrite string
  | CommitSizeLimitExceeded string nat nat
  | CommitBuilderFieldMissing string
  | CommitSigning string
  | CommitPayloadDigestMismatch
  | CommitStore string

fun commit_error_of_core :: "core_error \<Rightarrow> commit_error" where
  "commit_error_of_core (SizeLimitExceeded name limit actual) = CommitSizeLimitExceeded name limit actual"
| "commit_error_of_core other = CommitCore other"

datatype scope_kind = TenantScope | GlobalCheckpointScope

record commit_scope =
  sc_kind :: scope_kind
  sc_tenant_id :: "tenant_id option"

definition scope_tenant :: "tenant_id \<Rightarrow> commit_scope" where
  "scope_tenant tenant = \<lparr>sc_kind = TenantScope, sc_tenant_id = Some tenant\<rparr>"

definition scope_global_checkpoint :: commit_scope where
  "scope_global_checkpoint = \<lparr>sc_kind = GlobalCheckpointScope, sc_tenant_id = None\<rparr>"

definition COMMIT_SCHEMA :: string where
  "COMMIT_SCHEMA = ''statechronicle.commit.v0''"

record commit =
  co_schema :: string
  co_scope :: commit_scope
  co_commit_id :: string
  co_parent_commit_id :: "string option"
  co_sequence :: "64 word"
  co_event_count :: "64 word"
  co_event_merkle_root :: content_digest
  co_previous_state_root :: content_digest
  co_next_state_root :: content_digest
  co_created_at :: timestamp
  co_executor :: subject_id
  co_profile :: string

section \<open>Batches\<close>

definition MAX_EVENT_BYTES :: nat where
  "MAX_EVENT_BYTES = 64 * 1024"

definition MAX_COMMIT_BYTES :: nat where
  "MAX_COMMIT_BYTES = 1024 * 1024"

type_synonym event_codec = "event \<Rightarrow> (byte list, string) result"

record commit_batch =
  cb_scope :: commit_scope
  cb_events :: "event list"

definition batch_new :: "commit_scope \<Rightarrow> commit_batch" where
  "batch_new scope = \<lparr>cb_scope = scope, cb_events = []\<rparr>"

definition add_event :: "event_codec \<Rightarrow> event \<Rightarrow> commit_batch \<Rightarrow> (commit_batch, commit_error) result" where
  "add_event bcs event b =
    (if (case sc_tenant_id (cb_scope b) of Some tenant \<Rightarrow> tenant \<noteq> ev_tenant_id event | None \<Rightarrow> False)
     then Err CommitMixedTenant
     else if list_ex (\<lambda>existing. ev_event_id existing = ev_event_id event) (cb_events b)
     then Err (CommitDuplicateEventId (ev_event_id event))
     else
       and_then (map_err commit_error_of_core (canonicalize bcs event)) (\<lambda>bytes.
       if length bytes > MAX_EVENT_BYTES
       then Err (CommitSizeLimitExceeded ''event'' MAX_EVENT_BYTES (length bytes))
       else Ok (b\<lparr>cb_events := cb_events b @ [event]\<rparr>)))"

text \<open>The sum of the canonical sizes, which fails where a \<^verbatim>\<open>usize\<close> of 64 bits would overflow.\<close>

fun batch_size :: "event_codec \<Rightarrow> nat \<Rightarrow> event list \<Rightarrow> (nat, commit_error) result" where
  "batch_size bcs size_so_far [] = Ok size_so_far"
| "batch_size bcs size_so_far (event # rest) =
    and_then (map_err commit_error_of_core (canonicalize bcs event)) (\<lambda>bytes.
    if size_so_far + length bytes < 2 ^ 64 then batch_size bcs (size_so_far + length bytes) rest
    else Err (CommitSizeLimitExceeded ''commit'' MAX_COMMIT_BYTES (2 ^ 64 - 1)))"

definition batch_validate :: "event_codec \<Rightarrow> commit_batch \<Rightarrow> (unit, commit_error) result" where
  "batch_validate bcs b =
    (if cb_events b = [] then Err CommitEmptyBatch
     else
       and_then (batch_size bcs 0 (cb_events b)) (\<lambda>size_found.
       if size_found > MAX_COMMIT_BYTES
       then Err (CommitSizeLimitExceeded ''commit'' MAX_COMMIT_BYTES size_found) else Ok ()))"

section \<open>Canonical order\<close>

definition canonical_key :: "event \<Rightarrow> resource_id \<times> 64 word" where
  "canonical_key e = (ev_resource_id e, sc_version (ev_after e))"

definition sort_events :: "event list \<Rightarrow> event list" where
  "sort_events events =
    sort_key (\<lambda>e. (ev_resource_id e, sc_version (ev_after e), ev_event_id e)) events"

definition order_events :: "event list \<Rightarrow> (event list, commit_error) result" where
  "order_events events = Ok (sort_events events)"

fun order_loop ::
  "string list \<Rightarrow> (resource_id \<times> 64 word) list \<Rightarrow> (resource_id \<times> 64 word) option \<Rightarrow> event list \<Rightarrow>
    (unit, commit_error) result" where
  "order_loop seen_event_ids seen_keys previous [] = Ok ()"
| "order_loop seen_event_ids seen_keys previous (event # rest) =
    (if ev_event_id event \<in> set seen_event_ids then Err (CommitDuplicateEventId (ev_event_id event))
     else if canonical_key event \<in> set seen_keys
     then Err (CommitDuplicateCanonicalKey (ev_resource_id event) (sc_version (ev_after event)))
     else if (case previous of Some k \<Rightarrow> k > canonical_key event | None \<Rightarrow> False)
     then Err (CommitOutOfOrder (ev_resource_id event) (sc_version (ev_after event)))
     else order_loop (ev_event_id event # seen_event_ids) (canonical_key event # seen_keys)
       (Some (canonical_key event)) rest)"

definition validate_order :: "event list \<Rightarrow> (unit, commit_error) result" where
  "validate_order events = order_loop [] [] None events"

section \<open>Roots\<close>

definition event_leaf_hash :: "sha256 \<Rightarrow> content_digest \<Rightarrow> hash" where
  "event_leaf_hash sha event_digest = sha (LEAF_NODE_TAG # event_digest)"

definition event_digest :: "sha256 \<Rightarrow> event_codec \<Rightarrow> event \<Rightarrow> (content_digest, commit_error) result" where
  "event_digest sha bcs event = map_err commit_error_of_core (canonicalize_and_digest sha bcs event)"

definition event_root :: "sha256 \<Rightarrow> event_codec \<Rightarrow> event list \<Rightarrow> (content_digest, commit_error) result" where
  "event_root sha bcs events =
    (if events = [] then Err CommitEmptyBatch
     else
       and_then (try_map (\<lambda>event. map_ok (event_leaf_hash sha) (event_digest sha bcs event)) events) (\<lambda>level.
       case reduce_level (internal_hash sha) level of
         [] \<Rightarrow> Err CommitEmptyBatch
       | top_node # _ \<Rightarrow> Ok top_node))"

definition event_subject :: "event \<Rightarrow> (subject_id, commit_error) result" where
  "event_subject event =
    ok_or (rs_subject (sc_state (ev_after event))) (CommitInvalidEvent (''after-state is missing '' @ quoted ''subject''))"

definition event_state_key :: "sha256 \<Rightarrow> event \<Rightarrow> state_type \<Rightarrow> (state_key, commit_error) result" where
  "event_state_key sha event st =
    (case st of
       ConsumableStackT \<Rightarrow> map_ok (for_subject_held sha (ev_tenant_id event) (ev_resource_id event)) (event_subject event)
     | FungibleBalanceT \<Rightarrow> map_ok (for_subject_held sha (ev_tenant_id event) (ev_resource_id event)) (event_subject event)
     | EntitlementT \<Rightarrow> map_ok (for_subject_held sha (ev_tenant_id event) (ev_resource_id event)) (event_subject event)
     | MeteredResourceT \<Rightarrow> map_ok (for_subject_held sha (ev_tenant_id event) (ev_resource_id event)) (event_subject event)
     | _ \<Rightarrow> Ok (for_resource sha (ev_tenant_id event) (ev_resource_id event)))"

definition infer_state_key :: "sha256 \<Rightarrow> event \<Rightarrow> (state_key, commit_error) result" where
  "infer_state_key sha event =
    (if rs_subject (sc_state (ev_after event)) \<noteq> None
     then map_ok (for_subject_held sha (ev_tenant_id event) (ev_resource_id event)) (event_subject event)
     else Ok (for_resource sha (ev_tenant_id event) (ev_resource_id event)))"

text \<open>The same address as the profiles compute it (\<^verbatim>\<open>transition.rs\<close> of \<^verbatim>\<open>statechronicle-profiles\<close>).\<close>

definition state_key_for ::
  "sha256 \<Rightarrow> state_type \<Rightarrow> tenant_id \<Rightarrow> subject_id option \<Rightarrow> resource_id \<Rightarrow> (state_key, profile_error) result" where
  "state_key_for sha st tenant subject resource =
    (if st \<in> {ConsumableStackT, FungibleBalanceT, EntitlementT, MeteredResourceT}
     then map_ok (for_subject_held sha tenant resource)
       (ok_or subject (InvalidInput ''subject required for subject-held state type''))
     else Ok (for_resource sha tenant resource))"

definition state_root_updates :: "sha256 \<Rightarrow> event list \<Rightarrow> (state_update list, commit_error) result" where
  "state_root_updates sha events =
    (if events = [] then Err CommitEmptyBatch
     else
       map_ok (sort_key su_key) (try_map (\<lambda>event.
         map_ok (\<lambda>key. \<lparr>su_key = key, su_state_digest = sc_state_hash (ev_after event)\<rparr>)
           (infer_state_key sha event)) events))"

definition compute_state_root :: "sha256 \<Rightarrow> state_update list \<Rightarrow> hash" where
  "compute_state_root sha updates = compute_root sha (snd (insert_batch sha updates accumulator_empty))"

text \<open>The mismatch carries the two digests; the code carries their string form.\<close>

definition verify_state_root_continuity ::
  "sha256 \<Rightarrow> content_digest \<Rightarrow> state_update list \<Rightarrow> state_update list \<Rightarrow> content_digest \<Rightarrow> (unit, commit_error) result" where
  "verify_state_root_continuity sha previous_state_root prior_updates current_updates declared_next_state_root =
    (let prior_root = compute_state_root sha prior_updates in
     if prior_root \<noteq> previous_state_root then Err (CommitStateRootMismatch previous_state_root prior_root)
     else
       let next_root = compute_state_root sha (sort_key su_key (prior_updates @ current_updates)) in
       if next_root \<noteq> declared_next_state_root
       then Err (CommitStateRootMismatch declared_next_state_root next_root) else Ok ())"

section \<open>The builder\<close>

record commit_builder =
  bu_scope :: "commit_scope option"
  bu_sequence :: "64 word"
  bu_executor :: "subject_id option"
  bu_profile :: "string option"
  bu_created_at :: "timestamp option"
  bu_parent_commit_id :: "string option"

definition build_commit ::
  "sha256 \<Rightarrow> event_codec \<Rightarrow> commit_builder \<Rightarrow> commit_batch \<Rightarrow> content_digest \<Rightarrow> state_update list \<Rightarrow>
    (string, commit_error) result \<Rightarrow> (commit, commit_error) result" where
  "build_commit sha bcs b batch previous_state_root prior_updates next_commit_id =
    and_then (ok_or (bu_scope b) (CommitBuilderFieldMissing ''scope'')) (\<lambda>scope.
    and_then (ok_or (bu_executor b) (CommitBuilderFieldMissing ''executor'')) (\<lambda>identity.
    and_then (ok_or (bu_profile b) (CommitBuilderFieldMissing ''profile'')) (\<lambda>profile.
    and_then (ok_or (bu_created_at b) (CommitBuilderFieldMissing ''created_at'')) (\<lambda>created_at.
    and_then (batch_validate bcs batch) (\<lambda>_.
    and_then (event_root sha bcs (cb_events batch)) (\<lambda>event_merkle_root.
    and_then (state_root_updates sha (cb_events batch)) (\<lambda>current_updates.
    let next_state_root = compute_state_root sha (sort_key su_key (prior_updates @ current_updates)) in
    and_then next_commit_id (\<lambda>commit_id.
    if length (cb_events batch) \<ge> 2 ^ 64
    then Err (CommitInvalidEvent ''event count does not fit in u64'')
    else Ok \<lparr>co_schema = COMMIT_SCHEMA, co_scope = scope, co_commit_id = commit_id,
      co_parent_commit_id = bu_parent_commit_id b, co_sequence = bu_sequence b,
      co_event_count = of_nat (length (cb_events batch)), co_event_merkle_root = event_merkle_root,
      co_previous_state_root = previous_state_root, co_next_state_root = next_state_root,
      co_created_at = created_at, co_executor = identity, co_profile = profile\<rparr>))))))))"

section \<open>The chain of commits\<close>

definition detect_fork :: "commit \<Rightarrow> commit \<Rightarrow> commit \<Rightarrow> (unit, commit_error) result" where
  "detect_fork previous a b =
    (if co_parent_commit_id a = Some (co_commit_id previous) \<and>
        co_parent_commit_id b = Some (co_commit_id previous) \<and>
        co_sequence a = co_sequence b \<and> co_commit_id a \<noteq> co_commit_id b
     then Err (CommitForkDetected (co_commit_id previous) (co_sequence a)) else Ok ())"

definition check_chain_continuity :: "commit \<Rightarrow> commit \<Rightarrow> (unit, commit_error) result" where
  "check_chain_continuity previous following =
    (if co_parent_commit_id following \<noteq> Some (co_commit_id previous)
     then Err (CommitChainGap (co_commit_id previous) (co_parent_commit_id following))
     else
       and_then (ok_or (checked_add_word (co_sequence previous) 1)
         (CommitSequenceMismatch (- 1) (co_sequence following))) (\<lambda>expected_sequence.
       if co_sequence following \<noteq> expected_sequence
       then Err (CommitSequenceMismatch expected_sequence (co_sequence following)) else Ok ()))"

definition validate_no_event_rewrite :: "sha256 \<Rightarrow> event_codec \<Rightarrow> event \<Rightarrow> event \<Rightarrow> (unit, commit_error) result" where
  "validate_no_event_rewrite sha bcs accepted candidate =
    (if ev_event_id accepted \<noteq> ev_event_id candidate then Ok ()
     else
       and_then (event_digest sha bcs accepted) (\<lambda>accepted_digest.
       and_then (event_digest sha bcs candidate) (\<lambda>candidate_digest.
       if accepted_digest \<noteq> candidate_digest then Err (CommitEventRewrite (ev_event_id accepted)) else Ok ())))"

section \<open>Global checkpoints\<close>

record tenant_root_entry =
  te_tenant_id :: tenant_id
  te_commit_id :: string
  te_state_root :: hash

record global_checkpoint =
  gc_schema :: string
  gc_sequence :: "64 word"
  gc_tenant_roots :: "tenant_root_entry list"
  gc_tenant_merkle_root :: content_digest
  gc_created_at :: timestamp
  gc_executor :: subject_id

definition build_global_checkpoint ::
  "sha256 \<Rightarrow> tenant_root_entry list \<Rightarrow> 64 word \<Rightarrow> timestamp \<Rightarrow> subject_id \<Rightarrow> (global_checkpoint, commit_error) result" where
  "build_global_checkpoint sha entries sequence created_at identity =
    map_ok (\<lambda>cr. \<lparr>gc_schema = ''statechronicle.global_checkpoint.v0'', gc_sequence = sequence,
        gc_tenant_roots = entries, gc_tenant_merkle_root = cr_root cr, gc_created_at = created_at,
        gc_executor = identity\<rparr>)
      (map_err CommitAccumulator (from_tenant_roots sha (map (\<lambda>e. (te_tenant_id e, te_state_root e)) entries)))"

end
