(* ===== verification/Commit_Theorems.thy ===== *)
theory Commit_Theorems
  imports Commit_Forming Example_Data
begin

text \<open>
  What a commit is worth: its order is canonical, its state root replays from the updates, its event
  root binds the events and a chain of commits without forks is one history.
\<close>

section \<open>Canonical order\<close>

lemma order_loop_Ok:
  "order_loop ids keys previous es = Ok () \<longleftrightarrow>
    distinct (map ev_event_id es) \<and> set (map ev_event_id es) \<inter> set ids = {} \<and>
    distinct (map canonical_key es) \<and> set (map canonical_key es) \<inter> set keys = {} \<and>
    sorted (map canonical_key es) \<and>
    (case (previous, es) of (Some k, e # _) \<Rightarrow> k \<le> canonical_key e | _ \<Rightarrow> True)"
proof (induction ids keys previous es rule: order_loop.induct)
  case (2 ids keys previous e rest)
  have "sorted (map canonical_key (e # rest)) \<longleftrightarrow>
      sorted (map canonical_key rest) \<and> (case rest of e' # _ \<Rightarrow> canonical_key e \<le> canonical_key e' | [] \<Rightarrow> True)"
  proof (cases rest)
    case (Cons e' es)
    show ?thesis unfolding Cons list.map sorted2 by auto
  qed simp
  moreover have "\<not> (case previous of Some k \<Rightarrow> k > canonical_key e | None \<Rightarrow> False) \<longleftrightarrow>
      (case previous of Some k \<Rightarrow> k \<le> canonical_key e | None \<Rightarrow> True)"
    by (auto simp: not_less split: option.split)
  ultimately show ?case
    using 2 by (auto split: option.splits list.splits)
qed (auto split: option.splits)

lemma validate_order_Ok:
  "validate_order es = Ok () \<longleftrightarrow>
    distinct (map ev_event_id es) \<and> distinct (map canonical_key es) \<and> sorted (map canonical_key es)"
  by (auto simp: validate_order_def order_loop_Ok)

definition order_key :: "event \<Rightarrow> resource_id \<times> 64 word \<times> string" where
  "order_key e = (ev_resource_id e, sc_version (ev_after e), ev_event_id e)"

lemma sort_events_key: "sort_events = sort_key order_key"
  by (simp add: fun_eq_iff sort_events_def order_key_def [abs_def])

lemma order_key_canonical:
  "order_key a \<le> order_key b \<Longrightarrow> canonical_key a \<le> canonical_key b"
  "canonical_key a < canonical_key b \<Longrightarrow> order_key a < order_key b"
  by (auto simp: order_key_def canonical_key_def less_eq_prod_def less_prod_def split: if_splits)

lemma sort_events_sorted: "sorted (map canonical_key (sort_events es))"
proof -
  have "sorted_wrt (\<lambda>a b. order_key a \<le> order_key b) (sort_events es)"
    using sorted_sort_key [of order_key es] by (simp add: sort_events_key sorted_map)
  then show ?thesis
    unfolding sorted_map by (rule sorted_wrt_mono_rel [rotated]) (simp add: order_key_canonical(1))
qed

lemma sort_events_id:
  assumes "sorted (map canonical_key es)" and "distinct (map canonical_key es)"
  shows "sort_events es = es"
proof -
  have "sorted_wrt (<) (map canonical_key es)" using assms by (simp only: strict_sorted_iff simp_thms)
  then have "sorted_wrt (\<lambda>a b. canonical_key a < canonical_key b) es" by (simp only: sorted_wrt_map)
  then have "sorted_wrt (\<lambda>a b. order_key a \<le> order_key b) es"
    by (rule sorted_wrt_mono_rel [rotated]) (simp add: order_key_canonical(2) less_imp_le)
  then show ?thesis unfolding sort_events_key by (intro sort_key_id_if_sorted) (simp add: sorted_map)
qed

lemma sort_events_permuted:
  assumes "distinct (map canonical_key es)" and "mset es = mset fs"
  shows "sort_events es = sort_events fs"
proof -
  have "inj_on canonical_key (set es)" using assms(1) by (simp add: distinct_map)
  then have "inj_on order_key (set es)"
    by (auto simp: inj_on_def order_key_def canonical_key_def)
  moreover have "map order_key (sort_events xs) = sort (map order_key xs)" for xs
    by (rule properties_for_sort [symmetric]) (simp_all add: sort_events_key)
  moreover have "sort (map order_key es) = sort (map order_key fs)"
    by (rule properties_for_sort) (simp_all add: assms(2))
  ultimately show ?thesis
    using mset_eq_setD [OF assms(2)] by (intro inj_on_map_eq_map [THEN iffD1, of order_key]) (simp_all add: sort_events_key)
qed

text \<open>C40.
  The order of a commit is canonical: a list of events passes the validation exactly when no event
  id and no pair of resource and version occurs twice and sorting would leave it as it is, and the
  sorted list does not depend on the order in which events with distinct pairs came.
\<close>
theorem order_is_canonical:
  "(validate_order es = Ok () \<longleftrightarrow>
      distinct (map ev_event_id es) \<and> distinct (map canonical_key es) \<and> sort_events es = es) \<and>
   (distinct (map canonical_key es) \<and> mset es = mset fs \<longrightarrow> order_events es = order_events fs) \<and>
   mset (sort_events es) = mset es"
proof (intro conjI impI)
  show "validate_order es = Ok () \<longleftrightarrow>
      distinct (map ev_event_id es) \<and> distinct (map canonical_key es) \<and> sort_events es = es"
    using sort_events_id sort_events_sorted [of es] by (auto simp: validate_order_Ok)
  show "order_events es = order_events fs" if "distinct (map canonical_key es) \<and> mset es = mset fs"
    using that sort_events_permuted by (simp add: order_events_def)
qed (simp add: sort_events_key)

theorem order_is_canonical_witness:
  "order_events (take 2 ex_settle_events) = order_events (rev (take 2 ex_settle_events)) \<and>
   validate_order (sort_events (take 2 ex_settle_events)) = Ok ()"
proof -
  let ?es = "take 2 ex_settle_events"
  have "distinct (map canonical_key ?es)" "validate_order (sort_events ?es) = Ok ()" by code_simp+
  then show ?thesis using order_is_canonical [of ?es "rev ?es"] by simp
qed

text \<open>
  The canonical key leaves out the holder, so the two events of one transfer can share it: a
  settlement in which payer and payee are at the same version has no valid order.
\<close>

lemma order_rejects_transfer_pair:
  "validate_order (sort_events ex_settle_events) = Err (CommitDuplicateCanonicalKey ''purse'' 2)"
  by code_simp

section \<open>The state root replays\<close>

lemma infer_state_key_by_type:
  "infer_state_key sha e = event_state_key sha e (rs_state_type (sc_state (ev_after e)))"
  by (cases "sc_state (ev_after e)") (simp_all add: infer_state_key_def event_state_key_def event_subject_def)

lemma infer_state_key_by_profile:
  "infer_state_key sha e = Ok k \<longleftrightarrow>
    state_key_for sha (rs_state_type (sc_state (ev_after e))) (ev_tenant_id e) (rs_subject (sc_state (ev_after e)))
      (ev_resource_id e) = Ok k"
  by (cases "sc_state (ev_after e)") (auto simp: infer_state_key_def state_key_for_def event_subject_def)

lemma find_filter: "find P xs = (case filter P xs of [] \<Rightarrow> None | x # _ \<Rightarrow> Some x)"
  by (induction xs) auto

text \<open>Sorting by key is stable, so the last update to a key stays the last.\<close>

lemma find_last_sorted:
  "find (\<lambda>u. f u = k) (rev (sort_key f us)) = find (\<lambda>u. f u = k) (rev us)"
proof -
  have "filter (\<lambda>u. f u = k) (sort_key f us) = filter (\<lambda>u. f u = k) us" by (rule sort_key_stable)
  then show ?thesis by (simp add: find_filter rev_filter [symmetric])
qed

definition update_of :: "sha256 \<Rightarrow> event \<Rightarrow> (state_update, commit_error) result" where
  "update_of sha e =
    map_ok (\<lambda>key. \<lparr>su_key = key, su_state_digest = sc_state_hash (ev_after e)\<rparr>) (infer_state_key sha e)"

lemma find_updates:
  "try_map (update_of sha) es = Ok us \<Longrightarrow>
    map_option su_state_digest (find (\<lambda>u. su_key u = k) (rev us)) =
    map_option (\<lambda>e. sc_state_hash (ev_after e)) (find (\<lambda>e. infer_state_key sha e = Ok k) (rev es))"
proof (induction es arbitrary: us)
  case (Cons e es)
  then obtain u vs where us: "us = u # vs" "update_of sha e = Ok u" "try_map (update_of sha) es = Ok vs" by auto
  have u: "infer_state_key sha e = Ok (su_key u)" "su_state_digest u = sc_state_hash (ev_after e)"
    using us(2) by (auto simp: update_of_def)
  have snoc: "find P (xs @ [x]) = (case find P xs of None \<Rightarrow> if P x then Some x else None | Some y \<Rightarrow> Some y)"
    for P and xs :: "'x list" and x by (induction xs) auto
  show ?case
    using Cons.IH [OF us(3)] u by (auto simp: us(1) snoc split: option.splits)
qed simp

definition replayed :: "sha256 \<Rightarrow> state_update list \<Rightarrow> event list \<Rightarrow> state_key \<Rightarrow> hash option" where
  "replayed sha prior es k =
    (case find (\<lambda>e. infer_state_key sha e = Ok k) (rev es) of
       Some e \<Rightarrow> Some (sc_state_hash (ev_after e))
     | None \<Rightarrow> map_option su_state_digest (find (\<lambda>u. su_key u = k) (rev prior)))"

lemma replay_lookup:
  assumes "state_root_updates sha es = Ok current"
  shows "btree_get (ac_leaves (snd (insert_batch sha (sort_key su_key (prior @ current)) accumulator_empty))) k =
    replayed sha prior es k"
proof -
  obtain us where us: "try_map (update_of sha) es = Ok us" "current = sort_key su_key us"
    using assms by (auto simp: state_root_updates_def update_of_def [abs_def] split: if_splits)
  have "find (\<lambda>u. su_key u = k) (rev (sort_key su_key (prior @ current))) =
      (case find (\<lambda>u. su_key u = k) (rev us) of None \<Rightarrow> find (\<lambda>u. su_key u = k) (rev prior) | Some u \<Rightarrow> Some u)"
    by (simp add: find_last_sorted find_append us(2))
  then show ?thesis
    using find_updates [OF us(1), of k]
    by (auto simp: insert_batch_def Let_def get_updates accumulator_empty_def replayed_def split: option.splits)
qed

definition ex_bcs :: event_codec where
  "ex_bcs e = Ok (map of_char (ev_event_id e))"

definition ex_builder :: commit_builder where
  "ex_builder = \<lparr>bu_scope = Some (scope_tenant ''t''), bu_sequence = 3, bu_executor = Some ''svc'',
    bu_profile = Some ''statechronicle.profile.resource.v0'', bu_created_at = Some 0, bu_parent_commit_id = Some ''cmt_2''\<rparr>"

text \<open>C13.
  The commit a builder returns declares the root of the replayed state: the tree in which every key
  holds the state hash of the last event of the batch at that key, or what the prior updates left
  there. The replay check accepts its declared roots when the previous root is that of the prior
  updates, and its event count and event root are those of the batch.
\<close>
theorem commit_root_replays:
  assumes "build_commit sha bcs b batch previous prior next_id = Ok c"
  shows "(\<exists>tree current. state_root_updates sha (cb_events batch) = Ok current \<and>
      co_next_state_root c = compute_root sha tree \<and> btree_ok (ac_leaves tree) \<and>
      (\<forall>k. btree_get (ac_leaves tree) k = replayed sha prior (cb_events batch) k) \<and>
      (previous = compute_state_root sha prior \<longrightarrow>
        verify_state_root_continuity sha (co_previous_state_root c) prior current (co_next_state_root c) = Ok ())) \<and>
    unat (co_event_count c) = length (cb_events batch) \<and>
    event_root sha bcs (cb_events batch) = Ok (co_event_merkle_root c)"
proof -
  obtain current where current: "state_root_updates sha (cb_events batch) = Ok current"
    and c: "co_next_state_root c = compute_state_root sha (sort_key su_key (prior @ current))"
      "co_previous_state_root c = previous" "co_event_count c = of_nat (length (cb_events batch))"
      "event_root sha bcs (cb_events batch) = Ok (co_event_merkle_root c)" "length (cb_events batch) < 2 ^ 64"
    using assms by (auto simp: build_commit_def Let_def split: if_splits)
  let ?tree = "snd (insert_batch sha (sort_key su_key (prior @ current)) accumulator_empty)"
  have "btree_ok (ac_leaves ?tree)"
    by (simp add: insert_batch_def Let_def btree_ok_updates accumulator_empty_def)
  moreover have "co_next_state_root c = compute_root sha ?tree" using c(1) by (simp add: compute_state_root_def)
  moreover have "verify_state_root_continuity sha (co_previous_state_root c) prior current (co_next_state_root c) = Ok ()"
    if "previous = compute_state_root sha prior"
    using c(1,2) that by (simp add: verify_state_root_continuity_def Let_def)
  moreover have "unat (co_event_count c) = length (cb_events batch)"
    using c(3,5) by (simp add: unat_of_nat_less)
  ultimately show ?thesis using current c(4) replay_lookup [OF current] by blast
qed

theorem commit_root_replays_witness:
  "\<exists>c. build_commit pad_hash ex_bcs ex_builder \<lparr>cb_scope = scope_tenant ''t'', cb_events = ex_settle_events\<rparr>
      (compute_state_root pad_hash []) [] (Ok ''cmt_3'') = Ok c \<and>
    unat (co_event_count c) = 3 \<and>
    (\<exists>tree. co_next_state_root c = compute_root pad_hash tree \<and>
      (\<forall>k. btree_get (ac_leaves tree) k = replayed pad_hash [] ex_settle_events k))"
proof -
  let ?batch = "\<lparr>cb_scope = scope_tenant ''t'', cb_events = ex_settle_events\<rparr>"
  let ?built = "build_commit pad_hash ex_bcs ex_builder ?batch (compute_state_root pad_hash []) [] (Ok ''cmt_3'')"
  have "is_ok (batch_validate ex_bcs ?batch)" "is_ok (event_root pad_hash ex_bcs ex_settle_events)"
    "is_ok (state_root_updates pad_hash ex_settle_events)" "length ex_settle_events = 3" by code_simp+
  then obtain c where built: "?built = Ok c"
    by (auto simp: build_commit_def ex_builder_def is_ok_iff Let_def)
  then show ?thesis
    using commit_root_replays [OF built] \<open>length ex_settle_events = 3\<close> by auto
qed

section \<open>The event root binds\<close>

interpretation event_nodes: tagged_node internal_hash INTERNAL_NODE_TAG
  by unfold_locales (simp add: internal_hash_def)

definition event_bytes :: "event_codec \<Rightarrow> event \<Rightarrow> byte list" where
  "event_bytes bcs e = (case bcs e of Ok bytes \<Rightarrow> bytes | Err _ \<Rightarrow> [])"

definition event_leaves :: "sha256 \<Rightarrow> event_codec \<Rightarrow> event list \<Rightarrow> byte list list" where
  "event_leaves sha bcs es = map (\<lambda>e. LEAF_NODE_TAG # sha (event_bytes bcs e)) es"

text \<open>The strings hashed for an event root: the events, the leaves and the nodes above them.\<close>

definition event_strings :: "sha256 \<Rightarrow> event_codec \<Rightarrow> event list \<Rightarrow> byte list list" where
  "event_strings sha bcs es =
    map (event_bytes bcs) es @ event_leaves sha bcs es @
    tree_inputs INTERNAL_NODE_TAG (internal_hash sha) (map sha (event_leaves sha bcs es))"

lemma event_root_Ok:
  assumes "event_root sha bcs es = Ok r"
  shows "list_all (\<lambda>e. is_ok (bcs e)) es"
    and "reduce_level (internal_hash sha) (map sha (event_leaves sha bcs es)) = [r]"
proof -
  let ?leaf = "\<lambda>e. map_ok (event_leaf_hash sha) (event_digest sha bcs e)"
  have digest: "event_digest sha bcs e = Ok x \<longleftrightarrow> is_ok (bcs e) \<and> x = sha (event_bytes bcs e)" for e x
    by (cases "bcs e") (auto simp: event_digest_def canonicalize_and_digest_def canonicalize_def event_bytes_def)
  have leaves_of: "try_map ?leaf fs = Ok level \<Longrightarrow>
      list_all (\<lambda>e. is_ok (bcs e)) fs \<and> level = map sha (event_leaves sha bcs fs)" for fs level
    by (induction fs arbitrary: level) (auto simp: digest event_leaves_def event_leaf_hash_def)
  obtain level where level: "es \<noteq> []" "try_map ?leaf es = Ok level"
    "(case reduce_level (internal_hash sha) level of [] \<Rightarrow> Err CommitEmptyBatch | t # _ \<Rightarrow> Ok t) = Ok r"
    using assms by (auto simp: event_root_def split: if_splits)
  show "list_all (\<lambda>e. is_ok (bcs e)) es" using leaves_of [OF level(2)] by simp
  have "length (reduce_level (internal_hash sha) level) = 1"
    using length_reduce_level [of level] leaves_of [OF level(2)] level(1) by (simp add: event_leaves_def)
  then show "reduce_level (internal_hash sha) (map sha (event_leaves sha bcs es)) = [r]"
    using level(3) leaves_of [OF level(2)] by (cases "reduce_level (internal_hash sha) level") auto
qed

text \<open>C14.
  The event root with the event count determines the events: two batches of the same size with the
  same event root have the same canonical bytes event by event, unless two of the strings
  hashed for the roots collide.
\<close>
theorem event_root_binds:
  assumes "fixed_width sha" and "length es = length fs"
    and "event_root sha bcs es = Ok r" and "event_root sha bcs fs = Ok r"
  shows "map bcs es = map bcs fs \<or> collision sha (event_strings sha bcs es @ event_strings sha bcs fs)"
proof (rule disjCI)
  let ?S = "event_strings sha bcs es @ event_strings sha bcs fs"
  assume free: "\<not> collision sha ?S"
  then have inj: "inj_on sha (set ?S)" unfolding collision_def inj_on_def by blast
  have "map sha (event_leaves sha bcs es) = map sha (event_leaves sha bcs fs)"
  proof (rule event_nodes.root_inj [OF assms(1) free])
    show "reduce_level (internal_hash sha) (map sha (event_leaves sha bcs es)) =
        reduce_level (internal_hash sha) (map sha (event_leaves sha bcs fs))"
      by (simp add: event_root_Ok(2) [OF assms(3)] event_root_Ok(2) [OF assms(4)])
  qed (auto simp: event_strings_def event_leaves_def assms(2) fixed_widthD [OF assms(1)])
  moreover have "inj_on sha (set (event_leaves sha bcs es) \<union> set (event_leaves sha bcs fs))"
    by (rule inj_on_subset [OF inj]) (auto simp: event_strings_def)
  ultimately have "event_leaves sha bcs es = event_leaves sha bcs fs" by (simp add: inj_on_map_eq_map)
  then have "map tl (event_leaves sha bcs es) = map tl (event_leaves sha bcs fs)" by simp
  then have "map sha (map (event_bytes bcs) es) = map sha (map (event_bytes bcs) fs)"
    by (simp add: event_leaves_def comp_def)
  moreover have "inj_on sha (set (map (event_bytes bcs) es) \<union> set (map (event_bytes bcs) fs))"
    by (rule inj_on_subset [OF inj]) (auto simp: event_strings_def)
  ultimately have bytes: "map (event_bytes bcs) es = map (event_bytes bcs) fs"
    using inj_on_map_eq_map [of sha "map (event_bytes bcs) es" "map (event_bytes bcs) fs"] by blast
  have "map bcs xs = map Ok (map (event_bytes bcs) xs)" if "list_all (\<lambda>e. is_ok (bcs e)) xs" for xs
    using that by (auto simp: list_all_iff event_bytes_def is_ok_iff)
  note bytes_of = this [OF event_root_Ok(1) [OF assms(3)]] this [OF event_root_Ok(1) [OF assms(4)]]
  show "map bcs es = map bcs fs" by (simp only: bytes_of bytes)
qed

theorem event_root_binds_witness:
  "map ex_bcs ex_settle_events = map ex_bcs ex_settle_events \<or>
    collision pad_hash (event_strings pad_hash ex_bcs ex_settle_events @ event_strings pad_hash ex_bcs ex_settle_events)"
proof -
  have "is_ok (event_root pad_hash ex_bcs ex_settle_events)" by code_simp
  then show ?thesis using event_root_binds [OF pad_hash_width refl] by (auto simp: is_ok_iff)
qed

section \<open>One history\<close>

fun chain_ok :: "commit \<Rightarrow> commit list \<Rightarrow> bool" where
  "chain_ok c [] \<longleftrightarrow> True"
| "chain_ok c (d # rest) \<longleftrightarrow> check_chain_continuity c d = Ok () \<and> chain_ok d rest"

fun no_forks :: "commit \<Rightarrow> commit list \<Rightarrow> commit list \<Rightarrow> bool" where
  "no_forks c (d # ds) (e # es) \<longleftrightarrow> detect_fork c d e = Ok () \<and> no_forks d ds es"
| "no_forks c _ _ \<longleftrightarrow> True"

lemma check_chain_continuity_Ok:
  "check_chain_continuity c d = Ok () \<longleftrightarrow>
    co_parent_commit_id d = Some (co_commit_id c) \<and> unat (co_sequence d) = unat (co_sequence c) + 1"
  by (auto simp: check_chain_continuity_def checked_simps split: if_splits)

lemma detect_fork_Ok:
  "detect_fork c d e = Ok () \<longleftrightarrow>
    \<not> (co_parent_commit_id d = Some (co_commit_id c) \<and> co_parent_commit_id e = Some (co_commit_id c) \<and>
      co_sequence d = co_sequence e \<and> co_commit_id d \<noteq> co_commit_id e)"
  by (simp add: detect_fork_def)

lemma same_history:
  assumes "chain_ok c ds" and "chain_ok c' es" and "no_forks c ds es"
    and "co_commit_id c' = co_commit_id c" and "co_sequence c' = co_sequence c"
    and "i < length ds" and "i < length es"
  shows "co_commit_id (ds ! i) = co_commit_id (es ! i) \<and> unat (co_sequence (ds ! i)) = unat (co_sequence c) + i + 1"
  using assms
proof (induction c ds es arbitrary: c' i rule: no_forks.induct)
  case (1 c d ds e es)
  have d: "co_parent_commit_id d = Some (co_commit_id c)" "unat (co_sequence d) = unat (co_sequence c) + 1"
    and e: "co_parent_commit_id e = Some (co_commit_id c)" "unat (co_sequence e) = unat (co_sequence c) + 1"
    using 1 by (simp_all add: check_chain_continuity_Ok)
  then have seq: "co_sequence e = co_sequence d" by (simp add: word_unat_eq_iff)
  then have head: "co_commit_id e = co_commit_id d" using 1 d e by (auto simp: detect_fork_Ok)
  show ?case
  proof (cases i)
    case 0
    then show ?thesis using head d(2) by simp
  next
    case (Suc j)
    have "co_commit_id (ds ! j) = co_commit_id (es ! j) \<and> unat (co_sequence (ds ! j)) = unat (co_sequence d) + j + 1"
      using 1 Suc head seq by (intro "1.IH" [of e]) simp_all
    then show ?thesis using Suc d(2) by simp
  qed
qed simp_all

text \<open>C15.
  Two chains that each continue link by link from the same commit, and between which the fork check
  finds nothing, are one history: at every common height the commits have the same id, and the
  sequence numbers count up from the common commit without wrapping around.
\<close>
theorem chains_without_forks_agree:
  assumes "chain_ok c ds" and "chain_ok c es" and "no_forks c ds es" and "i < length ds" and "i < length es"
  shows "co_commit_id (ds ! i) = co_commit_id (es ! i) \<and> unat (co_sequence (ds ! i)) = unat (co_sequence c) + i + 1"
  by (rule same_history [OF assms(1-3) refl refl assms(4,5)])

definition ex_commit :: "string \<Rightarrow> string option \<Rightarrow> 64 word \<Rightarrow> commit" where
  "ex_commit name parent n = \<lparr>co_schema = COMMIT_SCHEMA, co_scope = scope_tenant ''t'', co_commit_id = name,
    co_parent_commit_id = parent, co_sequence = n, co_event_count = 1, co_event_merkle_root = [],
    co_previous_state_root = [], co_next_state_root = [], co_created_at = 0, co_executor = ''svc'',
    co_profile = ''p''\<rparr>"

theorem chains_without_forks_agree_witness:
  "let c = ex_commit ''cmt_1'' None 7; d = ex_commit ''cmt_2'' (Some ''cmt_1'') 8 in
   co_commit_id ([d] ! 0) = co_commit_id ([d] ! 0) \<and> unat (co_sequence ([d] ! 0)) = unat (co_sequence c) + 0 + 1"
proof -
  let ?c = "ex_commit ''cmt_1'' None 7" and ?d = "ex_commit ''cmt_2'' (Some ''cmt_1'') 8"
  have "chain_ok ?c [?d]" "no_forks ?c [?d] [?d]" by code_simp+
  then show ?thesis using chains_without_forks_agree [of ?c "[?d]" "[?d]" 0] by (simp add: Let_def)
qed

end
