(* ===== verification/Proof_Verify.thy ===== *)
theory Proof_Verify
  imports Commit_Forming
begin

text \<open>
  The portable proofs (\<^verbatim>\<open>statechronicle-proof\<close> and \<^verbatim>\<open>proof.rs\<close> of \<^verbatim>\<open>statechronicle-domain\<close>): the dense wire form
  of a Merkle path, the bundles, how they are assembled and how they are verified against the
  signed commit that encloses them. BCS, SHA-256 and the strict Ed25519 check are the fields of
  \<open>proof_env\<close>. An error that renders two values as text carries the values.
\<close>

section \<open>Bundles and errors\<close>

definition RESOURCE_STATE_PROOF_SCHEMA :: string where
  "RESOURCE_STATE_PROOF_SCHEMA = ''statechronicle.proof.resource_state.v0''"

definition NON_MEMBERSHIP_PROOF_SCHEMA :: string where
  "NON_MEMBERSHIP_PROOF_SCHEMA = ''statechronicle.proof.non_membership.v0''"

definition SPARSE_MERKLE_V0 :: string where
  "SPARSE_MERKLE_V0 = ''sparse_merkle_v0''"

definition MAX_PROOF_BYTES :: nat where
  "MAX_PROOF_BYTES = 2 * 1024 * 1024"

record sparse_merkle_proof =
  sm_kind :: string
  sm_path :: "content_digest list"
  sm_leaf_hash :: content_digest

definition sparse_merkle_proof_new :: "content_digest list \<Rightarrow> content_digest \<Rightarrow> sparse_merkle_proof" where
  "sparse_merkle_proof_new path leaf = \<lparr>sm_kind = SPARSE_MERKLE_V0, sm_path = path, sm_leaf_hash = leaf\<rparr>"

record commit_ref =
  cr_commit_id :: string
  cr_sequence :: "64 word"
  cr_state_root :: content_digest
  cr_signature :: signature_block

record event_ref =
  er_event_id :: string
  er_operation :: operation

record resource_state_proof =
  rp_schema :: string
  rp_tenant_id :: tenant_id
  rp_resource_id :: resource_id
  rp_claimed_state :: resource_state
  rp_commit :: commit_ref
  rp_state_inclusion_proof :: sparse_merkle_proof
  rp_latest_event :: event_ref
  rp_authority :: "authority_proof option"

record non_membership_bundle =
  nb_schema :: string
  nb_tenant_id :: tenant_id
  nb_resource_id :: resource_id
  nb_claimed_key :: content_digest
  nb_commit :: commit_ref
  nb_state_non_membership_proof :: sparse_merkle_proof

record 't signed =
  sg_body :: 't
  sg_signature :: signature_block

datatype shown = ShownText string | ShownNumber "64 word" | ShownDigest content_digest

datatype proof_error =
    ProofDomain domain_error
  | ProofCore core_error
  | ProofSizeLimitExceeded nat nat
  | ProofNotFound
  | ProofUnsupportedSchema string
  | ProofUnsupportedKind string
  | ProofInvalidState string
  | ProofCommitSignature core_error
  | ProofCommitRefMismatch shown shown
  | ProofCommitScope string
  | ProofNonCanonicalCommit string string
  | ProofCanonicalHeadUnavailable
  | ProofKeyNotFound string
  | ProofTenantMismatch string string
  | ProofResourceMismatch string string
  | ProofSubjectMismatch string string
  | ProofMissingOwner
  | ProofInclusionMismatch
  | ProofClaimedStateMismatch
  | ProofLeafMismatch
  | ProofInvalidPathLength nat nat
  | ProofKeyMismatch state_key state_key
  | ProofNonMembershipLeafMismatch
  | ProofStore string
  | ProofIndexError string
  | ProofTradeIdMismatch string string
  | ProofTradeMissingSide string
  | ProofTradeOperation string
  | ProofTradeTruncated nat nat

text \<open>What the crate calls: BCS of the bodies and bundles, SHA-256 and \<^verbatim>\<open>verify_strict\<close> of \<^verbatim>\<open>ed25519_dalek\<close>.\<close>

record 'k proof_env =
  pe_sha :: sha256
  pe_commit_bytes :: "commit \<Rightarrow> (byte list, string) result"
  pe_state_bytes :: "resource_state \<Rightarrow> (byte list, string) result"
  pe_proof_bytes :: "resource_state_proof \<Rightarrow> (byte list, string) result"
  pe_absence_bytes :: "non_membership_bundle \<Rightarrow> (byte list, string) result"
  pe_verify_strict :: "byte list \<Rightarrow> 'k \<Rightarrow> byte list \<Rightarrow> (unit, string) result"

section \<open>The dense path\<close>

definition dense_path :: "path_step list \<Rightarrow> content_digest list" where
  "dense_path steps =
    fold (\<lambda>s path. if ps_level s < length path then path[ps_level s := ps_sibling s] else path) steps
      (map default_hash [0..<TREE_DEPTH])"

definition sparse_proof_from_inclusion :: "inclusion_proof \<Rightarrow> sparse_merkle_proof" where
  "sparse_proof_from_inclusion p = sparse_merkle_proof_new (dense_path (ip_steps p)) (ip_leaf_hash p)"

definition sparse_proof_from_non_membership :: "non_membership_proof \<Rightarrow> sparse_merkle_proof" where
  "sparse_proof_from_non_membership p = sparse_merkle_proof_new (dense_path (np_steps p)) (np_leaf_hash p)"

definition steps_from_sparse_proof :: "sparse_merkle_proof \<Rightarrow> (path_step list, proof_error) result" where
  "steps_from_sparse_proof sparse =
    (if sm_kind sparse \<noteq> SPARSE_MERKLE_V0 then Err (ProofUnsupportedKind (sm_kind sparse))
     else if length (sm_path sparse) \<noteq> TREE_DEPTH
     then Err (ProofInvalidPathLength TREE_DEPTH (length (sm_path sparse)))
     else Ok (concat (map (\<lambda>(level, digest).
       if digest \<noteq> default_hash level then [\<lparr>ps_level = level, ps_sibling = digest\<rparr>] else [])
       (enumerate 0 (sm_path sparse)))))"

section \<open>Verification\<close>

text \<open>\<^verbatim>\<open>signature::verify\<close> of \<^verbatim>\<open>statechronicle-core\<close>.\<close>

definition verify_signature :: "'k proof_env \<Rightarrow> byte list \<Rightarrow> 'k \<Rightarrow> byte list \<Rightarrow> (unit, core_error) result" where
  "verify_signature env canonical key sig =
    map_err (\<lambda>source. SignatureVerification (''Ed25519 strict verification failed: '' @ source))
      (pe_verify_strict env canonical key sig)"

definition verify_commit_signature_with_key ::
  "'k proof_env \<Rightarrow> commit signed \<Rightarrow> 'k \<Rightarrow> (unit, proof_error) result" where
  "verify_commit_signature_with_key env sg key =
    and_then (map_err ProofCore (canonicalize (pe_commit_bytes env) (sg_body sg))) (\<lambda>canonical.
    map_err ProofCommitSignature (verify_signature env canonical key (sb_sig (sg_signature sg))))"

definition verify_sparse_merkle_v0 ::
  "sha256 \<Rightarrow> hash \<Rightarrow> state_key \<Rightarrow> sparse_merkle_proof \<Rightarrow> (unit, proof_error) result" where
  "verify_sparse_merkle_v0 sha rt key sparse =
    (if sm_kind sparse \<noteq> SPARSE_MERKLE_V0 then Err (ProofUnsupportedKind (sm_kind sparse))
     else
       and_then (steps_from_sparse_proof sparse) (\<lambda>steps.
       if verify_inclusion sha rt \<lparr>ip_key = key, ip_leaf_hash = sm_leaf_hash sparse, ip_steps = steps\<rparr>
       then Ok () else Err ProofInclusionMismatch))"

definition verify_claimed_state :: "'k proof_env \<Rightarrow> resource_state_proof \<Rightarrow> state_key \<Rightarrow> (unit, proof_error) result" where
  "verify_claimed_state env p key =
    and_then (map_err ProofCore
      (canonicalize_and_digest (pe_sha env) (pe_state_bytes env) (rp_claimed_state p))) (\<lambda>state_digest.
    if leaf_hash (pe_sha env) key state_digest = sm_leaf_hash (rp_state_inclusion_proof p)
    then Ok () else Err ProofClaimedStateMismatch)"

definition verify_proof ::
  "'k proof_env \<Rightarrow> resource_state_proof \<Rightarrow> hash \<Rightarrow> state_key \<Rightarrow> (unit, proof_error) result" where
  "verify_proof env p rt key =
    (if rp_schema p \<noteq> RESOURCE_STATE_PROOF_SCHEMA then Err (ProofUnsupportedSchema (rp_schema p))
     else
       and_then (verify_sparse_merkle_v0 (pe_sha env) rt key (rp_state_inclusion_proof p)) (\<lambda>_.
       verify_claimed_state env p key))"

definition check_proof_size :: "('p \<Rightarrow> (byte list, string) result) \<Rightarrow> 'p \<Rightarrow> (unit, proof_error) result" where
  "check_proof_size to_bytes p =
    and_then (map_err (\<lambda>error. ProofInvalidState (''proof serialization failed: '' @ error)) (to_bytes p)) (\<lambda>bytes.
    if length bytes > MAX_PROOF_BYTES then Err (ProofSizeLimitExceeded MAX_PROOF_BYTES (length bytes)) else Ok ())"

definition owner_of :: "resource_state \<Rightarrow> (string, proof_error) result" where
  "owner_of state =
    and_then (ok_or (rs_owner state) (ProofInvalidState (''state is missing a string '' @ quoted ''owner''))) (\<lambda>owner.
    if owner = [] then Err (ProofInvalidState (''state '' @ quoted ''owner'' @ '' is empty'')) else Ok owner)"

definition verify_ownership :: "resource_state_proof \<Rightarrow> string \<Rightarrow> (unit, proof_error) result" where
  "verify_ownership p expected_subject =
    and_then (owner_of (rp_claimed_state p)) (\<lambda>owner.
    if owner = expected_subject then Ok () else Err (ProofSubjectMismatch expected_subject owner))"

definition not_tenant_scoped :: proof_error where
  "not_tenant_scoped = ProofCommitScope
    (''proof bundles pin tenant-scoped commits; '' @
     ''global checkpoint commits carry tenant roots, not resource state'')"

definition verify_commit_envelope ::
  "'k proof_env \<Rightarrow> tenant_id \<Rightarrow> commit_ref \<Rightarrow> commit signed \<Rightarrow> 'k \<Rightarrow> (unit, proof_error) result" where
  "verify_commit_envelope env tenant cr sg key =
    and_then (ok_or (sc_tenant_id (co_scope (sg_body sg))) not_tenant_scoped) (\<lambda>commit_tenant.
    if commit_tenant \<noteq> tenant then Err (ProofTenantMismatch commit_tenant tenant)
    else if cr_commit_id cr \<noteq> co_commit_id (sg_body sg)
    then Err (ProofCommitRefMismatch (ShownText (co_commit_id (sg_body sg))) (ShownText (cr_commit_id cr)))
    else if cr_sequence cr \<noteq> co_sequence (sg_body sg)
    then Err (ProofCommitRefMismatch (ShownNumber (co_sequence (sg_body sg))) (ShownNumber (cr_sequence cr)))
    else if cr_state_root cr \<noteq> co_next_state_root (sg_body sg)
    then Err (ProofCommitRefMismatch (ShownDigest (co_next_state_root (sg_body sg))) (ShownDigest (cr_state_root cr)))
    else verify_commit_signature_with_key env sg key)"

definition verify_bundle ::
  "'k proof_env \<Rightarrow> resource_state_proof \<Rightarrow> commit signed \<Rightarrow> 'k \<Rightarrow> state_key \<Rightarrow> (unit, proof_error) result" where
  "verify_bundle env p sg vk key =
    and_then (check_proof_size (pe_proof_bytes env) p) (\<lambda>_.
    if rp_schema p \<noteq> RESOURCE_STATE_PROOF_SCHEMA then Err (ProofUnsupportedSchema (rp_schema p))
    else
      and_then (verify_commit_envelope env (rp_tenant_id p) (rp_commit p) sg vk) (\<lambda>_.
      and_then (verify_sparse_merkle_v0 (pe_sha env) (co_next_state_root (sg_body sg)) key
        (rp_state_inclusion_proof p)) (\<lambda>_.
      verify_claimed_state env p key)))"

definition verify_absence ::
  "'k proof_env \<Rightarrow> non_membership_bundle \<Rightarrow> hash \<Rightarrow> state_key \<Rightarrow> (unit, proof_error) result" where
  "verify_absence env b rt key =
    and_then (check_proof_size (pe_absence_bytes env) b) (\<lambda>_.
    if nb_schema b \<noteq> NON_MEMBERSHIP_PROOF_SCHEMA then Err (ProofUnsupportedSchema (nb_schema b))
    else if nb_claimed_key b \<noteq> key then Err (ProofKeyMismatch key (nb_claimed_key b))
    else
      let sparse = nb_state_non_membership_proof b in
      if sm_kind sparse \<noteq> SPARSE_MERKLE_V0 then Err (ProofUnsupportedKind (sm_kind sparse))
      else if length (sm_path sparse) \<noteq> TREE_DEPTH
      then Err (ProofInvalidPathLength TREE_DEPTH (length (sm_path sparse)))
      else if sm_leaf_hash sparse \<noteq> EMPTY_LEAF_HASH then Err ProofNonMembershipLeafMismatch
      else
        and_then (steps_from_sparse_proof sparse) (\<lambda>steps.
        if verify_non_membership (pe_sha env) rt \<lparr>np_key = key, np_leaf_hash = sm_leaf_hash sparse, np_steps = steps\<rparr>
        then Ok () else Err ProofInclusionMismatch))"

definition verify_non_membership_bundle ::
  "'k proof_env \<Rightarrow> non_membership_bundle \<Rightarrow> commit signed \<Rightarrow> 'k \<Rightarrow> state_key \<Rightarrow> (unit, proof_error) result" where
  "verify_non_membership_bundle env b sg vk key =
    (if nb_schema b \<noteq> NON_MEMBERSHIP_PROOF_SCHEMA then Err (ProofUnsupportedSchema (nb_schema b))
     else
       and_then (verify_commit_envelope env (nb_tenant_id b) (nb_commit b) sg vk) (\<lambda>_.
       verify_absence env b (co_next_state_root (sg_body sg)) key))"

section \<open>Assembly\<close>

definition commit_ref_of :: "commit signed \<Rightarrow> (commit_ref, proof_error) result" where
  "commit_ref_of sg =
    (let body = sg_body sg in
     if sc_kind (co_scope body) \<noteq> TenantScope then Err not_tenant_scoped
     else
       and_then (ok_or (sc_tenant_id (co_scope body))
         (ProofCommitScope ''tenant-scoped commit is missing its tenant id'')) (\<lambda>_.
       Ok \<lparr>cr_commit_id = co_commit_id body, cr_sequence = co_sequence body,
         cr_state_root = co_next_state_root body, cr_signature = sg_signature sg\<rparr>))"

definition build_state_proof ::
  "sha256 \<Rightarrow> state_projection \<Rightarrow> commit signed \<Rightarrow> inclusion_proof \<Rightarrow> operation \<Rightarrow> authority_proof option \<Rightarrow>
    state_key \<Rightarrow> (resource_state_proof, proof_error) result" where
  "build_state_proof sha projection sg inclusion latest_operation authority key =
    (if ip_leaf_hash inclusion \<noteq> leaf_hash sha key (sp_state_hash projection) then Err ProofLeafMismatch
     else
       and_then (commit_ref_of sg) (\<lambda>cr.
       Ok \<lparr>rp_schema = RESOURCE_STATE_PROOF_SCHEMA, rp_tenant_id = sp_tenant_id projection,
         rp_resource_id = sp_resource_id projection, rp_claimed_state = sp_state projection, rp_commit = cr,
         rp_state_inclusion_proof = sparse_proof_from_inclusion inclusion,
         rp_latest_event = \<lparr>er_event_id = sp_last_event_id projection, er_operation = latest_operation\<rparr>,
         rp_authority = authority\<rparr>))"

definition build_ownership_proof ::
  "sha256 \<Rightarrow> state_projection \<Rightarrow> commit signed \<Rightarrow> inclusion_proof \<Rightarrow> operation \<Rightarrow> subject_id \<Rightarrow>
    authority_proof option \<Rightarrow> state_key \<Rightarrow> (resource_state_proof, proof_error) result" where
  "build_ownership_proof sha projection sg inclusion latest_operation subject authority key =
    and_then (owner_of (sp_state projection)) (\<lambda>owner.
    if owner \<noteq> subject then Err (ProofSubjectMismatch subject owner)
    else build_state_proof sha projection sg inclusion latest_operation authority key)"

definition build_non_membership_proof ::
  "tenant_id \<Rightarrow> resource_id \<Rightarrow> state_key \<Rightarrow> commit signed \<Rightarrow> non_membership_proof \<Rightarrow>
    (non_membership_bundle, proof_error) result" where
  "build_non_membership_proof tenant resource key sg p =
    (if np_key p \<noteq> key then Err (ProofKeyMismatch key (np_key p))
     else if np_leaf_hash p \<noteq> EMPTY_LEAF_HASH then Err ProofNonMembershipLeafMismatch
     else
       and_then (commit_ref_of sg) (\<lambda>cr.
       Ok \<lparr>nb_schema = NON_MEMBERSHIP_PROOF_SCHEMA, nb_tenant_id = tenant, nb_resource_id = resource,
         nb_claimed_key = key, nb_commit = cr,
         nb_state_non_membership_proof = sparse_proof_from_non_membership p\<rparr>))"

definition derive_state_key :: "sha256 \<Rightarrow> resource_state_proof \<Rightarrow> (state_key, proof_error) result" where
  "derive_state_key sha p =
    (case rs_subject (rp_claimed_state p) of
       Some subject \<Rightarrow>
         if subject = [] then Err (ProofInvalidState (''claimed state '' @ quoted ''subject'' @ '' is empty''))
         else Ok (for_subject_held sha (rp_tenant_id p) (rp_resource_id p) subject)
     | None \<Rightarrow> Ok (for_resource sha (rp_tenant_id p) (rp_resource_id p)))"

definition check_claim :: "resource_state_proof \<Rightarrow> tenant_id \<Rightarrow> resource_id \<Rightarrow> (unit, proof_error) result" where
  "check_claim p tenant resource =
    (if rp_tenant_id p \<noteq> tenant then Err (ProofTenantMismatch tenant (rp_tenant_id p))
     else if rp_resource_id p \<noteq> resource then Err (ProofResourceMismatch resource (rp_resource_id p))
     else Ok ())"

section \<open>The service\<close>

text \<open>
  The operations of \<^verbatim>\<open>ProofService\<close> that verify. A call on the commit store is an argument: its answer, or the
  text of its error.
\<close>

record canonical_head =
  ch_commit_id :: string
  ch_sequence :: "64 word"
  ch_state_root :: content_digest

record proof_ports =
  pp_commit_by_id :: "tenant_id \<Rightarrow> string \<Rightarrow> (commit signed option, string) result"
  pp_canonical_head :: "tenant_id \<Rightarrow> (canonical_head option, string) result"

definition stored_commit :: "proof_ports \<Rightarrow> tenant_id \<Rightarrow> string \<Rightarrow> (commit signed, proof_error) result" where
  "stored_commit ports tenant commit_id =
    and_then (map_err ProofStore (pp_commit_by_id ports tenant commit_id)) (\<lambda>found.
    ok_or found ProofNotFound)"

definition service_verify_with_key ::
  "'k proof_env \<Rightarrow> proof_ports \<Rightarrow> resource_state_proof \<Rightarrow> 'k \<Rightarrow> state_key \<Rightarrow> (unit, proof_error) result" where
  "service_verify_with_key env ports p vk key =
    and_then (stored_commit ports (rp_tenant_id p) (cr_commit_id (rp_commit p))) (\<lambda>sg.
    verify_bundle env p sg vk key)"

definition service_verify ::
  "'k proof_env \<Rightarrow> proof_ports \<Rightarrow> resource_state_proof \<Rightarrow> 'k \<Rightarrow> (unit, proof_error) result" where
  "service_verify env ports p vk =
    and_then (derive_state_key (pe_sha env) p) (\<lambda>key.
    and_then (stored_commit ports (rp_tenant_id p) (cr_commit_id (rp_commit p))) (\<lambda>sg.
    verify_bundle env p sg vk key))"

definition ensure_canonical :: "proof_ports \<Rightarrow> tenant_id \<Rightarrow> commit signed \<Rightarrow> (unit, proof_error) result" where
  "ensure_canonical ports tenant sg =
    and_then (map_err ProofStore (pp_canonical_head ports tenant)) (\<lambda>found.
    and_then (ok_or found ProofCanonicalHeadUnavailable) (\<lambda>head.
    if ch_commit_id head \<noteq> co_commit_id (sg_body sg) \<or> ch_sequence head \<noteq> co_sequence (sg_body sg) \<or>
       ch_state_root head \<noteq> co_next_state_root (sg_body sg)
    then Err (ProofNonCanonicalCommit tenant (co_commit_id (sg_body sg))) else Ok ()))"

definition service_verify_canonical ::
  "'k proof_env \<Rightarrow> proof_ports \<Rightarrow> resource_state_proof \<Rightarrow> 'k \<Rightarrow> (unit, proof_error) result" where
  "service_verify_canonical env ports p vk =
    and_then (derive_state_key (pe_sha env) p) (\<lambda>key.
    and_then (stored_commit ports (rp_tenant_id p) (cr_commit_id (rp_commit p))) (\<lambda>sg.
    and_then (ensure_canonical ports (rp_tenant_id p) sg) (\<lambda>_.
    verify_bundle env p sg vk key)))"

definition service_verify_non_membership ::
  "'k proof_env \<Rightarrow> proof_ports \<Rightarrow> non_membership_bundle \<Rightarrow> 'k \<Rightarrow> (unit, proof_error) result" where
  "service_verify_non_membership env ports b vk =
    and_then (stored_commit ports (nb_tenant_id b) (cr_commit_id (nb_commit b))) (\<lambda>sg.
    verify_non_membership_bundle env b sg vk (nb_claimed_key b))"

end
