(* ===== verification/Proof_Theorems.thy ===== *)
theory Proof_Theorems
  imports Proof_Verify Commit_Theorems Example_Data
begin

text \<open>
  What the portable proofs are worth: the dense wire form verifies exactly when the proof it
  encodes does, a bundle assembled from an issued proof verifies, and a verified bundle binds the
  claimed state, or the absence of a key, to the tree behind the root of the signed commit.
\<close>

section \<open>The wire form\<close>

lemma length_dense_path [simp]: "length (dense_path steps) = 256"
proof -
  have "length (fold (\<lambda>s path. if ps_level s < length path then path[ps_level s := ps_sibling s] else path) steps path) =
      length path" for path :: "content_digest list"
    by (induction steps arbitrary: path) simp_all
  then show ?thesis by (simp add: dense_path_def TREE_DEPTH_def del: upt_rec_numeral)
qed

lemma dense_path_nth:
  "l < 256 \<Longrightarrow> dense_path steps ! l = sibling_at (steps_by_level steps) l"
proof (induction steps rule: rev_induct)
  case Nil
  then show ?case by (simp add: dense_path_def sibling_at_def steps_by_level_def TREE_DEPTH_def del: upt_rec_numeral)
next
  case (snoc s steps)
  have dense: "dense_path (steps @ [s]) =
      (if ps_level s < 256 then (dense_path steps)[ps_level s := ps_sibling s] else dense_path steps)"
    using length_dense_path [of steps] by (simp add: dense_path_def del: upt_rec_numeral)
  have "steps_by_level (steps @ [s]) = btree_insert (ps_level s) (ps_sibling s) (steps_by_level steps)"
    by (simp add: steps_by_level_def)
  then show ?case
    using snoc unfolding dense by (auto simp: nth_list_update sibling_at_def btree_get_insert)
qed

lemma rebuilt_steps:
  assumes "steps_from_sparse_proof sparse = Ok steps"
  shows "length (sm_path sparse) = 256"
    and "set steps = {\<lparr>ps_level = l, ps_sibling = sm_path sparse ! l\<rparr> | l. l < 256 \<and> sm_path sparse ! l \<noteq> default_hash l}"
proof -
  show len: "length (sm_path sparse) = 256"
    using assms by (simp add: steps_from_sparse_proof_def TREE_DEPTH_def split: if_splits)
  have steps: "steps = concat (map (\<lambda>(level, digest).
       if digest \<noteq> default_hash level then [\<lparr>ps_level = level, ps_sibling = digest\<rparr>] else [])
       (enumerate 0 (sm_path sparse)))"
    using assms by (simp add: steps_from_sparse_proof_def split: if_splits)
  show "set steps = {\<lparr>ps_level = l, ps_sibling = sm_path sparse ! l\<rparr> | l. l < 256 \<and> sm_path sparse ! l \<noteq> default_hash l}"
    unfolding steps by (auto simp: in_set_enumerate_eq len split: if_splits)
qed

lemma rebuilt_sibling:
  assumes "steps_from_sparse_proof sparse = Ok steps" and "l < 256"
  shows "sibling_at (steps_by_level steps) l = sm_path sparse ! l"
proof -
  have all: "\<forall>s \<in> set steps. ps_level s = l \<longrightarrow> ps_sibling s = sm_path sparse ! l"
    unfolding rebuilt_steps(2) [OF assms(1)] by auto
  have "l \<in> ps_level ` set steps \<longleftrightarrow> sm_path sparse ! l \<noteq> default_hash l"
    unfolding rebuilt_steps(2) [OF assms(1)] using assms(2) by (auto simp: image_iff)
  then show ?thesis by (simp add: sibling_at_def steps_by_level_get [OF all])
qed

lemma rebuilt_widths:
  assumes "steps_from_sparse_proof sparse = Ok steps" and "list_all (\<lambda>d. length d = HASH_BYTE_LEN) (sm_path sparse)"
  shows "list_all (\<lambda>s. length (ps_sibling s) = HASH_BYTE_LEN) steps"
  using assms(2) rebuilt_steps [OF assms(1)] by (auto simp: list_all_iff)

lemma ascend_cong:
  "(\<And>l. l < h \<Longrightarrow> sib l = sib' l) \<Longrightarrow> ascend sha key sib leaf h = ascend sha key sib' leaf h"
  by (induction h) simp_all

lemma dense_steps:
  obtains steps' where "steps_from_sparse_proof (sparse_merkle_proof_new (dense_path steps) leaf) = Ok steps'"
    and "\<And>rt key leaf. verify_path sha rt key leaf steps' = verify_path sha rt key leaf steps"
proof -
  let ?sparse = "sparse_merkle_proof_new (dense_path steps) leaf"
  obtain steps' where ok: "steps_from_sparse_proof ?sparse = Ok steps'"
    by (simp add: steps_from_sparse_proof_def sparse_merkle_proof_new_def TREE_DEPTH_def)
  have "sibling_at (steps_by_level steps') l = sibling_at (steps_by_level steps) l" if "l < 256" for l
    using rebuilt_sibling [OF ok that] dense_path_nth [OF that] by (simp add: sparse_merkle_proof_new_def)
  then have "verify_path sha rt key leaf steps' = verify_path sha rt key leaf steps" for rt key leaf
    unfolding verify_path_ascend using ascend_cong [of 256 "sibling_at (steps_by_level steps')" "sibling_at (steps_by_level steps)"]
    by simp
  with ok that show ?thesis by blast
qed

lemma wire_inclusion:
  "verify_sparse_merkle_v0 sha rt (ip_key p) (sparse_proof_from_inclusion p) =
    (if verify_inclusion sha rt p then Ok () else Err ProofInclusionMismatch)"
proof -
  obtain steps' where ok: "steps_from_sparse_proof (sparse_proof_from_inclusion p) = Ok steps'"
    and same: "\<And>rt key leaf. verify_path sha rt key leaf steps' = verify_path sha rt key leaf (ip_steps p)"
    using dense_steps [of "ip_steps p" "ip_leaf_hash p" sha] unfolding sparse_proof_from_inclusion_def by blast
  have "sm_kind (sparse_proof_from_inclusion p) = SPARSE_MERKLE_V0"
    "sm_leaf_hash (sparse_proof_from_inclusion p) = ip_leaf_hash p"
    by (simp_all add: sparse_proof_from_inclusion_def sparse_merkle_proof_new_def)
  then show ?thesis by (simp add: verify_sparse_merkle_v0_def ok verify_inclusion_def same)
qed

text \<open>The dense wire form loses nothing: whatever steps a proof of the accumulator carries, the wire
  form verifies against a root exactly when the proof does.
\<close>
theorem wire_form_preserves_verification:
  "verify_sparse_merkle_v0 sha rt (ip_key p) (sparse_proof_from_inclusion p) =
    (if verify_inclusion sha rt p then Ok () else Err ProofInclusionMismatch)"
  by (rule wire_inclusion)

section \<open>Bundles\<close>

lemma verify_bundle_Ok:
  assumes "verify_bundle env p sg vk key = Ok ()"
  obtains steps bytes canonical where "sc_tenant_id (co_scope (sg_body sg)) = Some (rp_tenant_id p)"
    and "cr_commit_id (rp_commit p) = co_commit_id (sg_body sg)"
    and "cr_sequence (rp_commit p) = co_sequence (sg_body sg)"
    and "cr_state_root (rp_commit p) = co_next_state_root (sg_body sg)"
    and "pe_commit_bytes env (sg_body sg) = Ok canonical"
    and "pe_verify_strict env canonical vk (sb_sig (sg_signature sg)) = Ok ()"
    and "steps_from_sparse_proof (rp_state_inclusion_proof p) = Ok steps"
    and "verify_inclusion (pe_sha env) (co_next_state_root (sg_body sg))
      \<lparr>ip_key = key, ip_leaf_hash = leaf_hash (pe_sha env) key (pe_sha env bytes), ip_steps = steps\<rparr>"
    and "pe_state_bytes env (rp_claimed_state p) = Ok bytes"
  using assms
  by (fastforce simp: verify_bundle_def verify_commit_envelope_def verify_commit_signature_with_key_def
      verify_signature_def verify_sparse_merkle_v0_def verify_claimed_state_def canonicalize_def
      canonicalize_and_digest_def and_then_eq_Ok split: if_splits)

text \<open>The strings whose collision would be needed to forge a bundle.\<close>

definition bundle_strings ::
  "sha256 \<Rightarrow> state_accumulator \<Rightarrow> state_key \<Rightarrow> hash \<Rightarrow> sparse_merkle_proof \<Rightarrow> byte list list" where
  "bundle_strings sha acc key digest sparse =
    (LEAF_NODE_TAG # key @ digest) #
    (case steps_from_sparse_proof sparse of
       Ok steps \<Rightarrow> hashed_strings sha acc key (leaf_hash sha key digest) steps
     | Err e \<Rightarrow> [])"

lemma bundle_digest:
  assumes "fixed_width sha" and "defaults_ok sha" and "leaves_ok (ac_leaves acc)" and "length key = HASH_BYTE_LEN"
    and "key \<noteq> replicate 32 0" and "list_all (\<lambda>d. length d = HASH_BYTE_LEN) (sm_path sparse)"
    and "steps_from_sparse_proof sparse = Ok steps"
    and "verify_inclusion sha (compute_root sha acc) \<lparr>ip_key = key, ip_leaf_hash = leaf_hash sha key (sha bytes), ip_steps = steps\<rparr>"
  shows "btree_get (ac_leaves acc) key = Some (sha bytes) \<or> collision sha (bundle_strings sha acc key (sha bytes) sparse)"
proof -
  let ?p = "\<lparr>ip_key = key, ip_leaf_hash = leaf_hash sha key (sha bytes), ip_steps = steps\<rparr>"
  have "key @ sha bytes \<noteq> replicate 64 0"
  proof
    assume "key @ sha bytes = replicate 64 0"
    then have "key = take 32 (replicate 64 0)"
      using assms(4) by (metis append_eq_conv_conj HASH_BYTE_LEN_def)
    then show False using assms(5) by simp
  qed
  then show ?thesis
    using included_digest [OF assms(1-3), of ?p "sha bytes"] assms(4,7,8) rebuilt_widths [OF assms(7,6)]
      fixed_widthD [OF assms(1), of bytes] by (simp add: bundle_strings_def HASH_BYTE_LEN_def)
qed

text \<open>C8.
  A verified bundle binds. The commit is of the bundle's tenant, the reference names it, its
  canonical bytes carry a signature of the verifying key, and the tree behind the commit's state
  root holds the digest of the claimed state under the key, unless two of the strings hashed for
  the root, the path or the table of empty subtrees collide.
\<close>
theorem verified_bundle_binds:
  assumes "fixed_width (pe_sha env)" and "defaults_ok (pe_sha env)" and "leaves_ok (ac_leaves acc)"
    and "length key = HASH_BYTE_LEN" and "key \<noteq> replicate 32 0"
    and "list_all (\<lambda>d. length d = HASH_BYTE_LEN) (sm_path (rp_state_inclusion_proof p))"
    and "co_next_state_root (sg_body sg) = compute_root (pe_sha env) acc"
    and "verify_bundle env p sg vk key = Ok ()"
  shows "sc_tenant_id (co_scope (sg_body sg)) = Some (rp_tenant_id p) \<and>
    cr_commit_id (rp_commit p) = co_commit_id (sg_body sg) \<and>
    (\<exists>canonical. pe_commit_bytes env (sg_body sg) = Ok canonical \<and>
      pe_verify_strict env canonical vk (sb_sig (sg_signature sg)) = Ok ()) \<and>
    (\<exists>bytes. pe_state_bytes env (rp_claimed_state p) = Ok bytes \<and>
      (btree_get (ac_leaves acc) key = Some (pe_sha env bytes) \<or>
       collision (pe_sha env)
         (bundle_strings (pe_sha env) acc key (pe_sha env bytes) (rp_state_inclusion_proof p))))"
  by (rule verify_bundle_Ok [OF assms(8)]) (use bundle_digest [OF assms(1-6)] assms(7) in auto)

lemma envelope_of_ref:
  assumes "commit_ref_of sg = Ok cr" and "sc_tenant_id (co_scope (sg_body sg)) = Some tenant"
  shows "verify_commit_envelope env tenant cr sg vk = verify_commit_signature_with_key env sg vk"
  using assms by (auto simp: commit_ref_of_def verify_commit_envelope_def Let_def split: if_splits)

lemma built_bundle:
  assumes "leaves_ok (ac_leaves acc)" and "length key = HASH_BYTE_LEN"
    and "prove_inclusion (pe_sha env) acc key = Some inclusion"
    and "btree_get (ac_leaves acc) key = Some (sp_state_hash projection)"
    and "pe_state_bytes env (sp_state projection) = Ok bytes" and "sp_state_hash projection = pe_sha env bytes"
    and "co_scope (sg_body sg) = scope_tenant (sp_tenant_id projection)"
    and "co_next_state_root (sg_body sg) = compute_root (pe_sha env) acc"
    and "pe_commit_bytes env (sg_body sg) = Ok canonical"
    and "pe_verify_strict env canonical vk (sb_sig (sg_signature sg)) = Ok ()"
  shows "\<exists>p. build_state_proof (pe_sha env) projection sg inclusion operation authority key = Ok p \<and>
    verify_bundle env p sg vk key = check_proof_size (pe_proof_bytes env) p"
proof -
  let ?sha = "pe_sha env"
  have inc: "ip_key inclusion = key" "ip_leaf_hash inclusion = leaf_hash ?sha key (sp_state_hash projection)"
    "ip_steps inclusion = collect_steps ?sha acc key"
    using assms(3,4) by (auto simp: prove_inclusion_def)
  obtain cr where cr: "commit_ref_of sg = Ok cr"
    using assms(7) by (simp add: commit_ref_of_def scope_tenant_def Let_def)
  obtain p where p: "build_state_proof ?sha projection sg inclusion operation authority key = Ok p"
    and parts: "rp_schema p = RESOURCE_STATE_PROOF_SCHEMA" "rp_tenant_id p = sp_tenant_id projection"
      "rp_claimed_state p = sp_state projection" "rp_commit p = cr"
      "rp_state_inclusion_proof p = sparse_proof_from_inclusion inclusion"
    by (simp add: build_state_proof_def inc cr)
  have "verify_path ?sha (compute_root ?sha acc) key (leaf_hash ?sha key (sp_state_hash projection)) (collect_steps ?sha acc key)"
    using assms(2,4) by (intro issued_path_verifies [OF assms(1)])
      (simp_all add: path_leaf [OF assms(1)] HASH_BYTE_LEN_def)
  then have "verify_sparse_merkle_v0 ?sha (compute_root ?sha acc) key (sparse_proof_from_inclusion inclusion) = Ok ()"
    using wire_inclusion [of ?sha "compute_root ?sha acc" inclusion] by (simp add: inc verify_inclusion_def)
  moreover have "verify_commit_envelope env (sp_tenant_id projection) cr sg vk = Ok ()"
    using envelope_of_ref [OF cr, of "sp_tenant_id projection" env vk] assms(7,9,10)
    by (simp add: scope_tenant_def verify_commit_signature_with_key_def canonicalize_def verify_signature_def)
  moreover have "verify_claimed_state env p key = Ok ()"
    using assms(5,6) by (simp add: verify_claimed_state_def parts canonicalize_and_digest_def canonicalize_def
        sparse_proof_from_inclusion_def sparse_merkle_proof_new_def inc)
  ultimately have "verify_bundle env p sg vk key = check_proof_size (pe_proof_bytes env) p"
    by (cases "check_proof_size (pe_proof_bytes env) p") (simp_all add: verify_bundle_def parts assms(8))
  with p show ?thesis by blast
qed

text \<open>C10.
  A bundle assembled from what the system holds verifies: when the tree behind the root of a
  commit of the tenant holds the projection's state hash, that hash is the digest of the state and
  the commit's signature verifies, then the bundle built from the accumulator's inclusion proof is
  accepted, its size permitting.
\<close>
theorem built_bundle_verifies:
  assumes "leaves_ok (ac_leaves acc)" and "length key = HASH_BYTE_LEN"
    and "prove_inclusion (pe_sha env) acc key = Some inclusion"
    and "btree_get (ac_leaves acc) key = Some (sp_state_hash projection)"
    and "pe_state_bytes env (sp_state projection) = Ok bytes" and "sp_state_hash projection = pe_sha env bytes"
    and "co_scope (sg_body sg) = scope_tenant (sp_tenant_id projection)"
    and "co_next_state_root (sg_body sg) = compute_root (pe_sha env) acc"
    and "pe_commit_bytes env (sg_body sg) = Ok canonical"
    and "pe_verify_strict env canonical vk (sb_sig (sg_signature sg)) = Ok ()"
  shows "\<exists>p. build_state_proof (pe_sha env) projection sg inclusion operation authority key = Ok p \<and>
    verify_bundle env p sg vk key = check_proof_size (pe_proof_bytes env) p"
  by (rule built_bundle [OF assms])

text \<open>A verifier for the examples: a signature is the key followed by the message.\<close>

definition ex_env :: "byte proof_env" where
  "ex_env = \<lparr>pe_sha = table_hash, pe_commit_bytes = (\<lambda>c. Ok [1]), pe_state_bytes = (\<lambda>s. Ok []),
    pe_proof_bytes = (\<lambda>p. Ok [2]), pe_absence_bytes = (\<lambda>b. Ok [3]),
    pe_verify_strict = (\<lambda>canonical key sig. if sig = key # canonical then Ok () else Err ''bad'')\<rparr>"

definition ex_vault :: state_accumulator where
  "ex_vault = \<lparr>ac_leaves = [(replicate 32 7, replicate 32 7)]\<rparr>"

definition ex_signed :: "commit signed" where
  "ex_signed = \<lparr>sg_body = (ex_commit ''cmt_1'' None 1)\<lparr>co_next_state_root := compute_root table_hash ex_vault\<rparr>,
    sg_signature = \<lparr>sb_alg = Ed25519, sb_key_id = ''k'', sb_sig = [5, 1]\<rparr>\<rparr>"

definition ex_vaulted :: state_projection where
  "ex_vaulted = (ex_projection ''asset:1'' (ex_asset ''alice'' ''active'' None))\<lparr>sp_state_hash := replicate 32 7\<rparr>"

definition ex_inclusion :: inclusion_proof where
  "ex_inclusion = \<lparr>ip_key = replicate 32 7, ip_leaf_hash = leaf_hash table_hash (replicate 32 7) (replicate 32 7),
    ip_steps = collect_steps table_hash ex_vault (replicate 32 7)\<rparr>"

lemma table_hash_empty: "table_hash [] = replicate 32 7"
proof -
  have "find (\<lambda>h :: nat. False) [0..<256] = None" by (simp add: find_None_iff del: upt_rec_numeral)
  then show ?thesis by (simp add: table_hash_def del: upt_rec_numeral)
qed

lemma ex_vault_ok: "leaves_ok (ac_leaves ex_vault)"
  by code_simp

lemma ex_vault_lookup:
  "btree_get (ac_leaves ex_vault) (replicate 32 7) = Some (replicate 32 7)"
  "btree_get (ac_leaves ex_vault) (replicate 32 2) = None"
  by code_simp+

lemma ex_parts:
  "sc_tenant_id (co_scope (sg_body ex_signed)) = Some ''t''" "co_scope (sg_body ex_signed) = scope_tenant ''t''"
  "co_next_state_root (sg_body ex_signed) = compute_root table_hash ex_vault"
  "sb_sig (sg_signature ex_signed) = [5, 1]" "sp_tenant_id ex_vaulted = ''t''" "sp_state_hash ex_vaulted = replicate 32 7"
  "pe_sha ex_env = table_hash"
  by (simp_all add: ex_signed_def ex_commit_def scope_tenant_def ex_vaulted_def ex_projection_def ex_env_def)

lemma ex_env_answers:
  "prove_inclusion table_hash ex_vault (replicate 32 7) = Some ex_inclusion"
  "pe_state_bytes ex_env state = Ok []" "pe_commit_bytes ex_env body = Ok [1]"
  "pe_verify_strict ex_env [1] 5 [5, 1] = Ok ()" "check_proof_size (pe_proof_bytes ex_env) p = Ok ()"
  "check_proof_size (pe_absence_bytes ex_env) b = Ok ()"
  by (simp_all add: prove_inclusion_def ex_vault_lookup ex_inclusion_def ex_env_def check_proof_size_def MAX_PROOF_BYTES_def)

theorem built_bundle_verifies_witness:
  "\<exists>p. build_state_proof table_hash ex_vaulted ex_signed ex_inclusion ''asset.transfer'' None (replicate 32 7) = Ok p \<and>
    verify_bundle ex_env p ex_signed 5 (replicate 32 7) = Ok ()"
  using built_bundle_verifies [OF ex_vault_ok, of "replicate 32 7" ex_env ex_inclusion ex_vaulted "[]" ex_signed "[1]" 5
      "''asset.transfer''" None]
  by (simp add: ex_vault_lookup ex_parts table_hash_empty HASH_BYTE_LEN_def ex_env_answers)

definition ex_bundle :: resource_state_proof where
  "ex_bundle = \<lparr>rp_schema = RESOURCE_STATE_PROOF_SCHEMA, rp_tenant_id = ''t'', rp_resource_id = ''asset:1'',
    rp_claimed_state = ex_asset ''alice'' ''active'' None,
    rp_commit = \<lparr>cr_commit_id = ''cmt_1'', cr_sequence = 1, cr_state_root = compute_root table_hash ex_vault,
      cr_signature = sg_signature ex_signed\<rparr>,
    rp_state_inclusion_proof = sparse_proof_from_inclusion ex_inclusion,
    rp_latest_event = \<lparr>er_event_id = ''evt_0'', er_operation = ''asset.transfer''\<rparr>, rp_authority = None\<rparr>"

lemma ex_bundle_built:
  "build_state_proof table_hash ex_vaulted ex_signed ex_inclusion ''asset.transfer'' None (replicate 32 7) = Ok ex_bundle"
  by (simp add: build_state_proof_def ex_inclusion_def ex_parts commit_ref_of_def scope_tenant_def ex_bundle_def
      ex_vaulted_def ex_projection_def ex_signed_def ex_commit_def Let_def)

lemma ex_bundle_ok: "verify_bundle ex_env ex_bundle ex_signed 5 (replicate 32 7) = Ok ()"
  using built_bundle [OF ex_vault_ok, of "replicate 32 7" ex_env ex_inclusion ex_vaulted "[]" ex_signed "[1]" 5
      "''asset.transfer''" None]
  by (simp add: ex_vault_lookup ex_parts table_hash_empty HASH_BYTE_LEN_def ex_env_answers ex_bundle_built)

lemma issued_path_widths:
  assumes "fixed_width sha" and "leaves_ok (ac_leaves acc)"
  shows "list_all (\<lambda>d. length d = HASH_BYTE_LEN) (dense_path (collect_steps sha acc key))"
  unfolding list_all_length
  using length_subtree [OF assms(1)] by (simp add: dense_path_nth issued_siblings [OF assms(2)] HASH_BYTE_LEN_def)

theorem verified_bundle_binds_witness:
  "\<exists>bytes. pe_state_bytes ex_env (rp_claimed_state ex_bundle) = Ok bytes \<and>
    (btree_get (ac_leaves ex_vault) (replicate 32 7) = Some (table_hash bytes) \<or>
     collision table_hash
       (bundle_strings table_hash ex_vault (replicate 32 7) (table_hash bytes) (rp_state_inclusion_proof ex_bundle)))"
proof -
  have "list_all (\<lambda>d. length d = HASH_BYTE_LEN) (sm_path (rp_state_inclusion_proof ex_bundle))"
    using issued_path_widths [OF table_hash_width ex_vault_ok]
    by (simp add: ex_bundle_def sparse_proof_from_inclusion_def sparse_merkle_proof_new_def ex_inclusion_def)
  moreover have "replicate 32 (7 :: byte) \<noteq> replicate 32 0" by code_simp
  ultimately show ?thesis
    using verified_bundle_binds [of ex_env ex_vault "replicate 32 7" ex_bundle ex_signed 5]
      table_hash_width table_hash_defaults ex_vault_ok ex_bundle_ok
    by (simp add: ex_parts HASH_BYTE_LEN_def)
qed

section \<open>Absence\<close>

lemma verify_non_membership_bundle_Ok:
  assumes "verify_non_membership_bundle env b sg vk key = Ok ()"
  obtains steps canonical where "sc_tenant_id (co_scope (sg_body sg)) = Some (nb_tenant_id b)"
    and "cr_commit_id (nb_commit b) = co_commit_id (sg_body sg)"
    and "nb_claimed_key b = key"
    and "pe_commit_bytes env (sg_body sg) = Ok canonical"
    and "pe_verify_strict env canonical vk (sb_sig (sg_signature sg)) = Ok ()"
    and "steps_from_sparse_proof (nb_state_non_membership_proof b) = Ok steps"
    and "verify_non_membership (pe_sha env) (co_next_state_root (sg_body sg))
      \<lparr>np_key = key, np_leaf_hash = EMPTY_LEAF_HASH, np_steps = steps\<rparr>"
  using assms
  by (fastforce simp: verify_non_membership_bundle_def verify_absence_def verify_commit_envelope_def
      verify_commit_signature_with_key_def verify_signature_def canonicalize_def Let_def and_then_eq_Ok split: if_splits)

definition absence_strings :: "sha256 \<Rightarrow> state_accumulator \<Rightarrow> state_key \<Rightarrow> sparse_merkle_proof \<Rightarrow> byte list list" where
  "absence_strings sha acc key sparse =
    (case steps_from_sparse_proof sparse of
       Ok steps \<Rightarrow> hashed_strings sha acc key EMPTY_LEAF_HASH steps
     | Err e \<Rightarrow> [])"

text \<open>C9.
  A verified bundle of absence binds: its commit is of the tenant and signed, and the tree behind
  the commit's state root holds nothing under the claimed key, unless two of the hashed strings
  collide. The check that the leaf is the empty leaf, which the accumulator's own verifier omits,
  is what makes this hold.
\<close>
theorem verified_absence_binds:
  assumes "fixed_width (pe_sha env)" and "defaults_ok (pe_sha env)" and "leaves_ok (ac_leaves acc)"
    and "length key = HASH_BYTE_LEN" and "key \<noteq> replicate 32 0"
    and "list_all (\<lambda>d. length d = HASH_BYTE_LEN) (sm_path (nb_state_non_membership_proof b))"
    and "co_next_state_root (sg_body sg) = compute_root (pe_sha env) acc"
    and "verify_non_membership_bundle env b sg vk key = Ok ()"
  shows "sc_tenant_id (co_scope (sg_body sg)) = Some (nb_tenant_id b) \<and> nb_claimed_key b = key \<and>
    (\<exists>canonical. pe_commit_bytes env (sg_body sg) = Ok canonical \<and>
      pe_verify_strict env canonical vk (sb_sig (sg_signature sg)) = Ok ()) \<and>
    (btree_get (ac_leaves acc) key = None \<or>
     collision (pe_sha env) (absence_strings (pe_sha env) acc key (nb_state_non_membership_proof b)))"
proof (rule verify_non_membership_bundle_Ok [OF assms(8)])
  fix steps canonical
  assume parts: "sc_tenant_id (co_scope (sg_body sg)) = Some (nb_tenant_id b)" "nb_claimed_key b = key"
    "pe_commit_bytes env (sg_body sg) = Ok canonical"
    "pe_verify_strict env canonical vk (sb_sig (sg_signature sg)) = Ok ()"
    and steps: "steps_from_sparse_proof (nb_state_non_membership_proof b) = Ok steps"
    and path: "verify_non_membership (pe_sha env) (co_next_state_root (sg_body sg))
      \<lparr>np_key = key, np_leaf_hash = EMPTY_LEAF_HASH, np_steps = steps\<rparr>"
  have "btree_get (ac_leaves acc) key = None \<or>
      collision (pe_sha env) (absence_strings (pe_sha env) acc key (nb_state_non_membership_proof b))"
    using absent_key [OF assms(1-3), of "\<lparr>np_key = key, np_leaf_hash = EMPTY_LEAF_HASH, np_steps = steps\<rparr>"]
      assms(4,5,7) path rebuilt_widths [OF steps assms(6)] by (simp add: absence_strings_def steps)
  with parts show ?thesis by blast
qed

definition ex_absence :: non_membership_bundle where
  "ex_absence = \<lparr>nb_schema = NON_MEMBERSHIP_PROOF_SCHEMA, nb_tenant_id = ''t'', nb_resource_id = ''asset:2'',
    nb_claimed_key = replicate 32 2, nb_commit = rp_commit ex_bundle,
    nb_state_non_membership_proof =
      sparse_merkle_proof_new (dense_path (collect_steps table_hash ex_vault (replicate 32 2))) EMPTY_LEAF_HASH\<rparr>"

lemma ex_absence_ok: "verify_non_membership_bundle ex_env ex_absence ex_signed 5 (replicate 32 2) = Ok ()"
proof -
  let ?steps = "collect_steps table_hash ex_vault (replicate 32 2)"
  obtain steps' where ok: "steps_from_sparse_proof (sparse_merkle_proof_new (dense_path ?steps) EMPTY_LEAF_HASH) = Ok steps'"
    and same: "\<And>rt key leaf. verify_path table_hash rt key leaf steps' = verify_path table_hash rt key leaf ?steps"
    using dense_steps [of ?steps EMPTY_LEAF_HASH table_hash] by blast
  have "verify_path table_hash (compute_root table_hash ex_vault) (replicate 32 2) EMPTY_LEAF_HASH ?steps"
    using table_hash_defaults by (intro issued_path_verifies [OF ex_vault_ok])
      (simp_all add: path_leaf [OF ex_vault_ok] ex_vault_lookup default_hash_0)
  moreover have "verify_commit_envelope ex_env ''t'' (rp_commit ex_bundle) ex_signed 5 = Ok ()"
    by (simp add: verify_commit_envelope_def ex_parts verify_commit_signature_with_key_def canonicalize_def
        verify_signature_def ex_env_answers) (simp add: ex_bundle_def ex_signed_def ex_commit_def scope_tenant_def)
  moreover have "sm_kind (sparse_merkle_proof_new path leaf) = SPARSE_MERKLE_V0"
    "sm_path (sparse_merkle_proof_new path leaf) = path" "sm_leaf_hash (sparse_merkle_proof_new path leaf) = leaf" for path leaf
    by (simp_all add: sparse_merkle_proof_new_def)
  ultimately show ?thesis
    by (simp add: verify_non_membership_bundle_def verify_absence_def ex_absence_def ex_env_answers ex_parts ok
        verify_non_membership_def same TREE_DEPTH_def)
qed

theorem verified_absence_binds_witness:
  "btree_get (ac_leaves ex_vault) (replicate 32 2) = None \<or>
   collision table_hash (absence_strings table_hash ex_vault (replicate 32 2) (nb_state_non_membership_proof ex_absence))"
proof -
  have "list_all (\<lambda>d. length d = HASH_BYTE_LEN) (sm_path (nb_state_non_membership_proof ex_absence))"
    using issued_path_widths [OF table_hash_width ex_vault_ok]
    by (simp add: ex_absence_def sparse_merkle_proof_new_def)
  moreover have "replicate 32 (2 :: byte) \<noteq> replicate 32 0" by code_simp
  ultimately show ?thesis
    using verified_absence_binds [of ex_env ex_vault "replicate 32 2" ex_absence ex_signed 5]
      table_hash_width table_hash_defaults ex_vault_ok ex_absence_ok
    by (simp add: ex_parts HASH_BYTE_LEN_def)
qed

section \<open>The service\<close>

lemma derived_key_width: "fixed_width sha \<Longrightarrow> derive_state_key sha p = Ok key \<Longrightarrow> length key = HASH_BYTE_LEN"
  by (auto simp: derive_state_key_def for_resource_def for_subject_held_def fixed_widthD HASH_BYTE_LEN_def
      split: option.splits if_splits)

text \<open>C11.
  A proof that passes the canonical check is about the current state: the head of the tenant's
  chain is the commit it names, and the tree behind the head's state root holds the digest of the
  claimed state under the key derived from tenant, resource and subject, unless hashed strings collide.
\<close>
theorem canonical_proof_is_current:
  assumes "fixed_width (pe_sha env)" and "defaults_ok (pe_sha env)" and "leaves_ok (ac_leaves acc)"
    and "list_all (\<lambda>d. length d = HASH_BYTE_LEN) (sm_path (rp_state_inclusion_proof p))"
    and "derive_state_key (pe_sha env) p = Ok key" and "key \<noteq> replicate 32 0"
    and "pp_canonical_head ports (rp_tenant_id p) = Ok (Some head)"
    and "ch_state_root head = compute_root (pe_sha env) acc"
    and "service_verify_canonical env ports p vk = Ok ()"
  shows "ch_commit_id head = cr_commit_id (rp_commit p) \<and> ch_sequence head = cr_sequence (rp_commit p) \<and>
    (\<exists>bytes. pe_state_bytes env (rp_claimed_state p) = Ok bytes \<and>
      (btree_get (ac_leaves acc) key = Some (pe_sha env bytes) \<or>
       collision (pe_sha env)
         (bundle_strings (pe_sha env) acc key (pe_sha env bytes) (rp_state_inclusion_proof p))))"
proof -
  obtain sg where ok: "verify_bundle env p sg vk key = Ok ()"
    and head: "ch_commit_id head = co_commit_id (sg_body sg)" "ch_sequence head = co_sequence (sg_body sg)"
      "ch_state_root head = co_next_state_root (sg_body sg)"
    using assms(5,7,9) by (auto simp: service_verify_canonical_def ensure_canonical_def split: if_splits)
  show ?thesis
    by (rule verify_bundle_Ok [OF ok])
      (use head assms(8) bundle_digest [OF assms(1-3) derived_key_width [OF assms(1,5)] assms(6,4)] in auto)
qed

definition ex_stores :: proof_ports where
  "ex_stores = \<lparr>pp_commit_by_id = (\<lambda>tenant commit_id. Ok (if commit_id = ''cmt_1'' then Some ex_signed else None)),
    pp_canonical_head = (\<lambda>tenant. Ok (Some \<lparr>ch_commit_id = ''cmt_1'', ch_sequence = 1,
      ch_state_root = compute_root table_hash ex_vault\<rparr>))\<rparr>"

lemma table_hash_other: "x \<noteq> [] \<Longrightarrow> hd x \<noteq> LEAF_NODE_TAG \<Longrightarrow> hd x \<noteq> INTERNAL_NODE_TAG \<Longrightarrow> table_hash x = replicate 32 7"
proof -
  assume tags: "x \<noteq> []" "hd x \<noteq> LEAF_NODE_TAG" "hd x \<noteq> INTERNAL_NODE_TAG"
  then have "find (\<lambda>h. x = INTERNAL_NODE_TAG # default_hash h @ default_hash h) [0..<256] = None"
    by (auto simp: find_None_iff simp del: upt_rec_numeral)
  with tags show ?thesis by (auto simp: table_hash_def simp del: upt_rec_numeral)
qed

lemma ex_bundle_key: "derive_state_key table_hash ex_bundle = Ok (replicate 32 7)"
  by (simp add: derive_state_key_def ex_bundle_def ex_asset_def for_resource_def resource_preimage_def)
    (simp add: table_hash_other KEY_DOMAIN_PREFIX_def LEAF_NODE_TAG_def INTERNAL_NODE_TAG_def)

theorem canonical_proof_is_current_witness:
  "\<exists>bytes. pe_state_bytes ex_env (rp_claimed_state ex_bundle) = Ok bytes \<and>
    (btree_get (ac_leaves ex_vault) (replicate 32 7) = Some (table_hash bytes) \<or>
     collision table_hash
       (bundle_strings table_hash ex_vault (replicate 32 7) (table_hash bytes) (rp_state_inclusion_proof ex_bundle)))"
proof -
  have "list_all (\<lambda>d. length d = HASH_BYTE_LEN) (sm_path (rp_state_inclusion_proof ex_bundle))"
    using issued_path_widths [OF table_hash_width ex_vault_ok]
    by (simp add: ex_bundle_def sparse_proof_from_inclusion_def sparse_merkle_proof_new_def ex_inclusion_def)
  moreover have "replicate 32 (7 :: byte) \<noteq> replicate 32 0" by code_simp
  moreover have "cr_commit_id (rp_commit ex_bundle) = ''cmt_1''" "co_commit_id (sg_body ex_signed) = ''cmt_1''"
    "co_sequence (sg_body ex_signed) = 1"
    by (simp_all add: ex_bundle_def ex_signed_def ex_commit_def)
  then have "service_verify_canonical ex_env ex_stores ex_bundle 5 = Ok ()"
    by (simp add: service_verify_canonical_def ensure_canonical_def stored_commit_def ex_stores_def ex_bundle_key
        ex_parts ex_bundle_ok)
  ultimately show ?thesis
    using canonical_proof_is_current [of ex_env ex_vault ex_bundle "replicate 32 7" ex_stores _ 5]
      table_hash_width table_hash_defaults ex_vault_ok ex_bundle_key
    by (simp add: ex_parts ex_stores_def)
qed

end
