(* ===== verification/Trade_Proof.thy ===== *)
theory Trade_Proof
  imports Proof_Theorems
begin

text \<open>
  Trade proofs (\<^verbatim>\<open>trade.rs\<close> of \<^verbatim>\<open>statechronicle-proof\<close> and of \<^verbatim>\<open>statechronicle-domain\<close>): the record of a trade, the
  portable proof assembled from it and its verification, with the service operation that loads the
  commits. The lemmas say what an accepted trade proof shows of each proven asset, and what its
  counts do not exclude.
\<close>

section \<open>Records\<close>

definition TRADE_PROOF_SCHEMA :: string where
  "TRADE_PROOF_SCHEMA = ''statechronicle.proof.trade.v0''"

datatype trade_status = TradeOpen | TradeSettled | TradeCancelled

record trade_side =
  td_tenant :: tenant_id
  td_settle_assets :: "resource_id list"
  td_from_owner :: string
  td_to_owner :: string
  td_settle_commit :: commit_ref
  td_settle_commits_by_asset :: "(resource_id, commit_ref) btree_map"
  td_settle_event_ids :: "string list"

record trade_value_leg =
  tv_resource :: resource_id
  tv_amount :: string
  tv_to_subject :: subject_id
  tv_pair_event_ids :: "string list"
  tv_tenant :: tenant_id
  tv_commit :: commit_ref

record trade_event_ref =
  tx_event_id :: string
  tx_tenant_id :: tenant_id
  tx_operation :: operation

record trade_record =
  tr_trade_id :: string
  tr_status :: trade_status
  tr_sides :: "trade_side list"
  tr_value_legs :: "trade_value_leg list"
  tr_events :: "trade_event_ref list"

record trade_summary =
  ts_trade_id :: string
  ts_status :: trade_status
  ts_sides :: "trade_side list"
  ts_value_legs :: "trade_value_leg list"

record trade_proof_leg =
  tl_tenant :: tenant_id
  tl_commit :: commit_ref
  tl_state_proofs :: "resource_state_proof list"

record trade_proof =
  tp_schema :: string
  tp_trade_id :: string
  tp_summary :: trade_summary
  tp_legs :: "trade_proof_leg list"

section \<open>Assembly\<close>

fun trade_legs ::
  "trade_side list \<Rightarrow> (tenant_id \<times> resource_state_proof list) list \<Rightarrow> (trade_proof_leg list, proof_error) result" where
  "trade_legs sides [] = Ok []"
| "trade_legs sides ((tenant, state_proofs) # rest) =
    (if \<not> list_ex (\<lambda>side. td_tenant side = tenant) sides then Err (ProofTradeMissingSide tenant)
     else case state_proofs of
         [] \<Rightarrow> trade_legs sides rest
       | first # _ \<Rightarrow>
           map_ok (\<lambda>legs. \<lparr>tl_tenant = tenant, tl_commit = rp_commit first, tl_state_proofs = state_proofs\<rparr> # legs)
             (trade_legs sides rest))"

definition build_trade_proof ::
  "trade_record \<Rightarrow> (tenant_id \<times> resource_state_proof list) list \<Rightarrow> (trade_proof, proof_error) result" where
  "build_trade_proof rec proofs =
    map_ok (\<lambda>legs. \<lparr>tp_schema = TRADE_PROOF_SCHEMA, tp_trade_id = tr_trade_id rec,
      tp_summary = \<lparr>ts_trade_id = tr_trade_id rec, ts_status = tr_status rec, ts_sides = tr_sides rec,
        ts_value_legs = tr_value_legs rec\<rparr>,
      tp_legs = sort_key tl_tenant legs\<rparr>) (trade_legs (tr_sides rec) proofs)"

section \<open>Verification\<close>

type_synonym 'k commits_by_id = "(string, commit signed \<times> 'k) btree_map"

definition side_of :: "trade_side list \<Rightarrow> trade_proof_leg \<Rightarrow> (trade_side, proof_error) result" where
  "side_of sides leg = ok_or (find (\<lambda>side. td_tenant side = tl_tenant leg) sides) (ProofTradeMissingSide (tl_tenant leg))"

definition check_leg_count :: "trade_side list \<Rightarrow> trade_proof_leg \<Rightarrow> (unit, proof_error) result" where
  "check_leg_count sides leg =
    and_then (side_of sides leg) (\<lambda>side.
    if length (tl_state_proofs leg) \<noteq> length (td_settle_assets side)
    then Err (ProofTradeTruncated (length (td_settle_assets side)) (length (tl_state_proofs leg))) else Ok ())"

definition check_settled ::
  "'k proof_env \<Rightarrow> 'k commits_by_id \<Rightarrow> trade_side \<Rightarrow> resource_state_proof \<Rightarrow> (unit, proof_error) result" where
  "check_settled env commits side p =
    and_then (ok_or (btree_get commits (cr_commit_id (rp_commit p))) (ProofKeyNotFound (cr_commit_id (rp_commit p)))) (\<lambda>(sg, vk).
    and_then (derive_state_key (pe_sha env) p) (\<lambda>key.
    and_then (verify_bundle env p sg vk key) (\<lambda>_.
    if \<not> list_ex (\<lambda>asset. asset = rp_resource_id p) (td_settle_assets side)
    then Err (ProofResourceMismatch (td_to_owner side) (rp_resource_id p))
    else
      and_then (owner_of (rp_claimed_state p)) (\<lambda>owner.
      if owner \<noteq> td_to_owner side then Err (ProofSubjectMismatch (td_to_owner side) owner)
      else if er_operation (rp_latest_event p) \<noteq> ''trade.settle''
      then Err (ProofTradeOperation (er_operation (rp_latest_event p))) else Ok ()))))"

definition verify_trade_proof :: "'k proof_env \<Rightarrow> trade_proof \<Rightarrow> 'k commits_by_id \<Rightarrow> (unit, proof_error) result" where
  "verify_trade_proof env p commits =
    (let sides = ts_sides (tp_summary p) in
     if tp_schema p \<noteq> TRADE_PROOF_SCHEMA then Err (ProofUnsupportedSchema (tp_schema p))
     else if ts_trade_id (tp_summary p) \<noteq> tp_trade_id p
     then Err (ProofTradeIdMismatch (ts_trade_id (tp_summary p)) (tp_trade_id p))
     else
       and_then (for_each (check_leg_count sides) (tp_legs p)) (\<lambda>_.
       if length (tp_legs p) \<noteq> length sides then Err (ProofTradeTruncated (length sides) (length (tp_legs p)))
       else for_each (\<lambda>leg. and_then (side_of sides leg) (\<lambda>side.
         for_each (check_settled env commits side) (tl_state_proofs leg))) (tp_legs p)))"

text \<open>The loops of \<^verbatim>\<open>verify_trade\<close> over the legs and their proofs that load each commit once.\<close>

fun load_commits ::
  "proof_ports \<Rightarrow> (tenant_id \<Rightarrow> 'k option) \<Rightarrow> (tenant_id \<times> string) list \<Rightarrow> 'k commits_by_id \<Rightarrow>
    ('k commits_by_id, proof_error) result" where
  "load_commits ports key_for_tenant [] commits = Ok commits"
| "load_commits ports key_for_tenant ((tenant, commit_id) # rest) commits =
    (if btree_get commits commit_id \<noteq> None then load_commits ports key_for_tenant rest commits
     else
       and_then (stored_commit ports tenant commit_id) (\<lambda>sg.
       and_then (ok_or (key_for_tenant tenant) (ProofKeyNotFound tenant)) (\<lambda>vk.
       load_commits ports key_for_tenant rest (btree_insert commit_id (sg, vk) commits))))"

definition service_verify_trade ::
  "'k proof_env \<Rightarrow> proof_ports \<Rightarrow> (tenant_id \<Rightarrow> 'k option) \<Rightarrow> trade_proof \<Rightarrow> (unit, proof_error) result" where
  "service_verify_trade env ports key_for_tenant p =
    and_then (load_commits ports key_for_tenant
      (concat (map (\<lambda>leg. map (\<lambda>s. (tl_tenant leg, cr_commit_id (rp_commit s))) (tl_state_proofs leg)) (tp_legs p))) [])
      (verify_trade_proof env p)"

section \<open>What an accepted trade proof shows\<close>

lemma side_of_Ok: "side_of sides leg = Ok side \<Longrightarrow> side \<in> set sides \<and> td_tenant side = tl_tenant leg"
  by (auto simp: side_of_def ok_or_eq_Ok find_Some_iff in_set_conv_nth)

lemma owner_of_Ok: "owner_of state = Ok owner \<Longrightarrow> rs_owner state = Some owner \<and> owner \<noteq> []"
  by (auto simp: owner_of_def split: if_splits)

lemma check_settled_Ok:
  assumes "check_settled env commits side p = Ok ()"
  obtains sg vk key where "btree_get commits (cr_commit_id (rp_commit p)) = Some (sg, vk)"
    and "derive_state_key (pe_sha env) p = Ok key" and "verify_bundle env p sg vk key = Ok ()"
    and "rp_resource_id p \<in> set (td_settle_assets side)" and "rs_owner (rp_claimed_state p) = Some (td_to_owner side)"
    and "er_operation (rp_latest_event p) = ''trade.settle''"
  using assms by (fastforce simp: check_settled_def list_ex_iff dest: owner_of_Ok split: if_splits)

lemma verify_trade_proof_Ok:
  "verify_trade_proof env p commits = Ok () \<longleftrightarrow>
    tp_schema p = TRADE_PROOF_SCHEMA \<and> ts_trade_id (tp_summary p) = tp_trade_id p \<and>
    length (tp_legs p) = length (ts_sides (tp_summary p)) \<and>
    (\<forall>leg \<in> set (tp_legs p). \<exists>side. side_of (ts_sides (tp_summary p)) leg = Ok side \<and>
      length (tl_state_proofs leg) = length (td_settle_assets side) \<and>
      (\<forall>s \<in> set (tl_state_proofs leg). check_settled env commits side s = Ok ()))"
  by (fastforce simp: verify_trade_proof_def check_leg_count_def Let_def split: if_splits)

text \<open>C12.
  What an accepted trade proof shows of each asset it proves: a side of the summary for the leg's
  tenant settles the asset to an owner, the claimed state is a unique asset of that owner, and the
  tree behind the state root of the commit that the proof names holds that state under the derived
  key, unless hashed strings collide. The trade has as many legs as sides.
\<close>
theorem trade_proof_shows_owner:
  assumes "fixed_width (pe_sha env)" and "defaults_ok (pe_sha env)" and "leaves_ok (ac_leaves acc)"
    and "verify_trade_proof env p commits = Ok ()"
    and "leg \<in> set (tp_legs p)" and "s \<in> set (tl_state_proofs leg)"
    and "btree_get commits (cr_commit_id (rp_commit s)) = Some (sg, vk)"
    and "co_next_state_root (sg_body sg) = compute_root (pe_sha env) acc"
    and "list_all (\<lambda>d. length d = HASH_BYTE_LEN) (sm_path (rp_state_inclusion_proof s))"
    and "derive_state_key (pe_sha env) s = Ok key" and "key \<noteq> replicate 32 0"
  shows "length (tp_legs p) = length (ts_sides (tp_summary p)) \<and>
    (\<exists>side. side \<in> set (ts_sides (tp_summary p)) \<and> td_tenant side = tl_tenant leg \<and>
      rp_resource_id s \<in> set (td_settle_assets side) \<and> rs_owner (rp_claimed_state s) = Some (td_to_owner side)) \<and>
    sc_tenant_id (co_scope (sg_body sg)) = Some (rp_tenant_id s) \<and>
    (\<exists>bytes. pe_state_bytes env (rp_claimed_state s) = Ok bytes \<and>
      (btree_get (ac_leaves acc) key = Some (pe_sha env bytes) \<or>
       collision (pe_sha env)
         (bundle_strings (pe_sha env) acc key (pe_sha env bytes) (rp_state_inclusion_proof s))))"
proof -
  obtain side where len: "length (tp_legs p) = length (ts_sides (tp_summary p))"
    and side: "side_of (ts_sides (tp_summary p)) leg = Ok side" and settled: "check_settled env commits side s = Ok ()"
    using assms(4-6) unfolding verify_trade_proof_Ok by blast
  have ok: "verify_bundle env s sg vk key = Ok ()" and facts: "rp_resource_id s \<in> set (td_settle_assets side)"
    "rs_owner (rp_claimed_state s) = Some (td_to_owner side)"
    by (rule check_settled_Ok [OF settled], use assms(7,10) in simp)+
  show ?thesis
    by (rule verify_bundle_Ok [OF ok])
      (use len side_of_Ok [OF side] facts assms(8)
        bundle_digest [OF assms(1-3) derived_key_width [OF assms(1,10)] assms(11,9)] in auto)
qed

section \<open>What its counts do not exclude\<close>

definition ex_settle :: resource_state_proof where
  "ex_settle = ex_bundle\<lparr>rp_latest_event := \<lparr>er_event_id = ''evt_0'', er_operation = ''trade.settle''\<rparr>\<rparr>"

definition ex_side :: "tenant_id \<Rightarrow> resource_id list \<Rightarrow> trade_side" where
  "ex_side tenant assets = \<lparr>td_tenant = tenant, td_settle_assets = assets, td_from_owner = ''bob'',
    td_to_owner = ''alice'', td_settle_commit = rp_commit ex_bundle, td_settle_commits_by_asset = [],
    td_settle_event_ids = [''evt_0'']\<rparr>"

definition ex_leg :: "tenant_id \<Rightarrow> nat \<Rightarrow> trade_proof_leg" where
  "ex_leg tenant n = \<lparr>tl_tenant = tenant, tl_commit = rp_commit ex_bundle, tl_state_proofs = replicate n ex_settle\<rparr>"

definition ex_trade :: "trade_side list \<Rightarrow> trade_proof_leg list \<Rightarrow> trade_proof" where
  "ex_trade sides legs = \<lparr>tp_schema = TRADE_PROOF_SCHEMA, tp_trade_id = ''trd_1'',
    tp_summary = \<lparr>ts_trade_id = ''trd_1'', ts_status = TradeSettled, ts_sides = sides, ts_value_legs = []\<rparr>,
    tp_legs = legs\<rparr>"

definition only_tenant :: "tenant_id \<Rightarrow> byte option" where
  "only_tenant tenant = (if tenant = ''t'' then Some 5 else None)"

lemma ex_settle_ok: "verify_bundle ex_env ex_settle ex_signed 5 (replicate 32 7) = Ok ()"
proof -
  have "verify_bundle ex_env ex_settle ex_signed 5 key = verify_bundle ex_env ex_bundle ex_signed 5 key" for key
    unfolding verify_bundle_def ex_env_answers verify_claimed_state_def ex_settle_def by simp
  then show ?thesis using ex_bundle_ok by simp
qed

lemma ex_settled:
  assumes "''asset:1'' \<in> set assets"
  shows "check_settled ex_env [(''cmt_1'', ex_signed, 5)] (ex_side tenant assets) ex_settle = Ok ()"
proof -
  have "derive_state_key table_hash ex_settle = derive_state_key table_hash ex_bundle"
    by (simp add: ex_settle_def derive_state_key_def split: option.split)
  moreover have "cr_commit_id (rp_commit ex_settle) = ''cmt_1''" by (simp add: ex_settle_def ex_bundle_def)
  moreover have "rp_resource_id ex_settle = ''asset:1''" "owner_of (rp_claimed_state ex_settle) = Ok ''alice''"
    "er_operation (rp_latest_event ex_settle) = ''trade.settle''"
    by (simp_all add: ex_settle_def ex_bundle_def owner_of_def ex_asset_def)
  ultimately show ?thesis
    using assms by (simp add: check_settled_def ex_parts ex_settle_ok ex_side_def list_ex_iff ex_bundle_key)
qed

theorem trade_proof_shows_owner_witness:
  "let p = ex_trade [ex_side ''t'' [''asset:1'']] [ex_leg ''t'' 1] in
   verify_trade_proof ex_env p [(''cmt_1'', ex_signed, 5)] = Ok () \<and>
   (\<exists>side. side \<in> set (ts_sides (tp_summary p)) \<and> td_tenant side = ''t'' \<and>
     rs_owner (rp_claimed_state ex_settle) = Some (td_to_owner side))"
proof -
  let ?p = "ex_trade [ex_side ''t'' [''asset:1'']] [ex_leg ''t'' 1]"
  let ?leg = "ex_leg ''t'' 1"
  have ok: "verify_trade_proof ex_env ?p [(''cmt_1'', ex_signed, 5)] = Ok ()"
    using ex_settled [of "[''asset:1'']" "''t''"]
    by (simp add: verify_trade_proof_Ok ex_trade_def side_of_def ex_leg_def) (simp add: ex_side_def)
  have parts: "rp_state_inclusion_proof ex_settle = rp_state_inclusion_proof ex_bundle"
    "btree_get [(''cmt_1'', ex_signed, 5 :: byte)] (cr_commit_id (rp_commit ex_settle)) = Some (ex_signed, 5)"
    "derive_state_key table_hash ex_settle = derive_state_key table_hash ex_bundle"
    "?leg \<in> set (tp_legs ?p)" "ex_settle \<in> set (tl_state_proofs ?leg)" "tl_tenant ?leg = ''t''"
    by (simp_all add: ex_settle_def ex_bundle_def derive_state_key_def ex_trade_def ex_leg_def split: option.split)
  have widths: "list_all (\<lambda>d. length d = HASH_BYTE_LEN) (sm_path (rp_state_inclusion_proof ex_settle))"
    using issued_path_widths [OF table_hash_width ex_vault_ok] unfolding parts(1)
    by (simp add: ex_bundle_def sparse_proof_from_inclusion_def sparse_merkle_proof_new_def ex_inclusion_def)
  have "replicate 32 (7 :: byte) \<noteq> replicate 32 0" by code_simp
  then have "\<exists>side. side \<in> set (ts_sides (tp_summary ?p)) \<and> td_tenant side = tl_tenant ?leg \<and>
      rp_resource_id ex_settle \<in> set (td_settle_assets side) \<and>
      rs_owner (rp_claimed_state ex_settle) = Some (td_to_owner side)"
    using trade_proof_shows_owner [of ex_env ex_vault ?p _ ?leg ex_settle ex_signed 5 "replicate 32 7"]
      table_hash_width table_hash_defaults ex_vault_ok ok parts(2-5) widths ex_bundle_key
    by (auto simp: ex_parts)
  with ok show ?thesis unfolding Let_def parts(6) by blast
qed

lemma ex_loaded:
  assumes "\<forall>x \<in> set xs. snd x = ''cmt_1''"
  shows "load_commits ex_stores only_tenant ((''t'', ''cmt_1'') # xs) [] = Ok [(''cmt_1'', ex_signed, 5)]"
proof -
  have "load_commits ex_stores only_tenant xs [(''cmt_1'', ex_signed, 5)] = Ok [(''cmt_1'', ex_signed, 5)]"
    using assms by (induction xs) auto
  then show ?thesis by (simp add: stored_commit_def ex_stores_def only_tenant_def)
qed

lemma ex_trade_verifies:
  assumes "legs = ex_leg ''t'' (Suc n) # rest"
    and "\<forall>leg \<in> set legs. \<exists>assets. tl_state_proofs leg = replicate (length assets) ex_settle \<and> ''asset:1'' \<in> set assets \<and>
      find (\<lambda>side. td_tenant side = tl_tenant leg) sides = Some (ex_side (tl_tenant leg) assets)"
    and "length legs = length sides"
  shows "service_verify_trade ex_env ex_stores only_tenant (ex_trade sides legs) = Ok ()"
proof -
  let ?pairs = "concat (map (\<lambda>leg. map (\<lambda>s. (tl_tenant leg, cr_commit_id (rp_commit s))) (tl_state_proofs leg)) legs)"
  have settle_id: "cr_commit_id (rp_commit ex_settle) = ''cmt_1''" by (simp add: ex_settle_def ex_bundle_def)
  have proofs: "set (tl_state_proofs leg) \<subseteq> {ex_settle}" if "leg \<in> set legs" for leg
    using assms(2) that by fastforce
  have "\<forall>x \<in> set ?pairs. snd x = ''cmt_1''" using proofs settle_id by fastforce
  moreover obtain xs where "?pairs = (''t'', ''cmt_1'') # xs"
    unfolding assms(1) by (simp add: ex_leg_def settle_id)
  ultimately have loaded: "load_commits ex_stores only_tenant ?pairs [] = Ok [(''cmt_1'', ex_signed, 5)]"
    using ex_loaded [of xs] by simp
  have "\<exists>side. side_of sides leg = Ok side \<and> length (tl_state_proofs leg) = length (td_settle_assets side) \<and>
      (\<forall>s \<in> set (tl_state_proofs leg). check_settled ex_env [(''cmt_1'', ex_signed, 5)] side s = Ok ())"
    if leg: "leg \<in> set legs" for leg
  proof -
    obtain assets where "tl_state_proofs leg = replicate (length assets) ex_settle" "''asset:1'' \<in> set assets"
      "find (\<lambda>side. td_tenant side = tl_tenant leg) sides = Some (ex_side (tl_tenant leg) assets)"
      using assms(2) leg by blast
    then show ?thesis
      using ex_settled [of assets "tl_tenant leg"]
      by (intro exI [of _ "ex_side (tl_tenant leg) assets"]) (auto simp: side_of_def ex_side_def)
  qed
  then show ?thesis
    using loaded assms(3) by (simp add: service_verify_trade_def verify_trade_proof_Ok ex_trade_def)
qed

text \<open>
  The guards on the counts do not make a proof complete. A leg whose side settles two assets is
  accepted with one of them proven twice.
\<close>
lemma trade_proof_can_omit_asset:
  "service_verify_trade ex_env ex_stores only_tenant
    (ex_trade [ex_side ''t'' [''asset:1'', ''asset:2'']] [ex_leg ''t'' 2]) = Ok ()"
  by (rule ex_trade_verifies [where n = 1 and rest = "[]"])
    (auto simp: ex_leg_def ex_side_def numeral_2_eq_2 intro!: exI [of _ "[''asset:1'', ''asset:2'']"])

text \<open>
  Two legs of one tenant stand in for the two sides of a trade: the other side is not proven.
\<close>
lemma trade_proof_can_omit_side:
  "service_verify_trade ex_env ex_stores only_tenant
    (ex_trade [ex_side ''t'' [''asset:1''], ex_side ''u'' [''asset:9'']] [ex_leg ''t'' 1, ex_leg ''t'' 1]) = Ok ()"
  by (rule ex_trade_verifies [where n = 0 and rest = "[ex_leg ''t'' 1]"])
    (auto simp: ex_leg_def ex_side_def intro!: exI [of _ "[''asset:1'']"])

text \<open>
  A leg of one tenant is accepted with the state proof of another tenant, whose commit and key are
  then the only ones consulted: for the tenant of the leg no key is known here.
\<close>
lemma trade_leg_accepts_foreign_proof:
  "service_verify_trade ex_env ex_stores only_tenant
    (ex_trade [ex_side ''t'' [''asset:1''], ex_side ''u'' [''asset:1'']] [ex_leg ''t'' 1, ex_leg ''u'' 1]) = Ok () \<and>
   only_tenant ''u'' = None"
  by (intro conjI ex_trade_verifies [where n = 0 and rest = "[ex_leg ''u'' 1]"])
    (auto simp: ex_leg_def ex_side_def only_tenant_def intro!: exI [of _ "[''asset:1'']"])

end
