(* ===== verification/Durable_Persist.thy ===== *)
theory Durable_Persist
  imports Commit_Forming Proof_Verify Executor_Batch "HOL-Library.Sublist"
begin

text \<open>
  How a signed commit is persisted (\<^verbatim>\<open>persist.rs\<close> of \<^verbatim>\<open>statechronicle-commit\<close> and \<^verbatim>\<open>ledger_store.rs\<close> of
  \<^verbatim>\<open>statechronicle-ports\<close>): the checks on the commit, its events, projections and outbox rows, the
  durable write inside one ledger transaction, its verified entry points, and the older path over
  separate stores. The stores are ports over a world; BCS and SHA-256 are the fields of \<open>persist_codec\<close>.
\<close>

section \<open>Ports and requests\<close>

definition MAX_EVENTS_PER_COMMIT :: nat where
  "MAX_EVENTS_PER_COMMIT = 256"

definition MAX_EVENT_BATCH_BYTES :: nat where
  "MAX_EVENT_BATCH_BYTES = 4 * 1024 * 1024"

definition MAX_OUTBOX_PAYLOAD_BYTES :: nat where
  "MAX_OUTBOX_PAYLOAD_BYTES = 1024 * 1024"

record outbox_record =
  ob_delivery_key :: string
  ob_tenant :: tenant_id
  ob_commit_id :: string
  ob_payload_digest :: content_digest
  ob_payload :: "byte list"

datatype idempotency_claim =
    NewReservation string
  | ClaimCommitted string
  | InProgress string int
  | ConflictDifferentPayload

datatype ledger_store_error =
    LedgerConflict string
  | LedgerIdempotency string
  | LedgerUnavailable string
  | LedgerClosed
  | LedgerInvariant string

fun ledger_store_error_to_string :: "ledger_store_error \<Rightarrow> string" where
  "ledger_store_error_to_string (LedgerConflict m) = ''ledger transaction conflict: '' @ m"
| "ledger_store_error_to_string (LedgerIdempotency m) = ''ledger idempotency error: '' @ m"
| "ledger_store_error_to_string (LedgerUnavailable m) = ''ledger store unavailable: '' @ m"
| "ledger_store_error_to_string LedgerClosed = ''ledger transaction is closed''"
| "ledger_store_error_to_string (LedgerInvariant m) = ''ledger invariant violation: '' @ m"

fun is_retryable :: "ledger_store_error \<Rightarrow> bool" where
  "is_retryable (LedgerConflict m) = True"
| "is_retryable (LedgerUnavailable m) = True"
| "is_retryable _ = False"

text \<open>The store and its open transaction: the operations of \<^verbatim>\<open>LedgerStore\<close> and \<^verbatim>\<open>LedgerTransaction\<close> that are called.\<close>

type_synonym ('w, 'a) ledger_call = "('w, 'a, ledger_store_error) port"

record 'w ledger =
  lg_begin :: "tenant_id \<Rightarrow> ('w, unit) ledger_call"
  lg_claim_idempotency :: "tenant_id \<Rightarrow> intent \<Rightarrow> content_digest \<Rightarrow> ('w, idempotency_claim) ledger_call"
  lg_append_events :: "event list \<Rightarrow> ('w, unit) ledger_call"
  lg_append_commit :: "commit signed \<Rightarrow> ('w, unit) ledger_call"
  lg_upsert_projection :: "state_projection \<Rightarrow> ('w, unit) ledger_call"
  lg_enqueue_outbox :: "outbox_record \<Rightarrow> ('w, unit) ledger_call"
  lg_finalize_idempotency :: "tenant_id \<Rightarrow> string \<Rightarrow> string \<Rightarrow> string \<Rightarrow> ('w, unit) ledger_call"
  lg_commit :: "('w, unit) ledger_call"
  lg_rollback :: "('w, unit) ledger_call"

record committed_event =
  ce_event :: event
  ce_state_type :: state_type

datatype durable_persist_result = DurableCommitted string | DurableReplay string

record durable_commit_request =
  dr_principal :: authenticated_principal
  dr_intent :: intent
  dr_payload_digest :: content_digest
  dr_entries :: "committed_event list"
  dr_commit :: "commit signed"
  dr_projections :: "state_projection list"
  dr_outbox :: "outbox_record list"

record persist_codec =
  pc_sha :: sha256
  pc_intent_bytes :: "intent \<Rightarrow> (byte list, string) result"
  pc_state_bytes :: "resource_state \<Rightarrow> (byte list, string) result"
  pc_event_bytes :: event_codec
  pc_commit_bytes :: "commit signed \<Rightarrow> (byte list, string) result"

section \<open>Checks\<close>

definition bad_subject_text :: "string \<Rightarrow> bool" where
  "bad_subject_text s \<longleftrightarrow> s = [] \<or> char_count s > MAX_ID_LENGTH \<or> has_control s"

definition commit_tenant :: "commit \<Rightarrow> (tenant_id, commit_error) result" where
  "commit_tenant body =
    (if co_schema body \<noteq> COMMIT_SCHEMA then Err (CommitStore ''commit schema is not the supported v0 schema'')
     else
       and_then (map_err (\<lambda>e. CommitStore (''invalid commit id: '' @ domain_error_to_string e))
         (commit_id_new (co_commit_id body))) (\<lambda>_.
       and_then (case co_parent_commit_id body of
           Some parent \<Rightarrow> map_err (\<lambda>e. CommitStore (''invalid parent commit id: '' @ domain_error_to_string e))
             (map_ok (\<lambda>_. ()) (commit_id_new parent))
         | None \<Rightarrow> Ok ()) (\<lambda>_.
       and_then (map_err (\<lambda>e. CommitStore (''invalid commit profile: '' @ domain_error_to_string e))
         (profile_id_new (co_profile body))) (\<lambda>_.
       if bad_subject_text (co_executor body)
       then Err (CommitStore ''commit executor has an invalid subject identifier'')
       else if sc_kind (co_scope body) \<noteq> TenantScope
       then Err (CommitStore (''commit persistence requires a tenant-scoped commit; '' @
         ''global checkpoint commits contain tenant roots, not direct events''))
       else
         and_then (ok_or (sc_tenant_id (co_scope body))
           (CommitStore ''tenant-scoped commit is missing its tenant id'')) (\<lambda>tenant.
         if bad_subject_text tenant then Err (CommitStore ''tenant-scoped commit has an invalid tenant identifier'')
         else Ok tenant)))))"

definition state_digest :: "persist_codec \<Rightarrow> resource_state \<Rightarrow> (content_digest, commit_error) result" where
  "state_digest cd state = map_err CommitCore (canonicalize_and_digest (pc_sha cd) (pc_state_bytes cd) state)"

definition check_custom_transition :: "resource_state \<Rightarrow> resource_state \<Rightarrow> (unit, commit_error) result" where
  "check_custom_transition before after =
    (case after of
       Custom a \<Rightarrow>
         (case before of
            Custom b \<Rightarrow>
              and_then (map_err CommitDomain (profile_id_new (cu_domain a))) (\<lambda>_.
              if cu_schema_version a = 0 \<or> cu_domain b \<noteq> cu_domain a \<or> cu_schema_version b \<noteq> cu_schema_version a
              then Err (CommitInvalidEvent ''custom transition changes domain/schema'') else Ok ())
          | _ \<Rightarrow> Err (CommitInvalidEvent ''custom before-state required''))
     | _ \<Rightarrow> Ok ())"

definition validate_committed_event :: "persist_codec \<Rightarrow> committed_event \<Rightarrow> (unit, commit_error) result" where
  "validate_committed_event cd entry =
    (let event = ce_event entry in
     if ev_schema event \<noteq> ''statechronicle.event.v0''
     then Err (CommitInvalidEvent ''event schema is not the supported v0 schema'')
     else
       and_then (map_err (\<lambda>e. CommitInvalidEvent (''invalid event id: '' @ domain_error_to_string e))
         (event_id_new (ev_event_id event))) (\<lambda>_.
       and_then (map_err (\<lambda>e. CommitInvalidEvent (''invalid intent id: '' @ domain_error_to_string e))
         (intent_id_new (ev_intent_id event))) (\<lambda>_.
       and_then (ok_or (checked_add_word (sc_version (ev_before event)) 1)
         (CommitInvalidEvent ''event before-state version overflows'')) (\<lambda>expected_after.
       if sc_version (ev_after event) \<noteq> expected_after
       then Err (CommitInvalidEvent ''event versions must advance by exactly one'')
       else if ce_state_type entry \<noteq> rs_state_type (sc_state (ev_before event)) \<or>
         ce_state_type entry \<noteq> rs_state_type (sc_state (ev_after event))
       then Err (CommitInvalidEvent ''event state type does not match committed entry'')
       else
         and_then (check_custom_transition (sc_state (ev_before event)) (sc_state (ev_after event))) (\<lambda>_.
         and_then (state_digest cd (sc_state (ev_before event))) (\<lambda>before_digest.
         if before_digest \<noteq> sc_state_hash (ev_before event)
         then Err (CommitInvalidEvent ''event state digest does not match state'')
         else
           and_then (state_digest cd (sc_state (ev_after event))) (\<lambda>after_digest.
           if after_digest \<noteq> sc_state_hash (ev_after event)
           then Err (CommitInvalidEvent ''event state digest does not match state'') else Ok ())))))))"

fun validate_committed_events ::
  "persist_codec \<Rightarrow> string list \<Rightarrow> committed_event list \<Rightarrow> (unit, commit_error) result" where
  "validate_committed_events cd event_ids [] = Ok ()"
| "validate_committed_events cd event_ids (entry # rest) =
    and_then (validate_committed_event cd entry) (\<lambda>_.
    if ev_event_id (ce_event entry) \<in> set event_ids
    then Err (CommitInvalidEvent (''duplicate event id '' @ quoted (ev_event_id (ce_event entry)) @ '' in durable commit''))
    else validate_committed_events cd (ev_event_id (ce_event entry) # event_ids) rest)"

definition validate_event_binding :: "event \<Rightarrow> intent \<Rightarrow> tenant_id \<Rightarrow> (unit, commit_error) result" where
  "validate_event_binding event intent tenant =
    (if ev_tenant_id event \<noteq> tenant \<or> ev_intent_id event \<noteq> in_intent_id intent \<or>
        ev_actor event \<noteq> in_actor intent \<or> ev_operation event \<noteq> in_operation intent \<or>
        ev_resource_id event \<noteq> in_resource_id intent \<or>
        in_state_type intent \<noteq> Some (rs_state_type (sc_state (ev_after event)))
     then Err (CommitStore ''durable event is not bound to the authenticated intent scope or operation'')
     else case sc_state (ev_after event) of
         Custom custom \<Rightarrow>
           and_then (ok_or (Option.bind (btree_get (in_inputs intent) ''profile'') as_str)
             (CommitInvalidEvent ''missing custom domain'')) (\<lambda>text.
           and_then (map_err CommitDomain (profile_id_new text)) (\<lambda>domain.
           if in_state_type intent \<noteq> Some CustomT \<or> cu_domain custom \<noteq> domain \<or>
             Option.bind (btree_get (in_inputs intent) ''schema_version'') as_u64 \<noteq> Some (ucast (cu_schema_version custom))
           then Err (CommitInvalidEvent ''custom event domain/schema does not match intent'') else Ok ()))
       | _ \<Rightarrow> Ok ())"

definition validate_durable_intent :: "persist_codec \<Rightarrow> intent \<Rightarrow> (unit, commit_error) result" where
  "validate_durable_intent cd intent =
    map_err (\<lambda>e. CommitStore (''invalid durable intent: '' @ intent_error_to_string e))
      (map_ok (\<lambda>_. ()) (try_from_intent (pc_intent_bytes cd) intent None))"

definition projections_for :: "string \<Rightarrow> committed_event list \<Rightarrow> state_projection list" where
  "projections_for commit_id entries =
    map (\<lambda>entry.
      let event = ce_event entry in
      \<lparr>sp_tenant_id = ev_tenant_id event, sp_resource_id = ev_resource_id event, sp_state_type = ce_state_type entry,
       sp_version = sc_version (ev_after event), sp_last_event_id = ev_event_id event, sp_last_commit_id = commit_id,
       sp_state_hash = sc_state_hash (ev_after event), sp_state = sc_state (ev_after event)\<rparr>) entries"

text \<open>The derived equality of projections, in which amounts compare by value.\<close>

definition projection_eq :: "state_projection \<Rightarrow> state_projection \<Rightarrow> bool" where
  "projection_eq p q \<longleftrightarrow>
    sp_tenant_id p = sp_tenant_id q \<and> sp_resource_id p = sp_resource_id q \<and> sp_state_type p = sp_state_type q \<and>
    sp_version p = sp_version q \<and> sp_last_event_id p = sp_last_event_id q \<and>
    sp_last_commit_id p = sp_last_commit_id q \<and> sp_state_hash p = sp_state_hash q \<and> rs_eq (sp_state p) (sp_state q)"

definition validate_projection_bindings ::
  "string \<Rightarrow> committed_event list \<Rightarrow> state_projection list \<Rightarrow> (unit, commit_error) result" where
  "validate_projection_bindings commit_id entries projections =
    (if list_ex (\<lambda>entry. ce_state_type entry \<noteq> rs_state_type (sc_state (ev_after (ce_event entry)))) entries
     then Err (CommitStore ''committed event state type does not match its typed after-state'')
     else if projections = [] then Ok ()
     else if \<not> list_all2 projection_eq projections (projections_for commit_id entries)
     then Err (CommitStore ''durable projections do not match committed event entries'') else Ok ())"

definition validate_outbox_record :: "sha256 \<Rightarrow> outbox_record \<Rightarrow> (unit, commit_error) result" where
  "validate_outbox_record sha row =
    (if ob_delivery_key row = [] \<or> length (ob_delivery_key row) > MAX_QUOTA_KEY_BYTES \<or>
        has_control (ob_delivery_key row) \<or> sha (ob_payload row) \<noteq> ob_payload_digest row
     then Err (CommitStore ''durable outbox payload or delivery key is invalid'')
     else map_err (\<lambda>e. CommitInvalidEvent (core_error_to_string e))
       (check_size ''outbox_payload'' MAX_OUTBOX_PAYLOAD_BYTES (length (ob_payload row))))"

fun validate_outbox_records :: "sha256 \<Rightarrow> string list \<Rightarrow> outbox_record list \<Rightarrow> (unit, commit_error) result" where
  "validate_outbox_records sha delivery_keys [] = Ok ()"
| "validate_outbox_records sha delivery_keys (row # rest) =
    and_then (validate_outbox_record sha row) (\<lambda>_.
    if ob_delivery_key row \<in> set delivery_keys
    then Err (CommitStore ''durable outbox contains duplicate delivery keys'')
    else validate_outbox_records sha (ob_delivery_key row # delivery_keys) rest)"

definition validate_durable_scope :: "intent \<Rightarrow> authenticated_principal \<Rightarrow> tenant_id \<Rightarrow> (unit, commit_error) result" where
  "validate_durable_scope intent caller tenant =
    (if in_tenant_id intent \<noteq> tenant \<or> pi_tenant caller \<noteq> tenant \<or> pi_subject caller \<noteq> in_actor intent
     then Err (CommitStore (authorization_error_to_string
       (ContextMismatch ''principal, intent, and commit tenant/actor are not consistently bound'')))
     else Ok ())"

text \<open>The byte total of the events, in \<^verbatim>\<open>usize\<close> with saturation; an encoding error stops it.\<close>

fun event_batch_bytes :: "event_codec \<Rightarrow> nat \<Rightarrow> event list \<Rightarrow> (nat, string) result" where
  "event_batch_bytes to_bytes size_so_far [] = Ok size_so_far"
| "event_batch_bytes to_bytes size_so_far (event # rest) =
    and_then (to_bytes event) (\<lambda>bytes.
    event_batch_bytes to_bytes (min (2 ^ 64 - 1) (size_so_far + length bytes)) rest)"

definition check_sizes :: "persist_codec \<Rightarrow> commit signed \<Rightarrow> event list \<Rightarrow> (unit, commit_error) result" where
  "check_sizes cd sg events =
    (if events = [] then Err (CommitInvalidEvent ''durable commit must contain at least one event'')
     else if length events > MAX_EVENTS_PER_COMMIT
     then Err (CommitInvalidEvent (''event count '' @ nat_to_string (length events) @ '' exceeds durable limit '' @
       nat_to_string MAX_EVENTS_PER_COMMIT))
     else
       and_then (map_err CommitInvalidEvent (event_batch_bytes (pc_event_bytes cd) 0 events)) (\<lambda>event_bytes.
       and_then (map_err (\<lambda>e. CommitInvalidEvent (core_error_to_string e))
         (check_size ''event_batch'' MAX_EVENT_BATCH_BYTES event_bytes)) (\<lambda>_.
       and_then (map_err CommitInvalidEvent (pc_commit_bytes cd sg)) (\<lambda>commit_bytes.
       map_err (\<lambda>e. CommitInvalidEvent (core_error_to_string e))
         (check_size ''commit'' MAX_COMMIT_BYTES (length commit_bytes))))))"

text \<open>
  The checks between the authorization and the transaction. The count of at most 256 events always fits a \<^verbatim>\<open>u64\<close>.
\<close>

definition check_request :: "persist_codec \<Rightarrow> tenant_id \<Rightarrow> durable_commit_request \<Rightarrow> (event list, commit_error) result" where
  "check_request cd tenant req =
    (let events = map ce_event (dr_entries req); body = sg_body (dr_commit req) in
     and_then (check_sizes cd (dr_commit req) events) (\<lambda>_.
     and_then (validate_committed_events cd [] (dr_entries req)) (\<lambda>_.
     and_then (for_each (\<lambda>event. validate_event_binding event (dr_intent req) tenant) events) (\<lambda>_.
     and_then (validate_projection_bindings (co_commit_id body) (dr_entries req) (dr_projections req)) (\<lambda>_.
     and_then (for_each (\<lambda>projection.
       if sp_tenant_id projection \<noteq> tenant \<or> sp_last_commit_id projection \<noteq> co_commit_id body
       then Err (CommitStore ''durable projection is not bound to the commit scope'') else Ok ()) (dr_projections req)) (\<lambda>_.
     and_then (validate_outbox_records (pc_sha cd) [] (dr_outbox req)) (\<lambda>_.
     and_then (for_each (\<lambda>row.
       if ob_tenant row \<noteq> tenant \<or> ob_commit_id row \<noteq> co_commit_id body
       then Err (CommitStore ''durable outbox record is not bound to the commit scope'')
       else validate_outbox_record (pc_sha cd) row) (dr_outbox req)) (\<lambda>_.
     if word_of_nat (length events) \<noteq> co_event_count body then Err CommitEventRootMismatch
     else
       and_then (event_root (pc_sha cd) (pc_event_bytes cd) events) (\<lambda>rt.
       if rt \<noteq> co_event_merkle_root body then Err CommitEventRootMismatch else Ok events)))))))))"

section \<open>The durable write\<close>

definition store_error :: "ledger_store_error \<Rightarrow> commit_error" where
  "store_error e = CommitStore (ledger_store_error_to_string e)"

text \<open>A step that rolls the transaction back when it fails, whatever the rollback answers.\<close>

definition or_rollback :: "'w ledger \<Rightarrow> ('w, 'a) ledger_call \<Rightarrow> ('w, 'a, commit_error) port" where
  "or_rollback lg step =
    then_run (outcome step) (\<lambda>r.
    case r of
      Ok x \<Rightarrow> yield x
    | Err e \<Rightarrow> then_run (outcome (lg_rollback lg)) (\<lambda>_. pure (Err (store_error e))))"

fun in_turn :: "('a \<Rightarrow> ('w, unit, 'e) port) \<Rightarrow> 'a list \<Rightarrow> ('w, unit, 'e) port" where
  "in_turn f [] = yield ()"
| "in_turn f (x # xs) = then_run (f x) (\<lambda>_. in_turn f xs)"

definition write_staged ::
  "'w ledger \<Rightarrow> tenant_id \<Rightarrow> event list \<Rightarrow> durable_commit_request \<Rightarrow> string \<Rightarrow>
    ('w, durable_persist_result, commit_error) port" where
  "write_staged lg tenant events req attempt_id =
    (let commit_id = co_commit_id (sg_body (dr_commit req)) in
     then_run (or_rollback lg (lg_append_events lg events)) (\<lambda>_.
     then_run (or_rollback lg (lg_append_commit lg (dr_commit req))) (\<lambda>_.
     then_run (in_turn (\<lambda>projection. or_rollback lg (lg_upsert_projection lg projection)) (dr_projections req)) (\<lambda>_.
     then_run (in_turn (\<lambda>row. or_rollback lg (lg_enqueue_outbox lg row)) (dr_outbox req)) (\<lambda>_.
     then_run (or_rollback lg
       (lg_finalize_idempotency lg tenant (in_intent_id (dr_intent req)) attempt_id commit_id)) (\<lambda>_.
     then_run (on_err store_error (lg_commit lg)) (\<lambda>_.
     yield (DurableCommitted commit_id))))))))"

definition write_durable ::
  "'w ledger \<Rightarrow> tenant_id \<Rightarrow> event list \<Rightarrow> durable_commit_request \<Rightarrow> ('w, durable_persist_result, commit_error) port" where
  "write_durable lg tenant events req =
    then_run (on_err store_error (lg_begin lg tenant)) (\<lambda>_.
    then_run (or_rollback lg (lg_claim_idempotency lg tenant (dr_intent req) (dr_payload_digest req))) (\<lambda>claim.
    case claim of
      ClaimCommitted commit_id \<Rightarrow>
        then_run (on_err store_error (lg_rollback lg)) (\<lambda>_. yield (DurableReplay commit_id))
    | NewReservation attempt_id \<Rightarrow> write_staged lg tenant events req attempt_id
    | InProgress attempt_id lease \<Rightarrow>
        then_run (on_err store_error (lg_rollback lg)) (\<lambda>_.
        pure (Err (CommitStore ''idempotency reservation in progress'')))
    | ConflictDifferentPayload \<Rightarrow>
        then_run (on_err store_error (lg_rollback lg)) (\<lambda>_.
        pure (Err (CommitStore ''idempotency payload conflict'')))))"

definition persist_durable ::
  "persist_codec \<Rightarrow> 'w ledger \<Rightarrow> 'w authorizer \<Rightarrow> durable_commit_request \<Rightarrow>
    ('w, durable_persist_result, commit_error) port" where
  "persist_durable cd lg authorizer req =
    then_run (pure (validate_durable_intent cd (dr_intent req))) (\<lambda>_.
    then_run (pure (commit_tenant (sg_body (dr_commit req)))) (\<lambda>tenant.
    then_run (pure (map_err CommitCore
      (canonicalize_and_digest (pc_sha cd) (pc_intent_bytes cd) (dr_intent req)))) (\<lambda>canonical_digest.
    if canonical_digest \<noteq> dr_payload_digest req then pure (Err CommitPayloadDigestMismatch)
    else
      then_run (pure (validate_durable_scope (dr_intent req) (dr_principal req) tenant)) (\<lambda>_.
      then_run (on_err (\<lambda>e. CommitStore (authorization_error_to_string e))
        (authorizer (dr_principal req) tenant (dr_intent req) (in_resource_id (dr_intent req)))) (\<lambda>_.
      then_run (pure (check_request cd tenant req)) (\<lambda>events.
      write_durable lg tenant events req))))))"

definition persist_durable_verified ::
  "persist_codec \<Rightarrow> 'w ledger \<Rightarrow> 'w authorizer \<Rightarrow> (commit signed \<Rightarrow> (unit, string) result) \<Rightarrow> durable_commit_request \<Rightarrow>
    ('w, durable_persist_result, commit_error) port" where
  "persist_durable_verified cd lg authorizer verifier req =
    then_run (pure (map_err CommitStore (verifier (dr_commit req)))) (\<lambda>_.
    persist_durable cd lg authorizer req)"

text \<open>
  The entry point with metrics. The sink is told the outcome and the milliseconds that passed, and cannot fail.
\<close>

datatype mutation_outcome = MutationCommitted | MutationReplay | MutationRetryableFailure | MutationRejected

record mutation_metric =
  mm_tenant :: tenant_id
  mm_operation :: operation
  mm_outcome :: mutation_outcome
  mm_latency_ms :: "64 word"

fun mutation_outcome_of :: "(durable_persist_result, commit_error) result \<Rightarrow> mutation_outcome" where
  "mutation_outcome_of (Ok (DurableCommitted c)) = MutationCommitted"
| "mutation_outcome_of (Ok (DurableReplay c)) = MutationReplay"
| "mutation_outcome_of (Err (CommitStore m)) =
    (if sublist ''unavailable'' m \<or> sublist ''in progress'' m then MutationRetryableFailure else MutationRejected)"
| "mutation_outcome_of (Err e) = MutationRejected"

definition persist_durable_verified_with_metrics ::
  "persist_codec \<Rightarrow> 'w ledger \<Rightarrow> 'w authorizer \<Rightarrow> (commit signed \<Rightarrow> (unit, string) result) \<Rightarrow>
    ('w \<Rightarrow> 64 word) \<Rightarrow> (mutation_metric \<Rightarrow> 'w \<Rightarrow> 'w) \<Rightarrow> durable_commit_request \<Rightarrow>
    ('w, durable_persist_result, commit_error) port" where
  "persist_durable_verified_with_metrics cd lg authorizer verifier latency record_mutation req =
    then_run (pure (commit_tenant (sg_body (dr_commit req)))) (\<lambda>tenant w.
    case persist_durable_verified cd lg authorizer verifier req w of (r, w') \<Rightarrow>
      (r, record_mutation \<lparr>mm_tenant = tenant, mm_operation = in_operation (dr_intent req),
        mm_outcome = mutation_outcome_of r, mm_latency_ms = latency w'\<rparr> w'))"

section \<open>Separate stores\<close>

record 'w commit_ports =
  cp_put_commit :: "tenant_id \<Rightarrow> commit signed \<Rightarrow> ('w, unit, string) port"
  cp_append_events :: "tenant_id \<Rightarrow> event list \<Rightarrow> ('w, unit, string) port"
  cp_event_publisher :: "((tenant_id \<Rightarrow> event list \<Rightarrow> ('w, unit, string) port) \<times>
    (tenant_id \<Rightarrow> commit signed \<Rightarrow> ('w, unit, string) port)) option"

definition check_persist :: "persist_codec \<Rightarrow> tenant_id \<Rightarrow> commit \<Rightarrow> committed_event list \<Rightarrow> (event list, commit_error) result" where
  "check_persist cd tenant body entries =
    (let events = map ce_event entries in
     if \<not> length events < 2 ^ 64 then Err (CommitInvalidEvent ''event count does not fit in u64'')
     else if word_of_nat (length events) \<noteq> co_event_count body then Err CommitEventRootMismatch
     else
       and_then (validate_committed_events cd [] entries) (\<lambda>_.
       and_then (for_each (\<lambda>event.
         if ev_tenant_id event \<noteq> tenant then Err (CommitStore ''event tenant does not match commit tenant scope'')
         else Ok ()) events) (\<lambda>_.
       and_then (event_root (pc_sha cd) (pc_event_bytes cd) events) (\<lambda>computed_root.
       if computed_root \<noteq> co_event_merkle_root body then Err CommitEventRootMismatch else Ok events))))"

definition persist ::
  "persist_codec \<Rightarrow> 'w commit_ports \<Rightarrow> commit signed \<Rightarrow> committed_event list \<Rightarrow> ('w, unit, commit_error) port" where
  "persist cd ports sg entries =
    then_run (pure (commit_tenant (sg_body sg))) (\<lambda>tenant.
    then_run (pure (check_persist cd tenant (sg_body sg) entries)) (\<lambda>events.
    then_run (on_err CommitStore (cp_put_commit ports tenant sg)) (\<lambda>_.
    then_run (on_err CommitStore (cp_append_events ports tenant events)) (\<lambda>_.
    case cp_event_publisher ports of
      Some (publish_events, publish_commit) \<Rightarrow>
        then_run (on_err CommitStore (publish_events tenant events)) (\<lambda>_.
        on_err CommitStore (publish_commit tenant sg))
    | None \<Rightarrow> yield ()))))"

end
