(* ===== verification/Ledger_Contract.thy ===== *)
theory Ledger_Contract
  imports Durable_Persist Executor_Safety
begin

text \<open>
  What the durable write promises above a ledger store that keeps its contract (\<^verbatim>\<open>LedgerStore\<close> and
  \<^verbatim>\<open>LedgerTransaction\<close> of \<^verbatim>\<open>ledger_store.rs\<close>): nothing but a commit of a fully staged transaction reaches the
  durable state, and a mutation that was committed once is replayed afterwards. The contract is a
  locale; its second part adds the record of finalized idempotency keys.
\<close>

section \<open>The staged transaction\<close>

definition stage_all ::
  "'w ledger \<Rightarrow> tenant_id \<Rightarrow> event list \<Rightarrow> durable_commit_request \<Rightarrow> string \<Rightarrow> ('w, unit) ledger_call" where
  "stage_all lg tenant events req attempt_id =
    then_run (lg_append_events lg events) (\<lambda>_.
    then_run (lg_append_commit lg (dr_commit req)) (\<lambda>_.
    then_run (in_turn (lg_upsert_projection lg) (dr_projections req)) (\<lambda>_.
    then_run (in_turn (lg_enqueue_outbox lg) (dr_outbox req)) (\<lambda>_.
    lg_finalize_idempotency lg tenant (in_intent_id (dr_intent req)) attempt_id (co_commit_id (sg_body (dr_commit req)))))))"

definition staged ::
  "'w ledger \<Rightarrow> tenant_id \<Rightarrow> event list \<Rightarrow> durable_commit_request \<Rightarrow> 'w \<Rightarrow> 'w \<Rightarrow> bool" where
  "staged lg tenant events req w w' \<longleftrightarrow>
    (\<exists>wb wc attempt_id. lg_begin lg tenant w = (Ok (), wb) \<and>
      lg_claim_idempotency lg tenant (dr_intent req) (dr_payload_digest req) wb = (Ok (NewReservation attempt_id), wc) \<and>
      stage_all lg tenant events req attempt_id wc = (Ok (), w'))"

lemma or_rollback_Ok [run_simps]: "or_rollback lg m w = (Ok x, w') \<longleftrightarrow> m w = (Ok x, w')"
  by (auto simp: or_rollback_def then_run_def outcome_def yield_def pure_def split: prod.splits result.splits)

lemma in_turn_or_rollback:
  "in_turn (\<lambda>x. or_rollback lg (f x)) xs w = (Ok (), w') \<longleftrightarrow> in_turn f xs w = (Ok (), w')"
  by (induction xs arbitrary: w) (auto simp: run_simps)

lemma then_run_Err:
  "then_run m f w = (Err e, w') \<longleftrightarrow> m w = (Err e, w') \<or> (\<exists>x w1. m w = (Ok x, w1) \<and> f x w1 = (Err e, w'))"
  by (auto simp: then_run_def split: prod.splits result.splits)

lemma stage_all_Ok:
  "stage_all lg tenant events req attempt_id w = (Ok (), w') \<longleftrightarrow>
    (\<exists>w1 w2 w3 w4. lg_append_events lg events w = (Ok (), w1) \<and> lg_append_commit lg (dr_commit req) w1 = (Ok (), w2) \<and>
      in_turn (lg_upsert_projection lg) (dr_projections req) w2 = (Ok (), w3) \<and>
      in_turn (lg_enqueue_outbox lg) (dr_outbox req) w3 = (Ok (), w4) \<and>
      lg_finalize_idempotency lg tenant (in_intent_id (dr_intent req)) attempt_id
        (co_commit_id (sg_body (dr_commit req))) w4 = (Ok (), w'))"
  by (auto simp: stage_all_def run_simps)

text \<open>The steps of \<^const>\<open>write_staged\<close> before its commit, each with its rollback.\<close>

definition guarded ::
  "'w ledger \<Rightarrow> tenant_id \<Rightarrow> event list \<Rightarrow> durable_commit_request \<Rightarrow> string \<Rightarrow> ('w, unit, commit_error) port" where
  "guarded lg tenant events req attempt_id =
    then_run (or_rollback lg (lg_append_events lg events)) (\<lambda>_.
    then_run (or_rollback lg (lg_append_commit lg (dr_commit req))) (\<lambda>_.
    then_run (in_turn (\<lambda>projection. or_rollback lg (lg_upsert_projection lg projection)) (dr_projections req)) (\<lambda>_.
    then_run (in_turn (\<lambda>row. or_rollback lg (lg_enqueue_outbox lg row)) (dr_outbox req)) (\<lambda>_.
    or_rollback lg (lg_finalize_idempotency lg tenant (in_intent_id (dr_intent req)) attempt_id
      (co_commit_id (sg_body (dr_commit req))))))))"

lemma then_run_assoc: "then_run (then_run m f) g = then_run m (\<lambda>x. then_run (f x) g)"
  by (rule ext) (simp add: then_run_def split: prod.splits result.splits)

lemma write_staged_guarded:
  "write_staged lg tenant events req attempt_id =
    then_run (guarded lg tenant events req attempt_id) (\<lambda>_.
    then_run (on_err store_error (lg_commit lg)) (\<lambda>_.
    yield (DurableCommitted (co_commit_id (sg_body (dr_commit req))))))"
  by (simp add: write_staged_def guarded_def then_run_assoc Let_def)

lemma guarded_Ok:
  "guarded lg tenant events req attempt_id w = (Ok (), w') \<longleftrightarrow> stage_all lg tenant events req attempt_id w = (Ok (), w')"
  by (simp add: guarded_def stage_all_Ok run_simps in_turn_or_rollback)

section \<open>The contract\<close>

locale transactional_ledger =
  fixes lg :: "'w ledger" and durable :: "'w \<Rightarrow> 'd"
  assumes begin_quiet: "keeps durable (lg_begin lg tenant)"
    and claim_quiet: "keeps durable (lg_claim_idempotency lg tenant intent digest)"
    and events_quiet: "keeps durable (lg_append_events lg events)"
    and commit_row_quiet: "keeps durable (lg_append_commit lg sg)"
    and projection_quiet: "keeps durable (lg_upsert_projection lg projection)"
    and outbox_quiet: "keeps durable (lg_enqueue_outbox lg row)"
    and finalize_quiet: "keeps durable (lg_finalize_idempotency lg tenant intent_id attempt_id commit_id)"
    and rollback_quiet: "keeps durable (lg_rollback lg)"
begin

lemma or_rollback_quiet: "keeps durable m \<Longrightarrow> keeps durable (or_rollback lg m)"
  unfolding or_rollback_def
  by (auto intro!: keeps_then_run simp: rollback_quiet split: result.split)

lemma in_turn_quiet: "(\<And>x. keeps durable (f x)) \<Longrightarrow> keeps durable (in_turn f xs)"
  by (induction xs) (auto intro!: keeps_then_run)

lemmas steps_quiet = begin_quiet claim_quiet events_quiet commit_row_quiet projection_quiet outbox_quiet
  finalize_quiet rollback_quiet

lemma stage_all_quiet: "keeps durable (stage_all lg tenant events req attempt_id)"
  unfolding stage_all_def by (intro keeps_then_run in_turn_quiet steps_quiet)

lemma staged_quiet: "staged lg tenant events req w w' \<Longrightarrow> durable w' = durable w"
  unfolding staged_def
  using keepsD [OF begin_quiet] keepsD [OF claim_quiet] keepsD [OF stage_all_quiet] by metis

lemma guarded_quiet: "keeps durable (guarded lg tenant events req attempt_id)"
  unfolding guarded_def by (intro keeps_then_run in_turn_quiet or_rollback_quiet steps_quiet)

lemma write_staged_outcome:
  assumes "write_staged lg tenant events req attempt_id w = (r, w')"
  shows "(\<exists>w1 c. stage_all lg tenant events req attempt_id w = (Ok (), w1) \<and> lg_commit lg w1 = (c, w') \<and>
      r = map_ok (\<lambda>_. DurableCommitted (co_commit_id (sg_body (dr_commit req)))) (map_err store_error c)) \<or>
    (\<exists>e. r = Err e \<and> durable w' = durable w)"
proof -
  obtain g w1 where g: "guarded lg tenant events req attempt_id w = (g, w1)" by fastforce
  show ?thesis
  proof (cases g)
    case (Ok u)
    then have "stage_all lg tenant events req attempt_id w = (Ok (), w1)" using g guarded_Ok [of lg tenant events req attempt_id w w1] by simp
    moreover obtain c w2 where "lg_commit lg w1 = (c, w2)" by fastforce
    ultimately show ?thesis
      using assms g Ok unfolding write_staged_guarded
      by (cases c) (auto simp: then_run_def on_err_def yield_def)
  next
    case (Err e)
    then show ?thesis
      using assms g keepsD [OF guarded_quiet g] unfolding write_staged_guarded by (auto simp: then_run_def)
  qed
qed

text \<open>
  How a durable write ends: the transaction was staged completely and its commit answered, or the
  durable state is as before, and the answer is then an error or a replay.
\<close>

lemma write_durable_outcome:
  assumes "write_durable lg tenant events req w = (r, w')"
  shows "(\<exists>w1 c. staged lg tenant events req w w1 \<and> lg_commit lg w1 = (c, w') \<and>
      r = map_ok (\<lambda>_. DurableCommitted (co_commit_id (sg_body (dr_commit req)))) (map_err store_error c)) \<or>
    ((\<forall>commit_id. r \<noteq> Ok (DurableCommitted commit_id)) \<and> durable w' = durable w)"
proof -
  obtain b wb where b: "lg_begin lg tenant w = (b, wb)" by fastforce
  have wb: "durable wb = durable w" by (rule keepsD [OF begin_quiet b])
  let ?claim = "or_rollback lg (lg_claim_idempotency lg tenant (dr_intent req) (dr_payload_digest req))"
  obtain c wc where c: "?claim wb = (c, wc)" by fastforce
  have wc: "durable wc = durable wb" by (rule keepsD [OF or_rollback_quiet [OF claim_quiet] c])
  obtain rb wr where rb: "lg_rollback lg wc = (rb, wr)" by fastforce
  have wr: "durable wr = durable wc" by (rule keepsD [OF rollback_quiet rb])
  note run = assms [unfolded write_durable_def]
  show ?thesis
  proof (cases "\<exists>a. b = Ok () \<and> c = Ok (NewReservation a)")
    case True
    then obtain a where a: "b = Ok ()" "c = Ok (NewReservation a)" by blast
    then have "write_staged lg tenant events req a wc = (r, w')" using run b c by (simp add: then_run_def on_err_def)
    moreover have "lg_claim_idempotency lg tenant (dr_intent req) (dr_payload_digest req) wb = (Ok (NewReservation a), wc)"
      using c a(2) by (simp add: or_rollback_Ok)
    ultimately show ?thesis
      using write_staged_outcome a(1) b wb wc unfolding staged_def by fastforce
  next
    case False
    then have "(\<forall>commit_id. r \<noteq> Ok (DurableCommitted commit_id)) \<and> (w' = wb \<or> w' = wc \<or> w' = wr)"
      using run b c rb
      by (auto simp: then_run_def on_err_def pure_def yield_def split: result.splits idempotency_claim.splits)
    then show ?thesis using wb wc wr by auto
  qed
qed

end

text \<open>
  A ledger that remembers which payload was finalized for an intent id, answers claims from that
  memory, and enters a mutation into it when its transaction commits.
\<close>

locale recording_ledger = transactional_ledger lg durable
  for lg :: "'w ledger" and durable :: "'w \<Rightarrow> 'd" +
  fixes recorded :: "'d \<Rightarrow> tenant_id \<Rightarrow> string \<Rightarrow> (content_digest \<times> string) option"
  assumes claim_answers: "lg_claim_idempotency lg tenant intent digest w = (Ok granted, w') \<Longrightarrow>
      recorded (durable w) tenant (in_intent_id intent) = Some (original, commit_id) \<Longrightarrow>
      granted = (if original = digest then ClaimCommitted commit_id else ConflictDifferentPayload)"
    and commit_records: "staged lg tenant events req w w1 \<Longrightarrow> lg_commit lg w1 = (Ok (), w') \<Longrightarrow>
      recorded (durable w') tenant (in_intent_id (dr_intent req)) =
        Some (dr_payload_digest req, co_commit_id (sg_body (dr_commit req)))"
begin

lemma write_recorded:
  assumes "recorded (durable w) tenant (in_intent_id (dr_intent req)) = Some (original, commit_id)"
    and "write_durable lg tenant events req w = (r, w')"
  shows "durable w' = durable w"
    and "r = Ok result \<Longrightarrow> original = dr_payload_digest req \<and> result = DurableReplay commit_id"
proof -
  obtain b wb where b: "lg_begin lg tenant w = (b, wb)" by fastforce
  have wb: "durable wb = durable w" by (rule keepsD [OF begin_quiet b])
  have not_staged: "\<not> staged lg tenant events req w w1" for w1
  proof
    assume "staged lg tenant events req w w1"
    then obtain wb' wc a where opened: "lg_begin lg tenant w = (Ok (), wb')"
      and claimed: "lg_claim_idempotency lg tenant (dr_intent req) (dr_payload_digest req) wb' = (Ok (NewReservation a), wc)"
      unfolding staged_def by blast
    have "durable wb' = durable w" using opened by (rule keepsD [OF begin_quiet])
    then have "NewReservation a = (if original = dr_payload_digest req then ClaimCommitted commit_id else ConflictDifferentPayload)"
      using claim_answers [OF claimed] assms(1) by simp
    then show False by (simp split: if_splits)
  qed
  then show "durable w' = durable w" using write_durable_outcome [OF assms(2)] by blast
  assume ok: "r = Ok result"
  then obtain granted wc where "lg_claim_idempotency lg tenant (dr_intent req) (dr_payload_digest req) wb = (Ok granted, wc)"
    and "b = Ok ()" and rest: "(case granted of
      ClaimCommitted commit_id \<Rightarrow>
        then_run (on_err store_error (lg_rollback lg)) (\<lambda>_. yield (DurableReplay commit_id))
    | NewReservation attempt_id \<Rightarrow> write_staged lg tenant events req attempt_id
    | InProgress attempt_id lease \<Rightarrow>
        then_run (on_err store_error (lg_rollback lg)) (\<lambda>_.
        pure (Err (CommitStore ''idempotency reservation in progress'')))
    | ConflictDifferentPayload \<Rightarrow>
        then_run (on_err store_error (lg_rollback lg)) (\<lambda>_.
        pure (Err (CommitStore ''idempotency payload conflict'')))) wc = (Ok result, w')"
    using assms(2) b unfolding ok write_durable_def then_run_Ok on_err_Ok or_rollback_Ok by auto
  moreover from this(1) have "granted = (if original = dr_payload_digest req then ClaimCommitted commit_id else ConflictDifferentPayload)"
    using claim_answers assms(1) wb by simp
  ultimately show "original = dr_payload_digest req \<and> result = DurableReplay commit_id"
    by (auto simp: run_simps split: if_splits)
qed

end

end
