(* ===== verification/Memory_Ledger.thy ===== *)
theory Memory_Ledger
  imports Ledger_Contract
begin

text \<open>
  The in-memory ledger of \<^verbatim>\<open>crates/statechronicle/tests/support/durable.rs\<close>, the one implementation of the ledger
  port in the sources, with its injected faults. It keeps the contract of \<^verbatim>\<open>Ledger_Contract\<close>. The world is the
  shared store with the one open transaction. A panic is an error value that leaves the store's
  lock poisoned; \<^verbatim>\<open>pause\<close>, which never returns, and \<^verbatim>\<open>yield_each_step\<close>, which only reschedules, are left out.
\<close>

section \<open>State\<close>

datatype ledger_step =
    StepBegin | StepClaim | StepEvents | StepCommitRow | StepProjection | StepOutbox | StepFinalize | StepCommit | StepRollback

record stored =
  st_events :: "event list"
  st_commits :: "commit signed list"
  st_projections :: "state_projection list"
  st_finalized :: bool
  st_outbox :: "outbox_record list"
  st_identities :: "(string \<times> string, content_digest \<times> string) btree_map"

record transaction =
  tn_staged :: stored
  tn_identity :: "((string \<times> string) \<times> content_digest) option"

record memory_ledger =
  ml_data :: stored
  ml_poisoned :: bool
  ml_fail_projection :: bool
  ml_faults :: "ledger_step list"
  ml_lose_commit_response :: bool
  ml_calls :: "ledger_step list"
  ml_reservations :: "(string \<times> string) list"
  ml_open :: "transaction option"

definition stored_default :: stored where
  "stored_default = \<lparr>st_events = [], st_commits = [], st_projections = [], st_finalized = False, st_outbox = [],
    st_identities = []\<rparr>"

section \<open>Operations\<close>

fun step_debug :: "ledger_step \<Rightarrow> string" where
  "step_debug StepBegin = ''Begin''"
| "step_debug StepClaim = ''Claim''"
| "step_debug StepEvents = ''Events''"
| "step_debug StepCommitRow = ''CommitRow''"
| "step_debug StepProjection = ''Projection''"
| "step_debug StepOutbox = ''Outbox''"
| "step_debug StepFinalize = ''Finalize''"
| "step_debug StepCommit = ''Commit''"
| "step_debug StepRollback = ''Rollback''"

definition checkpoint :: "ledger_step \<Rightarrow> (memory_ledger, unit) ledger_call" where
  "checkpoint step w =
    (let w' = w\<lparr>ml_calls := ml_calls w @ [step]\<rparr> in
     if step \<in> set (ml_faults w) then (Err (LedgerUnavailable (''injected '' @ step_debug step)), w') else (Ok (), w'))"

definition panicked :: ledger_store_error where
  "panicked = LedgerInvariant ''panicked''"

definition stage :: "(stored \<Rightarrow> stored) \<Rightarrow> (memory_ledger, unit) ledger_call" where
  "stage f w = (Ok (), w\<lparr>ml_open := map_option (\<lambda>t. t\<lparr>tn_staged := f (tn_staged t)\<rparr>) (ml_open w)\<rparr>)"

definition memory_begin :: "tenant_id \<Rightarrow> (memory_ledger, unit) ledger_call" where
  "memory_begin tenant =
    then_run (checkpoint StepBegin) (\<lambda>_ w.
    (Ok (), w\<lparr>ml_open := Some \<lparr>tn_staged = stored_default, tn_identity = None\<rparr>\<rparr>))"

definition memory_claim_idempotency :: "tenant_id \<Rightarrow> intent \<Rightarrow> content_digest \<Rightarrow> (memory_ledger, idempotency_claim) ledger_call" where
  "memory_claim_idempotency tenant intent digest =
    then_run (checkpoint StepClaim) (\<lambda>_ w.
    let key = (tenant, in_intent_id intent) in
    if ml_poisoned w then (Err panicked, w)
    else case btree_get (st_identities (ml_data w)) key of
        Some (original, commit_id) \<Rightarrow>
          (Ok (if original = digest then ClaimCommitted commit_id else ConflictDifferentPayload), w)
      | None \<Rightarrow>
          if key \<in> set (ml_reservations w) then (Ok (InProgress ''attempt'' (2 ^ 63 - 1)), w)
          else (Ok (NewReservation ''attempt''),
            w\<lparr>ml_reservations := key # ml_reservations w,
              ml_open := map_option (\<lambda>t. t\<lparr>tn_identity := Some (key, digest)\<rparr>) (ml_open w)\<rparr>))"

definition memory_append_events :: "event list \<Rightarrow> (memory_ledger, unit) ledger_call" where
  "memory_append_events events =
    then_run (checkpoint StepEvents) (\<lambda>_. stage (\<lambda>s. s\<lparr>st_events := st_events s @ events\<rparr>))"

definition memory_append_commit :: "commit signed \<Rightarrow> (memory_ledger, unit) ledger_call" where
  "memory_append_commit sg =
    then_run (checkpoint StepCommitRow) (\<lambda>_. stage (\<lambda>s. s\<lparr>st_commits := st_commits s @ [sg]\<rparr>))"

definition memory_upsert_projection :: "state_projection \<Rightarrow> (memory_ledger, unit) ledger_call" where
  "memory_upsert_projection projection =
    then_run (checkpoint StepProjection) (\<lambda>_ w.
    if ml_fail_projection w then (Err (LedgerUnavailable ''injected failure''), w)
    else stage (\<lambda>s. s\<lparr>st_projections := st_projections s @ [projection]\<rparr>) w)"

definition memory_enqueue_outbox :: "outbox_record \<Rightarrow> (memory_ledger, unit) ledger_call" where
  "memory_enqueue_outbox row =
    then_run (checkpoint StepOutbox) (\<lambda>_. stage (\<lambda>s. s\<lparr>st_outbox := st_outbox s @ [row]\<rparr>))"

definition memory_finalize_idempotency :: "tenant_id \<Rightarrow> string \<Rightarrow> string \<Rightarrow> string \<Rightarrow> (memory_ledger, unit) ledger_call" where
  "memory_finalize_idempotency tenant intent_id attempt_id commit_id =
    then_run (checkpoint StepFinalize) (\<lambda>_ w.
    case Option.bind (ml_open w) tn_identity of
      Some (key, digest) \<Rightarrow>
        stage (\<lambda>s. s\<lparr>st_identities := btree_insert key (digest, commit_id) (st_identities s), st_finalized := True\<rparr>) w
    | None \<Rightarrow> (Err panicked, w))"

text \<open>The rows after the staged events, each checked against the row before it; no error is a panic.\<close>

fun replace_rows ::
  "state_projection list \<Rightarrow> state_projection list \<Rightarrow> event list \<Rightarrow> (state_projection list, ledger_store_error option) result" where
  "replace_rows staged_rows rows [] = Ok rows"
| "replace_rows staged_rows rows (event # events) =
    (let prior = find (\<lambda>row. sp_tenant_id row = ev_tenant_id event \<and> sp_resource_id row = ev_resource_id event) rows in
     if sc_version (ev_before event) \<noteq> (case prior of Some row \<Rightarrow> sp_version row | None \<Rightarrow> 0) \<or>
        (case prior of Some row \<Rightarrow> sp_state_hash row \<noteq> sc_state_hash (ev_before event) | None \<Rightarrow> False)
     then Err (Some (LedgerConflict ''projected state changed''))
     else
       and_then (ok_or (find (\<lambda>row. sp_last_event_id row = ev_event_id event) staged_rows) None) (\<lambda>new.
       replace_rows staged_rows
         (filter (\<lambda>row. sp_tenant_id row \<noteq> sp_tenant_id new \<or> sp_resource_id row \<noteq> sp_resource_id new) rows @ [new]) events))"

definition root_of_rows :: "sha256 \<Rightarrow> tenant_id option \<Rightarrow> state_projection list \<Rightarrow> hash" where
  "root_of_rows sha tenant rows =
    fst (insert_batch sha
      (map (\<lambda>row. \<lparr>su_key = for_resource sha (sp_tenant_id row) (sp_resource_id row), su_state_digest = sp_state_hash row\<rparr>)
        (filter (\<lambda>row. Some (sp_tenant_id row) = tenant) rows)) accumulator_empty)"

definition merge_staged :: "sha256 \<Rightarrow> stored \<Rightarrow> stored \<Rightarrow> (stored, ledger_store_error option) result" where
  "merge_staged sha new data =
    and_then (ok_or (case st_commits new of [] \<Rightarrow> None | sg # _ \<Rightarrow> Some (sg_body sg)) None) (\<lambda>prepared.
    let head = map_option sg_body (find (\<lambda>sg. co_scope (sg_body sg) = co_scope prepared) (rev (st_commits data)));
        expected_sequence = (case head of None \<Rightarrow> 1 | Some c \<Rightarrow> saturating_add_word (co_sequence c) 1);
        previous_root = (case head of None \<Rightarrow> compute_root sha accumulator_empty | Some c \<Rightarrow> co_next_state_root c)
    in
    if co_sequence prepared \<noteq> expected_sequence \<or> co_parent_commit_id prepared \<noteq> map_option co_commit_id head \<or>
       co_previous_state_root prepared \<noteq> previous_root
    then Err (Some (LedgerConflict ''canonical head changed''))
    else
      and_then (replace_rows (st_projections new) (st_projections data) (st_events new)) (\<lambda>rows.
      if root_of_rows sha (sc_tenant_id (co_scope prepared)) rows \<noteq> co_next_state_root prepared
      then Err (Some (LedgerInvariant ''prepared state root mismatch''))
      else Ok \<lparr>st_events = st_events data @ st_events new, st_commits = st_commits data @ st_commits new,
        st_projections = rows, st_finalized = st_finalized new, st_outbox = st_outbox data @ st_outbox new,
        st_identities = fold (\<lambda>(key, v). btree_insert key v) (st_identities new) (st_identities data)\<rparr>))"

definition commit_staged :: "sha256 \<Rightarrow> stored \<Rightarrow> (memory_ledger, unit) ledger_call" where
  "commit_staged sha new w =
    (if ml_poisoned w then (Err panicked, w)
     else case merge_staged sha new (ml_data w) of
         Err None \<Rightarrow> (Err panicked, w\<lparr>ml_poisoned := True\<rparr>)
       | Err (Some e) \<Rightarrow> (Err e, w)
       | Ok data \<Rightarrow>
           (if ml_lose_commit_response w then Err (LedgerUnavailable ''commit response lost'') else Ok (),
            w\<lparr>ml_data := data\<rparr>))"

text \<open>Whatever its outcome, a call that consumes the transaction drops it with its reservation.\<close>

definition dropping :: "(memory_ledger, unit) ledger_call \<Rightarrow> (memory_ledger, unit) ledger_call" where
  "dropping m w =
    (case m w of (r, w') \<Rightarrow>
      (r, w'\<lparr>ml_open := None,
        ml_reservations := (case Option.bind (ml_open w) tn_identity of
            Some (key, _) \<Rightarrow> removeAll key (ml_reservations w') | None \<Rightarrow> ml_reservations w')\<rparr>))"

definition memory_commit :: "sha256 \<Rightarrow> (memory_ledger, unit) ledger_call" where
  "memory_commit sha =
    dropping (then_run (checkpoint StepCommit) (\<lambda>_ w.
      commit_staged sha (case ml_open w of Some t \<Rightarrow> tn_staged t | None \<Rightarrow> stored_default) w))"

definition memory_rollback :: "(memory_ledger, unit) ledger_call" where
  "memory_rollback = dropping (checkpoint StepRollback)"

definition memory_store :: "sha256 \<Rightarrow> memory_ledger ledger" where
  "memory_store sha = \<lparr>lg_begin = memory_begin, lg_claim_idempotency = memory_claim_idempotency,
    lg_append_events = memory_append_events, lg_append_commit = memory_append_commit,
    lg_upsert_projection = memory_upsert_projection, lg_enqueue_outbox = memory_enqueue_outbox,
    lg_finalize_idempotency = memory_finalize_idempotency, lg_commit = memory_commit sha, lg_rollback = memory_rollback\<rparr>"

section \<open>The contract holds\<close>

lemma checkpoint_quiet [simp]: "keeps ml_data (checkpoint step)"
  by (simp add: keeps_def checkpoint_def Let_def)

lemma stage_quiet [simp]: "keeps ml_data (stage f)"
  by (simp add: keeps_def stage_def)

lemma dropping_quiet: "keeps ml_data m \<Longrightarrow> keeps ml_data (dropping m)"
  by (simp add: keeps_def dropping_def split_beta)

lemmas memory_defs = memory_begin_def memory_claim_idempotency_def memory_append_events_def memory_append_commit_def
  memory_upsert_projection_def memory_enqueue_outbox_def memory_finalize_idempotency_def

lemma memory_store_sel [simp]:
  "lg_begin (memory_store sha) = memory_begin" "lg_claim_idempotency (memory_store sha) = memory_claim_idempotency"
  "lg_append_events (memory_store sha) = memory_append_events" "lg_append_commit (memory_store sha) = memory_append_commit"
  "lg_upsert_projection (memory_store sha) = memory_upsert_projection"
  "lg_enqueue_outbox (memory_store sha) = memory_enqueue_outbox"
  "lg_finalize_idempotency (memory_store sha) = memory_finalize_idempotency"
  "lg_commit (memory_store sha) = memory_commit sha" "lg_rollback (memory_store sha) = memory_rollback"
  by (simp_all add: memory_store_def)

lemma memory_transactional: "transactional_ledger (memory_store sha) ml_data"
proof
  fix tenant intent digest events sg projection row intent_id attempt_id commit_id
  show "keeps ml_data (lg_begin (memory_store sha) tenant)"
    "keeps ml_data (lg_claim_idempotency (memory_store sha) tenant intent digest)"
    "keeps ml_data (lg_append_events (memory_store sha) events)"
    "keeps ml_data (lg_append_commit (memory_store sha) sg)"
    "keeps ml_data (lg_upsert_projection (memory_store sha) projection)"
    "keeps ml_data (lg_enqueue_outbox (memory_store sha) row)"
    "keeps ml_data (lg_finalize_idempotency (memory_store sha) tenant intent_id attempt_id commit_id)"
    unfolding memory_store_sel memory_defs
    by (rule keeps_then_run [OF checkpoint_quiet]; simp add: keeps_def stage_def Let_def split: option.split)+
  show "keeps ml_data (lg_rollback (memory_store sha))"
    by (simp add: memory_rollback_def dropping_quiet)
qed

text \<open>The claim of the open transaction and the identities it has staged.\<close>

definition claimed :: "memory_ledger \<Rightarrow> (((string \<times> string) \<times> content_digest) option \<times>
    (string \<times> string, content_digest \<times> string) btree_map) option" where
  "claimed w = map_option (\<lambda>t. (tn_identity t, st_identities (tn_staged t))) (ml_open w)"

lemma claimed_checkpoint: "keeps claimed (checkpoint step)"
  by (simp add: keeps_def checkpoint_def Let_def claimed_def)

lemma claimed_stage: "(\<And>s. st_identities (f s) = st_identities s) \<Longrightarrow> keeps claimed (stage f)"
  by (auto simp: keeps_def stage_def claimed_def option.map_comp comp_def intro!: map_option_cong)

lemma claimed_appends:
  "keeps claimed (memory_append_events events)" "keeps claimed (memory_append_commit sg)"
  "keeps claimed (memory_upsert_projection projection)" "keeps claimed (memory_enqueue_outbox row)"
proof -
  note steps = keeps_then_run [OF claimed_checkpoint]
  show "keeps claimed (memory_append_events events)" "keeps claimed (memory_append_commit sg)"
    "keeps claimed (memory_enqueue_outbox row)"
    unfolding memory_defs by (rule steps, rule claimed_stage, simp)+
  have "keeps claimed (\<lambda>w. if ml_fail_projection w then (Err (LedgerUnavailable ''injected failure''), w)
      else stage (\<lambda>s. s\<lparr>st_projections := st_projections s @ [projection]\<rparr>) w)"
    using claimed_stage [of "\<lambda>s. s\<lparr>st_projections := st_projections s @ [projection]\<rparr>"] by (simp add: keeps_def)
  then show "keeps claimed (memory_upsert_projection projection)" unfolding memory_defs by (intro steps)
qed

lemma claimed_in_turn: "(\<And>x. keeps claimed (f x)) \<Longrightarrow> keeps claimed (in_turn f xs)"
  by (induction xs) (auto intro!: keeps_then_run)

lemma claim_reserves:
  assumes "memory_begin tenant w = (Ok (), wb)"
    and "memory_claim_idempotency tenant intent digest wb = (Ok (NewReservation a), wc)"
  shows "claimed wc = Some (Some ((tenant, in_intent_id intent), digest), [])"
  using assms
  by (auto simp: memory_defs run_simps checkpoint_def Let_def claimed_def stored_default_def
      split: if_splits option.splits)

lemma finalize_stages:
  assumes "memory_finalize_idempotency tenant intent_id attempt_id commit_id w = (Ok (), w')"
    and "claimed w = Some (Some (key, digest), [])"
  shows "claimed w' = Some (Some (key, digest), [(key, digest, commit_id)])"
  using assms by (auto simp: memory_defs run_simps checkpoint_def Let_def claimed_def stage_def split: if_splits option.splits)

lemma staged_identity:
  assumes "staged (memory_store sha) tenant events req w w1"
  shows "claimed w1 = Some (Some ((tenant, in_intent_id (dr_intent req)), dr_payload_digest req),
    [((tenant, in_intent_id (dr_intent req)), dr_payload_digest req, co_commit_id (sg_body (dr_commit req)))])"
proof -
  obtain wb wc a w2 w3 w4 w5 where steps: "memory_begin tenant w = (Ok (), wb)"
    "memory_claim_idempotency tenant (dr_intent req) (dr_payload_digest req) wb = (Ok (NewReservation a), wc)"
    "memory_append_events events wc = (Ok (), w2)" "memory_append_commit (dr_commit req) w2 = (Ok (), w3)"
    "in_turn memory_upsert_projection (dr_projections req) w3 = (Ok (), w4)"
    "in_turn memory_enqueue_outbox (dr_outbox req) w4 = (Ok (), w5)"
    "memory_finalize_idempotency tenant (in_intent_id (dr_intent req)) a (co_commit_id (sg_body (dr_commit req))) w5 = (Ok (), w1)"
    using assms unfolding staged_def stage_all_Ok memory_store_sel by blast
  have "claimed w5 = claimed wc"
    using keepsD [OF claimed_appends(1) steps(3)] keepsD [OF claimed_appends(2) steps(4)]
      keepsD [OF claimed_in_turn [OF claimed_appends(3)] steps(5)]
      keepsD [OF claimed_in_turn [OF claimed_appends(4)] steps(6)] by simp
  then show ?thesis using claim_reserves [OF steps(1,2)] finalize_stages [OF steps(7)] by simp
qed

definition identity_of :: "stored \<Rightarrow> tenant_id \<Rightarrow> string \<Rightarrow> (content_digest \<times> string) option" where
  "identity_of data tenant intent_id = btree_get (st_identities data) (tenant, intent_id)"

lemma merged_identities:
  "merge_staged sha new data = Ok data' \<Longrightarrow>
    st_identities data' = fold (\<lambda>(key, v). btree_insert key v) (st_identities new) (st_identities data)"
  by (auto simp: merge_staged_def Let_def split: if_splits)

lemma commit_identity:
  assumes "claimed w = Some (Some (key, digest), [(key, digest, commit_id)])"
    and "memory_commit sha w = (r, w')" and "ml_data w' \<noteq> ml_data w \<or> r = Ok ()"
  shows "btree_get (st_identities (ml_data w')) key = Some (digest, commit_id)"
proof -
  obtain t where t: "ml_open w = Some t" "st_identities (tn_staged t) = [(key, digest, commit_id)]"
    using assms(1) by (auto simp: claimed_def)
  have "\<exists>data. merge_staged sha (tn_staged t) (ml_data w) = Ok data \<and> ml_data w' = data"
    using assms(2,3) t(1)
    by (auto simp: memory_commit_def dropping_def then_run_def checkpoint_def commit_staged_def Let_def
        split: if_splits option.splits result.splits)
  then show ?thesis using merged_identities t(2) by (auto simp: btree_get_insert)
qed

lemma memory_recording: "recording_ledger (memory_store sha) ml_data identity_of"
proof (intro recording_ledger.intro memory_transactional recording_ledger_axioms.intro)
  fix tenant intent digest w granted w' original commit_id
  assume claim: "lg_claim_idempotency (memory_store sha) tenant intent digest w = (Ok granted, w')"
    and "identity_of (ml_data w) tenant (in_intent_id intent) = Some (original, commit_id)"
  then show "granted = (if original = digest then ClaimCommitted commit_id else ConflictDifferentPayload)"
    by (auto simp: memory_defs run_simps checkpoint_def Let_def identity_of_def split: if_splits)
next
  fix tenant events req w w1 w'
  assume "staged (memory_store sha) tenant events req w w1" and "lg_commit (memory_store sha) w1 = (Ok (), w')"
  then show "identity_of (ml_data w') tenant (in_intent_id (dr_intent req)) =
      Some (dr_payload_digest req, co_commit_id (sg_body (dr_commit req)))"
    using commit_identity [OF staged_identity] by (simp add: identity_of_def)
qed

interpretation memory: recording_ledger "memory_store sha" ml_data identity_of for sha :: sha256
  by (rule memory_recording)

end
