(* ===== verification/Persist_Theorems.thy ===== *)
theory Persist_Theorems
  imports Memory_Ledger Example_Data
begin

text \<open>
  What the durable write guarantees: what is committed is bound to the authenticated intent, a
  mutation that fails changes nothing, and repeating a committed mutation replays it.
\<close>

section \<open>The checks\<close>

text \<open>What the checks establish of one event: it belongs to the intent, advances the version by one, and its digests are those of its states.\<close>

definition event_bound :: "persist_codec \<Rightarrow> intent \<Rightarrow> event \<Rightarrow> bool" where
  "event_bound cd intent event \<longleftrightarrow>
    ev_tenant_id event = in_tenant_id intent \<and> ev_intent_id event = in_intent_id intent \<and>
    ev_actor event = in_actor intent \<and> ev_operation event = in_operation intent \<and>
    ev_resource_id event = in_resource_id intent \<and>
    unat (sc_version (ev_after event)) = Suc (unat (sc_version (ev_before event))) \<and>
    rs_state_type (sc_state (ev_before event)) = rs_state_type (sc_state (ev_after event)) \<and>
    state_digest cd (sc_state (ev_before event)) = Ok (sc_state_hash (ev_before event)) \<and>
    state_digest cd (sc_state (ev_after event)) = Ok (sc_state_hash (ev_after event))"

lemma validate_committed_event_Ok:
  assumes "validate_committed_event cd entry = Ok ()"
  shows "unat (sc_version (ev_after (ce_event entry))) = Suc (unat (sc_version (ev_before (ce_event entry))))"
    and "rs_state_type (sc_state (ev_before (ce_event entry))) = rs_state_type (sc_state (ev_after (ce_event entry)))"
    and "state_digest cd (sc_state (ev_before (ce_event entry))) = Ok (sc_state_hash (ev_before (ce_event entry)))"
    and "state_digest cd (sc_state (ev_after (ce_event entry))) = Ok (sc_state_hash (ev_after (ce_event entry)))"
  using assms by (auto simp: validate_committed_event_def Let_def checked_simps split: if_splits)

lemma validate_committed_events_Ok:
  "validate_committed_events cd ids entries = Ok () \<longleftrightarrow>
    (\<forall>entry \<in> set entries. validate_committed_event cd entry = Ok ()) \<and>
    distinct (map (\<lambda>entry. ev_event_id (ce_event entry)) entries) \<and>
    set ids \<inter> (\<lambda>entry. ev_event_id (ce_event entry)) ` set entries = {}"
  by (induction entries arbitrary: ids) auto

lemma validate_event_binding_Ok:
  "validate_event_binding event intent tenant = Ok () \<Longrightarrow>
    ev_tenant_id event = tenant \<and> ev_intent_id event = in_intent_id intent \<and> ev_actor event = in_actor intent \<and>
    ev_operation event = in_operation intent \<and> ev_resource_id event = in_resource_id intent"
  by (simp add: validate_event_binding_def split: if_splits)

lemma check_request_Ok:
  assumes "check_request cd tenant req = Ok events"
  shows "events = map ce_event (dr_entries req)" and "dr_entries req \<noteq> []"
    and "validate_committed_events cd [] (dr_entries req) = Ok ()"
    and "\<forall>entry \<in> set (dr_entries req). validate_event_binding (ce_event entry) (dr_intent req) tenant = Ok ()"
    and "validate_projection_bindings (co_commit_id (sg_body (dr_commit req))) (dr_entries req) (dr_projections req) = Ok ()"
    and "event_root (pc_sha cd) (pc_event_bytes cd) events = Ok (co_event_merkle_root (sg_body (dr_commit req)))"
  using assms by (auto simp: check_request_def check_sizes_def Let_def split: if_splits)

lemma commit_tenant_Ok: "commit_tenant body = Ok tenant \<Longrightarrow> sc_tenant_id (co_scope body) = Some tenant"
  by (auto simp: commit_tenant_def split: if_splits)

text \<open>A request that reaches the ledger: every check passed, and the authorizer agreed.\<close>

definition request_ok ::
  "persist_codec \<Rightarrow> 'w authorizer \<Rightarrow> durable_commit_request \<Rightarrow> tenant_id \<Rightarrow> event list \<Rightarrow> 'w \<Rightarrow> 'w \<Rightarrow> bool" where
  "request_ok cd authorizer req tenant events w wa \<longleftrightarrow>
    validate_durable_intent cd (dr_intent req) = Ok () \<and> commit_tenant (sg_body (dr_commit req)) = Ok tenant \<and>
    canonicalize_and_digest (pc_sha cd) (pc_intent_bytes cd) (dr_intent req) = Ok (dr_payload_digest req) \<and>
    validate_durable_scope (dr_intent req) (dr_principal req) tenant = Ok () \<and>
    authorizer (dr_principal req) tenant (dr_intent req) (in_resource_id (dr_intent req)) w = (Ok (), wa) \<and>
    check_request cd tenant req = Ok events"

lemma persist_durable_cases:
  assumes "persist_durable cd lg authorizer req w = (r, w')"
  obtains tenant events wa where "request_ok cd authorizer req tenant events w wa"
      and "write_durable lg tenant events req wa = (r, w')"
    | e where "r = Err e"
      and "w' = w \<or> (\<exists>tenant a. authorizer (dr_principal req) tenant (dr_intent req) (in_resource_id (dr_intent req)) w = (a, w'))"
proof -
  let ?auth = "\<lambda>tenant. authorizer (dr_principal req) tenant (dr_intent req) (in_resource_id (dr_intent req)) w"
  have "(\<exists>tenant events wa. request_ok cd authorizer req tenant events w wa \<and> write_durable lg tenant events req wa = (r, w')) \<or>
      (\<exists>e. r = Err e \<and> (w' = w \<or> (\<exists>tenant a. ?auth tenant = (a, w'))))"
    using assms unfolding persist_durable_def
    by (auto simp: then_run_def pure_def on_err_def request_ok_def split: result.splits prod.splits if_splits)
  then show ?thesis using that by blast
qed

lemma write_staged_Ok:
  "write_staged lg tenant events req attempt_id w = (Ok x, w') \<Longrightarrow> x = DurableCommitted (co_commit_id (sg_body (dr_commit req)))"
  unfolding write_staged_guarded by (auto simp: run_simps)

lemma write_durable_id:
  "write_durable lg tenant events req w = (Ok (DurableCommitted commit_id), w') \<Longrightarrow> commit_id = co_commit_id (sg_body (dr_commit req))"
  unfolding write_durable_def
  by (auto simp: then_run_def yield_def pure_def dest: write_staged_Ok
      split: prod.splits result.splits idempotency_claim.splits)

lemma staged_commits:
  assumes "staged lg tenant events req w w1" and "lg_commit lg w1 = (Ok (), w')"
  shows "write_durable lg tenant events req w = (Ok (DurableCommitted (co_commit_id (sg_body (dr_commit req)))), w')"
proof -
  obtain wb wc a where steps: "lg_begin lg tenant w = (Ok (), wb)"
    "lg_claim_idempotency lg tenant (dr_intent req) (dr_payload_digest req) wb = (Ok (NewReservation a), wc)"
    and "stage_all lg tenant events req a wc = (Ok (), w1)"
    using assms(1) unfolding staged_def by blast
  then have "guarded lg tenant events req a wc = (Ok (), w1)" by (simp add: guarded_Ok)
  then have "write_staged lg tenant events req a wc = (Ok (DurableCommitted (co_commit_id (sg_body (dr_commit req)))), w')"
    using assms(2) unfolding write_staged_guarded by (simp add: run_simps)
  with steps show ?thesis by (simp add: write_durable_def then_run_def on_err_def or_rollback_def outcome_def yield_def)
qed

section \<open>Guarantees\<close>

text \<open>C16.
  A committed mutation is bound: the commit's signature was verified, its tenant is the tenant of
  the intent and of the authenticated principal, who is the actor of the intent; the payload digest
  is the digest of the canonical intent; every event belongs to the intent, advances its version by
  exactly one and carries the digests of its states; no event id occurs twice; and the commit's
  event root is the root of exactly these events.
\<close>
theorem committed_mutation_is_bound:
  assumes "persist_durable_verified cd lg authorizer verifier req w = (Ok (DurableCommitted commit_id), w')"
  shows "verifier (dr_commit req) = Ok () \<and> commit_id = co_commit_id (sg_body (dr_commit req)) \<and>
    sc_tenant_id (co_scope (sg_body (dr_commit req))) = Some (in_tenant_id (dr_intent req)) \<and>
    pi_tenant (dr_principal req) = in_tenant_id (dr_intent req) \<and> pi_subject (dr_principal req) = in_actor (dr_intent req) \<and>
    canonicalize_and_digest (pc_sha cd) (pc_intent_bytes cd) (dr_intent req) = Ok (dr_payload_digest req) \<and>
    dr_entries req \<noteq> [] \<and> list_all (\<lambda>entry. event_bound cd (dr_intent req) (ce_event entry)) (dr_entries req) \<and>
    distinct (map (\<lambda>entry. ev_event_id (ce_event entry)) (dr_entries req)) \<and>
    event_root (pc_sha cd) (pc_event_bytes cd) (map ce_event (dr_entries req)) =
      Ok (co_event_merkle_root (sg_body (dr_commit req)))"
proof -
  have verified: "verifier (dr_commit req) = Ok ()" and run: "persist_durable cd lg authorizer req w = (Ok (DurableCommitted commit_id), w')"
    using assms by (auto simp: persist_durable_verified_def run_simps)
  obtain tenant events wa where ok: "request_ok cd authorizer req tenant events w wa"
    and wrote: "write_durable lg tenant events req wa = (Ok (DurableCommitted commit_id), w')"
    using persist_durable_cases [OF run] by blast
  have "commit_id = co_commit_id (sg_body (dr_commit req))"
    using wrote by (rule write_durable_id)
  moreover have scope: "sc_tenant_id (co_scope (sg_body (dr_commit req))) = Some tenant" "in_tenant_id (dr_intent req) = tenant"
    "pi_tenant (dr_principal req) = tenant" "pi_subject (dr_principal req) = in_actor (dr_intent req)"
    using ok commit_tenant_Ok by (auto simp: request_ok_def validate_durable_scope_def split: if_splits)
  moreover have checked: "check_request cd tenant req = Ok events" using ok by (simp add: request_ok_def)
  have "event_bound cd (dr_intent req) (ce_event entry)" if "entry \<in> set (dr_entries req)" for entry
    using check_request_Ok(3,4) [OF checked] validate_event_binding_Ok [of "ce_event entry" "dr_intent req" tenant]
      validate_committed_event_Ok [of cd entry] scope(2) that
    by (simp add: event_bound_def validate_committed_events_Ok)
  then have "list_all (\<lambda>entry. event_bound cd (dr_intent req) (ce_event entry)) (dr_entries req)" by (simp add: list_all_iff)
  moreover have "distinct (map (\<lambda>entry. ev_event_id (ce_event entry)) (dr_entries req))"
    using check_request_Ok(3) [OF checked] by (simp add: validate_committed_events_Ok)
  ultimately show ?thesis
    using verified ok check_request_Ok(1,2,6) [OF checked] by (simp add: request_ok_def)
qed

text \<open>C17.
  A mutation that is not committed changes nothing: over any ledger that keeps the contract of a
  transaction, and an authorizer that only reads, an error or a replay leaves the durable state as
  it was. The one exception is an error of the final commit call, whose outcome the caller cannot
  know; the transaction had then been staged completely.
\<close>
theorem uncommitted_mutation_changes_nothing:
  assumes "transactional_ledger lg durable"
    and "\<And>caller tenant intent resource. keeps durable (authorizer caller tenant intent resource)"
    and "persist_durable_verified cd lg authorizer verifier req w = (r, w')"
    and "\<And>commit_id. r \<noteq> Ok (DurableCommitted commit_id)"
  shows "durable w' = durable w \<or>
    (\<exists>e tenant wa w1. r = Err (store_error e) \<and>
      staged lg tenant (map ce_event (dr_entries req)) req wa w1 \<and> lg_commit lg w1 = (Err e, w'))"
proof (cases "persist_durable cd lg authorizer req w = (r, w')")
  case True
  then show ?thesis
  proof (cases rule: persist_durable_cases)
    case (1 tenant events wa)
    have "durable wa = durable w" and events: "events = map ce_event (dr_entries req)"
      using 1(1) keepsD [OF assms(2)] check_request_Ok(1) by (auto simp: request_ok_def)
    with transactional_ledger.write_durable_outcome [OF assms(1) 1(2)] show ?thesis
    proof (elim disjE exE conjE)
      fix w1 c
      assume st: "staged lg tenant events req wa w1" and c: "lg_commit lg w1 = (c, w')"
        and r: "r = map_ok (\<lambda>_. DurableCommitted (co_commit_id (sg_body (dr_commit req)))) (map_err store_error c)"
      obtain e where "c = Err e" using r assms(4) by (cases c) auto
      then show ?thesis using st c r events by auto
    qed simp
  next
    case (2 e)
    then show ?thesis using keepsD [OF assms(2)] by blast
  qed
next
  case False
  then have "w' = w" using assms(3) by (auto simp: persist_durable_verified_def then_run_def pure_def split: result.splits)
  then show ?thesis by simp
qed

section \<open>Repeating a mutation\<close>

definition allow_all :: "'w authorizer" where
  "allow_all caller tenant intent resource = yield ()"

lemma allow_all_quiet: "keeps durable (allow_all caller tenant intent resource)"
  by (simp add: allow_all_def)

lemma recorded_write_replays:
  assumes "ml_faults w = []" and "\<not> ml_poisoned w"
    and "btree_get (st_identities (ml_data w)) (tenant, in_intent_id (dr_intent req)) = Some (dr_payload_digest req, commit_id)"
  shows "\<exists>w'. write_durable (memory_store sha) tenant events req w = (Ok (DurableReplay commit_id), w') \<and> ml_data w' = ml_data w"
  using assms
  by (simp add: write_durable_def then_run_def on_err_def or_rollback_def outcome_def yield_def memory_begin_def
      memory_claim_idempotency_def memory_rollback_def dropping_def checkpoint_def Let_def)

lemma changed_data_recorded:
  assumes "persist_durable_verified cd (memory_store sha) allow_all verifier req w = (r, w1)" and "ml_data w1 \<noteq> ml_data w"
  obtains tenant events where "request_ok cd (allow_all :: memory_ledger authorizer) req tenant events w w" and "verifier (dr_commit req) = Ok ()"
    and "btree_get (st_identities (ml_data w1)) (tenant, in_intent_id (dr_intent req)) =
      Some (dr_payload_digest req, co_commit_id (sg_body (dr_commit req)))"
proof -
  have verified: "verifier (dr_commit req) = Ok ()" and run: "persist_durable cd (memory_store sha) allow_all req w = (r, w1)"
    using assms by (auto simp: persist_durable_verified_def then_run_def pure_def split: result.splits)
  from run show ?thesis
  proof (cases rule: persist_durable_cases)
    case (1 tenant events wa)
    then have wa: "wa = w" by (simp add: request_ok_def allow_all_def yield_def)
    obtain w2 c where st: "staged (memory_store sha) tenant events req w w2" and c: "lg_commit (memory_store sha) w2 = (c, w1)"
      using memory.write_durable_outcome [OF 1(2)] assms(2) wa by blast
    have "ml_data w2 = ml_data w" using st by (rule memory.staged_quiet)
    then have "btree_get (st_identities (ml_data w1)) (tenant, in_intent_id (dr_intent req)) =
        Some (dr_payload_digest req, co_commit_id (sg_body (dr_commit req)))"
      using commit_identity [OF staged_identity [OF st], of sha c w1] c assms(2) by simp
    with 1(1) wa verified show ?thesis using that by simp
  next
    case (2 e)
    then show ?thesis using assms(2) by (auto simp: allow_all_def yield_def)
  qed
qed


section \<open>An example\<close>

definition flat_hash :: sha256 where
  "flat_hash x = replicate 32 7"

definition ex_persist_codec :: persist_codec where
  "ex_persist_codec = \<lparr>pc_sha = flat_hash, pc_intent_bytes = (\<lambda>i. Ok [1]), pc_state_bytes = (\<lambda>s. Ok [2]),
    pc_event_bytes = (\<lambda>e. Ok [3]), pc_commit_bytes = (\<lambda>c. Ok [4])\<rparr>"

definition ex_moved :: event where
  "ex_moved = event_new ''t'' ''evt_1'' ''int_1'' ''asset.transfer'' ''asset:1'' ''alice''
    \<lparr>sc_version = 0, sc_state_hash = replicate 32 7, sc_state = ex_asset ''alice'' ''active'' None\<rparr>
    \<lparr>sc_version = 1, sc_state_hash = replicate 32 7, sc_state = ex_asset ''bob'' ''active'' None\<rparr> None ''svc'' 0"

definition ex_request :: "hash \<Rightarrow> durable_commit_request" where
  "ex_request previous =
    (let entries = [\<lparr>ce_event = ex_moved, ce_state_type = UniqueAssetT\<rparr>] in
     \<lparr>dr_principal = \<lparr>pi_subject = ''alice'', pi_credential_id = ''c'', pi_tenant = ''t''\<rparr>,
      dr_intent = intent_new ''t'' ''int_1'' ''asset.transfer'' ''alice'' ''asset:1'' (Some UniqueAssetT) 0 [] None 0 None [],
      dr_payload_digest = replicate 32 7, dr_entries = entries,
      dr_commit = \<lparr>sg_body = \<lparr>co_schema = COMMIT_SCHEMA, co_scope = scope_tenant ''t'', co_commit_id = ''cmt_1'',
          co_parent_commit_id = None, co_sequence = 1, co_event_count = 1, co_event_merkle_root = replicate 32 7,
          co_previous_state_root = previous, co_next_state_root = replicate 32 7, co_created_at = 0,
          co_executor = ''svc'', co_profile = ''p''\<rparr>,
        sg_signature = \<lparr>sb_alg = Ed25519, sb_key_id = ''k'', sb_sig = []\<rparr>\<rparr>,
      dr_projections = projections_for ''cmt_1'' entries, dr_outbox = []\<rparr>)"

definition ex_empty_ledger :: memory_ledger where
  "ex_empty_ledger = \<lparr>ml_data = stored_default, ml_poisoned = False, ml_fail_projection = False, ml_faults = [],
    ml_lose_commit_response = False, ml_calls = [], ml_reservations = [], ml_open = None\<rparr>"

definition ex_durable :: durable_commit_request where
  "ex_durable = ex_request (compute_root flat_hash accumulator_empty)"

lemma flat_node: "h < 256 \<Longrightarrow> node_hash flat_hash es 0 (Suc n) (Suc h) = replicate 32 7"
  by (simp add: internal_hash_def flat_hash_def TREE_DEPTH_def)

lemma flat_root: "fst (insert_batch flat_hash [u] accumulator_empty) = replicate 32 7"
  using flat_node [of 255 "[(su_key u, su_state_digest u)]" 0]
  by (simp add: insert_batch_def accumulator_empty_def compute_root_def TREE_DEPTH_def)

lemma ex_request_ok: "request_ok ex_persist_codec allow_all (ex_request previous) ''t'' [ex_moved] w w"
proof -
  have "validate_durable_intent ex_persist_codec (dr_intent (ex_request previous)) = Ok ()" by code_simp
  moreover have "commit_tenant (sg_body (dr_commit (ex_request previous))) = Ok ''t''" by code_simp
  moreover have "canonicalize_and_digest (pc_sha ex_persist_codec) (pc_intent_bytes ex_persist_codec) (dr_intent (ex_request previous)) =
      Ok (dr_payload_digest (ex_request previous))" by code_simp
  moreover have "validate_durable_scope (dr_intent (ex_request previous)) (dr_principal (ex_request previous)) ''t'' = Ok ()" by code_simp
  moreover have "check_request ex_persist_codec ''t'' (ex_request previous) = Ok [ex_moved]" by code_simp
  ultimately show ?thesis by (simp add: request_ok_def allow_all_def yield_def)
qed

definition ex_rows :: "state_projection list" where
  "ex_rows = projections_for ''cmt_1'' [\<lparr>ce_event = ex_moved, ce_state_type = UniqueAssetT\<rparr>]"

lemma ex_durable_parts:
  "dr_projections ex_durable = ex_rows" "dr_outbox ex_durable = []" "in_intent_id (dr_intent ex_durable) = ''int_1''"
  "dr_payload_digest ex_durable = replicate 32 7" "co_commit_id (sg_body (dr_commit ex_durable)) = ''cmt_1''"
  by (simp_all add: ex_durable_def ex_request_def ex_rows_def Let_def intent_new_def)

definition ex_staged :: stored where
  "ex_staged = \<lparr>st_events = [ex_moved], st_commits = [dr_commit ex_durable], st_projections = ex_rows,
    st_finalized = True, st_outbox = [], st_identities = [((''t'', ''int_1''), replicate 32 7, ''cmt_1'')]\<rparr>"

lemma ex_rows_replaced: "replace_rows ex_rows [] [ex_moved] = Ok ex_rows"
  by code_simp

lemma ex_merged: "merge_staged flat_hash ex_staged stored_default = Ok ex_staged"
proof -
  have "root_of_rows flat_hash (Some ''t'') ex_rows = replicate 32 7"
    by (simp add: root_of_rows_def ex_rows_def projections_for_def ex_moved_def event_new_def Let_def flat_root)
  then show ?thesis
    by (simp add: merge_staged_def ex_staged_def stored_default_def ex_rows_replaced ex_durable_def ex_request_def scope_tenant_def
        Let_def del: replace_rows.simps)
qed

lemma ex_staging:
  "\<exists>wb wc w1. memory_begin ''t'' ex_empty_ledger = (Ok (), wb) \<and>
    memory_claim_idempotency ''t'' (dr_intent ex_durable) (dr_payload_digest ex_durable) wb = (Ok (NewReservation ''attempt''), wc) \<and>
    stage_all (memory_store flat_hash) ''t'' [ex_moved] ex_durable ''attempt'' wc = (Ok (), w1) \<and>
    ml_open w1 = Some \<lparr>tn_staged = ex_staged, tn_identity = Some ((''t'', ''int_1''), replicate 32 7)\<rparr> \<and>
    ml_data w1 = stored_default \<and> ml_faults w1 = [] \<and> \<not> ml_poisoned w1 \<and> \<not> ml_lose_commit_response w1"
proof -
  obtain row where row: "ex_rows = [row]" by (simp add: ex_rows_def projections_for_def Let_def)
  show ?thesis
    by (simp add: stage_all_def memory_defs then_run_def checkpoint_def stage_def yield_def ex_empty_ledger_def
        stored_default_def ex_durable_parts ex_staged_def row Let_def)
qed

lemma ex_persisted:
  obtains w1 where "persist_durable_verified ex_persist_codec (memory_store flat_hash) allow_all (\<lambda>_. Ok ()) ex_durable ex_empty_ledger =
      (Ok (DurableCommitted ''cmt_1''), w1)"
    and "ml_data w1 = ex_staged" and "ml_faults w1 = []" and "\<not> ml_poisoned w1"
proof -
  obtain w1 where st: "staged (memory_store flat_hash) ''t'' [ex_moved] ex_durable ex_empty_ledger w1"
    and w1: "ml_open w1 = Some \<lparr>tn_staged = ex_staged, tn_identity = Some ((''t'', ''int_1''), replicate 32 7)\<rparr>"
      "ml_data w1 = stored_default" "ml_faults w1 = []" "\<not> ml_poisoned w1" "\<not> ml_lose_commit_response w1"
    using ex_staging unfolding staged_def memory_store_sel by blast
  obtain w2 where c: "lg_commit (memory_store flat_hash) w1 = (Ok (), w2)" and "ml_data w2 = ex_staged" "ml_faults w2 = []" "\<not> ml_poisoned w2"
    using w1 by (simp add: memory_commit_def dropping_def then_run_def checkpoint_def commit_staged_def ex_merged Let_def)
  moreover have "persist_durable_verified ex_persist_codec (memory_store flat_hash) allow_all (\<lambda>_. Ok ()) ex_durable ex_empty_ledger =
      (Ok (DurableCommitted ''cmt_1''), w2)"
    using ex_request_ok [of "compute_root flat_hash accumulator_empty" ex_empty_ledger] staged_commits [OF st c]
    by (simp add: persist_durable_verified_def persist_durable_def request_ok_def then_run_def pure_def on_err_def
        ex_durable_def [symmetric] ex_durable_parts)
  ultimately show ?thesis using that by blast
qed

theorem committed_mutation_is_bound_witness:
  "list_all (\<lambda>entry. event_bound ex_persist_codec (dr_intent ex_durable) (ce_event entry)) (dr_entries ex_durable) \<and>
   pi_subject (dr_principal ex_durable) = in_actor (dr_intent ex_durable)"
proof -
  obtain w1 where "persist_durable_verified ex_persist_codec (memory_store flat_hash) allow_all (\<lambda>_. Ok ()) ex_durable ex_empty_ledger =
      (Ok (DurableCommitted ''cmt_1''), w1)" by (rule ex_persisted)
  from committed_mutation_is_bound [OF this] show ?thesis by blast
qed

theorem uncommitted_mutation_changes_nothing_witness:
  "\<exists>w'. persist_durable_verified ex_persist_codec (memory_store flat_hash) allow_all (\<lambda>_. Err ''bad signature'') ex_durable ex_empty_ledger =
      (Err (CommitStore ''bad signature''), w') \<and> ml_data w' = ml_data ex_empty_ledger"
proof -
  have run: "persist_durable_verified ex_persist_codec (memory_store flat_hash) allow_all (\<lambda>_. Err ''bad signature'') ex_durable ex_empty_ledger =
      (Err (CommitStore ''bad signature''), ex_empty_ledger)"
    by (simp add: persist_durable_verified_def then_run_def pure_def)
  show ?thesis
    using run uncommitted_mutation_changes_nothing [OF memory_transactional allow_all_quiet run] by simp
qed


end
