(* ===== verification/Projection_Rebuild.thy ===== *)
theory Projection_Rebuild
  imports Durable_Persist
begin

text \<open>
  The rebuild of the current-state rows from the event stream (\<^verbatim>\<open>rebuild.rs\<close> of \<^verbatim>\<open>statechronicle-index\<close>): the
  validation of the whole stream, one pass over a chunk, and the loop that resumes from a stored
  checkpoint. The loop follows the checkpoints it is given and is therefore a partial function.
\<close>

section \<open>Errors and progress\<close>

datatype rebuild_error = RebuildInvariant string | RebuildSink string

record rebuild_checkpoint =
  rc_next_event :: nat
  rc_projections_written :: nat

record rebuild_progress =
  rg_total_events :: nat
  rg_next_event :: nat
  rg_lag_events :: nat
  rg_caught_up :: bool

definition rebuild_progress_of :: "nat \<Rightarrow> nat \<Rightarrow> (rebuild_progress, rebuild_error) result" where
  "rebuild_progress_of total_events next_event =
    (if next_event > total_events
     then Err (RebuildInvariant ''rebuild checkpoint exceeds canonical event stream'')
     else
       let lag = total_events - next_event in
       Ok \<lparr>rg_total_events = total_events, rg_next_event = next_event, rg_lag_events = lag, rg_caught_up = (lag = 0)\<rparr>)"

section \<open>Validation\<close>

type_synonym row_key = "string \<times> string"

definition rebuild_digest :: "persist_codec \<Rightarrow> resource_state \<Rightarrow> (content_digest, rebuild_error) result" where
  "rebuild_digest cd state =
    map_err (\<lambda>e. RebuildInvariant (core_error_to_string e))
      (canonicalize_and_digest (pc_sha cd) (pc_state_bytes cd) state)"

definition validate_event_for_rebuild :: "persist_codec \<Rightarrow> event \<Rightarrow> string \<Rightarrow> (unit, rebuild_error) result" where
  "validate_event_for_rebuild cd event commit_id =
    (if ev_schema event \<noteq> ''statechronicle.event.v0''
     then Err (RebuildInvariant ''event schema is not the supported v0 schema'')
     else
       and_then (map_err (\<lambda>e. RebuildInvariant (''invalid projection commit id: '' @ domain_error_to_string e))
         (commit_id_new commit_id)) (\<lambda>_.
       and_then (ok_or (checked_add_word (sc_version (ev_before event)) 1)
         (RebuildInvariant ''event before-state version overflows'')) (\<lambda>expected_after.
       if sc_version (ev_after event) \<noteq> expected_after
       then Err (RebuildInvariant ''event versions must advance by exactly one'')
       else
         and_then (rebuild_digest cd (sc_state (ev_before event))) (\<lambda>before_digest.
         if before_digest \<noteq> sc_state_hash (ev_before event)
         then Err (RebuildInvariant ''event before-state digest does not match state'')
         else
           and_then (rebuild_digest cd (sc_state (ev_after event))) (\<lambda>after_digest.
           if after_digest \<noteq> sc_state_hash (ev_after event)
           then Err (RebuildInvariant ''event after-state digest does not match state'')
           else if rs_state_type (sc_state (ev_before event)) \<noteq> rs_state_type (sc_state (ev_after event))
           then Err (RebuildInvariant ''event before/after state types must match'') else Ok ())))))"

definition row_of :: "event \<Rightarrow> row_key" where
  "row_of event = (ev_tenant_id event, ev_resource_id event)"

definition empty_scope :: "event \<Rightarrow> bool" where
  "empty_scope event \<longleftrightarrow> ev_tenant_id event = [] \<or> ev_resource_id event = []"

fun validate_stream_loop ::
  "persist_codec \<Rightarrow> string list \<Rightarrow> (row_key, 64 word \<times> content_digest) btree_map \<Rightarrow> (event \<times> string) list \<Rightarrow>
    (unit, rebuild_error) result" where
  "validate_stream_loop cd event_ids previous [] = Ok ()"
| "validate_stream_loop cd event_ids previous ((event, commit_id) # rest) =
    and_then (validate_event_for_rebuild cd event commit_id) (\<lambda>_.
    if empty_scope event then Err (RebuildInvariant ''event tenant/resource scope must not be empty'')
    else if ev_event_id event \<in> set event_ids
    then Err (RebuildInvariant (''duplicate event id '' @ quoted (ev_event_id event) @ '' in rebuild stream''))
    else if (case btree_get previous (row_of event) of
        Some (version, state_hash) \<Rightarrow> sc_version (ev_before event) \<noteq> version \<or> sc_state_hash (ev_before event) \<noteq> state_hash
      | None \<Rightarrow> False)
    then Err (RebuildInvariant (''event continuity mismatch for resource '' @ quoted (ev_resource_id event)))
    else validate_stream_loop cd (ev_event_id event # event_ids)
      (btree_insert (row_of event) (sc_version (ev_after event), sc_state_hash (ev_after event)) previous) rest)"

definition validate_rebuild_stream :: "persist_codec \<Rightarrow> (event \<times> string) list \<Rightarrow> (unit, rebuild_error) result" where
  "validate_rebuild_stream cd events = validate_stream_loop cd [] [] events"

section \<open>One pass\<close>

definition projection_of :: "event \<Rightarrow> string \<Rightarrow> state_projection" where
  "projection_of event commit_id =
    \<lparr>sp_tenant_id = ev_tenant_id event, sp_resource_id = ev_resource_id event,
     sp_state_type = rs_state_type (sc_state (ev_after event)), sp_version = sc_version (ev_after event),
     sp_last_event_id = ev_event_id event, sp_last_commit_id = commit_id,
     sp_state_hash = sc_state_hash (ev_after event), sp_state = sc_state (ev_after event)\<rparr>"

fun latest_loop ::
  "(row_key, state_projection) btree_map \<Rightarrow> (event \<times> string) list \<Rightarrow>
    ((row_key, state_projection) btree_map, rebuild_error) result" where
  "latest_loop latest [] = Ok latest"
| "latest_loop latest ((event, commit_id) # rest) =
    (if empty_scope event then Err (RebuildInvariant ''event tenant/resource scope must not be empty'')
     else
       let projection = projection_of event commit_id in
       case btree_get latest (row_of event) of
         Some existing \<Rightarrow>
           if sp_version projection < sp_version existing then latest_loop latest rest
           else if sp_version projection = sp_version existing \<and>
             (sp_state_hash projection \<noteq> sp_state_hash existing \<or> sp_last_event_id projection \<noteq> sp_last_event_id existing)
           then Err (RebuildInvariant (''conflicting projection version '' @ nat_to_string (unat (sp_version projection)) @
             '' for resource '' @ quoted (sp_resource_id projection)))
           else latest_loop (btree_insert (row_of event) projection latest) rest
       | None \<Rightarrow> latest_loop (btree_insert (row_of event) projection latest) rest)"

type_synonym 'w projection_sink = "state_projection \<Rightarrow> ('w, unit, string) port"

definition rebuild_projections ::
  "persist_codec \<Rightarrow> 'w projection_sink \<Rightarrow> (event \<times> string) list \<Rightarrow> ('w, nat, rebuild_error) port" where
  "rebuild_projections cd upsert events =
    then_run (pure (validate_rebuild_stream cd events)) (\<lambda>_.
    then_run (pure (latest_loop [] events)) (\<lambda>latest.
    then_run (in_turn (\<lambda>projection. on_err RebuildSink (upsert projection)) (map snd latest)) (\<lambda>_.
    pure (if length latest < 2 ^ 64 then Ok (length latest)
      else Err (RebuildInvariant ''out of range integral type conversion attempted'')))))"

definition rebuild_projections_chunk ::
  "persist_codec \<Rightarrow> 'w projection_sink \<Rightarrow> (event \<times> string) list \<Rightarrow> nat \<Rightarrow> nat \<Rightarrow> ('w, rebuild_checkpoint, rebuild_error) port" where
  "rebuild_projections_chunk cd upsert events start_event max_events =
    (if max_events = 0 \<or> start_event > length events
     then pure (Err (RebuildInvariant ''invalid projection rebuild checkpoint''))
     else
       let stop = min (min (2 ^ 64 - 1) (start_event + max_events)) (length events) in
       if stop < start_event then pure (Err (RebuildInvariant ''invalid projection rebuild range''))
       else
         then_run (rebuild_projections cd upsert (take (stop - start_event) (drop start_event events))) (\<lambda>written.
         yield \<lparr>rc_next_event = stop, rc_projections_written = written\<rparr>))"

section \<open>Resuming\<close>

record 'w checkpoint_store =
  ck_load :: "string \<Rightarrow> ('w, nat option, string) port"
  ck_save :: "string \<Rightarrow> nat \<Rightarrow> ('w, unit, string) port"

text \<open>The while loop; it returns nothing when it does not end.\<close>

partial_function (option) rebuild_loop ::
  "persist_codec \<Rightarrow> 'w projection_sink \<Rightarrow> 'w checkpoint_store \<Rightarrow> (event \<times> string) list \<Rightarrow> string \<Rightarrow> nat \<Rightarrow> nat \<Rightarrow> nat \<Rightarrow>
    'w \<Rightarrow> ((nat, rebuild_error) result \<times> 'w) option" where
  "rebuild_loop cd upsert checkpoints events key chunk_size offset written w =
    (if offset < length events then
       (case rebuild_projections_chunk cd upsert events offset chunk_size w of
          (Err e, w1) \<Rightarrow> Some (Err e, w1)
        | (Ok c, w1) \<Rightarrow>
            (case ck_save checkpoints key (rc_next_event c) w1 of
               (Err e, w2) \<Rightarrow> Some (Err (RebuildSink e), w2)
             | (Ok u, w2) \<Rightarrow>
                 rebuild_loop cd upsert checkpoints events key chunk_size (rc_next_event c)
                   (min (2 ^ 64 - 1) (written + rc_projections_written c)) w2))
     else Some (Ok written, w))"

declare rebuild_loop.simps [code]

definition rebuild_projections_resumable ::
  "persist_codec \<Rightarrow> 'w projection_sink \<Rightarrow> 'w checkpoint_store \<Rightarrow> (event \<times> string) list \<Rightarrow> string \<Rightarrow> nat \<Rightarrow>
    'w \<Rightarrow> ((nat, rebuild_error) result \<times> 'w) option" where
  "rebuild_projections_resumable cd upsert checkpoints events key chunk_size w =
    (if key = [] \<or> chunk_size = 0
     then Some (Err (RebuildInvariant ''rebuild key and chunk size must be non-empty''), w)
     else case validate_rebuild_stream cd events of
         Err e \<Rightarrow> Some (Err e, w)
       | Ok u \<Rightarrow>
           (case ck_load checkpoints key w of
              (Err e, w1) \<Rightarrow> Some (Err (RebuildSink e), w1)
            | (Ok stored, w1) \<Rightarrow>
                let offset = (case stored of Some n \<Rightarrow> n | None \<Rightarrow> 0) in
                if offset > length events
                then Some (Err (RebuildInvariant ''stored rebuild checkpoint exceeds event stream''), w1)
                else rebuild_loop cd upsert checkpoints events key chunk_size offset 0 w1))"

section \<open>The sink and the checkpoint store of the crate's tests\<close>

definition recording_upsert :: "state_projection list projection_sink" where
  "recording_upsert projection recorded = (Ok (), recorded @ [projection])"

definition noop_checkpoint :: "'w checkpoint_store" where
  "noop_checkpoint = \<lparr>ck_load = (\<lambda>key. yield None), ck_save = (\<lambda>key next_event. yield ())\<rparr>"

end
