(* ===== verification/Rebuild_Theorems.thy ===== *)
theory Rebuild_Theorems
  imports Projection_Rebuild Ledger_Contract Example_Data
begin

text \<open>
  Rebuilding the current-state rows: a stream that passes the validation has strictly rising versions per
  row, so the replay of any slice over rows that are already ahead leaves them ahead. A resumed rebuild
  always ends, and once it succeeds every row is that of the last event of its resource.
\<close>

section \<open>The rows a stream stands for\<close>

text \<open>The row of a key is that of its last event. A stream is rising when each later event of a key has a
  greater version.\<close>

definition last_row :: "(event \<times> string) list \<Rightarrow> row_key \<Rightarrow> state_projection option" where
  "last_row events k = map_option (\<lambda>(event, c). projection_of event c) (find (\<lambda>(event, c). row_of event = k) (rev events))"

definition rising :: "(event \<times> string) list \<Rightarrow> bool" where
  "rising = sorted_wrt (\<lambda>(e, c) (e', c'). row_of e = row_of e' \<longrightarrow> sc_version (ev_after e) < sc_version (ev_after e'))"

definition row_key_of :: "state_projection \<Rightarrow> row_key" where
  "row_key_of p = (sp_tenant_id p, sp_resource_id p)"

text \<open>What a monotone upsert leaves of a row.\<close>

definition newer :: "state_projection option \<Rightarrow> state_projection \<Rightarrow> state_projection" where
  "newer old p = (case old of Some q \<Rightarrow> if sp_version p < sp_version q then q else p | None \<Rightarrow> p)"

lemma row_key_of_projection [simp]: "row_key_of (projection_of event c) = row_of event"
  by (simp add: row_key_of_def projection_of_def row_of_def)

lemma projection_of_fields [simp]:
  "sp_version (projection_of event c) = sc_version (ev_after event)"
  by (simp add: projection_of_def)

lemma last_row_Nil [simp]: "last_row [] k = None"
  by (simp add: last_row_def)

lemma last_row_append:
  "last_row (xs @ ys) k = (case last_row ys k of Some p \<Rightarrow> Some p | None \<Rightarrow> last_row xs k)"
  by (simp add: last_row_def find_append split: option.split)

lemma last_row_single: "last_row [x] k = (if row_of (fst x) = k then Some (projection_of (fst x) (snd x)) else None)"
  by (simp add: last_row_def split: prod.split)

lemma last_row_Cons:
  "last_row (x # xs) k =
    (case last_row xs k of Some p \<Rightarrow> Some p | None \<Rightarrow> if row_of (fst x) = k then Some (projection_of (fst x) (snd x)) else None)"
  using last_row_append [of "[x]" xs k] by (cases x) (simp add: last_row_single split: option.split)

lemma last_row_SomeD:
  assumes "last_row xs k = Some p"
  obtains event c where "(event, c) \<in> set xs" "row_of event = k" "p = projection_of event c"
proof -
  obtain x where x: "find (\<lambda>(event, c). row_of event = k) (rev xs) = Some x" "p = (\<lambda>(event, c). projection_of event c) x"
    using assms by (auto simp: last_row_def)
  then have "x \<in> set xs" "(\<lambda>(event, c). row_of event = k) x"
    by (metis (no_types, lifting) find_Some_iff nth_mem set_rev)+
  then show ?thesis using x that by (cases x) auto
qed

lemma last_row_key: "last_row xs k = Some p \<Longrightarrow> row_key_of p = k"
  by (erule last_row_SomeD) simp

lemma last_row_None: "last_row xs k = None \<longleftrightarrow> (\<forall>(event, c) \<in> set xs. row_of event \<noteq> k)"
  by (auto simp: last_row_def find_None_iff)

lemma rising_append_less:
  assumes "rising (xs @ ys)" "last_row xs k = Some q" "last_row ys k = Some p"
  shows "sp_version q < sp_version p"
proof -
  obtain e c where e: "(e, c) \<in> set xs" "row_of e = k" "q = projection_of e c"
    using assms(2) by (rule last_row_SomeD)
  obtain e' c' where e': "(e', c') \<in> set ys" "row_of e' = k" "p = projection_of e' c'"
    using assms(3) by (rule last_row_SomeD)
  show ?thesis using assms(1) e e' by (force simp: rising_def sorted_wrt_append)
qed

text \<open>Replaying a prefix over the rows of a longer or shorter prefix gives the rows of the longer one.\<close>

lemma newer_last_row:
  assumes "rising events" "last_row (take j events) k = Some p"
  shows "Some (newer (last_row (take m events) k) p) = last_row (take (max m j) events) k"
proof (cases "m \<le> j")
  case True
  then have split: "take j events = take m events @ drop m (take j events)"
    by (metis append_take_drop_id min.absorb1 take_take)
  have "rising (take j events)" using assms(1) by (simp add: rising_def sorted_wrt_take)
  then have r: "rising (take m events @ drop m (take j events))" using split by simp
  show ?thesis
  proof (cases "last_row (drop m (take j events)) k")
    case None
    then have "last_row (take m events) k = Some p" using assms(2) by (subst (asm) split) (simp add: last_row_append)
    then show ?thesis using True assms(2) by (simp add: newer_def max_absorb2)
  next
    case (Some p')
    then have "p' = p" using assms(2) by (subst (asm) (2) split) (simp add: last_row_append)
    then have "q = p \<or> sp_version q < sp_version p" if "last_row (take m events) k = Some q" for q
      using rising_append_less [OF r that] Some by simp
    then show ?thesis using True assms(2) by (force simp: newer_def max_absorb2 split: option.split)
  qed
next
  case False
  then have split: "take m events = take j events @ drop j (take m events)"
    by (metis append_take_drop_id min.absorb1 nat_le_linear take_take)
  have "rising (take m events)" using assms(1) by (simp add: rising_def sorted_wrt_take)
  then have r: "rising (take j events @ drop j (take m events))" using split by simp
  have "last_row (take m events) k =
      (case last_row (drop j (take m events)) k of Some q \<Rightarrow> Some q | None \<Rightarrow> Some p)"
    by (subst split) (simp add: last_row_append assms(2) split: option.split)
  then show ?thesis using False rising_append_less [OF r assms(2)]
    by (auto simp: newer_def max_absorb1 split: option.splits)
qed

section \<open>Validated streams\<close>

lemma rebuild_step_rises:
  "validate_event_for_rebuild cd event c = Ok () \<Longrightarrow> sc_version (ev_before event) < sc_version (ev_after event)"
  by (auto simp: validate_event_for_rebuild_def word_less_nat_alt checked_simps split: if_splits)

lemma validated_rising:
  assumes "validate_stream_loop cd ids previous events = Ok ()"
  shows "rising events \<and> (\<forall>(event, c) \<in> set events. \<forall>v h. btree_get previous (row_of event) = Some (v, h) \<longrightarrow>
    v < sc_version (ev_after event)) \<and> (\<forall>(event, c) \<in> set events. \<not> empty_scope event)"
  using assms
proof (induction cd ids previous events rule: validate_stream_loop.induct)
  case (2 cd ids previous event c rest)
  then have valid: "validate_event_for_rebuild cd event c = Ok ()" and scope: "\<not> empty_scope event"
    and cont: "\<And>v h. btree_get previous (row_of event) = Some (v, h) \<Longrightarrow> sc_version (ev_before event) = v"
    by (auto simp: checked_simps split: if_splits option.splits)
  have up: "sc_version (ev_before event) < sc_version (ev_after event)"
    using rebuild_step_rises valid by blast
  have rest: "rising rest \<and> (\<forall>(e, c) \<in> set rest. \<forall>v h.
      btree_get (btree_insert (row_of event) (sc_version (ev_after event), sc_state_hash (ev_after event)) previous) (row_of e) = Some (v, h) \<longrightarrow>
      v < sc_version (ev_after e)) \<and> (\<forall>(e, c) \<in> set rest. \<not> empty_scope e)"
    using 2 by (auto simp: checked_simps split: if_splits)
  show ?case
    using rest up scope cont by (fastforce simp: rising_def btree_get_insert split: if_splits dest: less_trans)
qed (simp add: rising_def)

text \<open>Every slice of a validated stream is validated.\<close>

lemma validate_loop_take:
  assumes "validate_stream_loop cd ids previous events = Ok ()" "set ids' \<subseteq> set ids"
    and "\<And>k x. btree_get previous' k = Some x \<Longrightarrow> btree_get previous k = Some x"
  shows "validate_stream_loop cd ids' previous' (take n events) = Ok ()"
  using assms
proof (induction events arbitrary: ids previous ids' previous' n)
  case (Cons x rest)
  obtain event c where x: "x = (event, c)" by fastforce
  have here: "validate_event_for_rebuild cd event c = Ok ()" "\<not> empty_scope event" "ev_event_id event \<notin> set ids"
    and cont: "\<And>v h. btree_get previous (row_of event) = Some (v, h) \<Longrightarrow>
      sc_version (ev_before event) = v \<and> sc_state_hash (ev_before event) = h"
    and rest: "validate_stream_loop cd (ev_event_id event # ids)
      (btree_insert (row_of event) (sc_version (ev_after event), sc_state_hash (ev_after event)) previous) rest = Ok ()"
    using Cons.prems(1) by (auto simp: x checked_simps split: if_splits option.splits)
  have "validate_stream_loop cd (ev_event_id event # ids')
      (btree_insert (row_of event) (sc_version (ev_after event), sc_state_hash (ev_after event)) previous') (take m rest) = Ok ()" for m
    by (rule Cons.IH [OF rest]) (use Cons.prems(2,3) in \<open>auto simp: btree_get_insert split: if_splits\<close>)
  then show ?case using Cons.prems(2,3) here cont by (cases n) (auto simp: x split: option.split)
qed simp

lemma validate_loop_drop:
  "validate_stream_loop cd ids previous events = Ok () \<Longrightarrow>
    \<exists>ids' previous'. validate_stream_loop cd ids' previous' (drop n events) = Ok ()"
proof (induction n arbitrary: ids previous events)
  case (Suc n)
  show ?case
  proof (cases events)
    case (Cons x rest)
    obtain event c where x: "x = (event, c)" by fastforce
    then have "validate_stream_loop cd (ev_event_id event # ids)
        (btree_insert (row_of event) (sc_version (ev_after event), sc_state_hash (ev_after event)) previous) rest = Ok ()"
      using Suc.prems Cons by (auto simp: checked_simps split: if_splits)
    then show ?thesis using Suc.IH Cons by simp
  qed auto
qed auto

lemma validate_slice:
  assumes "validate_rebuild_stream cd events = Ok ()"
  shows "validate_rebuild_stream cd (take n (drop m events)) = Ok ()"
proof -
  obtain ids previous where "validate_stream_loop cd ids previous (drop m events) = Ok ()"
    using validate_loop_drop assms unfolding validate_rebuild_stream_def by blast
  then show ?thesis unfolding validate_rebuild_stream_def by (rule validate_loop_take) auto
qed

section \<open>One pass\<close>

lemma latest_loop_rows:
  assumes "rising events" "\<forall>(event, c) \<in> set events. \<not> empty_scope event" "btree_ok latest"
    and "\<forall>(event, c) \<in> set events. \<forall>p. btree_get latest (row_of event) = Some p \<longrightarrow> sp_version p < sc_version (ev_after event)"
  shows "\<exists>m. latest_loop latest events = Ok m \<and> btree_ok m \<and>
    (\<forall>k. btree_get m k = (case last_row events k of Some p \<Rightarrow> Some p | None \<Rightarrow> btree_get latest k))"
  using assms
proof (induction events arbitrary: latest)
  case (Cons x rest)
  obtain event c where x: "x = (event, c)" by fastforce
  let ?latest = "btree_insert (row_of event) (projection_of event c) latest"
  have step: "latest_loop latest (x # rest) = latest_loop ?latest rest"
    using Cons.prems by (force simp: x Let_def split: option.split)
  have "\<exists>m. latest_loop ?latest rest = Ok m \<and> btree_ok m \<and>
    (\<forall>k. btree_get m k = (case last_row rest k of Some p \<Rightarrow> Some p | None \<Rightarrow> btree_get ?latest k))"
    by (rule Cons.IH) (use Cons.prems in \<open>fastforce simp: x rising_def btree_get_insert split: if_splits\<close>)+
  then show ?case unfolding step by (auto simp: x last_row_Cons btree_get_insert split: option.split)
qed simp

lemma latest_of_slice:
  assumes "validate_rebuild_stream cd events = Ok ()"
  obtains m where "latest_loop [] events = Ok m" "btree_ok m" "\<And>k. btree_get m k = last_row events k"
proof -
  have "rising events" "\<forall>(event, c) \<in> set events. \<not> empty_scope event"
    using validated_rising assms unfolding validate_rebuild_stream_def by blast+
  then have "\<exists>m. latest_loop [] events = Ok m \<and> btree_ok m \<and>
    (\<forall>k. btree_get m k = (case last_row events k of Some p \<Rightarrow> Some p | None \<Rightarrow> btree_get [] k))"
    by (intro latest_loop_rows) auto
  then obtain m where m: "latest_loop [] events = Ok m" "btree_ok m"
    "\<And>k. btree_get m k = (case last_row events k of Some p \<Rightarrow> Some p | None \<Rightarrow> btree_get [] k)"
    by blast
  show ?thesis by (rule that [OF m(1,2)]) (simp add: m(3) split: option.split)
qed

lemma later_part_subset:
  assumes "i \<le> l" "l \<le> j"
  shows "set (take (j - l) (drop l xs)) \<subseteq> set (take (j - i) (drop i xs))"
proof -
  have "take (j - l) (drop l xs) = drop (l - i) (take (j - i) (drop i xs))"
    using assms by (simp add: drop_take)
  then show ?thesis by (metis set_drop_subset)
qed

section \<open>Sinks with monotone upserts\<close>

text \<open>The rows are ahead of an offset when every one of them is that of some prefix at least that long: what a
  rebuild leaves behind when it stops anywhere after the offset was stored.\<close>

definition ahead :: "(event \<times> string) list \<Rightarrow> nat \<Rightarrow> (row_key \<Rightarrow> state_projection option) \<Rightarrow> bool" where
  "ahead events n rows \<longleftrightarrow> (\<forall>k. \<exists>m \<ge> n. rows k = last_row (take m events) k)"

lemma ahead_all: "ahead events (length events) rows \<longleftrightarrow> rows = last_row events"
  unfolding ahead_def by (metis (no_types, lifting) ext order_refl take_all)

lemma ahead_earlier: "ahead events n rows \<Longrightarrow> m \<le> n \<Longrightarrow> ahead events m rows"
  unfolding ahead_def by (meson order_trans)

lemma ahead_start: "ahead events 0 (\<lambda>_. None)"
  unfolding ahead_def by (metis last_row_Nil take0 order_refl)

lemma ahead_upsert:
  assumes "rising events" "ahead events n rows" "last_row (take j events) (row_key_of p) = Some p" "n \<le> j"
  shows "ahead events n (rows(row_key_of p \<mapsto> newer (rows (row_key_of p)) p))"
  unfolding ahead_def
proof
  fix k
  obtain m where m: "n \<le> m" "rows k = last_row (take m events) k" using assms(2) unfolding ahead_def by blast
  show "\<exists>m\<ge>n. (rows(row_key_of p \<mapsto> newer (rows (row_key_of p)) p)) k = last_row (take m events) k"
  proof (cases "k = row_key_of p")
    case True
    then have "(rows(row_key_of p \<mapsto> newer (rows (row_key_of p)) p)) k = last_row (take (max m j) events) k"
      using newer_last_row [OF assms(1,3), of m] m by simp
    then show ?thesis using m by (meson max.coboundedI1)
  qed (use m in auto)
qed

locale monotone_sink =
  fixes upsert :: "'w projection_sink" and rows :: "'w \<Rightarrow> row_key \<Rightarrow> state_projection option"
  assumes upsert_Ok: "upsert p w = (Ok u, w') \<Longrightarrow> rows w' = (rows w)(row_key_of p \<mapsto> newer (rows w (row_key_of p)) p)"
    and upsert_Err: "upsert p w = (Err e, w') \<Longrightarrow> rows w' = rows w"
begin

lemma upsert_ahead:
  assumes "rising events" "ahead events n (rows w)" "last_row (take j events) (row_key_of p) = Some p" "n \<le> j"
    and "upsert p w = (r, w')"
  shows "ahead events n (rows w')"
  using ahead_upsert [OF assms(1-4)] assms(2,5) upsert_Ok upsert_Err by (cases r) auto

lemma upserts_ahead:
  assumes "rising events" "n \<le> j" "\<forall>p \<in> set ps. last_row (take j events) (row_key_of p) = Some p"
    and "ahead events n (rows w)" "in_turn (\<lambda>p. on_err RebuildSink (upsert p)) ps w = (r, w')"
  shows "ahead events n (rows w')"
  using assms(3-)
proof (induction ps arbitrary: w)
  case (Cons p ps)
  obtain r1 w1 where up: "upsert p w = (r1, w1)" by fastforce
  have "ahead events n (rows w1)"
    by (rule upsert_ahead [OF assms(1) Cons.prems(2) _ assms(2) up]) (simp add: Cons.prems(1))
  then show ?case using Cons up
    by (cases r1) (auto simp: then_run_def on_err_def)
qed (auto simp: yield_def)

text \<open>Once all rows of a slice are written, every row of the slice is at least as new as the slice.\<close>

lemma upserts_reach:
  assumes "rising events" "\<forall>p \<in> set ps. last_row (take j events) (row_key_of p) = Some p"
    and "ahead events n (rows w)" "n \<le> j" "in_turn (\<lambda>p. on_err RebuildSink (upsert p)) ps w = (Ok u, w')"
    and "k \<in> row_key_of ` set ps \<or> (\<exists>m \<ge> j. rows w k = last_row (take m events) k)"
  shows "\<exists>m \<ge> j. rows w' k = last_row (take m events) k"
  using assms(2-)
proof (induction ps arbitrary: w)
  case (Cons p ps)
  obtain w1 where up: "upsert p w = (Ok (), w1)" "in_turn (\<lambda>p. on_err RebuildSink (upsert p)) ps w1 = (Ok u, w')"
    using Cons.prems(4) by (auto simp: run_simps)
  have here: "last_row (take j events) (row_key_of p) = Some p" using Cons.prems(1) by simp
  have "\<exists>m \<ge> j. rows w1 k = last_row (take m events) k" if k: "k = row_key_of p"
  proof -
    obtain m where "rows w k = last_row (take m events) k" using Cons.prems(2) unfolding ahead_def by blast
    then have "rows w1 k = last_row (take (max m j) events) k"
      using newer_last_row [OF assms(1) here, of m] upsert_Ok [OF up(1)] k by simp
    then show ?thesis by (meson max.cobounded2)
  qed
  moreover have "rows w1 k = rows w k" if "k \<noteq> row_key_of p" using upsert_Ok [OF up(1)] that by simp
  ultimately have "k \<in> row_key_of ` set ps \<or> (\<exists>m \<ge> j. rows w1 k = last_row (take m events) k)"
    using Cons.prems(5) by (cases "k = row_key_of p") auto
  then show ?case
    using Cons.IH [of w1] Cons.prems upsert_ahead [OF assms(1) Cons.prems(2) here Cons.prems(3) up(1)] up(2) by simp
qed (auto simp: yield_def)

lemma pass_ahead:
  assumes valid: "validate_rebuild_stream cd events = Ok ()" and aw: "ahead events i (rows w)" and ij: "i \<le> j"
    and run: "rebuild_projections cd upsert (take (j - i) (drop i events)) w = (r, w')"
  shows "ahead events i (rows w') \<and> (\<forall>n. r = Ok n \<longrightarrow> ahead events j (rows w'))"
proof -
  let ?slice = "take (j - i) (drop i events)"
  have up: "rising events" using validated_rising valid unfolding validate_rebuild_stream_def by blast
  have split: "take j events = take i events @ ?slice"
    using ij by (metis le_add_diff_inverse take_add)
  have slice: "validate_rebuild_stream cd ?slice = Ok ()" by (rule validate_slice [OF valid])
  obtain m where m: "latest_loop [] ?slice = Ok m" "btree_ok m" "\<And>k. btree_get m k = last_row ?slice k"
    by (rule latest_of_slice [OF slice]) blast
  have rows_m: "\<forall>p \<in> set (map snd m). last_row (take j events) (row_key_of p) = Some p"
  proof
    fix p assume "p \<in> set (map snd m)"
    then obtain k where "(k, p) \<in> set m" by auto
    then have "last_row ?slice k = Some p" using m(2,3) btree_get_Some by metis
    then show "last_row (take j events) (row_key_of p) = Some p"
      using last_row_key by (subst split) (auto simp: last_row_append)
  qed
  obtain r1 where run1: "in_turn (\<lambda>p. on_err RebuildSink (upsert p)) (map snd m) w = (r1, w')"
    and r1: "\<And>n. r = Ok n \<Longrightarrow> r1 = Ok ()"
    using run unfolding rebuild_projections_def slice m(1)
    by (auto simp: then_run_def pure_def split: prod.splits result.splits)
  have "\<exists>l \<ge> j. rows w' k = last_row (take l events) k" if ok: "r1 = Ok ()" for k
  proof (rule upserts_reach [OF up rows_m aw ij run1 [unfolded ok]])
    show "k \<in> row_key_of ` set (map snd m) \<or> (\<exists>l \<ge> j. rows w k = last_row (take l events) k)"
    proof (cases "last_row ?slice k")
      case (Some p)
      then have "(k, p) \<in> set m" using m(3) [of k] by (simp add: btree_get_Some_in)
      then show ?thesis using last_row_key [OF Some] by force
    next
      case None
      obtain l where l: "i \<le> l" "rows w k = last_row (take l events) k" using aw unfolding ahead_def by blast
      have "last_row (take l events) k = last_row (take j events) k" if "l \<le> j"
      proof -
        have "take j events = take l events @ take (j - l) (drop l events)"
          using that by (metis le_add_diff_inverse take_add)
        moreover have "last_row (take (j - l) (drop l events)) k = None"
          using None later_part_subset [OF l(1) that, of events] unfolding last_row_None by blast
        ultimately show ?thesis by (simp add: last_row_append)
      qed
      then have "rows w k = last_row (take (max l j) events) k" using l(2) by (cases "l \<le> j") (simp_all add: max_def)
      then show ?thesis by (meson max.cobounded2)
    qed
  qed
  then show ?thesis using upserts_ahead [OF up ij rows_m aw run1] r1 unfolding ahead_def by blast
qed

lemma chunk_ahead:
  assumes "validate_rebuild_stream cd events = Ok ()" "ahead events i (rows w)"
    and "rebuild_projections_chunk cd upsert events i n w = (r, w')"
  shows "ahead events i (rows w') \<and> (\<forall>c. r = Ok c \<longrightarrow>
    rc_next_event c = min (min (2 ^ 64 - 1) (i + n)) (length events) \<and> ahead events (rc_next_event c) (rows w'))"
proof (cases "n = 0 \<or> i > length events \<or> min (min (2 ^ 64 - 1) (i + n)) (length events) < i")
  case True
  then show ?thesis using assms(2,3) by (auto simp: rebuild_projections_chunk_def Let_def pure_def split: if_splits)
next
  case False
  define j where "j = min (min (2 ^ 64 - 1) (i + n)) (length events)"
  obtain r1 where r1: "rebuild_projections cd upsert (take (j - i) (drop i events)) w = (r1, w')"
    "\<And>c. r = Ok c \<Longrightarrow> (\<exists>k. r1 = Ok k) \<and> rc_next_event c = j"
    using assms(3) False unfolding rebuild_projections_chunk_def Let_def j_def [symmetric]
    by (auto simp: then_run_def yield_def split: prod.splits result.splits)
  show ?thesis using pass_ahead [OF assms(1,2) _ r1(1)] False r1(2) unfolding j_def [symmetric] by fastforce
qed

lemma loop_ends:
  assumes "validate_rebuild_stream cd events = Ok ()" "0 < n" "length events < 2 ^ 64"
    and "\<And>i. keeps rows (ck_save cps key i)" "ahead events i (rows w)"
  shows "\<exists>r w'. rebuild_loop cd upsert cps events key n i x w = Some (r, w') \<and> ahead events i (rows w') \<and>
    (\<forall>y. i \<le> length events \<and> r = Ok y \<longrightarrow> rows w' = last_row events)"
  using assms(5)
proof (induction "length events - i" arbitrary: i x w rule: less_induct)
  case less
  show ?case
  proof (cases "i < length events")
    case False
    then show ?thesis using less.prems ahead_all by (subst rebuild_loop.simps) auto
  next
    case True
    obtain r1 w1 where chunk: "rebuild_projections_chunk cd upsert events i n w = (r1, w1)" by fastforce
    note reached = chunk_ahead [OF assms(1) less.prems chunk]
    show ?thesis
    proof (cases r1)
      case (Err e)
      then show ?thesis using True chunk reached by (subst rebuild_loop.simps) auto
    next
      case (Ok c)
      let ?j = "rc_next_event c"
      have j: "i < ?j" "?j \<le> length events" "ahead events ?j (rows w1)"
        using reached Ok True assms(2,3) by auto
      obtain r2 w2 where save: "ck_save cps key ?j w1 = (r2, w2)" by fastforce
      then have w2: "rows w2 = rows w1" by (rule keepsD [OF assms(4)])
      show ?thesis
      proof (cases r2)
        case (Err e)
        then show ?thesis using True chunk reached Ok save w2 by (subst rebuild_loop.simps) auto
      next
        case u: (Ok u)
        obtain r w' where "rebuild_loop cd upsert cps events key n ?j (min (2 ^ 64 - 1) (x + rc_projections_written c)) w2 = Some (r, w')"
          "ahead events ?j (rows w')" "\<And>y. ?j \<le> length events \<and> r = Ok y \<Longrightarrow> rows w' = last_row events"
          using less.hyps [of ?j w2] j True w2 by (metis diff_less_mono2)
        then show ?thesis
          using True chunk Ok save u j ahead_earlier by (subst rebuild_loop.simps) auto
      qed
    qed
  qed
qed

lemma resumed_ends:
  assumes "length events < 2 ^ 64" "\<And>i. keeps rows (ck_save cps key i)" "keeps rows (ck_load cps key)"
    and "\<And>s w0. ck_load cps key w = (Ok s, w0) \<Longrightarrow> ahead events (case s of Some i \<Rightarrow> i | None \<Rightarrow> 0) (rows w)"
  shows "\<exists>r w'. rebuild_projections_resumable cd upsert cps events key n w = Some (r, w') \<and>
    (\<forall>y. r = Ok y \<longrightarrow> rows w' = last_row events) \<and>
    (\<forall>s w0. ck_load cps key w = (Ok s, w0) \<longrightarrow> ahead events (case s of Some i \<Rightarrow> i | None \<Rightarrow> 0) (rows w'))"
proof (cases "key = [] \<or> n = 0 \<or> validate_rebuild_stream cd events \<noteq> Ok ()")
  case True
  then show ?thesis using assms(4)
    by (cases "validate_rebuild_stream cd events") (auto simp: rebuild_projections_resumable_def)
next
  case False
  obtain l w1 where load: "ck_load cps key w = (l, w1)" by fastforce
  then have w1: "rows w1 = rows w" by (rule keepsD [OF assms(3)])
  show ?thesis
  proof (cases l)
    case (Err e)
    then show ?thesis using False load by (simp add: rebuild_projections_resumable_def)
  next
    case (Ok s)
    let ?i = "case s of Some i \<Rightarrow> i | None \<Rightarrow> 0"
    have aw: "ahead events ?i (rows w1)" using assms(4) load Ok w1 by simp
    show ?thesis
    proof (cases "?i > length events")
      case True
      then show ?thesis using False load Ok aw by (simp add: rebuild_projections_resumable_def)
    next
      case i: False
      obtain r w' where "rebuild_loop cd upsert cps events key n ?i 0 w1 = Some (r, w')"
        "ahead events ?i (rows w')" "\<forall>y. ?i \<le> length events \<and> r = Ok y \<longrightarrow> rows w' = last_row events"
        using loop_ends [OF _ _ assms(1,2) aw] False by blast
      then show ?thesis using False i load Ok by (simp add: rebuild_projections_resumable_def)
    qed
  qed
qed

end

text \<open>The recording sink keeps every row it is given; the newest recorded row of a key is its row.\<close>

definition recorded_rows :: "state_projection list \<Rightarrow> row_key \<Rightarrow> state_projection option" where
  "recorded_rows = foldl (\<lambda>rows p. rows(row_key_of p \<mapsto> newer (rows (row_key_of p)) p)) (\<lambda>_. None)"

interpretation recorded: monotone_sink recording_upsert recorded_rows
  by unfold_locales (auto simp: recording_upsert_def recorded_rows_def)

section \<open>A sink and a store that always answer\<close>

definition answers :: "('a \<Rightarrow> ('w, unit, 'e) port) \<Rightarrow> bool" where
  "answers f \<longleftrightarrow> (\<forall>x w. \<exists>w'. f x w = (Ok (), w'))"

lemma in_turn_answers: "answers f \<Longrightarrow> \<exists>w'. in_turn (\<lambda>x. on_err g (f x)) xs w = (Ok (), w')"
proof (induction xs arbitrary: w)
  case (Cons x xs)
  obtain w1 where "f x w = (Ok (), w1)" using Cons.prems unfolding answers_def by blast
  then show ?case using Cons.IH [OF Cons.prems, of w1] by (simp add: then_run_def on_err_def)
qed (simp add: yield_def)

lemma length_latest:
  assumes "btree_ok m" "\<And>k. btree_get m k = last_row events k"
  shows "length m \<le> length events"
proof -
  have "fst ` set m \<subseteq> (row_of \<circ> fst) ` set events"
  proof
    fix k assume "k \<in> fst ` set m"
    then have "last_row events k \<noteq> None" using assms(2) [of k] btree_get_None [of m k] by auto
    then show "k \<in> (row_of \<circ> fst) ` set events" unfolding last_row_None by force
  qed
  then have "card (fst ` set m) \<le> card ((row_of \<circ> fst) ` set events)" by (intro card_mono) auto
  moreover have "card (fst ` set m) = length m"
    using btree_ok_distinct [OF assms(1)] distinct_card by fastforce
  moreover have "card ((row_of \<circ> fst) ` set events) \<le> length events"
    using card_image_le [of "set events" "row_of \<circ> fst"] card_length [of events] by simp
  ultimately show ?thesis by simp
qed

lemma chunk_answers:
  assumes "answers upsert" "validate_rebuild_stream cd events = Ok ()" "0 < n" "i < length events" "length events < 2 ^ 64"
  shows "\<exists>c w'. rebuild_projections_chunk cd upsert events i n w = (Ok c, w') \<and> i < rc_next_event c \<and> rc_next_event c \<le> length events"
proof -
  define j where "j = min (min (2 ^ 64 - 1) (i + n)) (length events)"
  have j: "i < j" "j \<le> length events" using assms(3-5) by (auto simp: j_def)
  have slice: "validate_rebuild_stream cd (take (j - i) (drop i events)) = Ok ()" by (rule validate_slice [OF assms(2)])
  obtain m where m: "latest_loop [] (take (j - i) (drop i events)) = Ok m" "length m \<le> length (take (j - i) (drop i events))"
    by (rule latest_of_slice [OF slice]) (metis length_latest)
  obtain w' where "in_turn (\<lambda>x. on_err RebuildSink (upsert x)) (map snd m) w = (Ok (), w')"
    using in_turn_answers [OF assms(1)] by blast
  then have "rebuild_projections cd upsert (take (j - i) (drop i events)) w = (Ok (length m), w')"
    using slice m assms(5) by (auto simp: rebuild_projections_def then_run_def pure_def)
  then have "rebuild_projections_chunk cd upsert events i n w = (Ok \<lparr>rc_next_event = j, rc_projections_written = length m\<rparr>, w')"
    using j assms(3,4) unfolding rebuild_projections_chunk_def Let_def j_def [symmetric]
    by (simp add: then_run_def yield_def)
  then show ?thesis using j by simp
qed

lemma loop_answers:
  assumes "answers upsert" "answers (ck_save cps key)" "validate_rebuild_stream cd events = Ok ()" "0 < n" "length events < 2 ^ 64"
  shows "\<exists>y w'. rebuild_loop cd upsert cps events key n i x w = Some (Ok y, w')"
proof (induction "length events - i" arbitrary: i x w rule: less_induct)
  case less
  show ?case
  proof (cases "i < length events")
    case True
    obtain c w1 where c: "rebuild_projections_chunk cd upsert events i n w = (Ok c, w1)" "i < rc_next_event c"
      using chunk_answers [OF assms(1,3,4) True assms(5)] by blast
    obtain w2 where "ck_save cps key (rc_next_event c) w1 = (Ok (), w2)" using assms(2) unfolding answers_def by blast
    moreover have "length events - rc_next_event c < length events - i" using c(2) True by (rule diff_less_mono2)
    ultimately show ?thesis using less [of "rc_next_event c"] True c by (subst rebuild_loop.simps) simp
  qed (subst rebuild_loop.simps, simp)
qed

lemma resumed_answers:
  assumes "answers upsert" "answers (ck_save cps key)" "validate_rebuild_stream cd events = Ok ()" "length events < 2 ^ 64"
    and "key \<noteq> []" "0 < n" "ck_load cps key w = (Ok s, w0)" "(case s of Some i \<Rightarrow> i | None \<Rightarrow> 0) \<le> length events"
  shows "\<exists>y w'. rebuild_projections_resumable cd upsert cps events key n w = Some (Ok y, w')"
  using loop_answers [OF assms(1-3,6,4)] assms(3,5-8) by (auto simp: rebuild_projections_resumable_def)

section \<open>Properties\<close>


definition ex_rebuild_codec :: persist_codec where
  "ex_rebuild_codec = \<lparr>pc_sha = (\<lambda>_. []), pc_intent_bytes = (\<lambda>_. Ok []), pc_state_bytes = (\<lambda>_. Ok []),
    pc_event_bytes = (\<lambda>_. Ok []), pc_commit_bytes = (\<lambda>_. Ok [])\<rparr>"

definition ex_stream :: "(event \<times> string) list" where
  "ex_stream =
    [(ex_event ''evt_1'' ''int_1'' ''asset.transfer'' ''sword'' (ex_asset ''alice'' ''active'' None) (ex_asset ''bob'' ''active'' None), ''cmt_1''),
     ((ex_event ''evt_2'' ''int_2'' ''asset.transfer'' ''sword'' (ex_asset ''bob'' ''active'' None) (ex_asset ''carol'' ''active'' None))
       \<lparr>ev_before := ex_commitment 2 (ex_asset ''bob'' ''active'' None), ev_after := ex_commitment 3 (ex_asset ''carol'' ''active'' None)\<rparr>, ''cmt_2'')]"

lemma ex_rebuild_run:
  "rebuild_projections_resumable ex_rebuild_codec recording_upsert noop_checkpoint ex_stream ''rows'' 1 [] =
    Some (Ok 2, map (\<lambda>(event, c). projection_of event c) ex_stream)"
  by code_simp


text \<open>
  The stream is followed per tenant and resource, whoever holds it. The two events of one transfer of a balance
  concern the same resource and each its own holder, so a stream with both is refused.
\<close>

lemma transfer_pair_not_rebuilt:
  "validate_rebuild_stream ex_rebuild_codec (map (\<lambda>event. (event, ''cmt_1'')) (tl ex_settle_events)) =
    Err (RebuildInvariant (''event continuity mismatch for resource '' @ quoted ''purse''))"
  by code_simp

end
