(* ===== verification/Trade_Index.thy ===== *)
theory Trade_Index
  imports Trade_Proof Durable_Persist
begin

text \<open>
  The read side of trades (crate \<^verbatim>\<open>statechronicle-index\<close>): the builder that projects a committed batch into
  trade records (\<^verbatim>\<open>build.rs\<close>), the reconstruction of a trade's history (\<^verbatim>\<open>history.rs\<close>) and the service over the
  stores (\<^verbatim>\<open>service.rs\<close>). A builder error leaves the caller's map behind half updated; both callers drop it then,
  so the model returns the error alone.
\<close>

section \<open>Errors and batches\<close>

datatype index_error =
    IndexDomain domain_error
  | MissingTradeId string
  | NonTenantCommit string
  | MalformedValue string
  | MissingEvent string

datatype trade_service_error =
    TsIndex index_error
  | TsDomain domain_error
  | TsProof proof_error
  | TsEventStore string
  | TsTradeIndex string
  | TsProofIndex string
  | TsCommitStore string
  | TsMissingEvent string

record ingest_batch =
  ib_events :: "event list"
  ib_settle_intents :: "intent list"
  ib_commit :: "commit signed"

type_synonym trade_index = "(string, trade_record) btree_map"

definition trade_record_new :: "string \<Rightarrow> trade_record" where
  "trade_record_new trade_id =
    \<lparr>tr_trade_id = trade_id, tr_status = TradeOpen, tr_sides = [], tr_value_legs = [], tr_events = []\<rparr>"

section \<open>Reading events and intents\<close>

definition non_empty :: "string option \<Rightarrow> string option" where
  "non_empty s = (case s of Some t \<Rightarrow> if t = [] then None else Some t | None \<Rightarrow> None)"

definition state_str_opt :: "resource_state \<Rightarrow> string \<Rightarrow> string option" where
  "state_str_opt state key =
    non_empty
      (if key = ''subject'' then rs_subject state
       else if key = ''trade_id'' then (case state of UniqueAsset v \<Rightarrow> ua_trade_id v | _ \<Rightarrow> None)
       else None)"

definition trade_id_of :: "event \<Rightarrow> (string option, index_error) result" where
  "trade_id_of event =
    (if ev_operation event = ''trade.lock''
     then ok_or (map_option Some (state_str_opt (sc_state (ev_after event)) ''trade_id''))
       (MissingTradeId (''trade.lock event '' @ quoted (ev_event_id event) @ '' is missing '' @ quoted ''trade_id'' @
         '' in its after state''))
     else if ev_operation event = ''trade.settle'' \<or> ev_operation event = ''trade.unlock''
     then ok_or (map_option Some (state_str_opt (sc_state (ev_before event)) ''trade_id''))
       (MissingTradeId (''trade event '' @ quoted (ev_event_id event) @ '' is missing '' @ quoted ''trade_id'' @
         '' in its before state''))
     else Ok None)"

definition intent_str :: "intent \<Rightarrow> string \<Rightarrow> (string, index_error) result" where
  "intent_str intent key =
    ok_or (non_empty (Option.bind (btree_get (in_inputs intent) key) as_str))
      (MalformedValue (''settle intent '' @ quoted (in_intent_id intent) @ '' is missing a non-empty '' @ quoted key @ '' input''))"

definition batch_trade_ids :: "ingest_batch \<Rightarrow> string list" where
  "batch_trade_ids batch =
    sort (remdups
      (List.map_filter (\<lambda>event. case trade_id_of event of Ok t \<Rightarrow> t | Err e \<Rightarrow> None) (ib_events batch) @
       List.map_filter (\<lambda>intent. if declares_value_leg intent
         then (case intent_str intent ''trade_id'' of Ok t \<Rightarrow> Some t | Err e \<Rightarrow> None) else None) (ib_settle_intents batch)))"

definition owner_of_state :: "resource_state \<Rightarrow> (string, index_error) result" where
  "owner_of_state state =
    ok_or (non_empty (rs_owner state))
      (MalformedValue (''trade settle event state is missing a non-empty '' @ quoted ''owner''))"

definition balance_amount :: "resource_state \<Rightarrow> amount" where
  "balance_amount state = (case rs_amount state ''balance'' of Some amount \<Rightarrow> amount | None \<Rightarrow> ZERO)"

definition commit_ref_from_signed :: "commit signed \<Rightarrow> (commit_ref, index_error) result" where
  "commit_ref_from_signed sg =
    (let body = sg_body sg in
     if sc_kind (co_scope body) \<noteq> TenantScope then Err (NonTenantCommit (co_commit_id body))
     else
       and_then (ok_or (sc_tenant_id (co_scope body)) (NonTenantCommit ''tenant-scoped commit is missing its tenant id'')) (\<lambda>_.
       Ok \<lparr>cr_commit_id = co_commit_id body, cr_sequence = co_sequence body, cr_state_root = co_next_state_root body,
         cr_signature = sg_signature sg\<rparr>))"

section \<open>Sides and events of a trade\<close>

fun update_first :: "('a \<Rightarrow> bool) \<Rightarrow> ('a \<Rightarrow> 'a) \<Rightarrow> 'a list \<Rightarrow> 'a list option" where
  "update_first p f [] = None"
| "update_first p f (x # xs) = (if p x then Some (f x # xs) else map_option ((#) x) (update_first p f xs))"

definition settle_into :: "event \<Rightarrow> commit_ref \<Rightarrow> trade_side \<Rightarrow> trade_side" where
  "settle_into event commit_ref side =
    side\<lparr>td_settle_assets :=
        (if ev_resource_id event \<in> set (td_settle_assets side) then td_settle_assets side
         else td_settle_assets side @ [ev_resource_id event]),
      td_settle_commits_by_asset := btree_insert (ev_resource_id event) commit_ref (td_settle_commits_by_asset side),
      td_settle_event_ids := td_settle_event_ids side @ [ev_event_id event]\<rparr>"

definition upsert_side :: "trade_record \<Rightarrow> event \<Rightarrow> commit_ref \<Rightarrow> (trade_record, index_error) result" where
  "upsert_side rec event commit_ref =
    and_then (owner_of_state (sc_state (ev_before event))) (\<lambda>from_owner.
    and_then (owner_of_state (sc_state (ev_after event))) (\<lambda>to_owner.
    Ok (rec\<lparr>tr_sides :=
      (case update_first (\<lambda>side. td_tenant side = ev_tenant_id event) (settle_into event commit_ref) (tr_sides rec) of
         Some sides \<Rightarrow> sides
       | None \<Rightarrow> tr_sides rec @
           [\<lparr>td_tenant = ev_tenant_id event, td_settle_assets = [ev_resource_id event], td_from_owner = from_owner,
             td_to_owner = to_owner, td_settle_commit = commit_ref,
             td_settle_commits_by_asset = [(ev_resource_id event, commit_ref)], td_settle_event_ids = [ev_event_id event]\<rparr>])\<rparr>)))"

definition push_event :: "trade_status \<Rightarrow> event \<Rightarrow> trade_record \<Rightarrow> trade_record" where
  "push_event status event rec =
    rec\<lparr>tr_status := status,
      tr_events := tr_events rec @
        [\<lparr>tx_event_id = ev_event_id event, tx_tenant_id = ev_tenant_id event, tx_operation = ev_operation event\<rparr>]\<rparr>"

fun push_settles :: "commit_ref \<Rightarrow> event list \<Rightarrow> trade_record \<Rightarrow> (trade_record, index_error) result" where
  "push_settles commit_ref [] rec = Ok rec"
| "push_settles commit_ref (event # events) rec =
    and_then (upsert_side rec event commit_ref) (\<lambda>rec. push_settles commit_ref events (push_event TradeSettled event rec))"

definition apply_trade_events :: "trade_record \<Rightarrow> event list \<Rightarrow> commit_ref \<Rightarrow> (trade_record, index_error) result" where
  "apply_trade_events rec events commit_ref =
    (let locks = filter (\<lambda>event. ev_operation event = ''trade.lock'') events;
         settles = filter (\<lambda>event. ev_operation event = ''trade.settle'') events;
         unlocks = filter (\<lambda>event. ev_operation event = ''trade.unlock'') events in
     and_then (push_settles commit_ref settles (fold (push_event TradeOpen) locks rec)) (\<lambda>rec.
     Ok (fold (push_event TradeCancelled) unlocks rec)))"

section \<open>Value legs\<close>

record batch_value_pair =
  bp_debit :: amount
  bp_resource :: resource_id
  bp_credited_subject :: "subject_id option"
  bp_event_ids :: "string list"
  bp_tenant :: tenant_id

text \<open>The inner loop of \<^verbatim>\<open>recover_value_pairs\<close> over the two events of a group.\<close>

fun pair_loop ::
  "amount \<Rightarrow> subject_id option \<Rightarrow> event list \<Rightarrow> (amount \<times> subject_id option, index_error) result" where
  "pair_loop debit credited [] = Ok (debit, credited)"
| "pair_loop debit credited (event # events) =
    (let before = balance_amount (sc_state (ev_before event)); after = balance_amount (sc_state (ev_after event)) in
     if amount_less after before then
       and_then (ok_or (amount_checked_sub before after) (MalformedValue ''debit overflow'')) (\<lambda>delta.
       and_then (ok_or (amount_checked_add debit delta) (MalformedValue ''debit overflow'')) (\<lambda>debit.
       pair_loop debit credited events))
     else if amount_less before after then
       pair_loop debit (state_str_opt (sc_state (ev_after event)) ''subject'') events
     else pair_loop debit credited events)"

fun batch_pairs_loop :: "(string \<times> event list) list \<Rightarrow> (batch_value_pair list, index_error) result" where
  "batch_pairs_loop [] = Ok []"
| "batch_pairs_loop ((intent_id, grp) # rest) =
    (case grp of
       [] \<Rightarrow> batch_pairs_loop rest
     | first # _ \<Rightarrow>
         if ev_operation first \<noteq> ''balance.transfer'' then batch_pairs_loop rest
         else if length grp \<noteq> 2
         then Err (MalformedValue (''balance.transfer intent '' @ quoted intent_id @ '' is not an atomic debit + credit pair''))
         else
           and_then (pair_loop ZERO None grp) (\<lambda>(debit, credited).
           map_ok ((#) \<lparr>bp_debit = debit, bp_resource = ev_resource_id first, bp_credited_subject = credited,
             bp_event_ids = sort (map ev_event_id grp), bp_tenant = ev_tenant_id first\<rparr>) (batch_pairs_loop rest)))"

definition batch_value_pairs :: "event list \<Rightarrow> (batch_value_pair list, index_error) result" where
  "batch_value_pairs events = batch_pairs_loop (group_by ev_intent_id events)"

record declared_leg =
  dl_key :: value_tuple
  dl_trade_id :: string
  dl_amount_str :: string
  dl_to_subject :: subject_id

definition declared_leg_of :: "intent \<Rightarrow> (declared_leg, index_error) result" where
  "declared_leg_of intent =
    and_then (intent_str intent ''value_resource'') (\<lambda>resource.
    and_then (intent_str intent ''value_amount'') (\<lambda>amount.
    and_then (intent_str intent ''value_to_subject'') (\<lambda>to_subject.
    and_then (intent_str intent ''trade_id'') (\<lambda>trade_id.
    and_then (map_err (\<lambda>_. MalformedValue (''malformed value_amount '' @ quoted amount)) (try_from_str amount)) (\<lambda>amount_amt.
    Ok \<lparr>dl_key = (amount_amt, resource, Some to_subject), dl_trade_id = trade_id, dl_amount_str = amount,
      dl_to_subject = to_subject\<rparr>)))))"

definition pair_key :: "batch_value_pair \<Rightarrow> value_tuple" where
  "pair_key pair = (bp_debit pair, bp_resource pair, bp_credited_subject pair)"

definition match_value_legs ::
  "ingest_batch \<Rightarrow> batch_value_pair list \<Rightarrow> commit_ref \<Rightarrow> ((string \<times> trade_value_leg) list, index_error) result" where
  "match_value_legs batch pairs commit_ref =
    and_then (try_map declared_leg_of (filter declares_value_leg (ib_settle_intents batch))) (\<lambda>declared.
    let declared = sort_by (\<lambda>l r. tuple_cmp (dl_key l) (dl_key r)) declared;
        pair_keys = sort_by (\<lambda>l r. tuple_cmp (fst l) (fst r)) (map (\<lambda>pair. (pair_key pair, pair)) pairs) in
    Ok (map (\<lambda>(decl, key, pair). (dl_trade_id decl,
          \<lparr>tv_resource = bp_resource pair, tv_amount = dl_amount_str decl, tv_to_subject = dl_to_subject decl,
           tv_pair_event_ids = bp_event_ids pair, tv_tenant = bp_tenant pair, tv_commit = commit_ref\<rparr>))
        (filter (\<lambda>(decl, key, pair). tuple_eq (dl_key decl) key) (zip declared pair_keys))))"

section \<open>Applying a batch\<close>

definition record_for :: "trade_index \<Rightarrow> string \<Rightarrow> trade_record" where
  "record_for state trade_id =
    (case btree_get state trade_id of Some rec \<Rightarrow> rec | None \<Rightarrow> trade_record_new trade_id)"

fun group_trades ::
  "(string, event list) btree_map \<Rightarrow> event list \<Rightarrow> ((string, event list) btree_map, index_error) result" where
  "group_trades by_trade [] = Ok by_trade"
| "group_trades by_trade (event # events) =
    and_then (trade_id_of event) (\<lambda>trade_id.
    group_trades (case trade_id of Some t \<Rightarrow> btree_push t event by_trade | None \<Rightarrow> by_trade) events)"

fun apply_trades ::
  "commit_ref \<Rightarrow> (string \<times> event list) list \<Rightarrow> trade_index \<Rightarrow> (trade_index, index_error) result" where
  "apply_trades commit_ref [] state = Ok state"
| "apply_trades commit_ref ((trade_id, events) # rest) state =
    and_then (apply_trade_events (record_for state trade_id) events commit_ref) (\<lambda>rec.
    apply_trades commit_ref rest
      (btree_insert trade_id (rec\<lparr>tr_sides := sort_key td_tenant (tr_sides rec)\<rparr>) state))"

definition attach_leg :: "string \<times> trade_value_leg \<Rightarrow> trade_index \<Rightarrow> trade_index" where
  "attach_leg entry state =
    (let trade_id = fst entry; leg = snd entry; rec = record_for state trade_id in
     btree_insert trade_id
       (rec\<lparr>tr_events := tr_events rec @ map (\<lambda>event_id.
            \<lparr>tx_event_id = event_id, tx_tenant_id = tv_tenant leg, tx_operation = ''balance.transfer''\<rparr>) (tv_pair_event_ids leg),
          tr_value_legs := tr_value_legs rec @ [leg]\<rparr>) state)"

definition apply_batch :: "ingest_batch \<Rightarrow> trade_index \<Rightarrow> (trade_index, index_error) result" where
  "apply_batch batch state =
    and_then (commit_ref_from_signed (ib_commit batch)) (\<lambda>commit_ref.
    and_then (batch_value_pairs (ib_events batch)) (\<lambda>value_pairs.
    and_then (group_trades [] (ib_events batch)) (\<lambda>by_trade.
    and_then (apply_trades commit_ref by_trade state) (\<lambda>state.
    and_then (match_value_legs batch value_pairs commit_ref) (\<lambda>value_legs.
    Ok (fold attach_leg value_legs state))))))"

section \<open>History\<close>

record trade_event =
  te_event :: event
  te_tenant_id :: tenant_id

record trade_history =
  th_trade_id :: string
  th_status :: trade_status
  th_events :: "trade_event list"
  th_commits :: "(tenant_id \<times> commit_ref) list"

text \<open>The two loops of \<^verbatim>\<open>collect_commits\<close> as one over the pairs of both.\<close>

fun collect_loop ::
  "(string \<times> string) list \<Rightarrow> (tenant_id \<times> commit_ref) list \<Rightarrow> (tenant_id \<times> commit_ref) list" where
  "collect_loop seen [] = []"
| "collect_loop seen ((tenant, commit_ref) # rest) =
    (if (tenant, cr_commit_id commit_ref) \<in> set seen then collect_loop seen rest
     else (tenant, commit_ref) # collect_loop ((tenant, cr_commit_id commit_ref) # seen) rest)"

definition collect_commits :: "trade_record \<Rightarrow> (tenant_id \<times> commit_ref) list" where
  "collect_commits rec =
    collect_loop [] (map (\<lambda>side. (td_tenant side, td_settle_commit side)) (tr_sides rec) @
      map (\<lambda>leg. (tv_tenant leg, tv_commit leg)) (tr_value_legs rec))"

definition reconstruct_history ::
  "trade_record \<Rightarrow> (string \<times> string, event) btree_map \<Rightarrow> (trade_history, index_error) result" where
  "reconstruct_history rec events_by_id =
    and_then (try_map (\<lambda>event_ref.
        map_ok (\<lambda>event. \<lparr>te_event = event, te_tenant_id = tx_tenant_id event_ref\<rparr>)
          (ok_or (btree_get events_by_id (tx_tenant_id event_ref, tx_event_id event_ref)) (MissingEvent (tx_event_id event_ref))))
      (tr_events rec)) (\<lambda>events.
    Ok \<lparr>th_trade_id = tr_trade_id rec, th_status = tr_status rec, th_events = events, th_commits = collect_commits rec\<rparr>)"

section \<open>The trade service\<close>

text \<open>The stores the service is given; their errors are passed on by their display text.\<close>

record 'w trade_ports =
  tq_get_trade :: "string \<Rightarrow> ('w, trade_record option, string) port"
  tq_put_trade :: "trade_record \<Rightarrow> ('w, unit, string) port"
  tq_event_by_id :: "tenant_id \<Rightarrow> string \<Rightarrow> ('w, event option, string) port"
  tq_state_proof :: "tenant_id \<Rightarrow> resource_id \<Rightarrow> string option \<Rightarrow> ('w, resource_state_proof option, string) port"
  tq_commit_by_id :: "tenant_id \<Rightarrow> string \<Rightarrow> ('w, commit signed option, string) port"

fun seed_trades :: "'w trade_ports \<Rightarrow> string list \<Rightarrow> trade_index \<Rightarrow> ('w, trade_index, trade_service_error) port" where
  "seed_trades ports [] state = yield state"
| "seed_trades ports (trade_id # ids) state =
    then_run (on_err TsTradeIndex (tq_get_trade ports trade_id)) (\<lambda>found.
    seed_trades ports ids (case found of Some rec \<Rightarrow> btree_insert trade_id rec state | None \<Rightarrow> state))"

definition put_trades :: "'w trade_ports \<Rightarrow> trade_index \<Rightarrow> ('w, unit, trade_service_error) port" where
  "put_trades ports state = in_turn (\<lambda>rec. on_err TsTradeIndex (tq_put_trade ports rec)) (map snd state)"

definition trade_ingest_batch :: "'w trade_ports \<Rightarrow> ingest_batch \<Rightarrow> ('w, unit, trade_service_error) port" where
  "trade_ingest_batch ports batch =
    then_run (seed_trades ports (batch_trade_ids batch) []) (\<lambda>state.
    then_run (pure (map_err TsIndex (apply_batch batch state))) (put_trades ports))"

fun apply_batches :: "ingest_batch list \<Rightarrow> trade_index \<Rightarrow> (trade_index, index_error) result" where
  "apply_batches [] state = Ok state"
| "apply_batches (batch # batches) state = and_then (apply_batch batch state) (apply_batches batches)"

definition trade_rebuild :: "'w trade_ports \<Rightarrow> ingest_batch list \<Rightarrow> ('w, unit, trade_service_error) port" where
  "trade_rebuild ports batches =
    then_run (pure (map_err TsIndex (apply_batches batches []))) (put_trades ports)"

fun fetch_events ::
  "'w trade_ports \<Rightarrow> trade_event_ref list \<Rightarrow> (string \<times> string, event) btree_map \<Rightarrow>
    ('w, (string \<times> string, event) btree_map, trade_service_error) port" where
  "fetch_events ports [] events_by_id = yield events_by_id"
| "fetch_events ports (event_ref # rest) events_by_id =
    then_run (on_err TsEventStore (tq_event_by_id ports (tx_tenant_id event_ref) (tx_event_id event_ref))) (\<lambda>found.
    case found of
      None \<Rightarrow> pure (Err (TsMissingEvent (tx_event_id event_ref)))
    | Some event \<Rightarrow> fetch_events ports rest
        (btree_insert (tx_tenant_id event_ref, tx_event_id event_ref) event events_by_id))"

definition trade_get_history :: "'w trade_ports \<Rightarrow> string \<Rightarrow> ('w, trade_history option, trade_service_error) port" where
  "trade_get_history ports trade_id =
    then_run (on_err TsTradeIndex (tq_get_trade ports trade_id)) (\<lambda>found.
    case found of
      None \<Rightarrow> yield None
    | Some rec \<Rightarrow>
        then_run (fetch_events ports (tr_events rec) []) (\<lambda>events_by_id.
        pure (map_ok Some (map_err TsIndex (reconstruct_history rec events_by_id)))))"

fun fetch_proofs ::
  "'w trade_ports \<Rightarrow> trade_side \<Rightarrow> resource_id list \<Rightarrow> ('w, resource_state_proof list, trade_service_error) port" where
  "fetch_proofs ports side [] = yield []"
| "fetch_proofs ports side (asset # assets) =
    (let settle_commit = (case btree_get (td_settle_commits_by_asset side) asset of
         Some commit_ref \<Rightarrow> commit_ref | None \<Rightarrow> td_settle_commit side) in
     then_run (on_err TsProofIndex (tq_state_proof ports (td_tenant side) asset (Some (cr_commit_id settle_commit)))) (\<lambda>found.
     case found of
       None \<Rightarrow> pure (Err (TsProofIndex (''no state proof stored for settle asset '' @ quoted asset @ '' in tenant '' @
         quoted (td_tenant side) @ '' at commit '' @ quoted (cr_commit_id settle_commit))))
     | Some p \<Rightarrow> then_run (fetch_proofs ports side assets) (\<lambda>ps. yield (p # ps))))"

fun fetch_sides ::
  "'w trade_ports \<Rightarrow> trade_side list \<Rightarrow> ('w, (tenant_id \<times> resource_state_proof list) list, trade_service_error) port" where
  "fetch_sides ports [] = yield []"
| "fetch_sides ports (side # sides) =
    then_run (fetch_proofs ports side (td_settle_assets side)) (\<lambda>state_proofs.
    then_run (fetch_sides ports sides) (\<lambda>rest.
    yield (if state_proofs = [] then rest else (td_tenant side, state_proofs) # rest)))"

fun inline_commits ::
  "'w trade_ports \<Rightarrow> (tenant_id \<Rightarrow> 'k option) \<Rightarrow> (tenant_id \<times> string) list \<Rightarrow> 'k commits_by_id \<Rightarrow>
    ('w, 'k commits_by_id, trade_service_error) port" where
  "inline_commits ports key_for_tenant [] commits = yield commits"
| "inline_commits ports key_for_tenant ((tenant, commit_id) # rest) commits =
    (if btree_get commits commit_id \<noteq> None then inline_commits ports key_for_tenant rest commits
     else
       then_run (on_err TsCommitStore (tq_commit_by_id ports tenant commit_id)) (\<lambda>found.
       case found of
         None \<Rightarrow> pure (Err (TsCommitStore (''commit '' @ quoted commit_id @ '' not found for tenant '' @ quoted tenant)))
       | Some sg \<Rightarrow>
           (case key_for_tenant tenant of
              None \<Rightarrow> pure (Err (TsProof (ProofKeyNotFound tenant)))
            | Some vk \<Rightarrow> inline_commits ports key_for_tenant rest (btree_insert commit_id (sg, vk) commits))))"

definition verify_inline ::
  "'k proof_env \<Rightarrow> 'w trade_ports \<Rightarrow> (tenant_id \<Rightarrow> 'k option) \<Rightarrow> trade_proof \<Rightarrow> ('w, unit, trade_service_error) port" where
  "verify_inline env ports key_for_tenant p =
    then_run (inline_commits ports key_for_tenant
      (concat (map (\<lambda>leg. map (\<lambda>s. (tl_tenant leg, cr_commit_id (rp_commit s))) (tl_state_proofs leg)) (tp_legs p))) []) (\<lambda>commits.
    pure (map_err TsProof (verify_trade_proof env p commits)))"

definition trade_get_proof ::
  "'k proof_env \<Rightarrow> 'w trade_ports \<Rightarrow> (tenant_id \<Rightarrow> 'k option) \<Rightarrow> string \<Rightarrow> ('w, trade_proof option, trade_service_error) port" where
  "trade_get_proof env ports key_for_tenant trade_id =
    then_run (on_err TsTradeIndex (tq_get_trade ports trade_id)) (\<lambda>found.
    case found of
      None \<Rightarrow> yield None
    | Some rec \<Rightarrow>
        then_run (fetch_sides ports (tr_sides rec)) (\<lambda>proofs.
        then_run (pure (map_err TsProof (build_trade_proof rec proofs))) (\<lambda>p.
        then_run (verify_inline env ports key_for_tenant p) (\<lambda>_.
        yield (Some p)))))"

section \<open>The in-memory index of the integration tests\<close>

definition fake_put_trade :: "trade_record \<Rightarrow> (trade_index, unit, string) port" where
  "fake_put_trade trade inner = (Ok (), btree_insert (tr_trade_id trade) trade inner)"

definition fake_get_trade :: "string \<Rightarrow> (trade_index, trade_record option, string) port" where
  "fake_get_trade trade_id inner = (Ok (btree_get inner trade_id), inner)"

definition with_fake_index :: "trade_index trade_ports \<Rightarrow> trade_index trade_ports" where
  "with_fake_index ports = ports\<lparr>tq_get_trade := fake_get_trade, tq_put_trade := fake_put_trade\<rparr>"

end
