(* ===== verification/Trade_Index_Theorems.thy ===== *)
theory Trade_Index_Theorems
  imports Trade_Index Ledger_Contract
begin

text \<open>
  The trade index: a batch reads and writes only the records of the trades it names, so ingesting batches
  one at a time through the stored records gives the index that a replay of all of them builds. Every
  record the builder makes is well formed: one side per tenant, in order, each with the commit of every asset.
\<close>

section \<open>Which records a batch touches\<close>

definition touched :: "ingest_batch \<Rightarrow> string set" where
  "touched batch = set (batch_trade_ids batch)"

definition same_on :: "string set \<Rightarrow> trade_index \<Rightarrow> trade_index \<Rightarrow> bool" where
  "same_on ids s t \<longleftrightarrow> (\<forall>k \<in> ids. btree_get s k = btree_get t k)"

text \<open>The keys of the one map present in the other, and the keys outside of a set untouched.\<close>

definition grows :: "string set \<Rightarrow> trade_index \<Rightarrow> trade_index \<Rightarrow> bool" where
  "grows ids s t \<longleftrightarrow>
    (\<forall>k. btree_get s k \<noteq> None \<longrightarrow> btree_get t k \<noteq> None) \<and> (\<forall>k. k \<notin> ids \<longrightarrow> btree_get t k = btree_get s k)"

lemma same_insert: "same_on ids s t \<Longrightarrow> same_on ids (btree_insert k r s) (btree_insert k r t)"
  by (simp add: same_on_def btree_get_insert)

lemma same_record: "same_on ids s t \<Longrightarrow> k \<in> ids \<Longrightarrow> record_for s k = record_for t k"
  by (simp add: same_on_def record_for_def)

lemma grows_refl: "grows ids s s"
  by (simp add: grows_def)

lemma grows_trans: "grows ids s t \<Longrightarrow> grows ids t u \<Longrightarrow> grows ids s u"
  by (simp add: grows_def)

lemma grows_insert: "k \<in> ids \<Longrightarrow> grows ids s (btree_insert k r s)"
  by (auto simp: grows_def btree_get_insert)

lemma apply_trades_agree:
  assumes "fst ` set groups \<subseteq> ids" "same_on ids s t"
  shows "case apply_trades c groups s of
      Ok s' \<Rightarrow> \<exists>t'. apply_trades c groups t = Ok t' \<and> same_on ids s' t'
    | Err e \<Rightarrow> apply_trades c groups t = Err e"
  using assms
proof (induction groups arbitrary: s t)
  case (Cons g groups)
  obtain k events where g: "g = (k, events)" by fastforce
  have same: "record_for s k = record_for t k" using Cons.prems g by (intro same_record [of ids]) auto
  show ?case
  proof (cases "apply_trade_events (record_for t k) events c")
    case (Ok r)
    let ?r = "r\<lparr>tr_sides := sort_key td_tenant (tr_sides r)\<rparr>"
    have "case apply_trades c groups (btree_insert k ?r s) of
        Ok s' \<Rightarrow> \<exists>t'. apply_trades c groups (btree_insert k ?r t) = Ok t' \<and> same_on ids s' t'
      | Err e \<Rightarrow> apply_trades c groups (btree_insert k ?r t) = Err e"
      using Cons.prems(1) by (intro Cons.IH same_insert Cons.prems(2)) simp
    then show ?thesis by (simp add: g same Ok cong: result.case_cong)
  qed (simp add: g same)
qed simp

lemma apply_trades_grows:
  "fst ` set groups \<subseteq> ids \<Longrightarrow> apply_trades c groups s = Ok s' \<Longrightarrow> grows ids s s'"
proof (induction groups arbitrary: s)
  case (Cons g groups)
  obtain k events where g: "g = (k, events)" by fastforce
  obtain r where r: "apply_trades c groups (btree_insert k r s) = Ok s'" using Cons.prems(2) by (auto simp: g)
  then show ?case
    using Cons.IH [OF _ r] grows_insert [of k ids s r] Cons.prems(1) grows_trans by (auto simp: g)
qed (simp add: grows_refl)

lemma attach_leg_agree: "fst l \<in> ids \<Longrightarrow> same_on ids s t \<Longrightarrow> same_on ids (attach_leg l s) (attach_leg l t)"
  using same_record [of ids s t "fst l"] by (simp add: attach_leg_def Let_def same_insert)

lemma attach_legs_agree:
  "fst ` set legs \<subseteq> ids \<Longrightarrow> same_on ids s t \<Longrightarrow> same_on ids (fold attach_leg legs s) (fold attach_leg legs t)"
  by (induction legs arbitrary: s t) (auto simp: attach_leg_agree)

lemma attach_legs_grows: "fst ` set legs \<subseteq> ids \<Longrightarrow> grows ids s (fold attach_leg legs s)"
proof (induction legs arbitrary: s)
  case (Cons l legs)
  have "grows ids s (attach_leg l s)" using Cons.prems by (simp add: attach_leg_def Let_def grows_insert)
  then show ?case using Cons grows_trans by fastforce
qed (simp add: grows_refl)

lemma group_trades_keys:
  "group_trades m events = Ok m' \<Longrightarrow>
    fst ` set m' \<subseteq> fst ` set m \<union> {t. \<exists>event \<in> set events. trade_id_of event = Ok (Some t)}"
proof (induction events arbitrary: m)
  case (Cons event events)
  obtain t where t: "trade_id_of event = Ok t"
    "group_trades (case t of Some k \<Rightarrow> btree_push k event m | None \<Rightarrow> m) events = Ok m'"
    using Cons.prems by auto
  show ?case
  proof (cases t)
    case (Some k)
    have "fst ` set m' \<subseteq> fst ` set (btree_push k event m) \<union> {t. \<exists>event \<in> set events. trade_id_of event = Ok (Some t)}"
      by (rule Cons.IH) (use t(2) Some in simp)
    moreover have "fst ` set (btree_push k event m) = insert k (fst ` set m)" by (simp add: btree_push_def)
    ultimately show ?thesis using t(1) Some by auto
  next
    case None
    have "fst ` set m' \<subseteq> fst ` set m \<union> {t. \<exists>event \<in> set events. trade_id_of event = Ok (Some t)}"
      by (rule Cons.IH) (use t(2) None in simp)
    then show ?thesis by auto
  qed
qed simp

lemma sort_by_set: "set (sort_by c xs) = set xs"
proof -
  have "set (insert_by c x ys) = insert x (set ys)" for x ys by (induction ys) auto
  then show ?thesis by (induction xs) (auto simp: sort_by_def)
qed

lemma try_map_Ok_in: "try_map f xs = Ok ys \<Longrightarrow> y \<in> set ys \<Longrightarrow> \<exists>x \<in> set xs. f x = Ok y"
  by (induction xs arbitrary: ys) auto

lemma match_value_legs_in:
  assumes "match_value_legs batch pairs c = Ok legs" "(t, leg) \<in> set legs"
  obtains intent decl pair where "intent \<in> set (ib_settle_intents batch)" "declares_value_leg intent"
    "declared_leg_of intent = Ok decl" "pair \<in> set pairs" "tuple_eq (dl_key decl) (pair_key pair)" "t = dl_trade_id decl"
    "leg = \<lparr>tv_resource = bp_resource pair, tv_amount = dl_amount_str decl, tv_to_subject = dl_to_subject decl,
      tv_pair_event_ids = bp_event_ids pair, tv_tenant = bp_tenant pair, tv_commit = c\<rparr>"
proof -
  let ?keys = "sort_by (\<lambda>l r. tuple_cmp (fst l) (fst r)) (map (\<lambda>pair. (pair_key pair, pair)) pairs)"
  obtain declared where d: "try_map declared_leg_of (filter declares_value_leg (ib_settle_intents batch)) = Ok declared"
    and legs: "legs = map (\<lambda>(decl, key, pair). (dl_trade_id decl,
          \<lparr>tv_resource = bp_resource pair, tv_amount = dl_amount_str decl, tv_to_subject = dl_to_subject decl,
           tv_pair_event_ids = bp_event_ids pair, tv_tenant = bp_tenant pair, tv_commit = c\<rparr>))
        (filter (\<lambda>(decl, key, pair). tuple_eq (dl_key decl) key)
          (zip (sort_by (\<lambda>l r. tuple_cmp (dl_key l) (dl_key r)) declared) ?keys))"
    using assms(1) by (auto simp: match_value_legs_def Let_def)
  obtain decl key pair where x: "(decl, key, pair) \<in> set (zip (sort_by (\<lambda>l r. tuple_cmp (dl_key l) (dl_key r)) declared) ?keys)"
    "tuple_eq (dl_key decl) key" "t = dl_trade_id decl"
    "leg = \<lparr>tv_resource = bp_resource pair, tv_amount = dl_amount_str decl, tv_to_subject = dl_to_subject decl,
      tv_pair_event_ids = bp_event_ids pair, tv_tenant = bp_tenant pair, tv_commit = c\<rparr>"
    using assms(2) unfolding legs by auto
  have "decl \<in> set declared" using set_zip_leftD [OF x(1)] by (simp add: sort_by_set)
  then obtain intent where i: "intent \<in> set (filter declares_value_leg (ib_settle_intents batch))" "declared_leg_of intent = Ok decl"
    using try_map_Ok_in [OF d] by blast
  have "(key, pair) \<in> set ?keys" by (rule set_zip_rightD [OF x(1)])
  then have "key = pair_key pair" "pair \<in> set pairs" unfolding sort_by_set by auto
  then show ?thesis using i x(2) by (intro that [OF _ _ i(2) _ _ x(3,4)]) simp_all
qed

lemma match_value_legs_trades:
  assumes "match_value_legs batch pairs c = Ok legs" "(t, leg) \<in> set legs"
  shows "\<exists>intent \<in> set (ib_settle_intents batch). declares_value_leg intent \<and> intent_str intent ''trade_id'' = Ok t"
  by (rule match_value_legs_in [OF assms]) (auto simp: declared_leg_of_def)

lemma map_filter_in: "x \<in> set xs \<Longrightarrow> f x = Some y \<Longrightarrow> y \<in> set (List.map_filter f xs)"
  by (force simp: List.map_filter_def)

lemma touched_events: "event \<in> set (ib_events batch) \<Longrightarrow> trade_id_of event = Ok (Some t) \<Longrightarrow> t \<in> touched batch"
  by (auto simp: touched_def batch_trade_ids_def intro: map_filter_in)

lemma touched_intents:
  "intent \<in> set (ib_settle_intents batch) \<Longrightarrow> declares_value_leg intent \<Longrightarrow> intent_str intent ''trade_id'' = Ok t \<Longrightarrow>
    t \<in> touched batch"
  by (auto simp: touched_def batch_trade_ids_def intro: map_filter_in)

lemma groups_touched:
  assumes "group_trades [] (ib_events batch) = Ok groups"
  shows "fst ` set groups \<subseteq> touched batch"
proof -
  have "fst ` set groups \<subseteq> {t. \<exists>event \<in> set (ib_events batch). trade_id_of event = Ok (Some t)}"
    using group_trades_keys [OF assms] by simp
  also have "\<dots> \<subseteq> touched batch" using touched_events by blast
  finally show ?thesis .
qed

lemma legs_touched:
  assumes "match_value_legs batch pairs c = Ok legs"
  shows "fst ` set legs \<subseteq> touched batch"
proof
  fix t assume "t \<in> fst ` set legs"
  then obtain leg where "(t, leg) \<in> set legs" by auto
  then show "t \<in> touched batch" using match_value_legs_trades [OF assms] touched_intents by blast
qed

text \<open>A batch gives the same records from any two maps that same_on on the trades it names.\<close>

lemma apply_batch_agree:
  assumes "same_on (touched batch) s t"
  shows "case apply_batch batch s of
      Ok s' \<Rightarrow> \<exists>t'. apply_batch batch t = Ok t' \<and> same_on (touched batch) s' t'
    | Err e \<Rightarrow> apply_batch batch t = Err e"
proof -
  show ?thesis
  proof (cases "commit_ref_from_signed (ib_commit batch)")
    case c: (Ok c)
    show ?thesis
    proof (cases "batch_value_pairs (ib_events batch)")
      case p: (Ok pairs)
      show ?thesis
      proof (cases "group_trades [] (ib_events batch)")
        case g: (Ok groups)
        note applied = apply_trades_agree [OF groups_touched [OF g] assms, of c]
        show ?thesis
        proof (cases "apply_trades c groups s")
          case a: (Ok s1)
          then obtain t1 where t1: "apply_trades c groups t = Ok t1" "same_on (touched batch) s1 t1" using applied by auto
          show ?thesis
          proof (cases "match_value_legs batch pairs c")
            case l: (Ok legs)
            then show ?thesis using a t1 attach_legs_agree [OF legs_touched [OF l] t1(2)] by (simp add: apply_batch_def c p g)
          qed (use a t1 in \<open>simp add: apply_batch_def c p g\<close>)
        qed (use applied in \<open>simp add: apply_batch_def c p g\<close>)
      qed (simp add: apply_batch_def c p)
    qed (simp add: apply_batch_def c)
  qed (simp add: apply_batch_def)
qed

lemma apply_batch_grows:
  assumes "apply_batch batch s = Ok s'"
  shows "grows (touched batch) s s'"
proof -
  obtain c pairs groups s1 legs where steps: "group_trades [] (ib_events batch) = Ok groups"
    "apply_trades c groups s = Ok s1" "match_value_legs batch pairs c = Ok legs" "s' = fold attach_leg legs s1"
    using assms by (auto simp: apply_batch_def)
  show ?thesis unfolding steps(4)
    by (rule grows_trans [OF apply_trades_grows [OF groups_touched [OF steps(1)] steps(2)]
      attach_legs_grows [OF legs_touched [OF steps(3)]]])
qed

section \<open>Well-formed records\<close>

definition side_ok :: "trade_side \<Rightarrow> bool" where
  "side_ok side \<longleftrightarrow>
    td_settle_assets side \<noteq> [] \<and> distinct (td_settle_assets side) \<and> length (td_settle_assets side) \<le> length (td_settle_event_ids side) \<and>
    btree_ok (td_settle_commits_by_asset side) \<and> fst ` set (td_settle_commits_by_asset side) = set (td_settle_assets side) \<and>
    td_from_owner side \<noteq> [] \<and> td_to_owner side \<noteq> []"

definition leg_ok :: "trade_value_leg \<Rightarrow> bool" where
  "leg_ok leg \<longleftrightarrow>
    length (tv_pair_event_ids leg) = 2 \<and> tv_to_subject leg \<noteq> [] \<and> (\<exists>amount. try_from_str (tv_amount leg) = Ok amount)"

definition sides_ok :: "trade_record \<Rightarrow> bool" where
  "sides_ok rec \<longleftrightarrow> distinct (map td_tenant (tr_sides rec)) \<and> list_all side_ok (tr_sides rec)"

definition record_ok :: "trade_record \<Rightarrow> bool" where
  "record_ok rec \<longleftrightarrow>
    sorted_wrt (<) (map td_tenant (tr_sides rec)) \<and> list_all side_ok (tr_sides rec) \<and> list_all leg_ok (tr_value_legs rec)"

definition index_ok :: "trade_index \<Rightarrow> bool" where
  "index_ok index \<longleftrightarrow>
    btree_ok index \<and> (\<forall>k rec. btree_get index k = Some rec \<longrightarrow> tr_trade_id rec = k \<and> record_ok rec)"

lemma update_first_None: "update_first p f xs = None \<longleftrightarrow> (\<forall>x \<in> set xs. \<not> p x)"
  by (induction xs) auto

lemma update_first_Some:
  "update_first p f xs = Some ys \<Longrightarrow> \<exists>a x b. xs = a @ x # b \<and> p x \<and> ys = a @ f x # b"
proof (induction xs arbitrary: ys)
  case (Cons z zs)
  show ?case
  proof (cases "p z")
    case True
    then show ?thesis using Cons.prems by (intro exI [of _ "[]"] exI [of _ z] exI [of _ zs]) auto
  next
    case False
    then obtain ys' where "update_first p f zs = Some ys'" "ys = z # ys'" using Cons.prems by auto
    then show ?thesis using Cons.IH [of ys'] by (metis append_Cons)
  qed
qed simp

lemma settle_into_ok: "side_ok side \<Longrightarrow> side_ok (settle_into event c side)"
  by (auto simp: side_ok_def settle_into_def)

lemma owner_of_state_Ok: "owner_of_state state = Ok owner \<Longrightarrow> owner \<noteq> []"
  by (auto simp: owner_of_state_def non_empty_def ok_or_eq_Ok split: option.splits if_splits)

lemma upsert_side_ok:
  assumes "sides_ok rec" "upsert_side rec event c = Ok rec'"
  shows "sides_ok rec' \<and> tr_trade_id rec' = tr_trade_id rec \<and> tr_value_legs rec' = tr_value_legs rec"
proof -
  let ?up = "update_first (\<lambda>side. td_tenant side = ev_tenant_id event) (settle_into event c) (tr_sides rec)"
  obtain f t where owners: "f \<noteq> []" "t \<noteq> []" and rec': "rec' = rec\<lparr>tr_sides := (case ?up of Some sides \<Rightarrow> sides
       | None \<Rightarrow> tr_sides rec @
           [\<lparr>td_tenant = ev_tenant_id event, td_settle_assets = [ev_resource_id event], td_from_owner = f,
             td_to_owner = t, td_settle_commit = c,
             td_settle_commits_by_asset = [(ev_resource_id event, c)], td_settle_event_ids = [ev_event_id event]\<rparr>])\<rparr>"
    using assms(2) owner_of_state_Ok by (auto simp: upsert_side_def)
  show ?thesis
  proof (cases ?up)
    case None
    then show ?thesis using assms(1) owners unfolding update_first_None by (auto simp: rec' None sides_ok_def side_ok_def)
  next
    case (Some sides)
    have new: "rec' = rec\<lparr>tr_sides := sides\<rparr>" by (simp add: rec' Some)
    obtain a side b where "tr_sides rec = a @ side # b" "sides = a @ settle_into event c side # b"
      using update_first_Some [OF Some] by blast
    moreover have "td_tenant (settle_into event c side) = td_tenant side" for side by (simp add: settle_into_def)
    ultimately show ?thesis using assms(1) by (simp add: new sides_ok_def settle_into_ok)
  qed
qed

lemma push_event_ok:
  "sides_ok (push_event st event rec) = sides_ok rec" "tr_trade_id (push_event st event rec) = tr_trade_id rec"
  "tr_value_legs (push_event st event rec) = tr_value_legs rec"
  by (simp_all add: push_event_def sides_ok_def)

lemma push_events_ok:
  "sides_ok (fold (push_event st) events rec) = sides_ok rec"
  "tr_trade_id (fold (push_event st) events rec) = tr_trade_id rec"
  "tr_value_legs (fold (push_event st) events rec) = tr_value_legs rec"
  by (induction events arbitrary: rec) (simp_all add: push_event_ok)

lemma push_settles_ok:
  "sides_ok rec \<Longrightarrow> push_settles c events rec = Ok rec' \<Longrightarrow>
    sides_ok rec' \<and> tr_trade_id rec' = tr_trade_id rec \<and> tr_value_legs rec' = tr_value_legs rec"
proof (induction events arbitrary: rec)
  case (Cons event events)
  obtain r where r: "upsert_side rec event c = Ok r" "push_settles c events (push_event TradeSettled event r) = Ok rec'"
    using Cons.prems(2) by auto
  have "sides_ok r" "tr_trade_id r = tr_trade_id rec" "tr_value_legs r = tr_value_legs rec"
    using upsert_side_ok [OF Cons.prems(1) r(1)] by auto
  then show ?case using Cons.IH [OF _ r(2)] by (simp add: push_event_ok)
qed simp

lemma apply_trade_events_ok:
  assumes "sides_ok rec" "apply_trade_events rec events c = Ok rec'"
  shows "sides_ok rec' \<and> tr_trade_id rec' = tr_trade_id rec \<and> tr_value_legs rec' = tr_value_legs rec"
proof -
  obtain r where "push_settles c (filter (\<lambda>event. ev_operation event = ''trade.settle'') events)
      (fold (push_event TradeOpen) (filter (\<lambda>event. ev_operation event = ''trade.lock'') events) rec) = Ok r"
    "rec' = fold (push_event TradeCancelled) (filter (\<lambda>event. ev_operation event = ''trade.unlock'') events) r"
    using assms(2) by (auto simp: apply_trade_events_def Let_def)
  then show ?thesis using push_settles_ok [of "fold (push_event TradeOpen) (filter (\<lambda>event. ev_operation event = ''trade.lock'') events) rec"] assms(1)
    by (simp add: push_events_ok)
qed

lemma record_ok_sides: "record_ok rec \<Longrightarrow> sides_ok rec"
  by (simp add: record_ok_def sides_ok_def strict_sorted_iff)

lemma sorted_sides_ok:
  assumes "sides_ok rec" "list_all leg_ok (tr_value_legs rec)"
  shows "record_ok (rec\<lparr>tr_sides := sort_key td_tenant (tr_sides rec)\<rparr>)"
proof -
  have "distinct (map td_tenant (sort_key td_tenant (tr_sides rec)))"
    using assms(1) by (simp add: sides_ok_def distinct_map)
  then show ?thesis using assms by (simp add: record_ok_def sides_ok_def strict_sorted_iff list_all_iff)
qed

lemma record_for_ok: "index_ok index \<Longrightarrow> record_ok (record_for index k) \<and> tr_trade_id (record_for index k) = k"
  by (auto simp: index_ok_def record_for_def record_ok_def trade_record_new_def split: option.splits)

lemma index_ok_insert: "index_ok index \<Longrightarrow> record_ok rec \<Longrightarrow> tr_trade_id rec = k \<Longrightarrow> index_ok (btree_insert k rec index)"
  by (simp add: index_ok_def btree_get_insert)

lemma apply_trades_ok: "index_ok s \<Longrightarrow> apply_trades c groups s = Ok s' \<Longrightarrow> index_ok s'"
proof (induction groups arbitrary: s)
  case (Cons g groups)
  obtain k events where g: "g = (k, events)" by fastforce
  obtain r where r: "apply_trade_events (record_for s k) events c = Ok r"
    "apply_trades c groups (btree_insert k (r\<lparr>tr_sides := sort_key td_tenant (tr_sides r)\<rparr>) s) = Ok s'"
    using Cons.prems(2) by (auto simp: g)
  have rec: "record_ok (record_for s k)" "tr_trade_id (record_for s k) = k" using record_for_ok [OF Cons.prems(1)] by auto
  have "sides_ok r" "tr_trade_id r = k" "tr_value_legs r = tr_value_legs (record_for s k)"
    using apply_trade_events_ok [OF record_ok_sides [OF rec(1)] r(1)] rec(2) by auto
  then have "index_ok (btree_insert k (r\<lparr>tr_sides := sort_key td_tenant (tr_sides r)\<rparr>) s)"
    using rec(1) by (intro index_ok_insert [OF Cons.prems(1)] sorted_sides_ok) (auto simp: record_ok_def)
  then show ?case using Cons.IH r(2) by blast
qed simp

lemma attach_leg_ok:
  assumes "index_ok s" "leg_ok (snd l)"
  shows "index_ok (attach_leg l s)"
  using record_for_ok [OF assms(1), of "fst l"] assms
  by (auto simp: attach_leg_def Let_def record_ok_def intro!: index_ok_insert)

lemma attach_legs_ok: "index_ok s \<Longrightarrow> list_all (leg_ok \<circ> snd) legs \<Longrightarrow> index_ok (fold attach_leg legs s)"
  by (induction legs arbitrary: s) (simp_all add: attach_leg_ok)

lemma batch_pairs_two: "batch_pairs_loop groups = Ok pairs \<Longrightarrow> pair \<in> set pairs \<Longrightarrow> length (bp_event_ids pair) = 2"
proof (induction groups arbitrary: pairs)
  case (Cons g groups)
  obtain k events where g: "g = (k, events)" by fastforce
  show ?case
  proof (cases "events \<noteq> [] \<and> ev_operation (hd events) = ''balance.transfer''")
    case True
    then obtain debit credited rest where "length events = 2" "batch_pairs_loop groups = Ok rest"
      "pairs = \<lparr>bp_debit = debit, bp_resource = ev_resource_id (hd events), bp_credited_subject = credited,
             bp_event_ids = sort (map ev_event_id events), bp_tenant = ev_tenant_id (hd events)\<rparr> # rest"
      using Cons.prems(1) by (auto simp: g neq_Nil_conv split: if_splits)
    then show ?thesis using Cons.IH Cons.prems(2) by auto
  next
    case False
    then have "batch_pairs_loop groups = Ok pairs" using Cons.prems(1) by (cases events) (auto simp: g)
    then show ?thesis using Cons.IH Cons.prems(2) by blast
  qed
qed simp

lemma intent_str_Ok: "intent_str intent key = Ok t \<Longrightarrow> t \<noteq> []"
  by (auto simp: intent_str_def non_empty_def ok_or_eq_Ok split: option.splits if_splits)

lemma apply_batch_ok:
  assumes "index_ok s" "apply_batch batch s = Ok s'"
  shows "index_ok s'"
proof -
  obtain c pairs groups s1 legs where steps: "batch_value_pairs (ib_events batch) = Ok pairs"
    "apply_trades c groups s = Ok s1" "match_value_legs batch pairs c = Ok legs" "s' = fold attach_leg legs s1"
    using assms(2) by (auto simp: apply_batch_def)
  have "leg_ok leg" if leg: "(t, leg) \<in> set legs" for t leg
    by (rule match_value_legs_in [OF steps(3) leg])
      (use batch_pairs_two [OF steps(1) [unfolded batch_value_pairs_def]] intent_str_Ok in
        \<open>auto simp: leg_ok_def declared_leg_of_def\<close>)
  then have "list_all (leg_ok \<circ> snd) legs" by (auto simp: list_all_iff)
  then show ?thesis unfolding steps(4) by (intro attach_legs_ok apply_trades_ok [OF assms(1) steps(2)])
qed

lemma apply_batches_ok: "index_ok s \<Longrightarrow> apply_batches batches s = Ok s' \<Longrightarrow> index_ok s'"
  by (induction batches arbitrary: s) (auto dest: apply_batch_ok)

section \<open>A store of trade records\<close>

definition over :: "trade_index \<Rightarrow> (string \<Rightarrow> trade_record option) \<Rightarrow> string \<Rightarrow> trade_record option" where
  "over index stored k = (case btree_get index k of Some rec \<Rightarrow> Some rec | None \<Rightarrow> stored k)"

text \<open>The records of a batch over those of the store are the records of the batch applied to all of them.\<close>

lemma seeded_batch:
  assumes "index_ok st" and seed: "\<And>k. btree_get seed k = (if k \<in> touched batch then btree_get st k else None)"
    and "btree_ok seed"
  shows "index_ok seed" and "apply_batch batch seed = Err e \<Longrightarrow> apply_batch batch st = Err e"
    and "apply_batch batch seed = Ok new \<Longrightarrow>
      \<exists>st'. apply_batch batch st = Ok st' \<and> over new (btree_get st) = btree_get st' \<and> index_ok st' \<and> index_ok new"
proof -
  have same: "same_on (touched batch) seed st" by (simp add: same_on_def seed)
  show ok: "index_ok seed" using assms(1,3) by (auto simp: index_ok_def seed split: if_splits)
  show "apply_batch batch seed = Err e \<Longrightarrow> apply_batch batch st = Err e" using apply_batch_agree [OF same] by simp
  assume new: "apply_batch batch seed = Ok new"
  then obtain st' where st': "apply_batch batch st = Ok st'" "same_on (touched batch) new st'" using apply_batch_agree [OF same] by auto
  have "over new (btree_get st) k = btree_get st' k" for k
  proof (cases "k \<in> touched batch")
    case True
    then have "btree_get new k = btree_get st' k" using st'(2) by (simp add: same_on_def)
    then show ?thesis using apply_batch_grows [OF st'(1)] by (auto simp: over_def grows_def split: option.split)
  next
    case False
    then show ?thesis using apply_batch_grows [OF st'(1)] apply_batch_grows [OF new] by (simp add: over_def grows_def seed)
  qed
  then show "\<exists>st'. apply_batch batch st = Ok st' \<and> over new (btree_get st) = btree_get st' \<and> index_ok st' \<and> index_ok new"
    using st'(1) apply_batch_ok [OF assms(1) st'(1)] apply_batch_ok [OF ok new] by blast
qed

locale trade_store =
  fixes ports :: "'w trade_ports" and stored :: "'w \<Rightarrow> string \<Rightarrow> trade_record option"
  assumes get_trade_Ok: "tq_get_trade ports k w = (Ok found, w') \<Longrightarrow> found = stored w k \<and> stored w' = stored w"
    and put_trade_Ok: "tq_put_trade ports rec w = (Ok u, w') \<Longrightarrow> stored w' = (stored w)(tr_trade_id rec \<mapsto> rec)"
begin

lemma seed_trades_Ok:
  assumes "seed_trades ports ids st w = (Ok st', w')" "btree_ok st"
  shows "stored w' = stored w \<and> btree_ok st' \<and>
    (\<forall>k. btree_get st' k = (if k \<in> set ids \<and> stored w k \<noteq> None then stored w k else btree_get st k))"
  using assms
proof (induction ids arbitrary: st w)
  case (Cons t ids)
  obtain found w1 where f: "tq_get_trade ports t w = (Ok found, w1)"
    "seed_trades ports ids (case found of Some rec \<Rightarrow> btree_insert t rec st | None \<Rightarrow> st) w1 = (Ok st', w')"
    using Cons.prems(1) by (auto simp: run_simps)
  have here: "found = stored w t" "stored w1 = stored w" using get_trade_Ok [OF f(1)] by auto
  have "btree_ok (case found of Some rec \<Rightarrow> btree_insert t rec st | None \<Rightarrow> st)"
    using Cons.prems(2) by (simp split: option.split)
  note rest = Cons.IH [OF f(2) this, unfolded here]
  then show ?case by (auto simp: btree_get_insert split: option.splits)
qed (auto simp: run_simps)

lemma puts_Ok:
  assumes "in_turn (\<lambda>rec. on_err TsTradeIndex (tq_put_trade ports rec)) (map snd index) w = (Ok u, w')"
    and "\<And>k rec. (k, rec) \<in> set index \<Longrightarrow> tr_trade_id rec = k" "distinct (map fst index)"
  shows "stored w' = over index (stored w)"
  using assms
proof (induction index arbitrary: w)
  case (Cons e index)
  obtain k rec where e: "e = (k, rec)" by fastforce
  obtain w1 where w1: "tq_put_trade ports rec w = (Ok (), w1)"
    "in_turn (\<lambda>rec. on_err TsTradeIndex (tq_put_trade ports rec)) (map snd index) w1 = (Ok u, w')"
    using Cons.prems(1) by (auto simp: e run_simps)
  have "tr_trade_id rec = k" using Cons.prems(2) e by simp
  then have "stored w1 = (stored w)(k \<mapsto> rec)" using put_trade_Ok [OF w1(1)] by simp
  moreover have "stored w' = over index (stored w1)"
    by (rule Cons.IH [OF w1(2)]) (use Cons.prems(2,3) in auto)
  moreover have "btree_get index k = None" using Cons.prems(3) by (simp add: e btree_get_None)
  ultimately show ?case by (auto simp: over_def e split: option.split)
qed (auto simp: run_simps over_def)

lemma put_trades_Ok:
  assumes "put_trades ports index w = (Ok u, w')" "index_ok index"
  shows "stored w' = over index (stored w)"
proof (rule puts_Ok [OF assms(1) [unfolded put_trades_def]])
  show "tr_trade_id rec = k" if "(k, rec) \<in> set index" for k rec
    using assms(2) that btree_get_Some [of index k rec] by (auto simp: index_ok_def)
  show "distinct (map fst index)" using assms(2) btree_ok_distinct by (auto simp: index_ok_def)
qed

lemma ingest_Ok:
  assumes "trade_ingest_batch ports batch w = (Ok u, w')" "index_ok st" "stored w = btree_get st"
  shows "\<exists>st'. apply_batch batch st = Ok st' \<and> index_ok st' \<and> stored w' = btree_get st'"
proof -
  obtain seed w1 new where steps: "seed_trades ports (batch_trade_ids batch) [] w = (Ok seed, w1)"
    "apply_batch batch seed = Ok new" "put_trades ports new w1 = (Ok u, w')"
    using assms(1) by (auto simp: trade_ingest_batch_def run_simps)
  have seeded: "stored w1 = stored w" "btree_ok seed"
    "\<And>k. btree_get seed k = (if k \<in> touched batch then btree_get st k else None)"
    using seed_trades_Ok [OF steps(1)] by (auto simp: touched_def assms(3))
  show ?thesis
    using seeded_batch(3) [OF assms(2) seeded(3,2) steps(2)] put_trades_Ok [OF steps(3)] seeded(1) assms(3) by auto
qed

lemma ingests_Ok:
  assumes "in_turn (trade_ingest_batch ports) batches w = (Ok u, w')" "index_ok st" "stored w = btree_get st"
  shows "\<exists>st'. apply_batches batches st = Ok st' \<and> index_ok st' \<and> stored w' = btree_get st'"
  using assms
proof (induction batches arbitrary: w st)
  case (Cons batch batches)
  obtain w1 where w1: "trade_ingest_batch ports batch w = (Ok (), w1)" "in_turn (trade_ingest_batch ports) batches w1 = (Ok u, w')"
    using Cons.prems(1) by (auto simp: run_simps)
  obtain st1 where "apply_batch batch st = Ok st1" "index_ok st1" "stored w1 = btree_get st1"
    using ingest_Ok [OF w1(1) Cons.prems(2,3)] by blast
  then show ?case using Cons.IH [OF w1(2)] by auto
qed (auto simp: run_simps)

lemma rebuild_Ok:
  assumes "trade_rebuild ports batches w = (Ok u, w')" "stored w = (\<lambda>_. None)"
  shows "\<exists>st'. apply_batches batches [] = Ok st' \<and> stored w' = btree_get st'"
proof -
  obtain st where st: "apply_batches batches [] = Ok st" "put_trades ports st w = (Ok u, w')"
    using assms(1) by (auto simp: trade_rebuild_def run_simps)
  have "index_ok st" by (rule apply_batches_ok [OF _ st(1)]) (simp add: index_ok_def)
  then have "stored w' = btree_get st"
    using put_trades_Ok [OF st(2)] assms(2) by (auto simp: over_def fun_eq_iff split: option.split)
  then show ?thesis using st(1) by blast
qed

lemma seed_trades_answers:
  assumes "\<forall>k w. \<exists>found w'. tq_get_trade ports k w = (Ok found, w')"
  shows "\<exists>seed w'. seed_trades ports ids st w = (Ok seed, w')"
proof (induction ids arbitrary: st w)
  case (Cons t ids)
  obtain found w1 where "tq_get_trade ports t w = (Ok found, w1)" using assms by blast
  then show ?case using Cons.IH by (simp add: then_run_def on_err_def)
qed (simp add: yield_def)

lemma put_trades_answers:
  assumes "\<forall>rec w. \<exists>w'. tq_put_trade ports rec w = (Ok (), w')"
  shows "\<exists>w'. put_trades ports index w = (Ok (), w')"
  unfolding put_trades_def
proof (induction index arbitrary: w)
  case (Cons e index)
  obtain w1 where "tq_put_trade ports (snd e) w = (Ok (), w1)" using assms by blast
  then show ?case using Cons.IH by (simp add: then_run_def on_err_def)
qed (simp add: yield_def)

lemma ingest_answers:
  assumes "\<forall>k w. \<exists>found w'. tq_get_trade ports k w = (Ok found, w')" "\<forall>rec w. \<exists>w'. tq_put_trade ports rec w = (Ok (), w')"
    and "index_ok st" "stored w = btree_get st"
  shows "fst (trade_ingest_batch ports batch w) = map_err TsIndex (map_ok (\<lambda>_. ()) (apply_batch batch st))"
proof -
  obtain seed w1 where run: "seed_trades ports (batch_trade_ids batch) [] w = (Ok seed, w1)"
    using seed_trades_answers [OF assms(1)] by blast
  have seeded: "btree_ok seed" "\<And>k. btree_get seed k = (if k \<in> touched batch then btree_get st k else None)"
    using seed_trades_Ok [OF run] by (auto simp: touched_def assms(4))
  note same = seeded_batch [OF assms(3) seeded(2,1)]
  show ?thesis
  proof (cases "apply_batch batch seed")
    case (Ok new)
    obtain w' where "put_trades ports new w1 = (Ok (), w')" using put_trades_answers [OF assms(2)] by blast
    then show ?thesis using same(3) [OF Ok] Ok run by (auto simp: trade_ingest_batch_def then_run_def pure_def)
  next
    case (Err e)
    then show ?thesis using same(2) [OF Err] run by (simp add: trade_ingest_batch_def then_run_def pure_def)
  qed
qed

lemma ingests_answer:
  assumes "\<forall>k w. \<exists>found w'. tq_get_trade ports k w = (Ok found, w')" "\<forall>rec w. \<exists>w'. tq_put_trade ports rec w = (Ok (), w')"
    and "index_ok st" "stored w = btree_get st"
  shows "fst (in_turn (trade_ingest_batch ports) batches w) = map_err TsIndex (map_ok (\<lambda>_. ()) (apply_batches batches st))"
  using assms(3,4)
proof (induction batches arbitrary: st w)
  case (Cons batch batches)
  obtain r w1 where run: "trade_ingest_batch ports batch w = (r, w1)" by fastforce
  have r: "r = map_err TsIndex (map_ok (\<lambda>_. ()) (apply_batch batch st))"
    using ingest_answers [OF assms(1,2) Cons.prems, of batch] run by simp
  show ?case
  proof (cases "apply_batch batch st")
    case (Ok st1)
    then have ok: "trade_ingest_batch ports batch w = (Ok (), w1)" using run r by simp
    have "index_ok st1" "stored w1 = btree_get st1" using ingest_Ok [OF ok Cons.prems] Ok by auto
    then show ?thesis using Cons.IH [of st1 w1] ok Ok by (simp add: then_run_def)
  next
    case (Err e)
    then show ?thesis using run r by (simp add: then_run_def)
  qed
qed (simp add: yield_def)

lemma rebuild_answers:
  assumes "\<forall>rec w. \<exists>w'. tq_put_trade ports rec w = (Ok (), w')"
  shows "fst (trade_rebuild ports batches w) = map_err TsIndex (map_ok (\<lambda>_. ()) (apply_batches batches []))"
proof (cases "apply_batches batches []")
  case (Ok st)
  obtain w' where "put_trades ports st w = (Ok (), w')" using put_trades_answers [OF assms] by blast
  then show ?thesis using Ok by (simp add: trade_rebuild_def then_run_def pure_def)
qed (simp add: trade_rebuild_def then_run_def pure_def)

lemma ingests_equal_rebuild:
  assumes "stored w = (\<lambda>_. None)" "in_turn (trade_ingest_batch ports) batches w = (Ok (), w1)" "trade_rebuild ports batches w = (Ok (), w2)"
  shows "stored w1 = stored w2"
  using ingests_Ok [OF assms(2), of "[]"] rebuild_Ok [OF assms(3,1)] assms(1) by (auto simp: index_ok_def fun_eq_iff)

end

interpretation fake_index: trade_store "with_fake_index others" btree_get for others
  by unfold_locales (auto simp: with_fake_index_def fake_get_trade_def fake_put_trade_def btree_get_insert)

section \<open>Served histories and proofs\<close>

text \<open>A history is served whole or not at all: the events of the record, in its order.\<close>

lemma served_history:
  assumes "tq_get_trade ports k w = (Ok (Some rec), w0)" "trade_get_history ports k w = (Ok h, w')"
  shows "\<exists>h'. h = Some h' \<and> th_trade_id h' = tr_trade_id rec \<and> th_status h' = tr_status rec \<and>
    map te_tenant_id (th_events h') = map tx_tenant_id (tr_events rec)"
proof -
  have tenants: "map te_tenant_id es = map tx_tenant_id refs"
    if "try_map (\<lambda>ref. map_ok (\<lambda>event. \<lparr>te_event = event, te_tenant_id = tx_tenant_id ref\<rparr>)
          (ok_or (btree_get m (tx_tenant_id ref, tx_event_id ref)) (MissingEvent (tx_event_id ref)))) refs = Ok es" for refs m es
    using that by (induction refs arbitrary: es) auto
  then show ?thesis
    using assms by (auto simp: trade_get_history_def run_simps reconstruct_history_def)
qed

lemma fetch_proofs_length: "fetch_proofs ports side assets w = (Ok ps, w') \<Longrightarrow> length ps = length assets"
proof (induction assets arbitrary: ps w w')
  case (Cons asset assets)
  obtain p ps' w1 w2 where "fetch_proofs ports side assets w1 = (Ok ps', w2)" "ps = p # ps'"
    using Cons.prems by (auto simp: Let_def run_simps split: option.splits)
  then show ?case using Cons.IH by simp
qed (auto simp: run_simps)

lemma fetch_sides_shape:
  "fetch_sides ports sides w = (Ok proofs, w') \<Longrightarrow> list_all side_ok sides \<Longrightarrow>
    map (\<lambda>(tenant, ps). (tenant, length ps)) proofs = map (\<lambda>side. (td_tenant side, length (td_settle_assets side))) sides"
proof (induction sides arbitrary: proofs w w')
  case (Cons side sides)
  obtain ps w1 rest w2 where run: "fetch_proofs ports side (td_settle_assets side) w = (Ok ps, w1)" "fetch_sides ports sides w1 = (Ok rest, w2)"
    "proofs = (if ps = [] then rest else (td_tenant side, ps) # rest)"
    using Cons.prems(1) by (auto simp: run_simps)
  have len: "length ps = length (td_settle_assets side)" by (rule fetch_proofs_length [OF run(1)])
  then have "ps \<noteq> []" using Cons.prems(2) by (auto simp: side_ok_def)
  then show ?case using Cons.IH [OF run(2)] Cons.prems(2) run(3) len by simp
qed (auto simp: run_simps)

lemma trade_legs_shape:
  "trade_legs sides proofs = Ok legs \<Longrightarrow> \<forall>(tenant, ps) \<in> set proofs. ps \<noteq> [] \<Longrightarrow>
    map (\<lambda>leg. (tl_tenant leg, length (tl_state_proofs leg))) legs = map (\<lambda>(tenant, ps). (tenant, length ps)) proofs"
proof (induction proofs arbitrary: legs)
  case (Cons e proofs)
  obtain tenant ps where e: "e = (tenant, ps)" by fastforce
  then obtain p ps' where ps: "ps = p # ps'" using Cons.prems(2) by (cases ps) auto
  obtain rest where "trade_legs sides proofs = Ok rest" "legs = \<lparr>tl_tenant = tenant, tl_commit = rp_commit p, tl_state_proofs = ps\<rparr> # rest"
    using Cons.prems(1) by (auto simp: e ps split: if_splits)
  then show ?case using Cons.IH Cons.prems(2) by (simp add: e)
qed simp

text \<open>The proof served for a well-formed record has one leg per side and as many state proofs as the side has
  assets, and has been verified.\<close>

lemma served_trade_proof:
  assumes "tq_get_trade ports k w = (Ok (Some rec), w0)" "record_ok rec"
    and "trade_get_proof env ports key_for_tenant k w = (Ok (Some p), w')"
  shows "map (\<lambda>leg. (tl_tenant leg, length (tl_state_proofs leg))) (tp_legs p) =
      map (\<lambda>side. (td_tenant side, length (td_settle_assets side))) (tr_sides rec) \<and>
    (\<exists>commits. verify_trade_proof env p commits = Ok ())"
proof -
  obtain proofs w1 w2 commits where run: "fetch_sides ports (tr_sides rec) w0 = (Ok proofs, w1)" "build_trade_proof rec proofs = Ok p"
    "verify_trade_proof env p commits = Ok ()"
    using assms(1,3) by (auto simp: trade_get_proof_def verify_inline_def run_simps)
  obtain legs where legs: "trade_legs (tr_sides rec) proofs = Ok legs" "tp_legs p = sort_key tl_tenant legs"
    using run(2) by (auto simp: build_trade_proof_def)
  have sides: "list_all side_ok (tr_sides rec)" "sorted (map td_tenant (tr_sides rec))"
    using assms(2) by (auto simp: record_ok_def strict_sorted_iff)
  have shape: "map (\<lambda>(tenant, ps). (tenant, length ps)) proofs = map (\<lambda>side. (td_tenant side, length (td_settle_assets side))) (tr_sides rec)"
    by (rule fetch_sides_shape [OF run(1) sides(1)])
  have "ps \<noteq> []" if "(tenant, ps) \<in> set proofs" for tenant ps
  proof -
    have "(tenant, length ps) \<in> set (map (\<lambda>side. (td_tenant side, length (td_settle_assets side))) (tr_sides rec))"
      using that by (force simp flip: shape)
    then show ?thesis using sides(1) by (auto simp: side_ok_def list_all_iff)
  qed
  then have l: "map (\<lambda>leg. (tl_tenant leg, length (tl_state_proofs leg))) legs = map (\<lambda>side. (td_tenant side, length (td_settle_assets side))) (tr_sides rec)"
    using trade_legs_shape [OF legs(1)] shape by auto
  have "map tl_tenant legs = map td_tenant (tr_sides rec)"
    using arg_cong [OF l, of "map fst"] by (simp add: comp_def)
  then have "sort_key tl_tenant legs = legs" using sides(2) by (simp add: sort_key_id_if_sorted)
  then show ?thesis using l legs(2) run(3) by auto
qed

section \<open>Properties\<close>

text \<open>
  C20. Ingesting committed batches one at a time and replaying all of them give the same trade index. Both
  start from an empty index whose reads return what was last written. When both succeed, they leave the same
  record for every trade. With an index that always answers, the one succeeds exactly when the other does, and
  a batch the builder refuses makes both return the same error.
\<close>

theorem trade_ingest_equals_rebuild:
  assumes "trade_store ports stored" "stored w = (\<lambda>_. None)"
  shows "(\<forall>w1 w2. in_turn (trade_ingest_batch ports) batches w = (Ok (), w1) \<and> trade_rebuild ports batches w = (Ok (), w2) \<longrightarrow>
      stored w1 = stored w2) \<and>
    ((\<forall>k w. \<exists>found w'. tq_get_trade ports k w = (Ok found, w')) \<and> (\<forall>rec w. \<exists>w'. tq_put_trade ports rec w = (Ok (), w')) \<longrightarrow>
      fst (in_turn (trade_ingest_batch ports) batches w) = fst (trade_rebuild ports batches w))"
proof (intro conjI allI impI)
  fix w1 w2
  assume "in_turn (trade_ingest_batch ports) batches w = (Ok (), w1) \<and> trade_rebuild ports batches w = (Ok (), w2)"
  then show "stored w1 = stored w2" using trade_store.ingests_equal_rebuild [OF assms] by blast
next
  assume answer: "(\<forall>k w. \<exists>found w'. tq_get_trade ports k w = (Ok found, w')) \<and> (\<forall>rec w. \<exists>w'. tq_put_trade ports rec w = (Ok (), w'))"
  have "index_ok []" "stored w = btree_get []" by (simp_all add: index_ok_def assms(2) fun_eq_iff)
  then show "fst (in_turn (trade_ingest_batch ports) batches w) = fst (trade_rebuild ports batches w)"
    using trade_store.ingests_answer [OF assms(1)] trade_store.rebuild_answers [OF assms(1)] answer by simp
qed


definition ex_trade_batches :: "ingest_batch list" where
  "ex_trade_batches =
    (let signed = (\<lambda>commit_id n. \<lparr>sg_body = ex_commit commit_id None n, sg_signature = \<lparr>sb_alg = Ed25519, sb_key_id = ''k'', sb_sig = []\<rparr>\<rparr>) in
     [\<lparr>ib_events = [ex_event ''evt_0'' ''int_0'' ''trade.lock'' ''sword''
          (ex_asset ''alice'' ''active'' None) (ex_asset ''alice'' ''trade_held'' (Some ''tr1''))],
       ib_settle_intents = [], ib_commit = signed ''cmt_0'' 1\<rparr>,
      \<lparr>ib_events = ex_settle_events, ib_settle_intents = ex_settle_intents, ib_commit = signed ''cmt_1'' 2\<rparr>])"

definition ex_trade_ports :: "trade_index trade_ports" where
  "ex_trade_ports = with_fake_index \<lparr>tq_get_trade = (\<lambda>_. yield None), tq_put_trade = (\<lambda>_. yield ()), tq_event_by_id = (\<lambda>_ _. yield None),
    tq_state_proof = (\<lambda>_ _ _. yield None), tq_commit_by_id = (\<lambda>_ _. yield None)\<rparr>"

lemma ex_trade_store: "trade_store ex_trade_ports btree_get"
  unfolding ex_trade_ports_def by (rule fake_index.trade_store_axioms)

lemma ex_trade_run:
  "fst (in_turn (trade_ingest_batch ex_trade_ports) ex_trade_batches []) = Ok ()"
  "fst (trade_rebuild ex_trade_ports ex_trade_batches []) = Ok ()"
  "map_option (\<lambda>rec. (tr_status rec, length (tr_sides rec), length (tr_value_legs rec), length (tr_events rec)))
    (btree_get (snd (in_turn (trade_ingest_batch ex_trade_ports) ex_trade_batches [])) ''tr1'') = Some (TradeSettled, 1, 1, 4)"
  by code_simp+

theorem trade_ingest_equals_rebuild_witness:
  "btree_get (snd (in_turn (trade_ingest_batch ex_trade_ports) ex_trade_batches [])) =
    btree_get (snd (trade_rebuild ex_trade_ports ex_trade_batches []))"
proof -
  obtain w1 w2 where "in_turn (trade_ingest_batch ex_trade_ports) ex_trade_batches [] = (Ok (), w1)"
    "trade_rebuild ex_trade_ports ex_trade_batches [] = (Ok (), w2)"
    using ex_trade_run(1,2) by (metis prod.collapse)
  then show ?thesis
    using trade_ingest_equals_rebuild [OF ex_trade_store, of "[]" ex_trade_batches] by (simp add: fun_eq_iff)
qed


text \<open>
  The declared legs and the pairs are matched by position after sorting. One undeclared pair that sorts first
  keeps a declared leg from the pair with its key.
\<close>

definition ex_pair :: "nat \<Rightarrow> batch_value_pair" where
  "ex_pair n = \<lparr>bp_debit = ex_amount n, bp_resource = ''purse'', bp_credited_subject = Some ''alice'',
    bp_event_ids = [''a'', ''b''], bp_tenant = ''t''\<rparr>"

lemma undeclared_pair_hides_leg:
  "map_ok length (match_value_legs (ex_trade_batches ! 1) [ex_pair 30] c) = Ok 1"
  "map_ok length (match_value_legs (ex_trade_batches ! 1) [ex_pair 10, ex_pair 30] c) = Ok 0"
  by code_simp+

end
