(* ===== verification/Outbox.thy ===== *)
theory Outbox
  imports Durable_Persist Executor_Safety
begin

text \<open>
  Delivery of the outbox (\<^verbatim>\<open>outbox.rs\<close> of \<^verbatim>\<open>statechronicle-ports\<close>): one pass of a worker over the rows it claims, the
  bounded drain, the supervised worker with its backoff, and the consumer side with its deduplication. Store,
  publisher, consumer, clock and sleeper are given to these functions. The lemmas follow the calls a pass makes.
\<close>

section \<open>Payloads, errors and ports\<close>

datatype outbox_payload = Opaque tenant_id string content_digest "byte list"

datatype outbox_error = OutboxUnavailable string | OutboxCorrupt string

fun outbox_is_retryable :: "outbox_error \<Rightarrow> bool" where
  "outbox_is_retryable (OutboxUnavailable m) = True"
| "outbox_is_retryable (OutboxCorrupt m) = False"

record 'w outbox_store =
  ox_claim :: "string \<Rightarrow> nat \<Rightarrow> int \<Rightarrow> ('w, (string \<times> outbox_payload) list, outbox_error) port"
  ox_mark_delivered_by :: "string \<Rightarrow> string \<Rightarrow> ('w, unit, outbox_error) port"
  ox_release_by :: "string \<Rightarrow> string \<Rightarrow> string \<Rightarrow> ('w, unit, outbox_error) port"
  ox_quarantine_by :: "string \<Rightarrow> string \<Rightarrow> string \<Rightarrow> ('w, unit, outbox_error) port"

type_synonym 'w outbox_publisher = "string \<Rightarrow> outbox_payload \<Rightarrow> ('w, unit, string) port"

text \<open>An adapter that implements claiming only: the completions of the trait fail closed.\<close>

definition default_outbox_store ::
  "(string \<Rightarrow> nat \<Rightarrow> int \<Rightarrow> ('w, (string \<times> outbox_payload) list, outbox_error) port) \<Rightarrow> 'w outbox_store" where
  "default_outbox_store claim_rows =
    \<lparr>ox_claim = claim_rows,
     ox_mark_delivered_by = (\<lambda>key worker. pure (Err (OutboxUnavailable ''ownership-aware delivery completion is not supported by this adapter''))),
     ox_release_by = (\<lambda>key worker error. pure (Err (OutboxUnavailable ''ownership-aware delivery release is not supported by this adapter''))),
     ox_quarantine_by = (\<lambda>key worker error. pure (Err (OutboxUnavailable ''ownership-aware quarantine is not supported by this adapter'')))\<rparr>"

section \<open>One pass\<close>

datatype poison_policy = PoisonRetry | PoisonQuarantine

record dispatch_report =
  dp_delivered :: "64 word"
  dp_retried :: "64 word"
  dp_quarantined :: "64 word"

definition dispatch_report_default :: dispatch_report where
  "dispatch_report_default = \<lparr>dp_delivered = 0, dp_retried = 0, dp_quarantined = 0\<rparr>"

fun dispatch_rows ::
  "sha256 \<Rightarrow> 'w outbox_store \<Rightarrow> 'w outbox_publisher \<Rightarrow> string \<Rightarrow> poison_policy \<Rightarrow> (string \<times> outbox_payload) list \<Rightarrow>
    dispatch_report \<Rightarrow> ('w, dispatch_report, outbox_error) port" where
  "dispatch_rows sha store publish worker_id poison [] report = yield report"
| "dispatch_rows sha store publish worker_id poison ((key, Opaque tenant commit_id digest bytes) # rows) report =
    (if sha bytes \<noteq> digest then
       (case poison of
          PoisonRetry \<Rightarrow>
            then_run (ox_release_by store key worker_id ''payload digest mismatch'') (\<lambda>_.
            pure (Err (OutboxCorrupt (''payload digest mismatch for '' @ quoted key))))
        | PoisonQuarantine \<Rightarrow>
            then_run (ox_quarantine_by store key worker_id ''payload digest mismatch'') (\<lambda>_.
            dispatch_rows sha store publish worker_id poison rows
              (report\<lparr>dp_quarantined := saturating_add_word (dp_quarantined report) 1\<rparr>)))
     else
       then_run (outcome (publish key (Opaque tenant commit_id digest bytes))) (\<lambda>published.
       case published of
         Ok u \<Rightarrow>
           then_run (ox_mark_delivered_by store key worker_id) (\<lambda>_.
           dispatch_rows sha store publish worker_id poison rows
             (report\<lparr>dp_delivered := saturating_add_word (dp_delivered report) 1\<rparr>))
       | Err error \<Rightarrow>
           then_run (ox_release_by store key worker_id error) (\<lambda>_.
           dispatch_rows sha store publish worker_id poison rows
             (report\<lparr>dp_retried := saturating_add_word (dp_retried report) 1\<rparr>))))"

definition dispatch_once_with_policy ::
  "sha256 \<Rightarrow> 'w outbox_store \<Rightarrow> 'w outbox_publisher \<Rightarrow> string \<Rightarrow> nat \<Rightarrow> int \<Rightarrow> poison_policy \<Rightarrow>
    ('w, dispatch_report, outbox_error) port" where
  "dispatch_once_with_policy sha store publish worker_id limit lease_until poison =
    then_run (ox_claim store worker_id limit lease_until) (\<lambda>claimed.
    dispatch_rows sha store publish worker_id poison claimed dispatch_report_default)"

definition dispatch_once ::
  "sha256 \<Rightarrow> 'w outbox_store \<Rightarrow> 'w outbox_publisher \<Rightarrow> string \<Rightarrow> nat \<Rightarrow> int \<Rightarrow> ('w, dispatch_report, outbox_error) port" where
  "dispatch_once sha store publish worker_id limit lease_until =
    dispatch_once_with_policy sha store publish worker_id limit lease_until PoisonRetry"

definition add_reports :: "dispatch_report \<Rightarrow> dispatch_report \<Rightarrow> dispatch_report" where
  "add_reports a b =
    \<lparr>dp_delivered = saturating_add_word (dp_delivered a) (dp_delivered b),
     dp_retried = saturating_add_word (dp_retried a) (dp_retried b),
     dp_quarantined = saturating_add_word (dp_quarantined a) (dp_quarantined b)\<rparr>"

fun drain_passes ::
  "('w, dispatch_report, outbox_error) port \<Rightarrow> nat \<Rightarrow> dispatch_report \<Rightarrow> ('w, dispatch_report, outbox_error) port" where
  "drain_passes pass 0 sum_so_far = yield sum_so_far"
| "drain_passes pass (Suc n) sum_so_far =
    then_run pass (\<lambda>report.
    let sum_so_far = add_reports sum_so_far report in
    if dp_delivered report = 0 \<and> dp_retried report = 0 then yield sum_so_far else drain_passes pass n sum_so_far)"

definition dispatch_until_idle ::
  "sha256 \<Rightarrow> 'w outbox_store \<Rightarrow> 'w outbox_publisher \<Rightarrow> string \<Rightarrow> nat \<Rightarrow> int \<Rightarrow> nat \<Rightarrow> ('w, dispatch_report, outbox_error) port" where
  "dispatch_until_idle sha store publish worker_id limit lease_until max_passes =
    (if limit = 0 \<or> max_passes = 0
     then pure (Err (OutboxUnavailable ''outbox drain limit and max_passes must be non-zero''))
     else drain_passes (dispatch_once sha store publish worker_id limit lease_until) max_passes dispatch_report_default)"

section \<open>The supervised worker\<close>

text \<open>\<^verbatim>\<open>Duration\<close> in nanoseconds: 64 bits of seconds and the nanoseconds below one second.\<close>

type_synonym duration = nat

definition DURATION_MAX :: duration where
  "DURATION_MAX = (2 ^ 64 - 1) * 1000000000 + 999999999"

definition saturating_add_i64 :: "int \<Rightarrow> int \<Rightarrow> int" where
  "saturating_add_i64 a b = min (2 ^ 63 - 1) (max (- (2 ^ 63)) (a + b))"

record outbox_worker_config =
  ow_batch_size :: nat
  ow_lease_duration_secs :: int
  ow_max_ticks :: nat
  ow_idle_backoff :: duration
  ow_error_backoff :: duration
  ow_max_error_backoff :: duration
  ow_poison_policy :: poison_policy

record worker_report =
  wr_ticks :: "64 word"
  wr_delivered :: "64 word"
  wr_retried :: "64 word"
  wr_quarantined :: "64 word"
  wr_transient_errors :: "64 word"

text \<open>What the composition root supplies besides the store: the clock, the sleeper and the shutdown predicate.\<close>

record 'w worker_env =
  we_now :: "'w \<Rightarrow> int \<times> 'w"
  we_sleep :: "duration \<Rightarrow> 'w \<Rightarrow> unit \<times> 'w"
  we_should_stop :: "'w \<Rightarrow> bool \<times> 'w"

definition count_tick :: "dispatch_report \<Rightarrow> worker_report \<Rightarrow> worker_report" where
  "count_tick tick report =
    report\<lparr>wr_delivered := saturating_add_word (wr_delivered report) (dp_delivered tick),
      wr_retried := saturating_add_word (wr_retried report) (dp_retried tick),
      wr_quarantined := saturating_add_word (wr_quarantined report) (dp_quarantined tick)\<rparr>"

fun worker_ticks ::
  "sha256 \<Rightarrow> 'w outbox_store \<Rightarrow> 'w outbox_publisher \<Rightarrow> string \<Rightarrow> outbox_worker_config \<Rightarrow> 'w worker_env \<Rightarrow> nat \<Rightarrow>
    worker_report \<Rightarrow> duration \<Rightarrow> ('w, worker_report, outbox_error) port" where
  "worker_ticks sha store publish worker_id config env 0 report error_backoff = yield report"
| "worker_ticks sha store publish worker_id config env (Suc n) report error_backoff =
    then_run (observe (we_should_stop env)) (\<lambda>stop.
    if stop then yield report
    else
      let report = report\<lparr>wr_ticks := saturating_add_word (wr_ticks report) 1\<rparr> in
      then_run (observe (we_now env)) (\<lambda>now.
      then_run (outcome (dispatch_once_with_policy sha store publish worker_id (ow_batch_size config)
          (saturating_add_i64 now (ow_lease_duration_secs config)) (ow_poison_policy config))) (\<lambda>ticked.
      case ticked of
        Ok tick \<Rightarrow>
          then_run (if dp_delivered tick = 0 \<and> dp_retried tick = 0 \<and> dp_quarantined tick = 0
            then observe (we_sleep env (ow_idle_backoff config)) else yield ()) (\<lambda>_.
          worker_ticks sha store publish worker_id config env n (count_tick tick report) (ow_error_backoff config))
      | Err error \<Rightarrow>
          if outbox_is_retryable error then
            then_run (observe (we_sleep env error_backoff)) (\<lambda>_.
            worker_ticks sha store publish worker_id config env n
              (report\<lparr>wr_transient_errors := saturating_add_word (wr_transient_errors report) 1\<rparr>)
              (min (min DURATION_MAX (error_backoff * 2)) (ow_max_error_backoff config)))
          else pure (Err error))))"

definition run_outbox_worker ::
  "sha256 \<Rightarrow> 'w outbox_store \<Rightarrow> 'w outbox_publisher \<Rightarrow> string \<Rightarrow> outbox_worker_config \<Rightarrow> 'w worker_env \<Rightarrow>
    ('w, worker_report, outbox_error) port" where
  "run_outbox_worker sha store publish worker_id config env =
    (if worker_id = [] \<or> ow_batch_size config = 0 \<or> ow_max_ticks config = 0 \<or> ow_lease_duration_secs config \<le> 0 \<or>
        ow_max_error_backoff config < ow_error_backoff config
     then pure (Err (OutboxUnavailable ''worker id and bounds must be non-empty''))
     else worker_ticks sha store publish worker_id config env (ow_max_ticks config)
       \<lparr>wr_ticks = 0, wr_delivered = 0, wr_retried = 0, wr_quarantined = 0, wr_transient_errors = 0\<rparr> (ow_error_backoff config))"

definition commit_delivery_key :: "tenant_id \<Rightarrow> string \<Rightarrow> string" where
  "commit_delivery_key tenant commit_id = ''commit:'' @ tenant @ '':'' @ commit_id"

section \<open>The consumer\<close>

datatype consumer_delivery_claim =
    DeliveryNew string
  | DeliveryAlreadyApplied
  | DeliveryInProgress string int

record 'w consumer_dedup =
  cd_claim_delivery :: "string \<Rightarrow> int \<Rightarrow> ('w, consumer_delivery_claim, outbox_error) port"
  cd_mark_applied :: "string \<Rightarrow> string \<Rightarrow> ('w, unit, outbox_error) port"
  cd_release_delivery :: "string \<Rightarrow> string \<Rightarrow> string \<Rightarrow> ('w, unit, outbox_error) port"

definition consume_once ::
  "('w \<Rightarrow> int \<times> 'w) \<Rightarrow> 'w consumer_dedup \<Rightarrow> (string \<Rightarrow> outbox_payload \<Rightarrow> ('w, unit, string) port) \<Rightarrow> string \<Rightarrow>
    outbox_payload \<Rightarrow> int \<Rightarrow> ('w, bool, outbox_error) port" where
  "consume_once now dedup apply_delivery delivery_key payload lease_until =
    (if delivery_key = [] then pure (Err (OutboxUnavailable ''consumer delivery key must not be empty''))
     else
       then_run (observe now) (\<lambda>t.
       if lease_until \<le> t then pure (Err (OutboxUnavailable ''consumer lease expiration must be in the future''))
       else
         then_run (cd_claim_delivery dedup delivery_key lease_until) (\<lambda>answer.
         case answer of
           DeliveryAlreadyApplied \<Rightarrow> yield False
         | DeliveryInProgress attempt_id expires \<Rightarrow> pure (Err (OutboxUnavailable ''consumer delivery is already in progress''))
         | DeliveryNew attempt_id \<Rightarrow>
             then_run (outcome (apply_delivery delivery_key payload)) (\<lambda>applied.
             case applied of
               Err error \<Rightarrow>
                 then_run (cd_release_delivery dedup delivery_key attempt_id error) (\<lambda>_. pure (Err (OutboxUnavailable error)))
             | Ok u \<Rightarrow> then_run (cd_mark_applied dedup delivery_key attempt_id) (\<lambda>_. yield True)))))"

section \<open>The calls of a pass\<close>

text \<open>
  Any store and publisher, with every call of a pass written to a log beside their own state: the row it is
  for and whether it succeeded.
\<close>

datatype outbox_call = CallPublish string bool | CallMark string bool | CallRelease string bool | CallQuarantine string bool

definition logged :: "(bool \<Rightarrow> outbox_call) \<Rightarrow> ('w, 'a, 'e) port \<Rightarrow> ('w \<times> outbox_call list, 'a, 'e) port" where
  "logged call m wl =
    (case m (fst wl) of (r, w) \<Rightarrow> (r, w, snd wl @ [call (case r of Ok x \<Rightarrow> True | Err e \<Rightarrow> False)]))"

definition logged_store :: "'w outbox_store \<Rightarrow> ('w \<times> outbox_call list) outbox_store" where
  "logged_store store =
    \<lparr>ox_claim = (\<lambda>worker limit lease wl. case ox_claim store worker limit lease (fst wl) of (r, w) \<Rightarrow> (r, w, snd wl)),
     ox_mark_delivered_by = (\<lambda>key worker. logged (CallMark key) (ox_mark_delivered_by store key worker)),
     ox_release_by = (\<lambda>key worker error. logged (CallRelease key) (ox_release_by store key worker error)),
     ox_quarantine_by = (\<lambda>key worker error. logged (CallQuarantine key) (ox_quarantine_by store key worker error))\<rparr>"

definition logged_publisher :: "'w outbox_publisher \<Rightarrow> ('w \<times> outbox_call list) outbox_publisher" where
  "logged_publisher publish key payload = logged (CallPublish key) (publish key payload)"

definition intact :: "sha256 \<Rightarrow> outbox_payload \<Rightarrow> bool" where
  "intact sha payload = (case payload of Opaque tenant commit_id digest bytes \<Rightarrow> sha bytes = digest)"

text \<open>The calls for a row that is dealt with, and for the row at which a pass stops with an error.\<close>

definition row_calls :: "sha256 \<Rightarrow> poison_policy \<Rightarrow> string \<times> outbox_payload \<Rightarrow> outbox_call list \<Rightarrow> bool" where
  "row_calls sha poison row calls \<longleftrightarrow>
    (if intact sha (snd row)
     then calls = [CallPublish (fst row) True, CallMark (fst row) True] \<or> calls = [CallPublish (fst row) False, CallRelease (fst row) True]
     else poison = PoisonQuarantine \<and> calls = [CallQuarantine (fst row) True])"

definition row_stops :: "sha256 \<Rightarrow> poison_policy \<Rightarrow> string \<times> outbox_payload \<Rightarrow> outbox_call list \<Rightarrow> bool" where
  "row_stops sha poison row calls \<longleftrightarrow>
    (if intact sha (snd row)
     then calls = [CallPublish (fst row) True, CallMark (fst row) False] \<or> calls = [CallPublish (fst row) False, CallRelease (fst row) False]
     else if poison = PoisonQuarantine then calls = [CallQuarantine (fst row) False]
     else \<exists>ok. calls = [CallRelease (fst row) ok])"

definition marks :: "outbox_call list \<Rightarrow> nat" where
  "marks calls = length (filter (\<lambda>c. \<exists>key. c = CallMark key True) calls)"

definition pass_done :: "sha256 \<Rightarrow> poison_policy \<Rightarrow> (string \<times> outbox_payload) list \<Rightarrow> outbox_call list \<Rightarrow> bool" where
  "pass_done sha poison rows calls \<longleftrightarrow> (\<exists>segs. calls = concat segs \<and> list_all2 (row_calls sha poison) rows segs)"

definition pass_stopped :: "sha256 \<Rightarrow> poison_policy \<Rightarrow> (string \<times> outbox_payload) list \<Rightarrow> outbox_call list \<Rightarrow> bool" where
  "pass_stopped sha poison rows calls \<longleftrightarrow>
    (\<exists>handled row rest before final. rows = handled @ row # rest \<and> calls = before @ final \<and>
      pass_done sha poison handled before \<and> row_stops sha poison row final)"

lemma pass_done_Nil: "pass_done sha poison [] []"
  by (simp add: pass_done_def)

lemma pass_done_Cons: "row_calls sha poison row cs \<Longrightarrow> pass_done sha poison rows calls \<Longrightarrow> pass_done sha poison (row # rows) (cs @ calls)"
  unfolding pass_done_def by (metis concat.simps(2) list_all2_Cons)

lemma pass_stopped_here: "row_stops sha poison row cs \<Longrightarrow> pass_stopped sha poison (row # rows) cs"
  unfolding pass_stopped_def using pass_done_Nil by (metis append_Nil)

lemma pass_stopped_Cons:
  assumes "row_calls sha poison row cs" "pass_stopped sha poison rows calls"
  shows "pass_stopped sha poison (row # rows) (cs @ calls)"
proof -
  obtain handled row' rest before final where parts: "rows = handled @ row' # rest" "calls = before @ final"
    "pass_done sha poison handled before" "row_stops sha poison row' final"
    using assms(2) unfolding pass_stopped_def by blast
  then show ?thesis
    unfolding pass_stopped_def using pass_done_Cons [OF assms(1) parts(3)]
    by (intro exI [of _ "row # handled"] exI [of _ row'] exI [of _ rest] exI [of _ "cs @ before"] exI [of _ final]) simp
qed

lemma marks_append [simp]: "marks (xs @ ys) = marks xs + marks ys"
  by (simp add: marks_def)

lemma unat_saturating_Suc:
  "unat (a :: 64 word) + 1 < 2 ^ 64 \<Longrightarrow> unat (saturating_add_word a 1) = unat a + 1"
  by (simp add: saturating_add_word_def unat_add_no_wrap)

text \<open>What holds of a result, the report the pass started with and the calls it made.\<close>

definition pass_ok ::
  "sha256 \<Rightarrow> poison_policy \<Rightarrow> (string \<times> outbox_payload) list \<Rightarrow> dispatch_report \<Rightarrow> (dispatch_report, outbox_error) result \<Rightarrow>
    outbox_call list \<Rightarrow> bool" where
  "pass_ok sha poison rows report r calls =
    (case r of
       Ok report' \<Rightarrow> pass_done sha poison rows calls \<and>
         (unat (dp_delivered report) + length rows < 2 ^ 64 \<longrightarrow> unat (dp_delivered report') = unat (dp_delivered report) + marks calls)
     | Err e \<Rightarrow> pass_stopped sha poison rows calls)"

lemma pass_ok_Cons:
  assumes "row_calls sha poison row cs" "pass_ok sha poison rows report' r calls"
    and "unat (dp_delivered report) + length (row # rows) < 2 ^ 64 \<Longrightarrow> unat (dp_delivered report') = unat (dp_delivered report) + marks cs"
    and "marks cs \<le> 1"
  shows "pass_ok sha poison (row # rows) report r (cs @ calls)"
proof (cases r)
  case (Ok report'')
  then show ?thesis using assms pass_done_Cons [OF assms(1)] by (auto simp: pass_ok_def)
next
  case (Err e)
  then show ?thesis using assms(2) pass_stopped_Cons [OF assms(1)] by (simp add: pass_ok_def)
qed

lemma logged_Ok: "m w = (Ok x, w1) \<Longrightarrow> logged call m (w, calls) = (Ok x, w1, calls @ [call True])"
  by (simp add: logged_def)

lemma logged_Err: "m w = (Err e, w1) \<Longrightarrow> logged call m (w, calls) = (Err e, w1, calls @ [call False])"
  by (simp add: logged_def)

lemma logged_ports:
  "ox_mark_delivered_by (logged_store store) key worker = logged (CallMark key) (ox_mark_delivered_by store key worker)"
  "ox_release_by (logged_store store) key worker error = logged (CallRelease key) (ox_release_by store key worker error)"
  "ox_quarantine_by (logged_store store) key worker error = logged (CallQuarantine key) (ox_quarantine_by store key worker error)"
  "logged_publisher publish key payload = logged (CallPublish key) (publish key payload)"
  by (simp_all add: logged_store_def logged_publisher_def)

lemma dispatch_rows_calls:
  "\<exists>r w' new. dispatch_rows sha (logged_store store) (logged_publisher publish) worker poison rows report (w, calls) =
    (r, w', calls @ new) \<and> pass_ok sha poison rows report r new"
proof (induction rows arbitrary: report w calls)
  case Nil
  show ?case by (auto simp: yield_def pass_ok_def pass_done_Nil marks_def)
next
  case (Cons row rows)
  obtain key tenant commit_id digest bytes where row: "row = (key, Opaque tenant commit_id digest bytes)"
    by (metis outbox_payload.exhaust prod.exhaust)
  let ?run = "dispatch_rows sha (logged_store store) (logged_publisher publish) worker poison"
  have next_row: "\<exists>r w' new. ?run rows report' (w1, calls @ cs) = (r, w', calls @ new) \<and> pass_ok sha poison (row # rows) report r new"
    if "row_calls sha poison row cs" "marks cs \<le> 1"
      "unat (dp_delivered report) + length (row # rows) < 2 ^ 64 \<Longrightarrow> unat (dp_delivered report') = unat (dp_delivered report) + marks cs"
    for report' w1 cs
  proof -
    obtain r w' new where "?run rows report' (w1, calls @ cs) = (r, w', (calls @ cs) @ new)" "pass_ok sha poison rows report' r new"
      using Cons.IH by blast
    then show ?thesis using pass_ok_Cons [OF that(1) _ that(3,2)] by (intro exI [of _ r] exI [of _ w'] exI [of _ "cs @ new"]) simp
  qed
  have stop: "pass_ok sha poison (row # rows) report (Err e) cs" if "row_stops sha poison row cs" for e cs
    using pass_stopped_here [OF that] by (simp add: pass_ok_def)
  show ?case
  proof (cases "sha bytes = digest")
    case False
    show ?thesis
    proof (cases poison)
      case PoisonRetry
      obtain r1 w1 where "ox_release_by store key worker ''payload digest mismatch'' w = (r1, w1)" by fastforce
      then show ?thesis using False PoisonRetry stop
        by (cases r1) (auto simp: row logged_ports then_run_def logged_Ok logged_Err pure_def row_stops_def intact_def)
    next
      case PoisonQuarantine
      obtain r1 w1 where q: "ox_quarantine_by store key worker ''payload digest mismatch'' w = (r1, w1)" by fastforce
      show ?thesis
      proof (cases r1)
        case (Ok u)
        have "row_calls sha poison row [CallQuarantine key True]" using False PoisonQuarantine by (simp add: row row_calls_def intact_def)
        from next_row [OF this, of "report\<lparr>dp_quarantined := saturating_add_word (dp_quarantined report) 1\<rparr>" w1]
        moreover have "ox_quarantine_by (logged_store store) key worker ''payload digest mismatch'' (w, calls) = (Ok (), w1, calls @ [CallQuarantine key True])"
          using q Ok by (simp add: logged_ports logged_Ok)
        ultimately show ?thesis using False PoisonQuarantine by (simp add: row then_run_def marks_def)
      next
        case (Err e)
        then show ?thesis using False PoisonQuarantine q stop
          by (auto simp: row logged_ports then_run_def logged_Err row_stops_def intact_def)
      qed
    qed
  next
    case True
    obtain r1 w1 where p: "publish key (Opaque tenant commit_id digest bytes) w = (r1, w1)" by fastforce
    show ?thesis
    proof (cases r1)
      case u: (Ok u)
      obtain r2 w2 where m: "ox_mark_delivered_by store key worker w1 = (r2, w2)" by fastforce
      show ?thesis
      proof (cases r2)
        case (Ok v)
        have "row_calls sha poison row [CallPublish key True, CallMark key True]" using True by (simp add: row row_calls_def intact_def)
        from next_row [OF this, of "report\<lparr>dp_delivered := saturating_add_word (dp_delivered report) 1\<rparr>" w2]
        moreover have "ox_mark_delivered_by (logged_store store) key worker (w1, calls @ [CallPublish key True]) =
            (Ok (), w2, calls @ [CallPublish key True, CallMark key True])"
          using m Ok by (simp add: logged_ports logged_Ok)
        moreover have "logged_publisher publish key (Opaque tenant commit_id digest bytes) (w, calls) = (Ok (), w1, calls @ [CallPublish key True])"
          using p u by (simp add: logged_ports logged_Ok)
        ultimately show ?thesis using True by (simp add: row then_run_def outcome_def marks_def unat_saturating_Suc)
      next
        case (Err e)
        then show ?thesis using True p u m stop
          by (auto simp: row logged_ports then_run_def outcome_def logged_Ok logged_Err row_stops_def intact_def)
      qed
    next
      case e: (Err e)
      obtain r2 w2 where m: "ox_release_by store key worker e w1 = (r2, w2)" by fastforce
      show ?thesis
      proof (cases r2)
        case (Ok v)
        have "row_calls sha poison row [CallPublish key False, CallRelease key True]" using True by (simp add: row row_calls_def intact_def)
        from next_row [OF this, of "report\<lparr>dp_retried := saturating_add_word (dp_retried report) 1\<rparr>" w2]
        moreover have "ox_release_by (logged_store store) key worker e (w1, calls @ [CallPublish key False]) =
            (Ok (), w2, calls @ [CallPublish key False, CallRelease key True])"
          using m Ok by (simp add: logged_ports logged_Ok)
        moreover have "logged_publisher publish key (Opaque tenant commit_id digest bytes) (w, calls) = (Err e, w1, calls @ [CallPublish key False])"
          using p e by (simp add: logged_ports logged_Err)
        ultimately show ?thesis using True by (simp add: row then_run_def outcome_def marks_def)
      next
        case (Err e')
        then show ?thesis using True p e m stop
          by (auto simp: row logged_ports then_run_def outcome_def logged_Ok logged_Err row_stops_def intact_def)
      qed
    qed
  qed
qed


section \<open>Bounds of the worker and the consumer\<close>

lemma saturating_add_le: "unat (saturating_add_word (a :: 64 word) b) \<le> unat a + unat b"
proof (cases "unat a + unat b < 2 ^ 64")
  case False
  then show ?thesis using unat_lt_length [of "- 1 :: 64 word"] by (simp add: saturating_add_word_def)
qed (simp add: saturating_add_word_def unat_add_no_wrap)

lemma worker_ticks_bound:
  "worker_ticks sha store publish worker config env n report backoff w = (Ok report', w') \<Longrightarrow>
    unat (wr_ticks report') \<le> unat (wr_ticks report) + n"
proof (induction n arbitrary: report backoff w)
  case (Suc n)
  have one: "unat (saturating_add_word (wr_ticks report) 1) \<le> unat (wr_ticks report) + 1"
    using saturating_add_le [of "wr_ticks report" 1] by simp
  obtain stop w1 where stop: "we_should_stop env w = (stop, w1)" by fastforce
  show ?case
  proof (cases stop)
    case True
    then show ?thesis using Suc.prems stop by (simp add: then_run_def observe_def yield_def)
  next
    case False
    let ?report = "report\<lparr>wr_ticks := saturating_add_word (wr_ticks report) 1\<rparr>"
    obtain now w2 where now: "we_now env w1 = (now, w2)" by fastforce
    obtain r w3 where pass: "dispatch_once_with_policy sha store publish worker (ow_batch_size config)
        (saturating_add_i64 now (ow_lease_duration_secs config)) (ow_poison_policy config) w2 = (r, w3)" by fastforce
    note steps = then_run_def observe_def yield_def outcome_def pure_def Let_def
    show ?thesis
    proof (cases r)
      case (Ok tick)
      obtain w4 where "worker_ticks sha store publish worker config env n (count_tick tick ?report) (ow_error_backoff config) w4 = (Ok report', w')"
        using Suc.prems stop False now pass Ok by (auto simp: steps split: if_splits prod.splits)
      then show ?thesis using Suc.IH one by (fastforce simp: count_tick_def)
    next
      case (Err e)
      obtain b w4 where "worker_ticks sha store publish worker config env n
          (?report\<lparr>wr_transient_errors := saturating_add_word (wr_transient_errors ?report) 1\<rparr>) b w4 = (Ok report', w')"
        using Suc.prems stop False now pass Err by (auto simp: steps split: if_splits prod.splits)
      then show ?thesis using Suc.IH one by fastforce
    qed
  qed
qed (simp add: run_simps)

lemma worker_bounded:
  "run_outbox_worker sha store publish worker config env w = (Ok report, w') \<Longrightarrow> unat (wr_ticks report) \<le> ow_max_ticks config"
  by (auto simp: run_outbox_worker_def run_simps split: if_splits dest!: worker_ticks_bound)

text \<open>A delivery is acknowledged as new only after it was claimed, applied and recorded, in that order.\<close>

lemma consume_once_True:
  assumes "consume_once now dedup apply_delivery key payload lease w = (Ok True, w')"
  shows "key \<noteq> [] \<and> (\<exists>t w1 attempt w2 w3. now w = (t, w1) \<and> t < lease \<and>
      cd_claim_delivery dedup key lease w1 = (Ok (DeliveryNew attempt), w2) \<and>
      apply_delivery key payload w2 = (Ok (), w3) \<and> cd_mark_applied dedup key attempt w3 = (Ok (), w'))"
proof -
  obtain t w1 where now: "now w = (t, w1)" by fastforce
  have start: "key \<noteq> []" "t < lease"
    using assms now by (auto simp: consume_once_def pure_def then_run_def observe_def split: if_splits)
  obtain c w2 where granted: "cd_claim_delivery dedup key lease w1 = (c, w2)" by fastforce
  note steps = consume_once_def then_run_def observe_def outcome_def pure_def yield_def
  obtain attempt where attempt: "c = Ok (DeliveryNew attempt)"
    using assms now start granted by (auto simp: steps split: result.splits consumer_delivery_claim.splits)
  obtain r w3 where applied: "apply_delivery key payload w2 = (r, w3)" by fastforce
  have "r = Ok () \<and> cd_mark_applied dedup key attempt w3 = (Ok (), w')"
    using assms now start granted attempt applied by (cases r) (auto simp: steps split: result.splits prod.splits)
  then show ?thesis using now start granted attempt applied by blast
qed

text \<open>
  Tenant ids and commit ids may contain a colon, so the delivery keys of two commits of two tenants can be the
  same text, and a consumer that deduplicates by it applies one of them only.
\<close>

lemma delivery_keys_collide:
  "commit_delivery_key ''a'' ''cmt_x:cmt_y'' = commit_delivery_key ''a:cmt_x'' ''cmt_y'' \<and>
   commit_id_new ''cmt_x:cmt_y'' = Ok ''cmt_x:cmt_y'' \<and> commit_id_new ''cmt_y'' = Ok ''cmt_y''"
  by code_simp

end
