(* ===== verification/Quota.thy ===== *)
theory Quota
  imports Rate_Limit Executor_Safety
begin

text \<open>
  The gate in front of a distributed quota provider (\<^verbatim>\<open>quota.rs\<close> of \<^verbatim>\<open>statechronicle-ports\<close>): the validation of a request and
  the two wrappers that pass it on. The provider is given. A byte of a key is a character of the model's strings.
\<close>

datatype quota_error = QuotaUnavailable string | QuotaInvalid string | QuotaUnsupported string

fun quota_is_retryable :: "quota_error \<Rightarrow> bool" where
  "quota_is_retryable (QuotaUnavailable m) = True"
| "quota_is_retryable (QuotaInvalid m) = False"
| "quota_is_retryable (QuotaUnsupported m) = False"

record 'w distributed_quota =
  dq_try_acquire :: "string \<Rightarrow> 64 word \<Rightarrow> int \<Rightarrow> ('w, rate_limit_decision, quota_error) port"
  dq_try_acquire_many :: "string list \<Rightarrow> 64 word \<Rightarrow> int \<Rightarrow> ('w, rate_limit_decision, quota_error) port"

text \<open>A provider of single charges: the trait's own charge of several dimensions refuses.\<close>

definition single_quota ::
  "(string \<Rightarrow> 64 word \<Rightarrow> int \<Rightarrow> ('w, rate_limit_decision, quota_error) port) \<Rightarrow> 'w distributed_quota" where
  "single_quota acquire =
    \<lparr>dq_try_acquire = acquire,
     dq_try_acquire_many = (\<lambda>keys cost now. pure (Err (QuotaUnsupported ''atomic multi-dimension quota is not supported'')))\<rparr>"

definition validate_request :: "string \<Rightarrow> 64 word \<Rightarrow> int \<Rightarrow> (unit, quota_error) result" where
  "validate_request key cost now_unix_ms =
    (if key = [] then Err (QuotaInvalid ''quota key must not be empty'')
     else if length key > MAX_QUOTA_KEY_BYTES
     then Err (QuotaInvalid (''quota key must be at most '' @ nat_to_string MAX_QUOTA_KEY_BYTES @ '' bytes''))
     else if cost = 0 then Err (QuotaInvalid ''quota cost must be positive'')
     else if now_unix_ms < 0 then Err (QuotaInvalid ''quota timestamp must not be negative'')
     else Ok ())"

definition try_acquire_validated ::
  "'w distributed_quota \<Rightarrow> string \<Rightarrow> 64 word \<Rightarrow> int \<Rightarrow> ('w, rate_limit_decision, quota_error) port" where
  "try_acquire_validated provider key cost now_unix_ms =
    then_run (pure (validate_request key cost now_unix_ms)) (\<lambda>_. dq_try_acquire provider key cost now_unix_ms)"

definition try_acquire_many_validated ::
  "'w distributed_quota \<Rightarrow> string list \<Rightarrow> 64 word \<Rightarrow> int \<Rightarrow> ('w, rate_limit_decision, quota_error) port" where
  "try_acquire_many_validated provider keys cost now_unix_ms =
    (if keys = [] then pure (Err (QuotaInvalid ''quota dimensions must not be empty''))
     else
       then_run (pure (for_each (\<lambda>key. validate_request key cost now_unix_ms) keys)) (\<lambda>_.
       dq_try_acquire_many provider (sort (remdups keys)) cost now_unix_ms))"

lemma validate_request_Ok:
  "validate_request key cost now = Ok () \<longleftrightarrow> key \<noteq> [] \<and> length key \<le> MAX_QUOTA_KEY_BYTES \<and> 0 < cost \<and> 0 \<le> now"
  by (auto simp: validate_request_def word_gt_0)

text \<open>
  The provider is reached only with valid dimensions, each once and in order, so two requests with the same
  set of dimensions are the same charge; any other request leaves the provider alone.
\<close>

lemma many_validated:
  "try_acquire_many_validated provider keys cost now w =
    (if keys \<noteq> [] \<and> (\<forall>key \<in> set keys. validate_request key cost now = Ok ())
     then dq_try_acquire_many provider (sorted_list_of_set (set keys)) cost now w
     else (fst (try_acquire_many_validated provider keys cost now w), w))"
proof -
  have sorted_keys: "sort (remdups keys) = sorted_list_of_set (set keys)" by (simp add: sorted_list_of_set_sort_remdups)
  show ?thesis
  proof (cases "for_each (\<lambda>key. validate_request key cost now) keys")
    case (Ok u)
    then have valid: "\<forall>key \<in> set keys. validate_request key cost now = Ok ()" by simp
    show ?thesis unfolding try_acquire_many_validated_def sorted_keys Ok using valid by (simp add: then_run_def pure_def)
  next
    case (Err e)
    then have "\<not> (\<forall>key \<in> set keys. validate_request key cost now = Ok ())" by (metis for_each_eq_Ok result.distinct(1))
    then show ?thesis using Err by (auto simp: try_acquire_many_validated_def then_run_def pure_def)
  qed
qed

lemma many_validated_by_set:
  "set keys = set keys' \<Longrightarrow> \<forall>key \<in> set keys. validate_request key cost now = Ok () \<Longrightarrow>
    try_acquire_many_validated provider keys cost now w = try_acquire_many_validated provider keys' cost now w"
  using many_validated [of provider keys cost now w] many_validated [of provider keys' cost now w]
  by (cases "keys = []"; cases "keys' = []") auto

end
