(* ===== verification/Portable_Codec.thy ===== *)
theory Portable_Codec
  imports State_Key
begin

text \<open>
  The canonical primitives of the portable crate (\<^verbatim>\<open>codec.rs\<close> of \<^verbatim>\<open>statechronicle-portable\<close>): a writer into a bounded
  buffer and a reader that fails closed. A failed read ends the decoding, so the model returns the error alone.
  The lemmas show that each reader accepts exactly what the writer produces: one encoding per value.
\<close>

unbundle bit_operations_syntax

datatype codec_error =
  CodecCapacity | CodecTruncated | CodecNonCanonical | CodecOverflow | CodecTrailing | CodecUtf8

section \<open>Writing\<close>

record encoder =
  ec_buffer :: "byte list"
  ec_position :: nat

definition encoder_new :: "byte list \<Rightarrow> encoder" where
  "encoder_new buffer = \<lparr>ec_buffer = buffer, ec_position = 0\<rparr>"

definition encoder_written :: "encoder \<Rightarrow> byte list" where
  "encoder_written enc = (if ec_position enc \<le> length (ec_buffer enc) then take (ec_position enc) (ec_buffer enc) else [])"

definition encoder_fixed :: "byte list \<Rightarrow> encoder \<Rightarrow> (encoder, codec_error) result" where
  "encoder_fixed bytes enc =
    (let stop = ec_position enc + length bytes in
     if stop \<ge> 2 ^ 64 then Err CodecCapacity
     else if stop > length (ec_buffer enc) then Err CodecCapacity
     else Ok \<lparr>ec_buffer = take (ec_position enc) (ec_buffer enc) @ bytes @ drop stop (ec_buffer enc), ec_position = stop\<rparr>)"

definition to_le_bytes :: "nat \<Rightarrow> 'w::len word \<Rightarrow> byte list" where
  "to_le_bytes n v = map (\<lambda>i. ucast (drop_bit (8 * i) v)) [0..<n]"

definition encoder_boolean :: "bool \<Rightarrow> encoder \<Rightarrow> (encoder, codec_error) result" where
  "encoder_boolean value = encoder_fixed [if value then 1 else 0]"

definition encoder_u32 :: "32 word \<Rightarrow> encoder \<Rightarrow> (encoder, codec_error) result" where
  "encoder_u32 value = encoder_fixed (to_le_bytes 4 value)"

definition encoder_u64 :: "64 word \<Rightarrow> encoder \<Rightarrow> (encoder, codec_error) result" where
  "encoder_u64 value = encoder_fixed (to_le_bytes 8 value)"

text \<open>The loop over the five bytes, up to the count of bytes it has set.\<close>

fun uleb_loop :: "nat \<Rightarrow> 32 word \<Rightarrow> byte list" where
  "uleb_loop 0 value = []"
| "uleb_loop (Suc n) value =
    (let low = ucast (value AND 127); value = drop_bit 7 value in
     if value \<noteq> 0 then (low OR 128) # uleb_loop n value else [low])"

definition uleb_bytes :: "32 word \<Rightarrow> byte list" where
  "uleb_bytes value = uleb_loop 5 value"

definition encoder_uleb :: "32 word \<Rightarrow> encoder \<Rightarrow> (encoder, codec_error) result" where
  "encoder_uleb value = encoder_fixed (uleb_bytes value)"

definition encoder_bytes :: "byte list \<Rightarrow> encoder \<Rightarrow> (encoder, codec_error) result" where
  "encoder_bytes value enc =
    (if length value \<ge> 2 ^ 32 then Err CodecOverflow
     else
       let prefix = uleb_bytes (of_nat (length value)); sum_len = length prefix + length value in
       if ec_position enc + sum_len \<ge> 2 ^ 64 then Err CodecCapacity
       else if ec_position enc + sum_len > length (ec_buffer enc) then Err CodecCapacity
       else and_then (encoder_fixed prefix enc) (encoder_fixed value))"

section \<open>Reading\<close>

type_synonym 'a reader = "byte list \<Rightarrow> ('a \<times> byte list, codec_error) result"

definition decoder_finish :: "byte list \<Rightarrow> (unit, codec_error) result" where
  "decoder_finish remaining = (if remaining = [] then Ok () else Err CodecTrailing)"

definition decoder_fixed :: "nat \<Rightarrow> byte list reader" where
  "decoder_fixed n_bytes remaining =
    (if n_bytes \<le> length remaining then Ok (take n_bytes remaining, drop n_bytes remaining) else Err CodecTruncated)"

definition decoder_boolean :: "bool reader" where
  "decoder_boolean remaining =
    and_then (decoder_fixed 1 remaining) (\<lambda>(bytes, rest).
    case bytes of
      b # _ \<Rightarrow> if b = 0 then Ok (False, rest) else if b = 1 then Ok (True, rest) else Err CodecNonCanonical
    | [] \<Rightarrow> Err CodecNonCanonical)"

fun from_le_bytes :: "byte list \<Rightarrow> 'w::len word" where
  "from_le_bytes [] = 0"
| "from_le_bytes (b # bs) = ucast b OR push_bit 8 (from_le_bytes bs)"

definition decoder_u32 :: "32 word reader" where
  "decoder_u32 remaining = map_ok (\<lambda>(bytes, rest). (from_le_bytes bytes, rest)) (decoder_fixed 4 remaining)"

definition decoder_u64 :: "64 word reader" where
  "decoder_u64 remaining = map_ok (\<lambda>(bytes, rest). (from_le_bytes bytes, rest)) (decoder_fixed 8 remaining)"

fun uleb_read :: "nat list \<Rightarrow> 32 word \<Rightarrow> 32 word reader" where
  "uleb_read [] value remaining = Err CodecOverflow"
| "uleb_read (shift # shifts) value [] = Err CodecTruncated"
| "uleb_read (shift # shifts) value (byte # rest) =
    (if shift = 28 \<and> byte > 15 then Err CodecOverflow
     else
       let value = value OR push_bit shift (ucast (byte AND 127)) in
       if byte AND 128 = 0 then
         if shift \<noteq> 0 \<and> byte = 0 then Err CodecNonCanonical else Ok (value, rest)
       else uleb_read shifts value rest)"

definition decoder_uleb :: "32 word reader" where
  "decoder_uleb remaining = uleb_read [0, 7, 14, 21, 28] 0 remaining"

definition decoder_bytes :: "nat \<Rightarrow> byte list reader" where
  "decoder_bytes maximum remaining =
    and_then (decoder_uleb remaining) (\<lambda>(n_bytes, rest).
    if unat n_bytes > maximum then Err CodecCapacity else decoder_fixed (unat n_bytes) rest)"

section \<open>Lengths\<close>

lemma bit_127: "bit (127 :: 'w::len word) n \<longleftrightarrow> n < 7 \<and> n < LENGTH('w)"
proof -
  have m: "(127 :: 'w word) = mask 7" by (simp add: mask_eq_exp_minus_1)
  show ?thesis unfolding m bit_mask_iff possible_bit_word by blast
qed

lemma bit_128: "bit (128 :: 'w::len word) n \<longleftrightarrow> n = 7 \<and> n < LENGTH('w)"
proof -
  have e: "(128 :: 'w word) = 2 ^ 7" by simp
  show ?thesis unfolding e bit_exp_iff possible_bit_word by blast
qed

lemmas byte_bits = bit_127 bit_128 bit_and_iff bit_or_iff bit_unsigned_iff bit_push_bit_iff bit_drop_bit_eq comp_apply possible_bit_word

lemma byte_low: "(ucast ((ucast (r AND 127) :: byte) AND 127) :: 32 word) = r AND 127"
  by (rule bit_word_eqI, simp only: byte_bits) auto

lemma byte_low_more: "(ucast (((ucast (r AND 127) :: byte) OR 128) AND 127) :: 32 word) = r AND 127"
  by (rule bit_word_eqI, simp only: byte_bits) auto

lemma and_128_zero: "(b :: byte) AND 128 = 0 \<longleftrightarrow> \<not> bit b 7"
proof
  assume "b AND 128 = 0"
  then have "\<not> bit (b AND 128) 7" by simp
  then show "\<not> bit b 7" unfolding byte_bits by simp
next
  assume "\<not> bit b 7"
  then show "b AND 128 = 0" by (intro bit_word_eqI, unfold byte_bits) auto
qed

lemma more_flag:
  "((ucast ((r :: 32 word) AND 127) :: byte) OR 128) AND 128 \<noteq> 0" "(ucast ((r :: 32 word) AND 127) :: byte) AND 128 = 0"
  unfolding and_128_zero byte_bits by simp_all

lemma low_and_rest: "((r :: 32 word) AND 127) OR push_bit 7 (drop_bit 7 r) = r"
proof (rule bit_word_eqI)
  fix n assume "n < LENGTH(32)"
  then show "bit ((r AND 127) OR push_bit 7 (drop_bit 7 r)) n = bit r n"
    by (cases "n < 7") (simp_all only: byte_bits, auto)
qed

text \<open>A value that fits below a bound of bits.\<close>

definition fits :: "nat \<Rightarrow> 'w::len word \<Rightarrow> bool" where
  "fits n v \<longleftrightarrow> (\<forall>i. bit v i \<longrightarrow> i < n)"

lemma fits_drop: "fits (n + 7) v \<Longrightarrow> fits n (drop_bit 7 v)"
  by (fastforce simp: fits_def bit_drop_bit_eq)

lemma fits_zero: "fits 7 v \<Longrightarrow> drop_bit 7 v = 0"
  unfolding fits_def by (intro bit_word_eqI, simp only: byte_bits) fastforce

lemma fits_4: "(b :: byte) \<le> 15 \<longleftrightarrow> fits 4 b"
proof -
  have "fits 4 b \<longleftrightarrow> take_bit 4 b = b"
  proof
    assume "fits 4 b"
    then show "take_bit 4 b = b" unfolding fits_def by (intro bit_word_eqI) (auto simp: bit_take_bit_iff)
  next
    assume "take_bit 4 b = b"
    then show "fits 4 b" unfolding fits_def by (metis bit_take_bit_iff)
  qed
  also have "\<dots> \<longleftrightarrow> unat b < 2 ^ 4"
    by (metis take_bit_nat_eq_self_iff word_unat_eq_iff unsigned_take_bit_eq)
  finally show ?thesis by (simp add: word_le_nat_alt) arith
qed

definition uleb_shifts :: "nat \<Rightarrow> nat list" where
  "uleb_shifts n = map (\<lambda>i. 28 - 7 * i) (rev [0..<n])"

lemma uleb_shifts_Suc: "uleb_shifts (Suc n) = (28 - 7 * n) # uleb_shifts n"
  by (simp add: uleb_shifts_def)

lemma uleb_shifts_5: "uleb_shifts 5 = [0, 7, 14, 21, 28]"
  by (simp add: uleb_shifts_def upt_rec)

text \<open>What is left to write when the shift has reached \<open>28 - 7 * n\<close> fits in the bits above it.\<close>

lemma uleb_write_read:
  assumes "n < 5" "fits (7 * n + 4) r" "n < 4 \<Longrightarrow> r \<noteq> 0"
  shows "uleb_read (uleb_shifts (Suc n)) acc (uleb_loop (Suc n) r @ rest) = Ok (acc OR push_bit (28 - 7 * n) r, rest)"
  using assms
proof (induction n arbitrary: acc r)
  case 0
  have zero: "drop_bit 7 r = 0" using 0(2) by (intro fits_zero) (auto simp: fits_def)
  then have low: "r AND 127 = r" using low_and_rest [of r] by simp
  have "fits 4 (ucast r :: byte)" using 0(2) by (auto simp: fits_def bit_unsigned_iff)
  then have small: "\<not> (ucast r :: byte) > 15" by (simp flip: fits_4)
  have "(ucast r :: byte) \<noteq> 0"
    using byte_low [of r] 0(3) unfolding low by auto
  then show ?case
    using zero small byte_low [of r] more_flag(2) [of r] unfolding low by (simp add: uleb_shifts_def low Let_def)
next
  case (Suc n)
  let ?s = "28 - 7 * Suc n"
  have s: "?s + 7 = 28 - 7 * n" "?s \<noteq> 28" using Suc.prems(1) by auto
  show ?case
  proof (cases "drop_bit 7 r = 0")
    case True
    then have low: "r AND 127 = r" using low_and_rest [of r] by simp
    have "(ucast r :: byte) \<noteq> 0" if "?s \<noteq> 0"
      using byte_low [of r] Suc.prems(3) that unfolding low by auto
    then show ?thesis
      using True s(2) byte_low [of r] more_flag(2) [of r] unfolding low by (auto simp: uleb_shifts_Suc low Let_def)
  next
    case False
    have "fits (7 * n + 4) (drop_bit 7 r)" using Suc.prems(2) by (intro fits_drop) (simp add: algebra_simps)
    then have "uleb_read (uleb_shifts (Suc n)) (acc OR push_bit ?s (r AND 127)) (uleb_loop (Suc n) (drop_bit 7 r) @ rest) =
        Ok ((acc OR push_bit ?s (r AND 127)) OR push_bit (?s + 7) (drop_bit 7 r), rest)"
      unfolding s(1) using Suc.prems(1) False by (intro Suc.IH) auto
    moreover have "(acc OR push_bit ?s (r AND 127)) OR push_bit (?s + 7) (drop_bit 7 r) = acc OR push_bit ?s r"
      by (subst (3) low_and_rest [of r, symmetric]) (simp add: or.assoc push_bit_or push_bit_push_bit)
    moreover have "uleb_loop (Suc (Suc n)) r = (ucast (r AND 127) OR 128) # uleb_loop (Suc n) (drop_bit 7 r)"
      using False by (simp add: Let_def)
    ultimately show ?thesis
      using s(2) byte_low_more [of r] more_flag(1) [of r] by (simp add: uleb_shifts_Suc [of "Suc n"] Let_def del: uleb_loop.simps)
  qed
qed

lemma byte_bit_less: "bit (b :: byte) i \<Longrightarrow> i < 8"
  using bit_imp_le_length [of b i] by simp

lemma last_byte:
  assumes "\<not> bit (b :: byte) 7"
  shows "(ucast (b AND 127) :: 32 word) = ucast b" "(ucast ((ucast b :: 32 word) AND 127) :: byte) = b" "fits 7 (ucast b :: 32 word)"
proof -
  have seven: "i < 7" if "bit b i" for i using byte_bit_less [OF that] that assms by (cases "i = 7") auto
  show "(ucast (b AND 127) :: 32 word) = ucast b" by (rule bit_word_eqI, simp only: byte_bits) (auto dest: seven)
  show "(ucast ((ucast b :: 32 word) AND 127) :: byte) = b" by (rule bit_word_eqI, simp only: byte_bits) (auto dest: seven)
  show "fits 7 (ucast b :: 32 word)" unfolding fits_def byte_bits using seven by blast
qed

lemma more_byte:
  assumes "bit (b :: byte) 7" "fits 25 (r :: 32 word)"
  defines "joined \<equiv> (ucast (b AND 127) :: 32 word) OR push_bit 7 r"
  shows "drop_bit 7 joined = r" "(ucast (joined AND 127) :: byte) OR 128 = b"
proof -
  have "bit r i \<longleftrightarrow> i + 7 < 32 \<and> bit r i" for i using assms(2) by (auto simp: fits_def)
  then show "drop_bit 7 joined = r" unfolding joined_def
    by (intro bit_word_eqI, simp only: byte_bits) (auto simp: add.commute)
  have "i < 7 \<or> i = 7" if "i < 8" for i :: nat using that by auto
  then show "(ucast (joined AND 127) :: byte) OR 128 = b" unfolding joined_def using assms(1)
    by (intro bit_word_eqI, simp only: byte_bits) auto
qed

lemma uleb_read_written:
  assumes "n < 5" "uleb_read (uleb_shifts (Suc n)) acc bytes = Ok (v, rest)"
  shows "\<exists>r. v = acc OR push_bit (28 - 7 * n) r \<and> bytes = uleb_loop (Suc n) r @ rest \<and> fits (7 * n + 4) r \<and> (n < 4 \<longrightarrow> r \<noteq> 0)"
  using assms
proof (induction n arbitrary: acc bytes)
  case 0
  obtain b bs where bytes: "bytes = b # bs" using 0(2) by (cases bytes) (auto simp: uleb_shifts_Suc)
  have small: "fits 4 b" using 0(2) by (auto simp: bytes uleb_shifts_Suc Let_def not_less simp flip: fits_4 split: if_splits)
  then have b7: "\<not> bit b 7" by (auto simp: fits_def)
  have "fits 4 (ucast b :: 32 word)" using small by (auto simp: fits_def bit_unsigned_iff)
  moreover have "b \<noteq> 0" "v = acc OR push_bit 28 (ucast b)" "rest = bs"
    using 0(2) b7 last_byte(1) [OF b7] by (auto simp: bytes uleb_shifts_Suc Let_def and_128_zero split: if_splits)
  moreover have "(ucast b :: 32 word) \<noteq> 0" using last_byte(2) [OF b7] \<open>b \<noteq> 0\<close> by auto
  ultimately show ?case
    using fits_zero [OF last_byte(3) [OF b7]] last_byte(2) [OF b7] by (intro exI [of _ "ucast b"]) (simp add: bytes Let_def)
next
  case (Suc n)
  let ?s = "28 - 7 * Suc n"
  have s: "?s + 7 = 28 - 7 * n" "?s \<noteq> 28" "?s = 0 \<longleftrightarrow> \<not> Suc n < 4" using Suc.prems(1) by auto
  obtain b bs where bytes: "bytes = b # bs" using Suc.prems(2) by (cases bytes) (auto simp: uleb_shifts_Suc)
  show ?case
  proof (cases "bit b 7")
    case False
    have "Suc n < 4 \<longrightarrow> b \<noteq> 0" "v = acc OR push_bit ?s (ucast b)" "rest = bs"
      using Suc.prems(2) False s(2,3) last_byte(1) [OF False]
      by (auto simp: bytes uleb_shifts_Suc [of "Suc n"] Let_def and_128_zero split: if_splits)
    moreover have "(ucast b :: 32 word) \<noteq> 0" if "b \<noteq> 0" using last_byte(2) [OF False] that by auto
    moreover have "fits (7 * Suc n + 4) (ucast b :: 32 word)" using last_byte(3) [OF False] by (fastforce simp: fits_def)
    ultimately show ?thesis
      using fits_zero [OF last_byte(3) [OF False]] last_byte(2) [OF False]
      by (intro exI [of _ "ucast b"]) (simp add: bytes Let_def)
  next
    case True
    let ?low = "ucast (b AND 127) :: 32 word"
    have "uleb_read (uleb_shifts (Suc n)) (acc OR push_bit ?s ?low) bs = Ok (v, rest)"
      using Suc.prems(2) True s(2) by (auto simp: bytes uleb_shifts_Suc [of "Suc n"] Let_def and_128_zero split: if_splits)
    then obtain r where r: "v = (acc OR push_bit ?s ?low) OR push_bit (?s + 7) r" "bs = uleb_loop (Suc n) r @ rest"
      "fits (7 * n + 4) r" "r \<noteq> 0"
      unfolding s(1) using Suc.IH [of "acc OR push_bit ?s ?low" bs] Suc.prems(1) by auto
    have "fits 25 r" using r(3) Suc.prems(1) by (fastforce simp: fits_def)
    note joined = more_byte [OF True this]
    have "v = acc OR push_bit ?s (?low OR push_bit 7 r)" unfolding r(1) by (simp add: or.assoc push_bit_or push_bit_push_bit)
    moreover have "bytes = uleb_loop (Suc (Suc n)) (?low OR push_bit 7 r) @ rest"
      unfolding uleb_loop.simps(2) [of "Suc n"] Let_def joined using r(2,4) by (simp add: bytes)
    moreover have "fits (7 * Suc n + 4) (?low OR push_bit 7 r)"
      unfolding fits_def byte_bits using r(3) by (fastforce simp: fits_def)
    moreover have "?low OR push_bit 7 r \<noteq> 0" using joined(1) r(4) by (metis drop_bit_of_0)
    ultimately show ?thesis by blast
  qed
qed

text \<open>The reader of lengths accepts exactly the encodings of the writer.\<close>

lemma uleb_one_encoding: "decoder_uleb bytes = Ok (v, rest) \<longleftrightarrow> bytes = uleb_bytes v @ rest"
proof
  assume "decoder_uleb bytes = Ok (v, rest)"
  then show "bytes = uleb_bytes v @ rest"
    using uleb_read_written [of 4 0 bytes v rest] uleb_shifts_5
    by (auto simp: decoder_uleb_def uleb_bytes_def eval_nat_numeral)
next
  assume b: "bytes = uleb_bytes v @ rest"
  have "fits 32 v" unfolding fits_def using bit_imp_le_length [of v] by auto
  then show "decoder_uleb bytes = Ok (v, rest)"
    using uleb_write_read [of 4 v 0 rest] uleb_shifts_5 unfolding b
    by (simp add: decoder_uleb_def uleb_bytes_def eval_nat_numeral)
qed

section \<open>Little-endian integers\<close>

lemma bit_from_le_bytes:
  "bit (from_le_bytes bs :: 'w::len word) n \<longleftrightarrow> n < LENGTH('w) \<and> n div 8 < length bs \<and> bit (bs ! (n div 8)) (n mod 8)"
proof (induction bs arbitrary: n)
  case (Cons b bs)
  show ?case
  proof (cases "n < 8")
    case True
    then show ?thesis by (auto simp: bit_or_iff bit_unsigned_iff bit_push_bit_iff)
  next
    case False
    then obtain m where m: "n = m + 8" by (metis add.commute le_Suc_ex not_less)
    have n: "n div 8 = Suc ((n - 8) div 8)" "n mod 8 = (n - 8) mod 8" by (simp_all add: m)
    have "\<not> bit b n" using byte_bit_less [of b n] False by blast
    then show ?thesis unfolding n using False by (auto simp: bit_or_iff bit_unsigned_iff bit_push_bit_iff Cons.IH)
  qed
qed simp

lemma le_bytes_roundtrip:
  assumes "LENGTH('w) = 8 * n"
  shows "from_le_bytes (to_le_bytes n (v :: 'w::len word)) = v"
proof (rule bit_word_eqI)
  fix i assume "i < LENGTH('w)"
  then have "i div 8 < n" using assms by auto
  then show "bit (from_le_bytes (to_le_bytes n v) :: 'w word) i = bit v i"
    using \<open>i < LENGTH('w)\<close> by (simp add: bit_from_le_bytes to_le_bytes_def bit_unsigned_iff bit_drop_bit_eq)
qed

lemma integer_roundtrips:
  "decoder_u32 (to_le_bytes 4 v @ rest) = Ok (v, rest)" "decoder_u64 (to_le_bytes 8 u @ rest) = Ok (u, rest)"
proof -
  have "length (to_le_bytes n x) = n" for n and x :: "'a::len word" by (simp add: to_le_bytes_def)
  then show "decoder_u32 (to_le_bytes 4 v @ rest) = Ok (v, rest)" "decoder_u64 (to_le_bytes 8 u @ rest) = Ok (u, rest)"
    using le_bytes_roundtrip [of 4 v] le_bytes_roundtrip [of 8 u]
    by (simp_all add: decoder_u32_def decoder_u64_def decoder_fixed_def to_le_bytes_def)
qed

section \<open>Byte sequences\<close>

definition encoder_ok :: "encoder \<Rightarrow> bool" where
  "encoder_ok enc \<longleftrightarrow> ec_position enc \<le> length (ec_buffer enc)"

lemma encoder_fixed_Ok:
  assumes "encoder_ok enc" "encoder_fixed bytes enc = Ok enc'"
  shows "encoder_ok enc' \<and> length (ec_buffer enc') = length (ec_buffer enc) \<and> encoder_written enc' = encoder_written enc @ bytes"
  using assms by (auto simp: encoder_fixed_def encoder_ok_def encoder_written_def Let_def split: if_splits)

definition bytes_encoding :: "byte list \<Rightarrow> byte list" where
  "bytes_encoding value = uleb_bytes (of_nat (length value)) @ value"

lemma encoder_bytes_Ok:
  assumes "encoder_ok enc" "encoder_bytes value enc = Ok enc'"
  shows "length value < 2 ^ 32 \<and> encoder_ok enc' \<and> encoder_written enc' = encoder_written enc @ bytes_encoding value"
proof -
  obtain mid where mid: "encoder_fixed (uleb_bytes (of_nat (length value))) enc = Ok mid" "encoder_fixed value mid = Ok enc'"
    and len: "length value < 2 ^ 32"
    using assms(2) by (auto simp: encoder_bytes_def Let_def not_le split: if_splits)
  show ?thesis
    using encoder_fixed_Ok [OF assms(1) mid(1)] encoder_fixed_Ok [OF _ mid(2)] len by (simp add: bytes_encoding_def)
qed

lemma word_nat_id: "of_nat (unat n) = (n :: 'w::len word)"
  by (simp add: word_unat_eq_iff unat_of_nat mod_less [OF unat_lt_length])

lemma decoder_bytes_iff:
  "decoder_bytes maximum input = Ok (value, rest) \<longleftrightarrow>
    length value \<le> maximum \<and> length value < 2 ^ 32 \<and> input = bytes_encoding value @ rest"
proof
  assume "decoder_bytes maximum input = Ok (value, rest)"
  then obtain n mid where n: "decoder_uleb input = Ok (n, mid)" "unat n \<le> maximum" "unat n \<le> length mid"
    "value = take (unat n) mid" "rest = drop (unat n) mid"
    by (auto simp: decoder_bytes_def decoder_fixed_def not_less split: if_splits)
  then have len: "length value = unat n" by simp
  moreover have "unat n < 2 ^ 32" using unat_lt_length [of n] by simp
  ultimately show "length value \<le> maximum \<and> length value < 2 ^ 32 \<and> input = bytes_encoding value @ rest"
    using n(1,2,4,5) unfolding uleb_one_encoding bytes_encoding_def len by (simp add: word_nat_id)
next
  assume v: "length value \<le> maximum \<and> length value < 2 ^ 32 \<and> input = bytes_encoding value @ rest"
  then have "unat (of_nat (length value) :: 32 word) = length value" by (simp add: unat_of_nat)
  moreover have "decoder_uleb input = Ok (of_nat (length value), value @ rest)"
    unfolding uleb_one_encoding using v by (simp add: bytes_encoding_def)
  ultimately show "decoder_bytes maximum input = Ok (value, rest)"
    using v by (simp add: decoder_bytes_def decoder_fixed_def)
qed

text \<open>
  C23. Byte sequences of the portable codec have one encoding. What the writer has put into its buffer is read back
  as the value with whatever follows it, when the value is within the reader's bound. The reader returns the value
  for no other input: overlong lengths, overflowing lengths and truncated contents are refused.
\<close>

theorem portable_bytes_roundtrip:
  assumes "encoder_bytes value (encoder_new buffer) = Ok enc"
  shows "decoder_bytes maximum input = Ok (value, rest) \<longleftrightarrow> length value \<le> maximum \<and> input = encoder_written enc @ rest"
proof -
  have "encoder_ok (encoder_new buffer)" "encoder_written (encoder_new buffer) = []"
    by (simp_all add: encoder_ok_def encoder_new_def encoder_written_def)
  then show ?thesis using encoder_bytes_Ok [OF _ assms] unfolding decoder_bytes_iff by auto
qed

theorem portable_bytes_roundtrip_witness:
  "\<exists>enc. encoder_bytes [7, 8] (encoder_new (replicate 4 0)) = Ok enc \<and> encoder_written enc = [2, 7, 8] \<and>
    decoder_bytes 16 [2, 7, 8, 9] = Ok ([7, 8], [9]) \<and> decoder_bytes 16 [0x82, 0, 7, 8, 9] \<noteq> Ok ([7, 8], [9])"
proof -
  have run: "encoder_bytes [7, 8] (encoder_new (replicate 4 0)) = Ok \<lparr>ec_buffer = [2, 7, 8, 0], ec_position = 3\<rparr>" by code_simp
  have written: "encoder_written \<lparr>ec_buffer = [2, 7, 8, 0 :: byte], ec_position = 3\<rparr> = [2, 7, 8]" by code_simp
  show ?thesis
    using portable_bytes_roundtrip [OF run, of 16 "[2, 7, 8, 9]" "[9]"]
      portable_bytes_roundtrip [OF run, of 16 "[0x82, 0, 7, 8, 9]" "[9]"] run written by auto
qed

end
