(* ===== verification/Spec2Isabelle.thy ===== *)
theory Spec2Isabelle
  imports SC_Prelude Amount Domain Profile_Base Unique_Asset Consumable_Stack Fungible_Balance
    Entitlement_Rules Meter_Rules Marketplace Transition Example_Data Atomicity
    Resource_Policy Profile_Machine Asset_Lifecycle Quantity_Lifecycle Status_Lifecycle
    Intent_Ingress Key_Registry Rate_Limit Executor Executor_Builder Executor_Batch Executor_Examples Executor_Safety
    Executor_Limits Default_Hashes State_Key Sparse_Merkle Merkle_Proofs Merkle_Binding Pair_Tree
    Checkpoint_Tree Commit_Forming Commit_Theorems Proof_Verify Proof_Theorems Trade_Proof Durable_Persist Ledger_Contract
    Memory_Ledger Persist_Theorems Projection_Rebuild Rebuild_Theorems Trade_Index Trade_Index_Theorems
    Outbox Quota Portable_Codec
begin

text \<open>
  A model of StateChronicle, a ledger that turns signed intents of players into events, commits
  and portable proofs. The sources are the crates under \<^verbatim>\<open>src/crates\<close>; the name of a crate is given below
  without its prefix \<^verbatim>\<open>statechronicle-\<close>.

  \<^bold>\<open>The program.\<close> An intent arrives on the wire, is parsed and validated (\<^verbatim>\<open>intent\<close>) and is given to the
  executor (\<^verbatim>\<open>executor\<close>), which looks up the profile of the resource (\<^verbatim>\<open>profiles\<close>), loads the current state
  through its ports (\<^verbatim>\<open>ports\<close>), applies the profile's gates and its transition function and emits events with
  the digests of the state before and after. A batch of events is checked for atomicity (value is
  conserved, trades settle what they declare), sorted, hashed into an event root, and folded into
  the sparse Merkle tree of state digests (\<^verbatim>\<open>accumulator\<close>), whose root the signed commit carries
  (\<^verbatim>\<open>commit\<close>). Commits are persisted in one ledger transaction. Proofs of a state, of the absence of a
  state and of a settled trade (\<^verbatim>\<open>proof\<close>) are verified against a signed commit alone.

  \<^bold>\<open>Conventions.\<close> A \<^verbatim>\<open>Result\<close> is the datatype \<open>result\<close> with \<open>Ok\<close> and \<open>Err\<close>; the question mark operator is \<open>and_then\<close>.
  Machine integers are words of their width with checked or saturating operations. A \<^verbatim>\<open>BTreeMap\<close> is an
  association list sorted by its key. Strings are lists of bytes, so character counts and control
  characters are read from UTF-8. Asynchronous ports are functions on a world, \<open>'w \<Rightarrow> result \<times> 'w\<close>, composed by
  \<open>then_run\<close>; a world is arbitrary in every theorem unless a contract is assumed of it. SHA-256, BCS, base64,
  Ed25519, JSON text and calendar text are other crates: they are arguments of the definitions, and
  the theorems that need something of them assume it by name (\<open>fixed_width\<close>: a digest has 32 bytes;
  \<open>defaults_ok\<close>: the hash fits the table of empty subtrees in the source) and have a witness with a concrete
  function. A theorem about hashes concludes that its claim holds or that two strings from an
  explicit finite list collide.

  \<^bold>\<open>Theories.\<close>

  \<^item> \<^verbatim>\<open>SC_Prelude\<close>: results, checked words, sorted maps, strings, and the shared lemmas.
  \<^item> \<^verbatim>\<open>Amount\<close> (\<^verbatim>\<open>core/src/amount.rs\<close>): fixed-point amounts. Comparison by digit strings agrees with the value,
    checked arithmetic is exact, and parsing, printing and the wire form are related.
  \<^item> \<^verbatim>\<open>Domain\<close>, \<^verbatim>\<open>Profile_Base\<close>: the records of \<^verbatim>\<open>domain\<close> and the readers and guards that the profiles share.
  \<^item> \<^verbatim>\<open>Unique_Asset\<close>, \<^verbatim>\<open>Consumable_Stack\<close>, \<^verbatim>\<open>Fungible_Balance\<close>, \<^verbatim>\<open>Entitlement_Rules\<close>, \<^verbatim>\<open>Meter_Rules\<close>, \<^verbatim>\<open>Marketplace\<close>: the
    check functions of the eight baseline profiles. \<^verbatim>\<open>Transition\<close>: the transition function. \<^verbatim>\<open>Resource_Policy\<close>:
    the ownership and availability gates and the registry. \<^verbatim>\<open>Profile_Machine\<close> joins them into steps, and
    \<^verbatim>\<open>Asset_Lifecycle\<close>, \<^verbatim>\<open>Quantity_Lifecycle\<close>, \<^verbatim>\<open>Status_Lifecycle\<close> show what a life of a resource keeps: each
    profile refines its transition table, owners change by transfer only, final statuses stay,
    quantities follow their specification.
  \<^item> \<^verbatim>\<open>Atomicity\<close> (\<^verbatim>\<open>profiles/src/atomicity.rs\<close>): the four batch validators; an accepted batch conserves value,
    pays the declared legs and settles the manifest.
  \<^item> \<^verbatim>\<open>Intent_Ingress\<close> (\<^verbatim>\<open>intent\<close>), \<^verbatim>\<open>Key_Registry\<close> (\<^verbatim>\<open>ports/src/key_registry.rs\<close>), \<^verbatim>\<open>Rate_Limit\<close> (\<^verbatim>\<open>core/src/rate_limit.rs\<close>): the way in,
    the life of a key, and the token bucket with its bound on any window of time.
  \<^item> \<^verbatim>\<open>Executor\<close>, \<^verbatim>\<open>Executor_Batch\<close>, \<^verbatim>\<open>Executor_Builder\<close> (\<^verbatim>\<open>executor\<close>): every stage of an execution, the batch, settlement
    and player entry points, and the builders. \<^verbatim>\<open>Executor_Safety\<close> shows that events are steps of the
    profile on the state that was read, that transfers conserve, that authority is bound, that a
    failed execution claims nothing and an accepted batch is complete; \<^verbatim>\<open>Executor_Limits\<close> shows by example
    what is not guaranteed.
  \<^item> \<^verbatim>\<open>Default_Hashes\<close>, \<^verbatim>\<open>State_Key\<close>, \<^verbatim>\<open>Sparse_Merkle\<close>, \<^verbatim>\<open>Merkle_Proofs\<close>, \<^verbatim>\<open>Merkle_Binding\<close>, \<^verbatim>\<open>Pair_Tree\<close>, \<^verbatim>\<open>Checkpoint_Tree\<close> (\<^verbatim>\<open>accumulator\<close>): the
    index arithmetic of the code equals a recursion over sets of leaves, issued proofs verify, and
    verified proofs bind.
  \<^item> \<^verbatim>\<open>Commit_Forming\<close>, \<^verbatim>\<open>Commit_Theorems\<close> (\<^verbatim>\<open>commit\<close>): batches, canonical order, roots, the builder and the chain
    checks; the state root of a commit is the root of the replayed history, the event root binds the
    events, and chains without forks agree.
  \<^item> \<^verbatim>\<open>Proof_Verify\<close>, \<^verbatim>\<open>Proof_Theorems\<close>, \<^verbatim>\<open>Trade_Proof\<close> (\<^verbatim>\<open>proof\<close>): the wire form of a path loses nothing, bundles that
    the system assembles verify, and a verified bundle, of presence, of absence or of a trade, binds
    its claim to the signed commit.
  \<^item> \<^verbatim>\<open>Durable_Persist\<close>, \<^verbatim>\<open>Ledger_Contract\<close> (\<^verbatim>\<open>commit/src/persist.rs\<close>, \<^verbatim>\<open>ports/src/ledger_store.rs\<close>): the checks and the
    durable write, over a contract of the ledger store. \<^verbatim>\<open>Memory_Ledger\<close> is the transactional adapter of the
    integration tests, which meets the contract; \<^verbatim>\<open>Persist_Theorems\<close> shows that a committed mutation is bound to
    its intent and commit, that one that is not committed changes nothing unless the commit of the ledger itself
    failed, and that a repeated one is replayed.
  \<^item> \<^verbatim>\<open>Projection_Rebuild\<close>, \<^verbatim>\<open>Rebuild_Theorems\<close> (\<^verbatim>\<open>index/src/rebuild.rs\<close>): the rebuild of the current rows from the event
    stream. A resumed rebuild ends and, when it succeeds, leaves the row of the last event of each resource; a
    stream with both events of one transfer is refused.
  \<^item> \<^verbatim>\<open>Trade_Index\<close>, \<^verbatim>\<open>Trade_Index_Theorems\<close> (\<^verbatim>\<open>index/src/build.rs\<close>, \<^verbatim>\<open>history.rs\<close>, \<^verbatim>\<open>service.rs\<close>): the builder of trade records
    and the service over it. From an empty index, ingesting batches one by one equals replaying them, and the
    records are well formed.
  \<^item> \<^verbatim>\<open>Outbox\<close> (\<^verbatim>\<open>ports/src/outbox.rs\<close>): the delivery worker and the consumer; what a pass calls, for every store.
  \<^item> \<^verbatim>\<open>Quota\<close> (\<^verbatim>\<open>ports/src/quota.rs\<close>): the gate before a quota provider. \<^verbatim>\<open>Portable_Codec\<close> (\<^verbatim>\<open>portable/src/codec.rs\<close>): the bounded
    writer and reader; a byte sequence has one encoding.

  \<^bold>\<open>Interfaces.\<close> \<open>keyed_store\<close> and \<open>canonical_store\<close> are maps by key, met by the sorted association lists.
  \<open>profile_contract\<close> is a profile that keeps an invariant, met by the unique asset; \<open>profile_refinement\<close> adds a
  specification of the value, met by balance, stack and meter. \<open>tagged_node\<close> is the pairing of hashes that the
  event tree and the checkpoint tree share. \<open>transactional_ledger\<close> is the contract of a ledger store on which the
  durable write rests, and \<open>recording_ledger\<close> adds that it answers a key with its recorded outcome; the in-memory
  ledger meets both. \<open>monotone_sink\<close> is a sink whose rows keep the newer version, met by the recording sink of
  the crate's tests; \<open>trade_store\<close> is an index whose reads return what was last written, met by the index of
  the integration tests.

  \<^bold>\<open>Bounds.\<close> No definition runs on fuel. Loops over the 256 levels and over lists are total, and the pairing of
  levels terminates by the length of the level. The loop of the resumed rebuild is a partial function; that it
  returns is part of the theorem about it.

  \<^bold>\<open>Not modelled.\<close> Log statements and metrics aggregation only observe. Ports without a body are arguments.
  The derived serde encodings are those of another crate. Digests are their bytes: the text form of
  \<^verbatim>\<open>core/src/digest.rs\<close> is left out, and so is \<^verbatim>\<open>commit/src/sign.rs\<close>, whose verifier is an argument of the durable write.
  Of the portable crate the string forms of the codec, the second path verifier (\<^verbatim>\<open>integrity.rs\<close>) and the transition
  over a consumer's profile (\<^verbatim>\<open>transition.rs\<close>) are left out, as is the adapter of consumer-defined profiles
  (\<^verbatim>\<open>profiles/src/custom.rs\<close>, \<^verbatim>\<open>proof/src/custom.rs\<close>). The facade crate, examples, benchmarks and fuzz targets hold no
  logic of the system. Test files are modelled where they provide an adapter of a port.
\<close>

end
